(* ===== verification/Prelude.thy ===== *)
theory Prelude
  imports Main "HOL-Library.Sublist"
begin

text \<open>
  What every theory of the development shares: the collections of simplification rules, the
  error values of \<open>backend/pkg/apperr/apperr.go\<close>, the error-and-state functions the
  handlers are written in, the arithmetic of Go's \<open>int64\<close>, and the parts of Go's
  \<open>strings\<close>, \<open>strconv\<close> and \<open>fmt\<close> packages the sources use.

  A Go string is a \<^typ>\<open>string\<close>, that is its list of bytes; case folding and
  trimming are those of the ASCII range.
\<close>

named_theorems eff_simps \<open>running the error-and-state functions\<close>
named_theorems table_simps \<open>reading a table after a write\<close>
named_theorems wrap_simps \<open>int64 operations within range\<close>

section \<open>Errors (pkg/apperr)\<close>

datatype Code = CodeValidation | CodeUnauthorized | CodeForbidden | CodeNotFound | CodeConflict
  | CodeRateLimited | CodePaymentRequired | CodeExternal | CodeInternal

record FieldError =
  fe_Field :: string
  fe_Message :: string

text \<open>
  A Go \<open>error\<close> is an \<open>*apperr.Error\<close> with its code, message and field details, or any
  other error value (a driver error, a sentinel), which carries its text only.
\<close>

datatype err = AppErr Code string "FieldError list" | RawErr string

definition Validation :: "string \<Rightarrow> FieldError list \<Rightarrow> err" where
  "Validation message details = AppErr CodeValidation message details"

definition NotFound :: "string \<Rightarrow> err" where
  "NotFound entity = AppErr CodeNotFound (entity @ '' not found'') []"

definition Forbidden :: "string \<Rightarrow> err" where
  "Forbidden message = AppErr CodeForbidden message []"

definition Conflict :: "string \<Rightarrow> err" where
  "Conflict message = AppErr CodeConflict message []"

definition Internal :: "err \<Rightarrow> err" where
  "Internal cause = AppErr CodeInternal ''internal error'' []"

fun From :: "err \<Rightarrow> err" where
  "From (AppErr c m d) = AppErr c m d"
| "From (RawErr t) = Internal (RawErr t)"

fun err_code :: "err \<Rightarrow> Code" where
  "err_code (AppErr c m d) = c"
| "err_code (RawErr t) = CodeInternal"

text \<open>The idiom \<open>if e := apperr.From(err); e.Code != CodeInternal ...\<close> of the services,
  also \<open>normalize\<close> of the clients service.\<close>

definition normalize_err :: "err \<Rightarrow> err" where
  "normalize_err e = (if err_code (From e) \<noteq> CodeInternal then From e else Internal e)"

lemma err_code_From [simp]: "err_code (From e) = err_code e"
  by (cases e) (simp_all add: Internal_def)

lemma normalize_err_code [simp]: "err_code (normalize_err e) = err_code e"
  by (cases e) (auto simp: normalize_err_def Internal_def)

lemma err_code_simps [simp]:
  "err_code (Validation m d) = CodeValidation"
  "err_code (NotFound m) = CodeNotFound"
  "err_code (Forbidden m) = CodeForbidden"
  "err_code (Conflict m) = CodeConflict"
  "err_code (Internal e) = CodeInternal"
  by (simp_all add: Validation_def NotFound_def Forbidden_def Conflict_def Internal_def)

section \<open>Handlers: error values and explicit state\<close>

text \<open>
  A Go function with an \<open>error\<close> result that reads and writes state \<open>'s\<close> is a function
  from the state to a result and the next state. \<open>Inl\<close> is an error return.
\<close>

type_synonym ('s, 'a) eff = "'s \<Rightarrow> (err + 'a) \<times> 's"

definition ret :: "'a \<Rightarrow> ('s, 'a) eff" where
  "ret x = (\<lambda>s. (Inr x, s))"

definition fail :: "err \<Rightarrow> ('s, 'a) eff" where
  "fail e = (\<lambda>s. (Inl e, s))"

definition bnd :: "('s, 'a) eff \<Rightarrow> ('a \<Rightarrow> ('s, 'b) eff) \<Rightarrow> ('s, 'b) eff" where
  "bnd m f = (\<lambda>s. case m s of (Inl e, s') \<Rightarrow> (Inl e, s') | (Inr x, s') \<Rightarrow> f x s')"

text \<open>\<open>if err != nil\<close> with something other than a plain return: the error is a value.\<close>

definition attempt :: "('s, 'a) eff \<Rightarrow> ('s, err + 'a) eff" where
  "attempt m = (\<lambda>s. case m s of (r, s') \<Rightarrow> (Inr r, s'))"

definition on_err :: "(err \<Rightarrow> err) \<Rightarrow> ('s, 'a) eff \<Rightarrow> ('s, 'a) eff" where
  "on_err g m = (\<lambda>s. case m s of (Inl e, s') \<Rightarrow> (Inl (g e), s') | (Inr x, s') \<Rightarrow> (Inr x, s'))"

definition reads :: "('s \<Rightarrow> 'a) \<Rightarrow> ('s, 'a) eff" where
  "reads f = (\<lambda>s. (Inr (f s), s))"

definition writes :: "('s \<Rightarrow> 's) \<Rightarrow> ('s, unit) eff" where
  "writes f = (\<lambda>s. (Inr (), f s))"

definition guard :: "bool \<Rightarrow> err \<Rightarrow> ('s, unit) eff" where
  "guard ok e = (if ok then ret () else fail e)"

text \<open>A \<open>for\<close> loop that returns at the first error.\<close>

fun each :: "('a \<Rightarrow> ('s, unit) eff) \<Rightarrow> 'a list \<Rightarrow> ('s, unit) eff" where
  "each f [] = ret ()"
| "each f (x # xs) = bnd (f x) (\<lambda>_. each f xs)"

text \<open>A \<open>for\<close> loop that carries an accumulator and returns at the first error.\<close>

fun foldE :: "('a \<Rightarrow> 'b \<Rightarrow> ('s, 'b) eff) \<Rightarrow> 'a list \<Rightarrow> 'b \<Rightarrow> ('s, 'b) eff" where
  "foldE f [] b = ret b"
| "foldE f (x # xs) b = bnd (f x b) (\<lambda>b'. foldE f xs b')"

lemma ret_run [eff_simps]: "ret x s = (Inr x, s)"
  by (simp add: ret_def)

lemma fail_run [eff_simps]: "fail e s = (Inl e, s)"
  by (simp add: fail_def)

lemma reads_run [eff_simps]: "reads f s = (Inr (f s), s)"
  by (simp add: reads_def)

lemma writes_run [eff_simps]: "writes f s = (Inr (), f s)"
  by (simp add: writes_def)

lemma guard_run [eff_simps]: "guard ok e s = (if ok then (Inr (), s) else (Inl e, s))"
  by (simp add: guard_def eff_simps)

lemma bnd_run: "bnd m f s = (case m s of (Inl e, s') \<Rightarrow> (Inl e, s') | (Inr x, s') \<Rightarrow> f x s')"
  by (simp add: bnd_def)

lemma bnd_ret [eff_simps]: "bnd (ret x) f = f x"
  by (simp add: bnd_def ret_def)

lemma bnd_fail [eff_simps]: "bnd (fail e) f = fail e"
  by (simp add: bnd_def fail_def)

lemma bnd_reads [eff_simps]: "bnd (reads g) f s = f (g s) s"
  by (simp add: bnd_def reads_def)

lemma bnd_writes [eff_simps]: "bnd (writes g) f s = f () (g s)"
  by (simp add: bnd_def writes_def)

lemma bnd_guard [eff_simps]: "bnd (guard ok e) f s = (if ok then f () s else (Inl e, s))"
  by (simp add: bnd_def guard_def ret_def fail_def)

lemma bnd_Inr: "m s = (Inr x, s') \<Longrightarrow> bnd m f s = f x s'"
  by (simp add: bnd_def)

lemma bnd_Inl: "m s = (Inl e, s') \<Longrightarrow> bnd m f s = (Inl e, s')"
  by (simp add: bnd_def)

lemma bnd_InrE:
  assumes "bnd m f s = (Inr y, s'')"
  obtains x s' where "m s = (Inr x, s')" and "f x s' = (Inr y, s'')"
  using assms by (auto simp: bnd_def split: prod.splits sum.splits)

lemma bnd_cases:
  assumes "bnd m f s = (r, s'')"
  obtains (err) e where "m s = (Inl e, s'')" and "r = Inl e"
    | (ok) x s' where "m s = (Inr x, s')" and "f x s' = (r, s'')"
  using assms by (auto simp: bnd_def split: prod.splits sum.splits)

lemma bnd_assoc: "bnd (bnd m f) g = bnd m (\<lambda>x. bnd (f x) g)"
  by (rule ext) (simp add: bnd_def split: prod.splits sum.splits)

lemma each_append: "each f (xs @ ys) = bnd (each f xs) (\<lambda>_. each f ys)"
  by (induction xs) (simp_all add: bnd_ret bnd_assoc)

text \<open>
  A relation between states that every step of a computation keeps. One lemma per way of
  composing computations, so that the frame of a handler is the frame of its parts.
\<close>

definition keeps :: "('s \<Rightarrow> 's \<Rightarrow> bool) \<Rightarrow> ('s, 'a) eff \<Rightarrow> bool" where
  "keeps R m \<longleftrightarrow> (\<forall>s. R s (snd (m s)))"

lemma keepsI: "(\<And>s. R s (snd (m s))) \<Longrightarrow> keeps R m"
  by (simp add: keeps_def)

lemma keepsD: "keeps R m \<Longrightarrow> m s = (r, s') \<Longrightarrow> R s s'"
  by (metis keeps_def snd_conv)

lemma keeps_ret: "reflp R \<Longrightarrow> keeps R (ret x)"
  by (simp add: keeps_def ret_def reflp_def)

lemma keeps_fail: "reflp R \<Longrightarrow> keeps R (fail e)"
  by (simp add: keeps_def fail_def reflp_def)

lemma keeps_reads: "reflp R \<Longrightarrow> keeps R (reads f)"
  by (simp add: keeps_def reads_def reflp_def)

lemma keeps_guard: "reflp R \<Longrightarrow> keeps R (guard b e)"
  by (simp add: keeps_def guard_def ret_def fail_def reflp_def)

lemma keeps_writes: "(\<And>s. R s (f s)) \<Longrightarrow> keeps R (writes f)"
  by (simp add: keeps_def writes_def)

lemma keeps_bnd:
  assumes "transp R" and "keeps R m" and "\<And>x. keeps R (f x)"
  shows "keeps R (bnd m f)"
proof (rule keepsI)
  fix s
  obtain r s' where m: "m s = (r, s')" by (cases "m s")
  then have 1: "R s s'" using assms(2) by (blast dest: keepsD)
  show "R s (snd (bnd m f s))"
  proof (cases r)
    case (Inl e)
    with m 1 show ?thesis by (simp add: bnd_def)
  next
    case (Inr x)
    have "R s' (snd (f x s'))" using assms(3) by (simp add: keeps_def)
    with 1 assms(1) have "R s (snd (f x s'))" by (blast dest: transpD)
    with m Inr show ?thesis by (simp add: bnd_def)
  qed
qed

lemma keeps_attempt: "keeps R m \<Longrightarrow> keeps R (attempt m)"
  by (auto simp: keeps_def attempt_def split: prod.splits) (metis snd_conv)

lemma keeps_on_err: "keeps R m \<Longrightarrow> keeps R (on_err g m)"
  by (auto simp: keeps_def on_err_def split: prod.splits sum.splits) (metis snd_conv)+

lemma keeps_each:
  assumes "reflp R" and "transp R" and "\<And>x. x \<in> set xs \<Longrightarrow> keeps R (f x)"
  shows "keeps R (each f xs)"
  using assms by (induction xs) (auto intro: keeps_ret keeps_bnd)

lemma keeps_foldE:
  assumes "reflp R" and "transp R" and "\<And>x b. x \<in> set xs \<Longrightarrow> keeps R (f x b)"
  shows "keeps R (foldE f xs b)"
  using assms by (induction xs arbitrary: b) (auto intro: keeps_ret keeps_bnd)

section \<open>Go's int64\<close>

text \<open>An \<open>int64\<close> is an \<^typ>\<open>int\<close> in range; \<open>i64\<close> is what a result is reduced to.\<close>

definition i64 :: "int \<Rightarrow> int" where
  "i64 x = (x + 2 ^ 63) mod 2 ^ 64 - 2 ^ 63"

definition in_i64 :: "int \<Rightarrow> bool" where
  "in_i64 x \<longleftrightarrow> - (2 ^ 63) \<le> x \<and> x < 2 ^ 63"

lemma i64_id [wrap_simps]: "in_i64 x \<Longrightarrow> i64 x = x"
  by (simp add: i64_def in_i64_def)

lemma in_i64_i64 [simp]: "in_i64 (i64 x)"
  by (simp add: i64_def in_i64_def)

text \<open>Division and remainder truncate towards zero; a zero divisor is checked by the callers.\<close>

definition quo :: "int \<Rightarrow> int \<Rightarrow> int" where
  "quo a b = sgn a * sgn b * (\<bar>a\<bar> div \<bar>b\<bar>)"

definition remi :: "int \<Rightarrow> int \<Rightarrow> int" where
  "remi a b = a - b * quo a b"

lemma quo_pos: "0 \<le> a \<Longrightarrow> 0 < b \<Longrightarrow> quo a b = a div b"
  by (cases "a = 0") (simp_all add: quo_def)

text \<open>A \<open>for\<close> loop that adds up \<open>int64\<close> values.\<close>

fun sum64 :: "int \<Rightarrow> int list \<Rightarrow> int" where
  "sum64 acc [] = acc"
| "sum64 acc (x # xs) = sum64 (i64 (acc + x)) xs"

lemma sum64_exact:
  assumes "0 \<le> acc" and "\<forall>x \<in> set xs. 0 \<le> x" and "acc + sum_list xs < 2 ^ 63"
  shows "sum64 acc xs = acc + sum_list xs"
  using assms
proof (induction xs arbitrary: acc)
  case Nil
  then show ?case by simp
next
  case (Cons x xs)
  have nn: "0 \<le> sum_list xs" using Cons.prems(2) by (intro sum_list_nonneg) auto
  then have "in_i64 (acc + x)" using Cons.prems by (simp add: in_i64_def)
  then show ?case using Cons by (simp add: wrap_simps)
qed

section \<open>Go's strings, strconv and fmt\<close>

definition is_space :: "char \<Rightarrow> bool" where
  "is_space c \<longleftrightarrow> (let n = (of_char c :: nat) in n = 32 \<or> (9 \<le> n \<and> n \<le> 13))"

definition in_range :: "char \<Rightarrow> char \<Rightarrow> char \<Rightarrow> bool" where
  "in_range lo hi c \<longleftrightarrow> (of_char lo :: nat) \<le> of_char c \<and> (of_char c :: nat) \<le> of_char hi"

definition is_lower :: "char \<Rightarrow> bool" where
  "is_lower c \<longleftrightarrow> in_range CHR ''a'' CHR ''z'' c"

definition is_upper :: "char \<Rightarrow> bool" where
  "is_upper c \<longleftrightarrow> in_range CHR ''A'' CHR ''Z'' c"

definition is_digit :: "char \<Rightarrow> bool" where
  "is_digit c \<longleftrightarrow> in_range CHR ''0'' CHR ''9'' c"

definition lower_char :: "char \<Rightarrow> char" where
  "lower_char c = (if is_upper c then char_of ((of_char c :: nat) + 32) else c)"

definition ToLower :: "string \<Rightarrow> string" where
  "ToLower s = map lower_char s"

definition TrimSpace :: "string \<Rightarrow> string" where
  "TrimSpace s = rev (dropWhile is_space (rev (dropWhile is_space s)))"

definition TrimPrefix :: "string \<Rightarrow> string \<Rightarrow> string" where
  "TrimPrefix s p = (if prefix p s then drop (length p) s else s)"

definition TrimSuffix :: "string \<Rightarrow> string \<Rightarrow> string" where
  "TrimSuffix s p = (if suffix p s then take (length s - length p) s else s)"

definition EqualFold :: "string \<Rightarrow> string \<Rightarrow> bool" where
  "EqualFold a b \<longleftrightarrow> ToLower a = ToLower b"

text \<open>\<open>strings.Cut(s, sep)\<close> for a separator of one byte: before, after, found.\<close>

definition Cut :: "char \<Rightarrow> string \<Rightarrow> string \<times> string \<times> bool" where
  "Cut c s = (let a = takeWhile (\<lambda>x. x \<noteq> c) s in
     if length a < length s then (a, drop (Suc (length a)) s, True) else (s, [], False))"

text \<open>\<open>strings.Split\<close> at a separator of one byte.\<close>

fun Split :: "char \<Rightarrow> string \<Rightarrow> string list" where
  "Split c [] = [[]]"
| "Split c (x # xs) =
     (if x = c then [] # Split c xs
      else (case Split c xs of [] \<Rightarrow> [[x]] | w # ws \<Rightarrow> (x # w) # ws))"

lemma Split_not_Nil [simp]: "Split c s \<noteq> []"
  by (induction s) (auto split: list.splits)

definition digit_char :: "nat \<Rightarrow> char" where
  "digit_char d = char_of (48 + d :: nat)"

fun nat_str :: "nat \<Rightarrow> string" where
  "nat_str n = (if n < 10 then [digit_char n] else nat_str (n div 10) @ [digit_char (n mod 10)])"

declare nat_str.simps [simp del]

text \<open>\<open>strconv.FormatInt(x, 10)\<close>, also \<open>%d\<close>.\<close>

definition FormatInt :: "int \<Rightarrow> string" where
  "FormatInt x = (if x < 0 then CHR ''-'' # nat_str (nat (- x)) else nat_str (nat x))"

text \<open>\<open>%0wd\<close>: the sign, then zeros up to the width, then the digits.\<close>

definition zpad :: "nat \<Rightarrow> string \<Rightarrow> string" where
  "zpad w ds = replicate (w - length ds) CHR ''0'' @ ds"

definition fmt0d :: "nat \<Rightarrow> int \<Rightarrow> string" where
  "fmt0d w x = (if x < 0 then CHR ''-'' # zpad (w - 1) (nat_str (nat (- x))) else zpad w (nat_str (nat x)))"

text \<open>The value of a string of decimal digits, most significant first.\<close>

definition digit_val :: "char \<Rightarrow> nat" where
  "digit_val c = of_char c - 48"

fun digits_val :: "nat \<Rightarrow> string \<Rightarrow> nat" where
  "digits_val acc [] = acc"
| "digits_val acc (c # cs) = digits_val (10 * acc + digit_val c) cs"

lemma digits_val_append: "digits_val acc (xs @ ys) = digits_val (digits_val acc xs) ys"
  by (induction xs arbitrary: acc) auto

lemma digit_val_digit_char [simp]: "d < 10 \<Longrightarrow> digit_val (digit_char d) = d"
  by (simp add: digit_val_def digit_char_def)

lemma is_digit_digit_char [simp]: "d < 10 \<Longrightarrow> is_digit (digit_char d)"
  by (simp add: is_digit_def in_range_def digit_char_def)

lemma digits_val_nat_str [simp]: "digits_val 0 (nat_str n) = n"
proof (induction n rule: nat_str.induct)
  case (1 n)
  show ?case
  proof (cases "n < 10")
    case True
    then show ?thesis by (subst nat_str.simps) simp
  next
    case False
    with 1 have "digits_val 0 (nat_str (n div 10)) = n div 10" by simp
    with False show ?thesis by (subst nat_str.simps) (simp add: digits_val_append)
  qed
qed

lemma nat_str_not_Nil [simp]: "nat_str n \<noteq> []"
  by (subst nat_str.simps) simp

lemma nat_str_digits: "c \<in> set (nat_str n) \<Longrightarrow> is_digit c"
proof (induction n rule: nat_str.induct)
  case (1 n)
  show ?case
  proof (cases "n < 10")
    case True
    with 1 show ?thesis by (subst (asm) (2) nat_str.simps) simp
  next
    case False
    with 1 show ?thesis by (subst (asm) (2) nat_str.simps) auto
  qed
qed

lemma nat_str_inj: "nat_str a = nat_str b \<Longrightarrow> a = b"
  by (metis digits_val_nat_str)

lemma digits_val_zeros [simp]: "digits_val 0 (replicate k CHR ''0'' @ s) = digits_val 0 s"
  by (induction k) (simp_all add: digit_val_def)

lemma zpad_val [simp]: "digits_val 0 (zpad w s) = digits_val 0 s"
  by (simp add: zpad_def)

lemma fmt0d_inj: "0 \<le> a \<Longrightarrow> 0 \<le> b \<Longrightarrow> fmt0d w a = fmt0d w b \<Longrightarrow> a = b"
  by (metis digits_val_nat_str fmt0d_def linorder_not_le nat_eq_iff2 zpad_val)

text \<open>The digits computed on \<open>int\<close>, by which the printers evaluate: a \<open>nat\<close> is unary in the kernel.\<close>

function int_str :: "int \<Rightarrow> string" where
  "int_str x = (if x < 10 then [char_of (48 + x)] else int_str (x div 10) @ [char_of (48 + x mod 10)])"
  by auto
termination
  by (relation "measure nat") auto

declare int_str.simps [simp del]

lemma digit_char_int: "0 \<le> x \<Longrightarrow> digit_char (nat x) = char_of (48 + x)"
proof -
  assume "0 \<le> x"
  then have "48 + nat x = nat (48 + x)" by simp
  with \<open>0 \<le> x\<close> show ?thesis unfolding digit_char_def by (simp add: char_of_def bit_nat_iff)
qed

lemma nat_str_int: "0 \<le> x \<Longrightarrow> nat_str (nat x) = int_str x"
proof (induction x rule: int_str.induct)
  case (1 x)
  then have n: "nat x mod 10 = nat (x mod 10)" "nat x div 10 = nat (x div 10)" by (simp_all add: nat_mod_distrib nat_div_distrib)
  show ?case
  proof (cases "x < 10")
    case True
    with 1(2) show ?thesis by (simp add: nat_str.simps [of "nat x"] int_str.simps [of x] digit_char_int)
  next
    case False
    with 1 have "nat_str (nat (x div 10)) = int_str (x div 10)" "\<not> nat x < 10" by simp_all
    with False show ?thesis
      by (simp only: nat_str.simps [of "nat x"] int_str.simps [of x] if_False n) (simp add: digit_char_int)
  qed
qed

lemma FormatInt_code [code]: "FormatInt x = (if x < 0 then CHR ''-'' # int_str (- x) else int_str x)"
  by (simp add: FormatInt_def nat_str_int)

lemma fmt0d_code [code]: "fmt0d w x = (if x < 0 then CHR ''-'' # zpad (w - 1) (int_str (- x)) else zpad w (int_str x))"
  by (simp add: fmt0d_def nat_str_int)

section \<open>Tables\<close>

text \<open>
  A table is the list of its rows in insertion order, so in the order of their ids. \<open>key\<close>
  reads a row's id.
\<close>

definition row :: "('r \<Rightarrow> int) \<Rightarrow> int \<Rightarrow> 'r list \<Rightarrow> 'r option" where
  "row key i rows = find (\<lambda>r. key r = i) rows"

definition upd :: "('r \<Rightarrow> int) \<Rightarrow> int \<Rightarrow> ('r \<Rightarrow> 'r) \<Rightarrow> 'r list \<Rightarrow> 'r list" where
  "upd key i f rows = map (\<lambda>r. if key r = i then f r else r) rows"

lemma row_Nil [simp]: "row key i [] = None"
  by (simp add: row_def)

lemma row_Cons: "row key i (r # rs) = (if key r = i then Some r else row key i rs)"
  by (simp add: row_def)

lemma row_Some_key: "row key i rows = Some r \<Longrightarrow> key r = i"
  by (auto simp: row_def find_Some_iff)

lemma row_Some_in: "row key i rows = Some r \<Longrightarrow> r \<in> set rows"
  by (auto simp: row_def find_Some_iff)

lemma row_None_iff: "row key i rows = None \<longleftrightarrow> i \<notin> key ` set rows"
  by (auto simp: row_def find_None_iff)

lemma row_append: "row key i (xs @ ys) = (case row key i xs of None \<Rightarrow> row key i ys | Some r \<Rightarrow> Some r)"
  by (induction xs) (auto simp: row_Cons)

lemma upd_key_map [simp]:
  assumes "\<And>r. key (f r) = key r"
  shows "map key (upd key i f rows) = map key rows"
  using assms by (simp add: upd_def)

lemma row_upd [table_simps]:
  assumes "\<And>r. key (f r) = key r"
  shows "row key j (upd key i f rows) =
    (if i = j then map_option f (row key j rows) else row key j rows)"
  using assms by (induction rows) (auto simp: row_Cons upd_def)

lemma row_upd_const:
  "key s = i \<Longrightarrow> row key i rows \<noteq> None \<Longrightarrow> row key i (upd key i (\<lambda>_. s) rows) = Some s"
  by (induction rows) (auto simp: row_Cons upd_def)

lemma row_upd_to: "(\<And>r. key (f r) = i) \<Longrightarrow> row key i (upd key i f rows) = map_option f (row key i rows)"
  by (induction rows) (auto simp: row_Cons upd_def)

lemma upd_absent: "row key i rows = None \<Longrightarrow> upd key i f rows = rows"
  by (auto simp: upd_def row_None_iff intro!: map_idI)

lemma row_distinct:
  "distinct (map key rows) \<Longrightarrow> r \<in> set rows \<Longrightarrow> row key (key r) rows = Some r"
  by (induction rows) (auto simp: row_Cons)

lemma length_upd [simp]: "length (upd key i f rows) = length rows"
  by (simp add: upd_def)

lemma upd_in: "r \<in> set (upd key i f rows) \<Longrightarrow>
   (\<exists>r0 \<in> set rows. key r0 = i \<and> r = f r0) \<or> (r \<in> set rows \<and> key r \<noteq> i)"
  by (auto simp: upd_def split: if_splits)

end
