(* ===== verification/Enums.thy ===== *)
theory Enums
  imports Prelude
begin

text \<open>
  The enumerations of \<open>backend/internal/domain/enums.go\<close> and \<open>specs.go\<close>, one datatype
  each with the source's constants as constructors. A Go enumeration is a string: where a value
  comes from a request the datatype has one more constructor for a string that is none of the
  constants, and a function that reads a string; where it comes from a column with a CHECK
  constraint the constants are all there is.
\<close>

datatype UserRole = RoleAdmin | RoleStaff | RoleClient | RoleOther string

definition UserRole_Valid :: "UserRole \<Rightarrow> bool" where
  "UserRole_Valid r \<longleftrightarrow> (case r of RoleAdmin \<Rightarrow> True | RoleStaff \<Rightarrow> True | RoleClient \<Rightarrow> True | RoleOther _ \<Rightarrow> False)"

datatype ProductType = ProductSharedHosting | ProductResellerHosting | ProductDomain | ProductOther

datatype ServerModuleName = ModuleCpanel | ModuleDirectAdmin | ModuleNone

datatype AutoSetup = SetupOnPayment | SetupOnOrder | SetupManual

datatype BillingCycle = CycleOneTime | CycleMonthly | CycleQuarterly | CycleSemiannually
  | CycleAnnually | CycleBiennially | CycleOther string

fun cycle_str :: "BillingCycle \<Rightarrow> string" where
  "cycle_str CycleOneTime = ''one_time''"
| "cycle_str CycleMonthly = ''monthly''"
| "cycle_str CycleQuarterly = ''quarterly''"
| "cycle_str CycleSemiannually = ''semiannually''"
| "cycle_str CycleAnnually = ''annually''"
| "cycle_str CycleBiennially = ''biennially''"
| "cycle_str (CycleOther s) = s"

text \<open>The conversion \<open>domain.BillingCycle(s)\<close>.\<close>

definition cycle_of :: "string \<Rightarrow> BillingCycle" where
  "cycle_of s =
     (if s = ''one_time'' then CycleOneTime
      else if s = ''monthly'' then CycleMonthly
      else if s = ''quarterly'' then CycleQuarterly
      else if s = ''semiannually'' then CycleSemiannually
      else if s = ''annually'' then CycleAnnually
      else if s = ''biennially'' then CycleBiennially
      else CycleOther s)"

definition BillingCycle_Valid :: "BillingCycle \<Rightarrow> bool" where
  "BillingCycle_Valid c \<longleftrightarrow>
     c \<in> {CycleOneTime, CycleMonthly, CycleQuarterly, CycleSemiannually, CycleAnnually, CycleBiennially}"

lemma cycle_str_of [simp]: "cycle_str (cycle_of s) = s"
  by (simp add: cycle_of_def)

lemma BillingCycle_Valid_iff: "BillingCycle_Valid c \<longleftrightarrow> (\<forall>s. c \<noteq> CycleOther s)"
  by (cases c) (auto simp: BillingCycle_Valid_def)

datatype OrderStatus = OrderPending | OrderActive | OrderFraud | OrderCancelled

fun order_status_str :: "OrderStatus \<Rightarrow> string" where
  "order_status_str OrderPending = ''pending''"
| "order_status_str OrderActive = ''active''"
| "order_status_str OrderFraud = ''fraud''"
| "order_status_str OrderCancelled = ''cancelled''"

datatype OrderItemType = ItemProduct | ItemDomainRegister | ItemDomainTransfer | ItemOther string

definition item_type_of :: "string \<Rightarrow> OrderItemType" where
  "item_type_of s =
     (if s = ''product'' then ItemProduct
      else if s = ''domain_register'' then ItemDomainRegister
      else if s = ''domain_transfer'' then ItemDomainTransfer
      else ItemOther s)"

datatype InvoiceStatus = InvoiceDraft | InvoiceUnpaid | InvoicePaid | InvoiceOverdue
  | InvoiceCancelled | InvoiceRefunded

fun invoice_status_str :: "InvoiceStatus \<Rightarrow> string" where
  "invoice_status_str InvoiceDraft = ''draft''"
| "invoice_status_str InvoiceUnpaid = ''unpaid''"
| "invoice_status_str InvoicePaid = ''paid''"
| "invoice_status_str InvoiceOverdue = ''overdue''"
| "invoice_status_str InvoiceCancelled = ''cancelled''"
| "invoice_status_str InvoiceRefunded = ''refunded''"

datatype InvoiceItemRelatedType = RelatedOrderItem | RelatedServiceRenewal | RelatedDomainRenewal
  | RelatedServiceUpgrade | RelatedLateFee | RelatedDeposit | RelatedManual | RelatedDomainSnipe

datatype TransactionStatus = TxPending | TxSuccess | TxFailed | TxExpired | TxRefunded

fun tx_status_str :: "TransactionStatus \<Rightarrow> string" where
  "tx_status_str TxPending = ''pending''"
| "tx_status_str TxSuccess = ''success''"
| "tx_status_str TxFailed = ''failed''"
| "tx_status_str TxExpired = ''expired''"
| "tx_status_str TxRefunded = ''refunded''"

datatype Gateway = GatewayDuitku | GatewayCredit | GatewayManual

datatype ServiceStatus = ServicePending | ServiceActive | ServiceSuspended | ServiceTerminated
  | ServiceCancelled

fun service_status_str :: "ServiceStatus \<Rightarrow> string" where
  "service_status_str ServicePending = ''pending''"
| "service_status_str ServiceActive = ''active''"
| "service_status_str ServiceSuspended = ''suspended''"
| "service_status_str ServiceTerminated = ''terminated''"
| "service_status_str ServiceCancelled = ''cancelled''"

datatype CancellationRequestStatus = CancellationPending | CancellationAccepted
  | CancellationRejected | CancellationAutoProcessed

fun cancellation_status_str :: "CancellationRequestStatus \<Rightarrow> string" where
  "cancellation_status_str CancellationPending = ''pending''"
| "cancellation_status_str CancellationAccepted = ''accepted''"
| "cancellation_status_str CancellationRejected = ''rejected''"
| "cancellation_status_str CancellationAutoProcessed = ''auto_processed''"

datatype DomainStatus = DomainPending | DomainActive | DomainPendingTransfer | DomainExpired
  | DomainCancelled | DomainSuspended | DomainRejected

fun domain_status_str :: "DomainStatus \<Rightarrow> string" where
  "domain_status_str DomainPending = ''pending''"
| "domain_status_str DomainActive = ''active''"
| "domain_status_str DomainPendingTransfer = ''pending_transfer''"
| "domain_status_str DomainExpired = ''expired''"
| "domain_status_str DomainCancelled = ''cancelled''"
| "domain_status_str DomainSuspended = ''suspended''"
| "domain_status_str DomainRejected = ''rejected''"

datatype DomainVerification = VerificationNone | VerificationWaiting | VerificationVerifying
  | VerificationDocumentValidating | VerificationActive | VerificationOther string

definition DomainVerification_Valid :: "DomainVerification \<Rightarrow> bool" where
  "DomainVerification_Valid v \<longleftrightarrow> (case v of VerificationOther _ \<Rightarrow> False | _ \<Rightarrow> True)"

datatype SnipeStatus = SnipePendingPayment | SnipeActive | SnipeWon | SnipeExpired
  | SnipeCancelled | SnipeFailed

fun snipe_status_str :: "SnipeStatus \<Rightarrow> string" where
  "snipe_status_str SnipePendingPayment = ''pending_payment''"
| "snipe_status_str SnipeActive = ''active''"
| "snipe_status_str SnipeWon = ''won''"
| "snipe_status_str SnipeExpired = ''expired''"
| "snipe_status_str SnipeCancelled = ''cancelled''"
| "snipe_status_str SnipeFailed = ''failed''"

datatype CouponType = CouponPercentage | CouponFixed

datatype ProvisionKey = SpecDisk | SpecBandwidth | SpecAddonDomains | SpecSubdomains
  | SpecParkedDomains | SpecEmailAccounts | SpecDatabases | SpecFTPAccounts | SpecOther string

fun provision_key_str :: "ProvisionKey \<Rightarrow> string" where
  "provision_key_str SpecDisk = ''disk''"
| "provision_key_str SpecBandwidth = ''bandwidth''"
| "provision_key_str SpecAddonDomains = ''addon_domains''"
| "provision_key_str SpecSubdomains = ''subdomains''"
| "provision_key_str SpecParkedDomains = ''parked_domains''"
| "provision_key_str SpecEmailAccounts = ''email_accounts''"
| "provision_key_str SpecDatabases = ''databases''"
| "provision_key_str SpecFTPAccounts = ''ftp_accounts''"
| "provision_key_str (SpecOther s) = s"

definition provision_key_of :: "string \<Rightarrow> ProvisionKey" where
  "provision_key_of s =
     (case find (\<lambda>k. provision_key_str k = s) [SpecDisk, SpecBandwidth, SpecAddonDomains, SpecSubdomains, SpecParkedDomains,
        SpecEmailAccounts, SpecDatabases, SpecFTPAccounts] of
      Some k \<Rightarrow> k | None \<Rightarrow> SpecOther s)"

definition ProvisionKey_Valid :: "ProvisionKey \<Rightarrow> bool" where
  "ProvisionKey_Valid k \<longleftrightarrow> (case k of SpecOther _ \<Rightarrow> False | _ \<Rightarrow> True)"

datatype SpecUnit = UnitGB | UnitMB | UnitCount | UnitOther string

definition SpecUnit_Valid :: "SpecUnit \<Rightarrow> bool" where
  "SpecUnit_Valid u \<longleftrightarrow> (case u of UnitOther _ \<Rightarrow> False | _ \<Rightarrow> True)"

fun spec_unit_str :: "SpecUnit \<Rightarrow> string" where
  "spec_unit_str UnitGB = ''gb''"
| "spec_unit_str UnitMB = ''mb''"
| "spec_unit_str UnitCount = ''count''"
| "spec_unit_str (UnitOther s) = s"

definition spec_unit_of :: "string \<Rightarrow> SpecUnit" where
  "spec_unit_of s = (if s = ''gb'' then UnitGB else if s = ''mb'' then UnitMB
     else if s = ''count'' then UnitCount else UnitOther s)"

end
