(* ===== verification/Specs.thy ===== *)
theory Specs
  imports Enums "HOL-Library.Word" "HOL-Library.Multiset" "HOL-Library.Char_ord" "HOL-Library.List_Lexorder"
begin

unbundle bit_operations_syntax

text \<open>
  \<open>backend/internal/domain/specs.go\<close>: quantities of a hosting resource and how they reach the
  control panels. A Go map is the association list of its entries in the order one iteration
  visits them; its keys are distinct.
\<close>

definition UnlimitedQty :: int where
  "UnlimitedQty = - 1"

record ProductSpec =
  ps_ID :: int
  ps_ProductID :: int
  ps_Key :: string
  ps_Label :: string
  ps_ProvisionKey :: ProvisionKey
  ps_Unit :: SpecUnit
  ps_IncludedQty :: int
  ps_MinQty :: int
  ps_MaxQty :: int
  ps_StepQty :: int
  ps_DefaultQty :: int
  ps_AllowUnlimited :: bool
  ps_Sort :: int

record ProductSpecPricing =
  psp_SpecID :: int
  psp_Cycle :: BillingCycle
  psp_UnitPrice :: int
  psp_UnlimitedPrice :: int
  psp_Currency :: string

record PackageToggles =
  pt_FeatureList :: string
  pt_ShellAccess :: bool
  pt_CGIAccess :: bool
  pt_TemplatePackage :: string

text \<open>\<open>hash/fnv\<close>: FNV-1a over 64 bits, and the formats \<open>%x\<close> and \<open>%t\<close>.\<close>

fun fnv64a :: "64 word \<Rightarrow> string \<Rightarrow> 64 word" where
  "fnv64a h [] = h"
| "fnv64a h (c # cs) = fnv64a ((h XOR of_nat (of_char c)) * 1099511628211) cs"

definition hex_char :: "nat \<Rightarrow> char" where
  "hex_char d = (if d < 10 then char_of (48 + d :: nat) else char_of (87 + d :: nat))"

fun hex_str :: "nat \<Rightarrow> string" where
  "hex_str n = (if n < 16 then [hex_char n] else hex_str (n div 16) @ [hex_char (n mod 16)])"

declare hex_str.simps [simp del]

definition bool_str :: "bool \<Rightarrow> string" where
  "bool_str b = (if b then ''true'' else ''false'')"

definition spec_entry :: "(string \<times> int) list \<Rightarrow> string \<Rightarrow> string" where
  "spec_entry limits k = k @ ''='' @ FormatInt (case map_of limits k of Some v \<Rightarrow> v | None \<Rightarrow> 0) @ '';''"

definition DynamicPackageName :: "string \<Rightarrow> (string \<times> int) list \<Rightarrow> PackageToggles \<Rightarrow> string" where
  "DynamicPackageName pfx limits toggles =
     (let keys = sort (map fst limits);
          h = fnv64a 14695981039346656037
            (concat (map (spec_entry limits) keys)
             @ ''feat='' @ pt_FeatureList toggles @ '';shell='' @ bool_str (pt_ShellAccess toggles)
             @ '';cgi='' @ bool_str (pt_CGIAccess toggles) @ '';tmpl='' @ pt_TemplatePackage toggles)
      in pfx @ ''whcms_spec_'' @ hex_str (unat h))"

definition ToPanelMB :: "int \<Rightarrow> SpecUnit \<Rightarrow> int" where
  "ToPanelMB qty u =
     (if qty = UnlimitedQty then UnlimitedQty
      else case u of UnitGB \<Rightarrow> i64 (qty * 1024) | _ \<Rightarrow> qty)"

definition PanelParam :: "ServerModuleName \<Rightarrow> ProvisionKey \<Rightarrow> string \<times> bool \<times> bool" where
  "PanelParam module key =
     (case module of
        ModuleCpanel \<Rightarrow> (case key of
            SpecDisk \<Rightarrow> (''quota'', True, True)
          | SpecBandwidth \<Rightarrow> (''bwlimit'', True, True)
          | SpecAddonDomains \<Rightarrow> (''maxaddon'', False, True)
          | SpecSubdomains \<Rightarrow> (''maxsub'', False, True)
          | SpecParkedDomains \<Rightarrow> (''maxpark'', False, True)
          | SpecEmailAccounts \<Rightarrow> (''maxpop'', False, True)
          | SpecDatabases \<Rightarrow> (''maxsql'', False, True)
          | SpecFTPAccounts \<Rightarrow> (''maxftp'', False, True)
          | SpecOther _ \<Rightarrow> ([], False, False))
      | ModuleDirectAdmin \<Rightarrow> (case key of
            SpecDisk \<Rightarrow> (''quota'', True, True)
          | SpecBandwidth \<Rightarrow> (''bandwidth'', True, True)
          | SpecAddonDomains \<Rightarrow> (''vdomains'', False, True)
          | SpecSubdomains \<Rightarrow> (''nsubdomains'', False, True)
          | SpecParkedDomains \<Rightarrow> (''domainptr'', False, True)
          | SpecEmailAccounts \<Rightarrow> (''nemails'', False, True)
          | SpecDatabases \<Rightarrow> (''mysql'', False, True)
          | SpecFTPAccounts \<Rightarrow> (''ftp'', False, True)
          | SpecOther _ \<Rightarrow> ([], False, False))
      | ModuleNone \<Rightarrow> ([], False, False))"

section \<open>The package name does not depend on the order of a map iteration\<close>

lemma DynamicPackageName_perm:
  assumes "distinct (map fst limits)" and "mset limits = mset limits'"
  shows "DynamicPackageName pfx limits toggles = DynamicPackageName pfx limits' toggles"
proof -
  have m: "mset (map fst limits) = mset (map fst limits')" using assms(2) by simp
  then have d': "distinct (map fst limits')" using assms(1) mset_eq_imp_distinct_iff by blast
  have "sort (map fst limits) = sort (map fst limits')"
    by (rule properties_for_sort) (simp_all only: mset_sort m sorted_sort)
  moreover have "map_of limits = map_of limits'"
    by (rule map_of_inject_set [THEN iffD2]) (use assms d' mset_eq_setD in auto)
  ultimately show ?thesis by (simp add: DynamicPackageName_def spec_entry_def [abs_def])
qed

text \<open>Every valid key has a parameter on both panels, and no two keys share one.\<close>

lemma PanelParam_inj:
  assumes "PanelParam module k = (n, sz, True)" and "PanelParam module k' = (n, sz', True)"
  shows "k = k'"
  using assms by (auto simp: PanelParam_def split: ServerModuleName.splits ProvisionKey.splits)

lemma PanelParam_total:
  "module \<noteq> ModuleNone \<Longrightarrow> snd (snd (PanelParam module k)) = ProvisionKey_Valid k"
  by (cases module; cases k) (simp_all add: PanelParam_def ProvisionKey_Valid_def)

end
