(* ===== verification/GoFloat.thy ===== *)
theory GoFloat
  imports Prelude Complex_Main "HOL-Library.Log_Nat"
begin

text \<open>
  Go's \<open>float64\<close>: a value is the rational it stands for, and every operation is the exact
  one followed by \<open>fl\<close>, rounding to the nearest value with a significand of 53 bits, ties
  to even (IEEE 754 binary64). Overflow to infinity and gradual underflow are outside the model:
  the amounts, rates and day counts the sources compute with are far inside the normal range.
\<close>

type_synonym float64 = rat

definition pow2 :: "int \<Rightarrow> rat" where
  "pow2 e = (if 0 \<le> e then 2 ^ nat e else 1 / 2 ^ nat (- e))"

definition round_even :: "rat \<Rightarrow> int" where
  "round_even x = (let f = \<lfloor>x\<rfloor>; r = x - of_int f in
     if r < 1 / 2 then f else if 1 / 2 < r then f + 1 else if even f then f else f + 1)"

text \<open>The exponent of the last place of a positive value: \<open>2 ^ 52 \<le> x / 2 ^ e < 2 ^ 53\<close>.\<close>

definition ulp_exp :: "rat \<Rightarrow> int" where
  "ulp_exp x = (case quotient_of x of (p, q) \<Rightarrow>
     (let k = bitlen p - bitlen q in if pow2 k \<le> x then k - 52 else k - 53))"

definition fl_pos :: "rat \<Rightarrow> rat" where
  "fl_pos x = (let e = ulp_exp x in of_int (round_even (x / pow2 e)) * pow2 e)"

definition fl :: "rat \<Rightarrow> float64" where
  "fl x = (if x = 0 then 0 else if x < 0 then - fl_pos (- x) else fl_pos x)"

definition float_of_int :: "int \<Rightarrow> float64" where
  "float_of_int n = fl (of_int n)"

definition fadd :: "float64 \<Rightarrow> float64 \<Rightarrow> float64" where
  "fadd a b = fl (a + b)"

definition fmul :: "float64 \<Rightarrow> float64 \<Rightarrow> float64" where
  "fmul a b = fl (a * b)"

definition fdiv :: "float64 \<Rightarrow> float64 \<Rightarrow> float64" where
  "fdiv a b = fl (a / b)"

section \<open>Rounding error\<close>

lemma pow2_pos [simp]: "0 < pow2 e"
  by (simp add: pow2_def)

lemma pow2_neq_0 [simp]: "pow2 e \<noteq> 0"
  using pow2_pos [of e] by linarith

lemma pow2_powi: "pow2 e = 2 powi e"
  by (simp add: pow2_def power_int_def power_one_over inverse_eq_divide)

lemma pow2_add: "pow2 (a + b) = pow2 a * pow2 b"
  unfolding pow2_powi by (rule power_int_add) simp

lemma pow2_nat: "pow2 (int n) = 2 ^ n"
  by (simp add: pow2_def)

lemma pow2_mono: "a \<le> b \<Longrightarrow> pow2 a \<le> pow2 b"
proof -
  assume "a \<le> b"
  then obtain n where b: "b = a + int n" using zle_iff_zadd by blast
  have "1 \<le> (2 :: rat) ^ n" by simp
  then have "pow2 a * 1 \<le> pow2 a * 2 ^ n" by (intro mult_left_mono) (simp_all add: less_imp_le)
  then show ?thesis by (simp add: b pow2_add pow2_nat)
qed

lemma pow2_less_iff: "pow2 a < pow2 b \<longleftrightarrow> a < b"
proof
  assume "pow2 a < pow2 b" then show "a < b" using pow2_mono [of b a] by (cases "a < b") auto
next
  assume "a < b"
  then have "pow2 (a + 1) \<le> pow2 b" by (intro pow2_mono) simp
  moreover have "pow2 (a + 1) = 2 * pow2 a" using pow2_add [of a 1] by (simp add: pow2_def)
  moreover have "0 < pow2 a" by simp
  ultimately show "pow2 a < pow2 b" by linarith
qed

lemma bitlen_pow2_bounds:
  assumes "0 < n"
  shows "pow2 (bitlen n - 1) \<le> of_int n" and "of_int n < pow2 (bitlen n)"
proof -
  have b: "2 ^ nat (bitlen n - 1) \<le> n" "n < 2 ^ nat (bitlen n)"
    using bitlen_bounds [OF assms] by auto
  have "1 \<le> bitlen n" using assms bitlen_eq_zero_iff [of n] bitlen_nonneg [of n] by linarith
  show "pow2 (bitlen n - 1) \<le> of_int n"
    using of_int_le_iff [where 'a = rat, THEN iffD2, OF b(1)] \<open>1 \<le> bitlen n\<close>
    by (simp add: pow2_def)
  show "of_int n < pow2 (bitlen n)"
    using of_int_less_iff [where 'a = rat, THEN iffD2, OF b(2)] \<open>1 \<le> bitlen n\<close>
    by (simp add: pow2_def)
qed

lemma ulp_exp_bounds:
  assumes "0 < x"
  shows "2 ^ 52 * pow2 (ulp_exp x) \<le> x" and "x < 2 ^ 53 * pow2 (ulp_exp x)"
proof -
  obtain p q where pq: "quotient_of x = (p, q)" by fastforce
  have q: "0 < q" using pq quotient_of_denom_pos by simp
  have x: "x = of_int p / of_int q" using pq quotient_of_div by simp
  have p: "0 < p" using assms x q by (simp add: zero_less_divide_iff)
  define k where "k = bitlen p - bitlen q"
  have "x < pow2 (k + 1)"
  proof -
    have "of_int p < pow2 (bitlen p)" using bitlen_pow2_bounds(2) [OF p] .
    also have "\<dots> = pow2 (k + 1) * pow2 (bitlen q - 1)"
      by (simp add: k_def flip: pow2_add)
    also have "\<dots> \<le> pow2 (k + 1) * of_int q"
      using bitlen_pow2_bounds(1) [OF q] by (intro mult_left_mono) (simp_all add: less_imp_le)
    finally show ?thesis using q by (simp add: x divide_less_eq)
  qed
  moreover have "pow2 (k - 1) < x"
  proof -
    have "pow2 (k - 1) * of_int q < pow2 (k - 1) * pow2 (bitlen q)"
      using bitlen_pow2_bounds(2) [OF q] by (intro mult_strict_left_mono) simp_all
    also have "\<dots> = pow2 (bitlen p - 1)" by (simp add: k_def flip: pow2_add)
    also have "\<dots> \<le> of_int p" using bitlen_pow2_bounds(1) [OF p] .
    finally show ?thesis using q by (simp add: x less_divide_eq)
  qed
  moreover have "ulp_exp x = (if pow2 k \<le> x then k - 52 else k - 53)"
    by (simp add: ulp_exp_def pq k_def Let_def)
  moreover have "2 ^ 52 * pow2 (k - 52) = pow2 k" "2 ^ 53 * pow2 (k - 52) = pow2 (k + 1)"
    "2 ^ 52 * pow2 (k - 53) = pow2 (k - 1)" "2 ^ 53 * pow2 (k - 53) = pow2 k"
    using pow2_add [of 52 "k - 52"] pow2_add [of 53 "k - 52"] pow2_add [of 52 "k - 53"]
      pow2_add [of 53 "k - 53"] by (simp_all add: pow2_def [of 52] pow2_def [of 53] add.commute)
  ultimately show "2 ^ 52 * pow2 (ulp_exp x) \<le> x" and "x < 2 ^ 53 * pow2 (ulp_exp x)"
    by (auto split: if_splits)
qed

lemma round_even_err: "\<bar>of_int (round_even x) - x\<bar> \<le> 1 / 2"
proof -
  have "of_int \<lfloor>x\<rfloor> \<le> x" "x < of_int \<lfloor>x\<rfloor> + 1" by linarith+
  then show ?thesis by (auto simp: round_even_def Let_def abs_le_iff)
qed

lemma round_even_int [simp]: "round_even (of_int n) = n"
  by (simp add: round_even_def)

definition ueps :: rat where
  "ueps = 1 / 2 ^ 53"

lemma fl_pos_err:
  assumes "0 < x"
  shows "\<bar>fl_pos x - x\<bar> \<le> ueps * x"
proof -
  let ?e = "pow2 (ulp_exp x)"
  have "fl_pos x - x = (of_int (round_even (x / ?e)) - x / ?e) * ?e"
    by (simp add: fl_pos_def Let_def left_diff_distrib)
  then have "\<bar>fl_pos x - x\<bar> = \<bar>of_int (round_even (x / ?e)) - x / ?e\<bar> * ?e"
    by (simp add: abs_mult abs_of_pos)
  also have "\<dots> \<le> 1 / 2 * ?e"
    using round_even_err by (intro mult_right_mono) (simp_all add: less_imp_le)
  also have "\<dots> \<le> ueps * x"
    using ulp_exp_bounds(1) [OF assms] by (simp add: ueps_def field_simps)
  finally show ?thesis .
qed

lemma fl_err: "\<bar>fl x - x\<bar> \<le> ueps * \<bar>x\<bar>"
proof (cases "x < 0")
  case True
  then show ?thesis using fl_pos_err [of "- x"] by (simp add: fl_def abs_minus_commute)
next
  case False
  then show ?thesis using fl_pos_err [of x] by (cases "x = 0") (simp_all add: fl_def)
qed

lemma fl_nonneg: "0 \<le> x \<Longrightarrow> 0 \<le> fl x"
proof -
  assume x: "0 \<le> x"
  then have "ueps * \<bar>x\<bar> \<le> x" by (simp add: ueps_def)
  then show ?thesis using fl_err [of x] by linarith
qed

text \<open>A multiple of a power of two with a factor of at most 53 bits is exact.\<close>

lemma fl_pos_exact:
  assumes "0 < n" and "n < 2 ^ 53"
  shows "fl_pos (of_int n * pow2 k) = of_int n * pow2 k"
proof -
  let ?x = "of_int n * pow2 k"
  let ?e = "ulp_exp ?x"
  have x: "0 < ?x" using assms by simp
  have "of_int n < (2 :: rat) ^ 53"
    using of_int_less_iff [where 'a = rat, THEN iffD2, OF assms(2)] by simp
  then have "?x < 2 ^ 53 * pow2 k" by (intro mult_strict_right_mono) simp_all
  then have "2 ^ 52 * pow2 ?e < 2 ^ 53 * pow2 k" using ulp_exp_bounds(1) [OF x] by linarith
  then have "pow2 ?e < pow2 (k + 1)" by (simp add: pow2_add pow2_def [of 1])
  then have "?e \<le> k" by (simp add: pow2_less_iff)
  then obtain j where k: "k = ?e + int j" using zle_iff_zadd by blast
  define e where "e = ?e"
  have pk: "pow2 k = pow2 e * 2 ^ j" unfolding e_def by (subst k) (simp only: pow2_add pow2_nat)
  have "?x / pow2 e = of_int (n * 2 ^ j)" unfolding pk by simp
  then have "round_even (?x / pow2 e) = n * 2 ^ j" by (simp only: round_even_int)
  then have "fl_pos ?x = of_int (n * 2 ^ j) * pow2 e" by (simp only: fl_pos_def Let_def e_def)
  then show ?thesis unfolding pk by simp
qed

lemma fl_int: "0 \<le> n \<Longrightarrow> n < 2 ^ 53 \<Longrightarrow> fl (of_int n) = of_int n"
  using fl_pos_exact [of n 0] by (auto simp: fl_def pow2_def)

lemma fl_half_int: "0 \<le> n \<Longrightarrow> n < 2 ^ 53 \<Longrightarrow> fl (of_int n / 2) = of_int n / 2"
  using fl_pos_exact [of n "- 1"] by (auto simp: fl_def pow2_def)

lemma float_of_int_exact: "0 \<le> n \<Longrightarrow> n < 2 ^ 53 \<Longrightarrow> float_of_int n = of_int n"
  by (simp add: float_of_int_def fl_int)

section \<open>Reading the floor of an inexact value\<close>

lemma floor_near:
  fixes w :: rat
  assumes D: "0 < D" and near: "\<bar>w - of_int X / of_int D\<bar> < 1 / of_int D"
  shows "\<not> D dvd X \<Longrightarrow> \<lfloor>w\<rfloor> = X div D"
    and "D dvd X \<Longrightarrow> \<lfloor>w\<rfloor> = X div D \<or> \<lfloor>w\<rfloor> = X div D - 1"
proof -
  define q r where "q = X div D" and "r = X mod D"
  have X: "X = D * q + r" and r: "0 \<le> r" "r < D" using D by (simp_all add: q_def r_def)
  have e: "of_int X / of_int D = (of_int q + of_int r / of_int D :: rat)"
    using D by (simp add: X field_simps)
  have lo: "of_int q + (of_int r - 1) / of_int D < w" and hi: "w < of_int q + (of_int r + 1) / of_int D"
    using near unfolding e by (auto simp: abs_less_iff diff_divide_distrib add_divide_distrib)
  have up: "(of_int r + 1) / of_int D \<le> (1 :: rat)"
    using D of_int_le_iff [where 'a = rat, of "r + 1" D] r(2) by (simp add: divide_le_eq)
  { assume "\<not> D dvd X"
    then have "r \<noteq> 0" by (simp add: r_def dvd_eq_mod_eq_0)
    then have "1 \<le> r" using r by linarith
    then have "0 \<le> (of_int r - 1) / (of_int D :: rat)" using D by simp
    then have "of_int q \<le> w" "w < of_int q + 1" using lo hi up by linarith+
    then show "\<lfloor>w\<rfloor> = X div D" by (simp add: q_def floor_eq_iff) }
  { assume "D dvd X"
    then have "r = 0" by (simp add: r_def)
    have "1 / of_int D \<le> (1 :: rat)" using D by simp
    then have "of_int (q - 1) \<le> w" "w < of_int q + 1"
      using lo hi by (simp_all add: \<open>r = 0\<close>)
    then show "\<lfloor>w\<rfloor> = X div D \<or> \<lfloor>w\<rfloor> = X div D - 1"
      unfolding q_def [symmetric] by linarith }
qed

end
