(* ===== verification/GoTime.thy ===== *)
theory GoTime
  imports Prelude
begin

text \<open>
  The part of Go's \<open>time\<close> package the sources use, for times in UTC (every clock and every
  column of the program is UTC): an instant is the number of nanoseconds since
  1970-01-01T00:00:00Z, dates are those of the proleptic Gregorian calendar, and
  \<open>time.Date\<close> normalises a month outside 1..12 and a day outside the month.
\<close>

type_synonym time = int

definition day_ns :: int where
  "day_ns = 86400000000000"

definition is_leap :: "int \<Rightarrow> bool" where
  "is_leap y \<longleftrightarrow> y mod 4 = 0 \<and> (y mod 100 \<noteq> 0 \<or> y mod 400 = 0)"

definition year_len :: "int \<Rightarrow> int" where
  "year_len y = (if is_leap y then 366 else 365)"

text \<open>Days from 0001-01-01 to the first of January of year \<open>y\<close>, and that count at the epoch.\<close>

definition days_before_year :: "int \<Rightarrow> int" where
  "days_before_year y = (let n = y - 1 in 365 * n + n div 4 - n div 100 + n div 400)"

definition epoch_days :: int where
  "epoch_days = 719162"

definition month_lens :: "int \<Rightarrow> int list" where
  "month_lens y = [31, if is_leap y then 29 else 28, 31, 30, 31, 30, 31, 31, 30, 31, 30, 31]"

definition month_len :: "int \<Rightarrow> int \<Rightarrow> int" where
  "month_len y m = month_lens y ! nat (m - 1)"

definition days_before_month :: "int \<Rightarrow> int \<Rightarrow> int" where
  "days_before_month y m = sum_list (take (nat (m - 1)) (month_lens y))"

text \<open>Day number (since the epoch) of \<open>time.Date(y, m, d, ...)\<close>.\<close>

definition date_day :: "int \<Rightarrow> int \<Rightarrow> int \<Rightarrow> int" where
  "date_day y m d =
     (let y' = y + (m - 1) div 12; m' = (m - 1) mod 12 + 1
      in days_before_year y' + days_before_month y' m' + (d - 1) - epoch_days)"

text \<open>The year of a day counted from 0001-01-01, and the day within it.\<close>

definition year_of_day :: "int \<Rightarrow> int \<times> int" where
  "year_of_day z =
     (let a = z div 146097; r = z mod 146097;
          b = min 3 (r div 36524); r2 = r - b * 36524;
          c = r2 div 1461; r3 = r2 mod 1461;
          d = min 3 (r3 div 365)
      in (400 * a + 100 * b + 4 * c + d + 1, r3 - 365 * d))"

fun find_month :: "int list \<Rightarrow> int \<Rightarrow> int \<Rightarrow> int \<times> int" where
  "find_month [] m yd = (m, yd + 1)"
| "find_month (l # ls) m yd = (if yd < l \<or> ls = [] then (m, yd + 1) else find_month ls (m + 1) (yd - l))"

text \<open>\<open>t.Date()\<close>, on the day number.\<close>

definition civil :: "int \<Rightarrow> int \<times> int \<times> int" where
  "civil z = (case year_of_day (z + epoch_days) of (y, yd) \<Rightarrow>
     (case find_month (month_lens y) 1 yd of (m, d) \<Rightarrow> (y, m, d)))"

definition day_of :: "time \<Rightarrow> int" where
  "day_of t = t div day_ns"

definition tod_of :: "time \<Rightarrow> int" where
  "tod_of t = t mod day_ns"

definition DateOf :: "time \<Rightarrow> int \<times> int \<times> int" where
  "DateOf t = civil (day_of t)"

definition mkDate :: "int \<Rightarrow> int \<Rightarrow> int \<Rightarrow> int \<Rightarrow> time" where
  "mkDate y m d tod = date_day y m d * day_ns + tod"

text \<open>\<open>t.AddDate(0, 0, n)\<close>: the same clock time \<open>n\<close> days later.\<close>

definition AddDays :: "time \<Rightarrow> int \<Rightarrow> time" where
  "AddDays t n = t + n * day_ns"

text \<open>The zero \<open>time.Time\<close>, 0001-01-01T00:00:00Z, and \<open>t.IsZero()\<close>.\<close>

definition zero_time :: time where
  "zero_time = - epoch_days * day_ns"

definition IsZero :: "time \<Rightarrow> bool" where
  "IsZero t \<longleftrightarrow> t = zero_time"

text \<open>\<open>t.Format("200601")\<close> and \<open>t.Format("2006-01-02")\<close>.\<close>

definition fmt_yyyymm :: "time \<Rightarrow> string" where
  "fmt_yyyymm t = (case DateOf t of (y, m, d) \<Rightarrow> fmt0d 4 y @ fmt0d 2 m)"

definition fmt_date :: "time \<Rightarrow> string" where
  "fmt_date t = (case DateOf t of (y, m, d) \<Rightarrow> fmt0d 4 y @ ''-'' @ fmt0d 2 m @ ''-'' @ fmt0d 2 d)"

section \<open>The calendar is a bijection\<close>

lemma day_ns_pos [simp]: "0 < day_ns"
  by (simp add: day_ns_def)

lemma month_lens_length [simp]: "length (month_lens y) = 12"
  by (simp add: month_lens_def)

lemma sum_month_lens: "sum_list (month_lens y) = year_len y"
  by (simp add: month_lens_def year_len_def)

lemma mod_zero_iff:
  fixes n :: int
  assumes "n = k * q + r" and "0 < r" and "r \<le> k" and "r = k \<longleftrightarrow> P"
  shows "n mod k = 0 \<longleftrightarrow> P"
proof (cases "r = k")
  case True
  with assms show ?thesis by simp
next
  case False
  then have "n mod k = r" by (intro int_mod_pos_eq [where q = q]) (use assms in auto)
  with False assms show ?thesis by simp
qed

lemma div_pred:
  fixes y :: int
  assumes "0 < k"
  shows "y div k = (y - 1) div k + (if y mod k = 0 then 1 else 0)"
proof (cases "y mod k = 0")
  case True
  have "(y - 1) div k = y div k - 1"
    by (rule int_div_pos_eq [where r = "k - 1"])
      (use assms True mult_div_mod_eq [of k y] in \<open>auto simp: algebra_simps\<close>)
  with True show ?thesis by simp
next
  case False
  then have "0 < y mod k" using assms pos_mod_sign [of k y] by linarith
  moreover have "y mod k < k" using assms by simp
  ultimately have "(y - 1) div k = y div k"
    by (intro int_div_pos_eq [where r = "y mod k - 1"])
      (use mult_div_mod_eq [of k y] in \<open>auto simp: algebra_simps\<close>)
  with False show ?thesis by simp
qed

lemma div_bounds:
  fixes x :: int
  assumes "0 < k"
  shows "k * (x div k) \<le> x" and "x < k * (x div k) + k"
  using assms mult_div_mod_eq [of k x] pos_mod_sign [of k x] pos_mod_bound [of k x] by linarith+

lemma digit_bounds:
  fixes r k lo hi :: int
  assumes "0 < k" and "0 \<le> r" and "r < 3 * k + hi" and "k \<le> hi"
  shows "0 \<le> min 3 (r div k)" and "min 3 (r div k) \<le> 3" and "min 3 (r div k) * k \<le> r"
    and "r - min 3 (r div k) * k < (if min 3 (r div k) = 3 then hi else k)"
proof -
  note b = div_bounds [OF assms(1), of r]
  have nn: "0 \<le> r div k" using assms by (simp add: pos_imp_zdiv_nonneg_iff)
  then show "0 \<le> min 3 (r div k)" and "min 3 (r div k) \<le> 3" by simp_all
  show "min 3 (r div k) * k \<le> r"
  proof (cases "r div k \<le> 3")
    case True
    then show ?thesis using b by (simp add: min_def mult.commute)
  next
    case False
    then have "k * 3 \<le> k * (r div k)" using assms(1) by (intro mult_left_mono) auto
    then have "k * 3 \<le> r" using b(1) by linarith
    then show ?thesis using False by (simp add: min_def mult.commute)
  qed
  show "r - min 3 (r div k) * k < (if min 3 (r div k) = 3 then hi else k)"
  proof (cases "r div k < 3")
    case True
    then show ?thesis using b by (simp add: min_def mult.commute)
  next
    case False
    then show ?thesis using assms(3) by (simp add: min_def mult.commute)
  qed
qed

lemma days_before_year_split:
  assumes "0 \<le> b" "b \<le> 3" "0 \<le> c" "c \<le> 24" "0 \<le> d" "d \<le> 3"
  shows "days_before_year (400 * a + 100 * b + 4 * c + d + 1) = 146097 * a + 36524 * b + 1461 * c + 365 * d"
proof -
  let ?n = "400 * a + 100 * b + 4 * c + d"
  have q4: "?n div 4 = 100 * a + 25 * b + c"
    by (rule int_div_pos_eq [where r = d]) (use assms in auto)
  have q100: "?n div 100 = 4 * a + b"
    by (rule int_div_pos_eq [where r = "4 * c + d"]) (use assms in auto)
  have q400: "?n div 400 = a"
    by (rule int_div_pos_eq [where r = "100 * b + 4 * c + d"]) (use assms in auto)
  show ?thesis by (simp add: days_before_year_def q4 q100 q400)
qed

lemma year_split_leap:
  assumes "0 \<le> b" "b \<le> 3" "0 \<le> c" "c \<le> 24" "0 \<le> d" "d \<le> 3"
  shows "is_leap (400 * a + 100 * b + 4 * c + d + 1) \<longleftrightarrow> d = 3 \<and> (c = 24 \<longrightarrow> b = 3)"
proof -
  let ?y = "400 * a + 100 * b + 4 * c + d + 1 :: int"
  have e2: "4 * c + d + 1 = 100 \<longleftrightarrow> d = 3 \<and> c = 24"
  proof
    assume *: "4 * c + d + 1 = 100"
    show "d = 3 \<and> c = 24" by (intro conjI) (use * assms in linarith)+
  qed simp
  have e3: "100 * b + 4 * c + d + 1 = 400 \<longleftrightarrow> d = 3 \<and> c = 24 \<and> b = 3"
  proof
    assume *: "100 * b + 4 * c + d + 1 = 400"
    show "d = 3 \<and> c = 24 \<and> b = 3" by (intro conjI) (use * assms in linarith)+
  qed simp
  have 1: "?y mod 4 = 0 \<longleftrightarrow> d = 3"
    by (rule mod_zero_iff [where q = "100 * a + 25 * b + c" and r = "d + 1"]) (use assms in auto)
  have 2: "?y mod 100 = 0 \<longleftrightarrow> d = 3 \<and> c = 24"
    by (rule mod_zero_iff [where q = "4 * a + b" and r = "4 * c + d + 1"])
      (use assms e2 in auto)
  have 3: "?y mod 400 = 0 \<longleftrightarrow> d = 3 \<and> c = 24 \<and> b = 3"
    by (rule mod_zero_iff [where q = a and r = "100 * b + 4 * c + d + 1"])
      (use assms e3 in auto)
  from 1 2 3 show ?thesis by (auto simp: is_leap_def)
qed

lemma year_of_day_sound:
  assumes "year_of_day z = (y, yd)"
  shows "days_before_year y + yd = z" and "0 \<le> yd" and "yd < year_len y"
proof -
  define a where "a = z div 146097"
  define r where "r = z mod 146097"
  define b where "b = min 3 (r div 36524)"
  define r2 where "r2 = r - b * 36524"
  define c where "c = r2 div 1461"
  define r3 where "r3 = r2 mod 1461"
  define d where "d = min 3 (r3 div 365)"
  have "year_of_day z = (400 * a + 100 * b + 4 * c + d + 1, r3 - 365 * d)"
    unfolding year_of_day_def Let_def d_def r3_def c_def r2_def b_def r_def a_def by (rule refl)
  with assms have y: "y = 400 * a + 100 * b + 4 * c + d + 1" and yd: "yd = r3 - 365 * d"
    by simp_all
  have r: "0 \<le> r" "r < 146097" "z = 146097 * a + r" by (simp_all add: r_def a_def)
  note db = digit_bounds [of 36524 r 36525, folded b_def]
  have b: "0 \<le> b" "b \<le> 3" using db r by simp_all
  have r2: "0 \<le> r2" "r2 < (if b = 3 then 36525 else 36524)" "r = 36524 * b + r2"
    using db r unfolding r2_def by simp_all
  have c: "0 \<le> c" "c \<le> 24"
    using r2 div_bounds [of 1461 r2, folded c_def] by (auto split: if_splits)
  have r3: "0 \<le> r3" "r3 < 1461" "r2 = 1461 * c + r3" by (simp_all add: r3_def c_def)
  note dd = digit_bounds [of 365 r3 366, folded d_def]
  have d: "0 \<le> d" "d \<le> 3" using dd r3 by simp_all
  have dbnd: "365 * d \<le> r3" "r3 - 365 * d < (if d = 3 then 366 else 365)"
    using dd r3 by (simp_all add: mult.commute)
  note rng = b c d
  show "days_before_year y + yd = z"
    using days_before_year_split [OF rng] y yd r(3) r2(3) r3(3) by simp
  show "0 \<le> yd" using yd dbnd by simp
  show "yd < year_len y"
  proof (cases "d = 3")
    case False
    then show ?thesis using year_split_leap [OF rng] y yd dbnd by (simp add: year_len_def)
  next
    case True
    show ?thesis
    proof (cases "c = 24 \<and> b \<noteq> 3")
      case False
      then show ?thesis using True year_split_leap [OF rng] y yd dbnd by (auto simp: year_len_def)
    next
      case c24: True
      then have "r3 < 1460" using r2 r3 by (auto split: if_splits)
      then show ?thesis using True yd by (simp add: year_len_def)
    qed
  qed
qed

lemma leap_sum:
  "(m400 \<longrightarrow> m100) \<Longrightarrow> (m100 \<longrightarrow> m4) \<Longrightarrow>
    (if m4 then 1 else 0) - (if m100 then 1 else 0) + (if m400 then 1 else 0) =
    (if m4 \<and> (\<not> m100 \<or> m400) then 366 else 365) - (365 :: int)"
  by (cases m4; cases m100; cases m400) simp_all

lemma leap_shift:
  fixes y :: int
  assumes "p - q + s = len - 365"
  shows "365 * y + (a + p) - (b + q) + (c + s) = 365 * (y - 1) + a - b + c + len"
  using assms by simp

lemma days_before_year_Suc: "days_before_year (y + 1) = days_before_year y + year_len y"
proof -
  define a b c where "a = (y - 1) div 4" and "b = (y - 1) div 100" and "c = (y - 1) div 400"
  have a: "y div 4 = a + (if y mod 4 = 0 then 1 else 0)" unfolding a_def by (rule div_pred) simp
  have b: "y div 100 = b + (if y mod 100 = 0 then 1 else 0)" unfolding b_def by (rule div_pred) simp
  have c: "y div 400 = c + (if y mod 400 = 0 then 1 else 0)" unfolding c_def by (rule div_pred) simp
  have d1: "y mod 400 = 0 \<Longrightarrow> y mod 100 = 0"
    using dvd_trans [of "100::int" 400 y] by (simp add: mod_eq_0_iff_dvd)
  have d2: "y mod 100 = 0 \<Longrightarrow> y mod 4 = 0"
    using dvd_trans [of "4::int" 100 y] by (simp add: mod_eq_0_iff_dvd)
  have l: "days_before_year (y + 1) = 365 * y + y div 4 - y div 100 + y div 400"
    by (simp add: days_before_year_def)
  have r: "days_before_year y = 365 * (y - 1) + a - b + c"
    by (simp add: days_before_year_def a_def b_def c_def Let_def)
  have leap: "(if y mod 4 = 0 then 1 else 0) - (if y mod 100 = 0 then 1 else 0) +
      (if y mod 400 = 0 then 1 else 0) = year_len y - 365"
    unfolding year_len_def is_leap_def by (rule leap_sum) (use d1 d2 in blast)+
  show ?thesis unfolding l r a b c using leap by (rule leap_shift)
qed

lemma year_len_pos: "0 < year_len y"
  by (simp add: year_len_def)

lemma days_before_year_mono: "y \<le> y' \<Longrightarrow> days_before_year y \<le> days_before_year y'"
proof (induction y' rule: int_ge_induct)
  case base
  then show ?case by simp
next
  case (step i)
  then show ?case using days_before_year_Suc [of i] year_len_pos [of i] by simp
qed

lemma year_unique:
  assumes "days_before_year y + yd = days_before_year y' + yd'"
    and "0 \<le> yd" "yd < year_len y" "0 \<le> yd'" "yd' < year_len y'"
  shows "y = y'" and "yd = yd'"
proof -
  have *: "\<not> u < v" if "days_before_year u + p = days_before_year v + q" "p < year_len u" "0 \<le> q"
    for u v p q
  proof
    assume "u < v"
    then have "days_before_year (u + 1) \<le> days_before_year v" by (intro days_before_year_mono) simp
    with that show False using days_before_year_Suc [of u] by simp
  qed
  show "y = y'"
    using *[of y yd y' yd'] *[of y' yd' y yd] assms by fastforce
  then show "yd = yd'" using assms by simp
qed

lemma year_of_day_complete:
  "0 \<le> yd \<Longrightarrow> yd < year_len y \<Longrightarrow> year_of_day (days_before_year y + yd) = (y, yd)"
  using year_of_day_sound [of "days_before_year y + yd" "fst (year_of_day (days_before_year y + yd))"
      "snd (year_of_day (days_before_year y + yd))"]
    year_unique [of _ _ y yd]
  by (metis prod.collapse)

lemma find_month_sound:
  assumes "find_month ls m yd = (m', d)" and "ls \<noteq> []" and "0 \<le> yd" and "yd < sum_list ls"
  shows "m \<le> m' \<and> m' < m + int (length ls) \<and> 1 \<le> d \<and> d \<le> ls ! nat (m' - m)
    \<and> yd = sum_list (take (nat (m' - m)) ls) + (d - 1)"
  using assms
proof (induction ls m yd rule: find_month.induct)
  case (1 m yd)
  then show ?case by simp
next
  case (2 l ls m yd)
  show ?case
  proof (cases "yd < l")
    case True
    with 2 show ?thesis by auto
  next
    case False
    have ne: "ls \<noteq> []" using 2 False by auto
    have rec: "find_month ls (m + 1) (yd - l) = (m', d)" using 2 False ne by simp
    have IH: "m + 1 \<le> m' \<and> m' < m + 1 + int (length ls) \<and> 1 \<le> d \<and> d \<le> ls ! nat (m' - (m + 1))
      \<and> yd - l = sum_list (take (nat (m' - (m + 1))) ls) + (d - 1)"
      using "2.IH" [OF _ rec ne] 2 False ne by simp
    then have e: "nat (m' - m) = Suc (nat (m' - (m + 1)))" by linarith
    show ?thesis using IH by (simp add: e)
  qed
qed

lemma find_month_complete:
  assumes "\<forall>l \<in> set ls. 0 < l" and "k < length ls" and "1 \<le> d" and "d \<le> ls ! k"
  shows "find_month ls m (sum_list (take k ls) + (d - 1)) = (m + int k, d)"
  using assms
proof (induction ls arbitrary: k m)
  case Nil
  then show ?case by simp
next
  case (Cons l ls)
  show ?case
  proof (cases k)
    case 0
    then show ?thesis using Cons.prems by simp
  next
    case (Suc j)
    have nn: "0 \<le> sum_list (take j ls)"
      using Cons.prems(1) by (intro sum_list_nonneg) (meson in_set_takeD less_imp_le list.set_intros(2))
    have "find_month ls (m + 1) (sum_list (take j ls) + (d - 1)) = (m + 1 + int j, d)"
      using Cons Suc by simp
    moreover have "ls \<noteq> []" using Cons.prems(2) Suc by auto
    ultimately show ?thesis using Suc nn Cons.prems(3) by simp
  qed
qed

definition valid_date :: "int \<Rightarrow> int \<Rightarrow> int \<Rightarrow> bool" where
  "valid_date y m d \<longleftrightarrow> 1 \<le> m \<and> m \<le> 12 \<and> 1 \<le> d \<and> d \<le> month_len y m"

lemma month_lens_pos: "\<forall>l \<in> set (month_lens y). 0 < l"
  by (simp add: month_lens_def)

lemma days_before_month_bound:
  assumes "valid_date y m d"
  shows "0 \<le> days_before_month y m + (d - 1)" and "days_before_month y m + (d - 1) < year_len y"
proof -
  let ?ls = "month_lens y" and ?k = "nat (m - 1)"
  have k: "?k < length ?ls" using assms by (auto simp: valid_date_def)
  have nn: "0 \<le> sum_list (take ?k ?ls)"
    using month_lens_pos by (intro sum_list_nonneg) (meson in_set_takeD less_imp_le)
  then show "0 \<le> days_before_month y m + (d - 1)"
    using assms by (simp add: valid_date_def days_before_month_def)
  have "sum_list ?ls = sum_list (take ?k ?ls) + (?ls ! ?k + sum_list (drop (Suc ?k) ?ls))"
    using k by (metis append_take_drop_id Cons_nth_drop_Suc sum_list.Cons sum_list_append)
  moreover have "0 \<le> sum_list (drop (Suc ?k) ?ls)"
    using month_lens_pos by (intro sum_list_nonneg) (meson in_set_dropD less_imp_le)
  ultimately show "days_before_month y m + (d - 1) < year_len y"
    using assms sum_month_lens [of y] by (simp add: valid_date_def days_before_month_def month_len_def)
qed

lemma date_day_valid:
  "1 \<le> m \<Longrightarrow> m \<le> 12 \<Longrightarrow>
    date_day y m d = days_before_year y + days_before_month y m + (d - 1) - epoch_days"
  by (simp add: date_day_def)

lemma civil_date_day:
  assumes "valid_date y m d"
  shows "civil (date_day y m d) = (y, m, d)"
proof -
  have m: "1 \<le> m" "m \<le> 12" using assms by (auto simp: valid_date_def)
  have 1: "year_of_day (date_day y m d + epoch_days) = (y, days_before_month y m + (d - 1))"
    using year_of_day_complete [OF days_before_month_bound [OF assms]] date_day_valid [OF m, of y d]
    by (simp add: add.assoc)
  have 2: "find_month (month_lens y) 1 (days_before_month y m + (d - 1)) = (1 + int (nat (m - 1)), d)"
    unfolding days_before_month_def
    by (rule find_month_complete) (use assms month_lens_pos in \<open>auto simp: valid_date_def month_len_def\<close>)
  show ?thesis using 1 2 m by (simp add: civil_def)
qed

lemma civil_sound:
  assumes "civil z = (y, m, d)"
  shows "valid_date y m d" and "date_day y m d = z"
proof -
  obtain y' yd where yd: "year_of_day (z + epoch_days) = (y', yd)" by fastforce
  then obtain m' d' where md: "find_month (month_lens y') 1 yd = (m', d')" by fastforce
  have eq: "y' = y" "m' = m" "d' = d" using assms yd md by (simp_all add: civil_def)
  note snd = year_of_day_sound [OF yd]
  have ne: "month_lens y' \<noteq> []" by (simp add: month_lens_def)
  have f: "1 \<le> m' \<and> m' < 1 + int (length (month_lens y')) \<and> 1 \<le> d' \<and> d' \<le> month_lens y' ! nat (m' - 1)
      \<and> yd = sum_list (take (nat (m' - 1)) (month_lens y')) + (d' - 1)"
    using find_month_sound [OF md ne] snd sum_month_lens [of y'] by simp
  show "valid_date y m d" using f eq by (simp add: valid_date_def month_len_def)
  show "date_day y m d = z"
    using f eq snd(1) by (simp add: date_day_valid days_before_month_def)
qed

end
