(* ===== verification/Entities.thy ===== *)
theory Entities
  imports Specs GoFloat GoTime
begin

text \<open>
  The entities of \<open>backend/internal/domain/entities.go\<close> the modelled modules read and write,
  field by field; \<open>created_at\<close> is kept where a query reads it. A nullable column is an option,
  a JSON column is the value the program marshals into it (\<open>order_items.options\<close>,
  \<open>services.panel_meta\<close>, \<open>services.pending_upgrade\<close>) or the JSON document itself.
\<close>

text \<open>A JSON document; \<open>JInt\<close> is a number written without fraction or exponent.\<close>

datatype json = JNull | JBool bool | JInt int | JFrac rat | JStr string | JArr "json list"
  | JObj "(string \<times> json) list"

record User =
  u_ID :: int
  u_Email :: string
  u_Locale :: string
  u_EmailVerifiedAt :: "time option"

record Client =
  c_ID :: int
  c_UserID :: int
  c_FirstName :: string
  c_LastName :: string
  c_Company :: string
  c_Address1 :: string
  c_Address2 :: string
  c_City :: string
  c_State :: string
  c_Postcode :: string
  c_Country :: string
  c_Phone :: string
  c_CreditBalance :: int
  c_DeletedAt :: "time option"

definition HasRegistrantAddress :: "Client \<Rightarrow> bool" where
  "HasRegistrantAddress c \<longleftrightarrow> c_Address1 c \<noteq> [] \<and> c_City c \<noteq> [] \<and> c_State c \<noteq> []
     \<and> c_Postcode c \<noteq> [] \<and> c_Phone c \<noteq> []"

definition FullName :: "Client \<Rightarrow> string" where
  "FullName c =
     (if c_FirstName c = [] then c_LastName c
      else if c_LastName c = [] then c_FirstName c
      else c_FirstName c @ '' '' @ c_LastName c)"

record Product =
  p_ID :: int
  p_Name :: string
  p_Type :: ProductType
  p_Module :: ServerModuleName
  p_ServerGroupID :: "int option"
  p_PackageName :: string
  p_AutoSetup :: AutoSetup
  p_Configurable :: bool
  p_ShellAccess :: bool
  p_CGIAccess :: bool
  p_FeatureList :: string
  p_TemplatePackage :: string
  p_StockEnabled :: bool
  p_StockQty :: int
  p_Hidden :: bool
  p_WelcomeEmailTemplate :: string
  p_DeletedAt :: "time option"

record ProductPricing =
  pp_ProductID :: int
  pp_Cycle :: BillingCycle
  pp_Price :: int
  pp_SetupFee :: int
  pp_Currency :: string

record ConfigurableOptionValue =
  ov_ID :: int
  ov_OptionID :: int
  ov_Name :: string
  ov_PriceDeltas :: json
  ov_Sort :: int

text \<open>A Go \<open>map[string]int64\<close> read from a JSON column is the list of its entries.\<close>

record TLDPricing =
  tp_TLD :: string
  tp_Active :: bool
  tp_MinYears :: int
  tp_MaxYears :: int
  tp_RegisterPrices :: "(string \<times> int) list"
  tp_RenewPrices :: "(string \<times> int) list"
  tp_TransferPrice :: int

record PremiumDomainPricing =
  pd_DomainName :: string
  pd_RegisterPrice :: int
  pd_RenewPrice :: int
  pd_TransferPrice :: int

record PremiumLengthPricing =
  pl_TLD :: string
  pl_CharLength :: int
  pl_Price :: int

record DomainAddon =
  da_Key :: string
  da_Price :: int
  da_Active :: bool

record Coupon =
  cp_ID :: int
  cp_Code :: string
  cp_Type :: CouponType
  cp_Value :: int
  cp_AppliesTo :: json
  cp_MaxUses :: int
  cp_UsedCount :: int
  cp_Recurring :: bool
  cp_ExpiresAt :: "time option"
  cp_Active :: bool

record Order =
  o_ID :: int
  o_OrderNumber :: string
  o_ClientID :: int
  o_Status :: OrderStatus
  o_Subtotal :: int
  o_Discount :: int
  o_TaxTotal :: int
  o_Total :: int
  o_CouponID :: "int option"
  o_IP :: string
  o_Notes :: string
  o_CreatedAt :: time

record SpecSelection =
  ss_Key :: string
  ss_ProvisionKey :: string
  ss_Unit :: string
  ss_Qty :: int
  ss_Unlimited :: bool
  ss_Amount :: int

record OptionSelection =
  os_OptionID :: int
  os_ValueID :: int
  os_Value :: string
  os_Delta :: int

record itemOptions =
  io_Selections :: "OptionSelection list"
  io_Specs :: "SpecSelection list"
  io_DomainYears :: int
  io_DomainAddons :: "string list"
  io_DomainRenewPerYear :: int
  io_EPPCodeEnc :: string

record OrderItem =
  oi_ID :: int
  oi_OrderID :: int
  oi_ItemType :: OrderItemType
  oi_ProductID :: "int option"
  oi_Description :: string
  oi_Domain :: string
  oi_Cycle :: BillingCycle
  oi_UnitPrice :: int
  oi_SetupFee :: int
  oi_Options :: itemOptions
  oi_ServiceID :: "int option"
  oi_DomainID :: "int option"

record Invoice =
  i_ID :: int
  i_InvoiceNumber :: string
  i_ClientID :: int
  i_Status :: InvoiceStatus
  i_Subtotal :: int
  i_Discount :: int
  i_TaxRate :: float64
  i_TaxTotal :: int
  i_CreditApplied :: int
  i_Total :: int
  i_Currency :: string
  i_DueDate :: time
  i_PaidAt :: "time option"
  i_Notes :: string
  i_PDFObjectKey :: string
  i_CreatedAt :: time

record InvoiceItem =
  ii_ID :: int
  ii_InvoiceID :: int
  ii_Description :: string
  ii_Amount :: int
  ii_Taxed :: bool
  ii_RelatedType :: InvoiceItemRelatedType
  ii_RelatedID :: "int option"

record Transaction =
  t_ID :: int
  t_InvoiceID :: int
  t_Gateway :: Gateway
  t_MethodCode :: string
  t_MerchantOrderID :: "string option"
  t_GatewayReference :: string
  t_Amount :: int
  t_Fee :: int
  t_Status :: TransactionStatus
  t_Raw :: string
  t_PaidAt :: "time option"
  t_ExpiresAt :: "time option"
  t_CreatedAt :: time

record CreditLedgerEntry =
  cl_ID :: int
  cl_ClientID :: int
  cl_Delta :: int
  cl_BalanceAfter :: int
  cl_Reason :: string
  cl_RelatedInvoiceID :: "int option"

text \<open>
  \<open>services.panel_meta\<close>, a JSON object, by its keys: an absent key is \<open>False\<close>, the empty list or
  string, or \<open>None\<close>. \<open>suspended_at\<close> is an RFC 3339 time, so it is kept to the second. The last
  field holds the keys a panel's own answers add.
\<close>

record PanelMeta =
  pm_CancelAtPeriodEnd :: bool
  pm_ChosenSpecs :: "SpecSelection list"
  pm_SuspendedAt :: "time option"
  pm_PackageName :: string
  pm_Limits :: "(string \<times> int) list"
  pm_AccountIP :: string
  pm_Panel :: "string \<Rightarrow> json option"

definition no_meta :: PanelMeta where
  "no_meta = \<lparr>pm_CancelAtPeriodEnd = False, pm_ChosenSpecs = [], pm_SuspendedAt = None, pm_PackageName = [], pm_Limits = [],
     pm_AccountIP = [], pm_Panel = Map.empty\<rparr>"

lemma no_meta_simps [simp]: "pm_CancelAtPeriodEnd no_meta = False" "pm_SuspendedAt no_meta = None" "pm_ChosenSpecs no_meta = []"
  "pm_PackageName no_meta = []"
  by (simp_all add: no_meta_def)

record ServiceUpgrade =
  su_ProductID :: int
  su_Cycle :: BillingCycle
  su_RecurringAmount :: int
  su_InvoiceID :: int
  su_Specs :: "SpecSelection list"

record Service =
  s_ID :: int
  s_ClientID :: int
  s_OrderItemID :: "int option"
  s_ProductID :: int
  s_ServerID :: "int option"
  s_Domain :: string
  s_Username :: string
  s_PasswordEnc :: string
  s_Status :: ServiceStatus
  s_BillingCycle :: BillingCycle
  s_RecurringAmount :: int
  s_SetupFee :: int
  s_NextDueDate :: "time option"
  s_RegistrationDate :: "time option"
  s_TerminatedAt :: "time option"
  s_SuspendReason :: string
  s_PanelMeta :: PanelMeta
  s_CouponID :: "int option"
  s_PendingUpgrade :: "ServiceUpgrade option"
  s_Notes :: string
  s_CreatedAt :: time
  s_UpdatedAt :: time

record CancellationRequest =
  cx_ID :: int
  cx_ServiceID :: int
  cx_ClientID :: int
  cx_Mode :: string
  cx_Reason :: string
  cx_Status :: CancellationRequestStatus
  cx_RequestedAt :: time
  cx_DecidedAt :: "time option"
  cx_DecidedBy :: "int option"

datatype ServerGroupStrategy = StrategyRoundRobin | StrategyLeastUsed

record ServerGroup =
  sg_ID :: int
  sg_Name :: string
  sg_Strategy :: ServerGroupStrategy

record Server =
  sv_ID :: int
  sv_GroupID :: "int option"
  sv_Name :: string
  sv_Module :: ServerModuleName
  sv_Hostname :: string
  sv_Port :: int
  sv_Username :: string
  sv_PasswordEnc :: string
  sv_APITokenEnc :: string
  sv_UseSSL :: bool
  sv_Nameserver1 :: string
  sv_Nameserver2 :: string
  sv_Nameserver3 :: string
  sv_Nameserver4 :: string
  sv_MaxAccounts :: int
  sv_PackagePrefix :: string
  sv_IPAddress :: string
  sv_Active :: bool

section \<open>Control panels (ports.go)\<close>

record ServerConfig =
  sc_ID :: int
  sc_Name :: string
  sc_Module :: ServerModuleName
  sc_Hostname :: string
  sc_Port :: int
  sc_Username :: string
  sc_Password :: string
  sc_APIToken :: string
  sc_UseSSL :: bool
  sc_Nameserver1 :: string
  sc_Nameserver2 :: string

record CreateAccountParams =
  ca_Username :: string
  ca_Domain :: string
  ca_Password :: string
  ca_Package :: string
  ca_Email :: string
  ca_IP :: string

record PackageSpec =
  pk_Name :: string
  pk_FeatureList :: string
  pk_ShellAccess :: bool
  pk_CGIAccess :: bool
  pk_TemplatePackage :: string
  pk_Limits :: "(string \<times> int) list"

record AccountResult =
  ar_Username :: string
  ar_Domain :: string
  ar_IP :: string
  ar_Meta :: "string \<Rightarrow> json option"

record AccountInfo =
  ai_Username :: string
  ai_Domain :: string
  ai_Meta :: "string \<Rightarrow> json option"

text \<open>The calls that change something on a panel, with the id of the server.\<close>

datatype panel_call = CallCreate int CreateAccountParams | CallSuspend int string string | CallUnsuspend int string
  | CallTerminate int string | CallChangePackage int string string | CallChangePassword int string string
  | CallEnsurePackage int PackageSpec | CallDeletePackage int string

section \<open>Domains, mail and hunts\<close>

record Registrar =
  r_ID :: int
  r_Name :: string

record Domain =
  d_ID :: int
  d_ClientID :: int
  d_RegistrarID :: int
  d_Name :: string
  d_Status :: DomainStatus
  d_RegistrationDate :: "time option"
  d_ExpiryDate :: "time option"
  d_NextDueDate :: "time option"
  d_RecurringAmount :: int
  d_BillingCycle :: BillingCycle
  d_AutoRenew :: bool
  d_Nameservers :: "string list"
  d_EPPCodeEnc :: string
  d_IDProtection :: bool
  d_DNSManagementEnabled :: bool
  d_EmailForwardingEnabled :: bool
  d_DocumentRequired :: bool
  d_Verification :: DomainVerification
  d_RegistrarRefundable :: bool
  d_RefundAmount :: int
  d_RefundedAt :: "time option"

record EmailLogEntry =
  el_ID :: int
  el_UserID :: "int option"
  el_ToEmail :: string
  el_TemplateKey :: string
  el_Subject :: string
  el_Failed :: bool
  el_CreatedAt :: time

text \<open>A domain hunt: its billing and its lease. The hunt's own progress columns are left out.\<close>

record DomainSnipe =
  sn_ID :: int
  sn_ClientID :: int
  sn_DomainName :: string
  sn_Status :: SnipeStatus
  sn_InvoiceID :: "int option"
  sn_FeeAmount :: int
  sn_DomainAmount :: int
  sn_RefundableDomain :: int
  sn_RefundableFee :: int
  sn_RefundAmount :: int
  sn_RefundedAt :: "time option"
  sn_Attempts :: int
  sn_LastError :: string
  sn_LeaseOwner :: string
  sn_LeaseUntil :: "time option"
  sn_PaidAt :: "time option"
  sn_DeadlineAt :: "time option"
  sn_WonAt :: "time option"
  sn_CreatedAt :: time

record SnipeEvent =
  se_SnipeID :: int
  se_Kind :: string
  se_Message :: string

text \<open>One row of \<open>audit_log\<close>: actor, action, entity, entity id.\<close>

type_synonym AuditRow = "int \<times> string \<times> string \<times> int"

text \<open>An integration log row as provider, endpoint, status code and success.\<close>

type_synonym IntegrationRow = "string \<times> string \<times> int \<times> bool"

end
