(* ===== verification/Tax.thy ===== *)
theory Tax
  imports GoFloat
begin

text \<open>
  \<open>backend/internal/domain/tax.go\<close>: the tax on an amount, on top of it or contained in it,
  computed in \<open>float64\<close> and rounded to whole rupiah.
\<close>

record TaxResult =
  tr_Base :: int
  tr_Tax :: int
  tr_Gross :: int

text \<open>\<open>int64(math.Floor(v + 0.5))\<close>, mirrored for negative values.\<close>

definition roundHalfUp :: "float64 \<Rightarrow> int" where
  "roundHalfUp v = (if v < 0 then - \<lfloor>fadd (- v) (1 / 2)\<rfloor> else \<lfloor>fadd v (1 / 2)\<rfloor>)"

definition CalcTax :: "int \<Rightarrow> float64 \<Rightarrow> bool \<Rightarrow> TaxResult" where
  "CalcTax amount ratePercent inclusive =
     (if ratePercent \<le> 0 \<or> amount = 0 then \<lparr>tr_Base = amount, tr_Tax = 0, tr_Gross = amount\<rparr>
      else
        let rate = fdiv ratePercent 100 in
        if inclusive then
          let tax = roundHalfUp (fdiv (fmul (float_of_int amount) rate) (fadd 1 rate))
          in \<lparr>tr_Base = i64 (amount - tax), tr_Tax = tax, tr_Gross = amount\<rparr>
        else
          let tax = roundHalfUp (fmul (float_of_int amount) rate)
          in \<lparr>tr_Base = amount, tr_Tax = tax, tr_Gross = i64 (amount + tax)\<rparr>)"

text \<open>Half-up division on integers, the rounding the amounts are documented to have.\<close>

definition half_up_div :: "int \<Rightarrow> int \<Rightarrow> int" where
  "half_up_div a b = (2 * a + b) div (2 * b)"

section \<open>How far the computed tax is from the documented one\<close>

lemma fl_near:
  assumes "\<bar>x - y\<bar> \<le> d" and "0 \<le> y" and "y \<le> M" and "d \<le> M"
  shows "\<bar>fl x - y\<bar> \<le> d + ueps * (2 * M)"
proof -
  have "\<bar>x\<bar> \<le> 2 * M" using assms by linarith
  then have "ueps * \<bar>x\<bar> \<le> ueps * (2 * M)" by (intro mult_left_mono) (simp_all add: ueps_def)
  then show ?thesis using fl_err [of x] assms(1) by linarith
qed

lemma roundHalfUp_near:
  assumes "\<bar>v - y\<bar> \<le> d" and "0 \<le> v" and "0 \<le> y" and "y + 1 \<le> M" and "d \<le> M"
  shows "\<exists>w. roundHalfUp v = \<lfloor>w\<rfloor> \<and> \<bar>w - (y + 1 / 2)\<bar> \<le> d + ueps * (2 * M)"
proof (intro exI conjI)
  show "roundHalfUp v = \<lfloor>fadd v (1 / 2)\<rfloor>" using assms(2) by (simp add: roundHalfUp_def)
  show "\<bar>fadd v (1 / 2) - (y + 1 / 2)\<bar> \<le> d + ueps * (2 * M)"
    unfolding fadd_def by (rule fl_near) (use assms in linarith)+
qed

lemma half_up_floor:
  fixes w :: rat
  assumes "\<bar>w - (of_int A / of_int B + 1 / 2)\<bar> < 1 / (2 * of_int B)" and "0 < B"
  shows "\<not> 2 * B dvd 2 * A + B \<Longrightarrow> \<lfloor>w\<rfloor> = half_up_div A B"
    and "\<lfloor>w\<rfloor> = half_up_div A B \<or> \<lfloor>w\<rfloor> = half_up_div A B - 1"
proof -
  have "of_int (2 * A + B) / of_int (2 * B) = (of_int A / of_int B + 1 / 2 :: rat)"
    using assms(2) by (simp add: field_simps)
  then have near: "\<bar>w - of_int (2 * A + B) / of_int (2 * B)\<bar> < 1 / of_int (2 * B)"
    using assms(1) by simp
  note f = floor_near [of "2 * B" w "2 * A + B", OF _ near]
  show "\<not> 2 * B dvd 2 * A + B \<Longrightarrow> \<lfloor>w\<rfloor> = half_up_div A B"
    using f(1) assms(2) by (simp add: half_up_div_def)
  show "\<lfloor>w\<rfloor> = half_up_div A B \<or> \<lfloor>w\<rfloor> = half_up_div A B - 1"
    using f assms(2) by (cases "2 * B dvd 2 * A + B") (auto simp: half_up_div_def)
qed

text \<open>The rate as a fraction of one, for a whole percentage.\<close>

lemma rate_near:
  assumes "1 \<le> r" and "r \<le> 100"
  shows "\<bar>fdiv (of_int r) 100 - of_int r / 100\<bar> \<le> ueps" and "0 \<le> fdiv (of_int r) 100"
    and "fdiv (of_int r) 100 \<le> 2"
proof -
  have r: "0 \<le> (of_int r / 100 :: rat)" "of_int r / 100 \<le> (1 :: rat)" using assms by simp_all
  then have "ueps * \<bar>of_int r / 100\<bar> \<le> ueps * 1" by (intro mult_left_mono) (simp_all add: ueps_def)
  then show n: "\<bar>fdiv (of_int r) 100 - of_int r / 100\<bar> \<le> ueps"
    using fl_err [of "of_int r / 100"] by (simp add: fdiv_def)
  show "0 \<le> fdiv (of_int r) 100" using r(1) by (simp add: fdiv_def fl_nonneg)
  have "ueps \<le> 1" by (simp add: ueps_def)
  with n r(2) show "fdiv (of_int r) 100 \<le> 2" by linarith
qed

definition tax_limit :: int where
  "tax_limit = 2 ^ 40"

lemma product_near:
  assumes "0 \<le> a" and "a \<le> tax_limit" and "1 \<le> r" and "r \<le> 100"
  shows "\<bar>fmul (of_int a) (fdiv (of_int r) 100) - of_int (a * r) / 100\<bar> \<le> 3 / 2 ^ 13"
    and "0 \<le> fmul (of_int a) (fdiv (of_int r) 100)"
proof -
  let ?rate = "fdiv (of_int r) 100"
  have a: "0 \<le> (of_int a :: rat)" "of_int a \<le> (2 :: rat) ^ 40"
    using assms of_int_le_iff [where 'a = rat, of a "2 ^ 40"] by (simp_all add: tax_limit_def)
  have "\<bar>of_int a * ?rate - of_int a * (of_int r / 100)\<bar> = of_int a * \<bar>?rate - of_int r / 100\<bar>"
  proof -
    have "of_int a * ?rate - of_int a * (of_int r / 100) = of_int a * (?rate - of_int r / 100)"
      by (simp only: right_diff_distrib)
    then show ?thesis using a(1) by (simp only: abs_mult abs_of_nonneg)
  qed
  also have "\<dots> \<le> 2 ^ 40 * ueps"
    using rate_near(1) [OF assms(3,4)] a by (intro mult_mono) simp_all
  finally have 1: "\<bar>of_int a * ?rate - of_int (a * r) / 100\<bar> \<le> 1 / 2 ^ 13" by (simp add: ueps_def)
  have "of_int a * (of_int r / 100) \<le> 2 ^ 40 * (1 :: rat)" using a assms by (intro mult_mono) simp_all
  then have 2: "of_int (a * r) / 100 \<le> (2 :: rat) ^ 40" by simp
  have 3: "0 \<le> (of_int (a * r) / 100 :: rat)" using assms by simp
  have "\<bar>fl (of_int a * ?rate) - of_int (a * r) / 100\<bar> \<le> 1 / 2 ^ 13 + ueps * (2 * 2 ^ 40)"
    by (rule fl_near [OF 1 3 2]) simp
  then show "\<bar>fmul (of_int a) ?rate - of_int (a * r) / 100\<bar> \<le> 3 / 2 ^ 13"
    by (simp add: fmul_def ueps_def)
  show "0 \<le> fmul (of_int a) ?rate" using a rate_near(2) [OF assms(3,4)] by (simp add: fmul_def fl_nonneg)
qed

lemma exclusive_near:
  assumes "0 \<le> a" and "a \<le> tax_limit" and "1 \<le> r" and "r \<le> 100"
  shows "\<exists>w :: rat. roundHalfUp (fmul (of_int a) (fdiv (of_int r) 100)) = \<lfloor>w\<rfloor>
    \<and> \<bar>w - (of_int (a * r) / of_int 100 + 1 / 2)\<bar> < 1 / (2 * of_int 100)"
proof -
  have le: "(of_int (a * r) :: rat) / 100 \<le> 2 ^ 40"
  proof -
    have "a * r \<le> 2 ^ 40 * 100" using assms unfolding tax_limit_def by (intro mult_mono) simp_all
    then show ?thesis using of_int_le_iff [where 'a = rat, of "a * r" "2 ^ 40 * 100"] by simp
  qed
  obtain w where w: "roundHalfUp (fmul (of_int a) (fdiv (of_int r) 100)) = \<lfloor>w\<rfloor>"
    "\<bar>w - (of_int (a * r) / 100 + 1 / 2)\<bar> \<le> 3 / 2 ^ 13 + ueps * (2 * (2 ^ 40 + 1))"
    using roundHalfUp_near [OF product_near [OF assms], where M = "2 ^ 40 + 1"] le assms by auto
  then show ?thesis by (intro exI [of _ w]) (simp add: ueps_def)
qed

lemma quotient_diff:
  fixes p q P Q :: rat
  assumes "0 < q" and "0 < Q"
  shows "p / q - P / Q = ((p - P) - (P / Q) * (q - Q)) / q"
  using assms by (simp add: field_simps)

lemma inclusive_near:
  assumes "0 \<le> a" and "a \<le> tax_limit" and "1 \<le> r" and "r \<le> 100"
  shows "\<exists>w :: rat. roundHalfUp (fdiv (fmul (of_int a) (fdiv (of_int r) 100)) (fadd 1 (fdiv (of_int r) 100))) = \<lfloor>w\<rfloor>
    \<and> \<bar>w - (of_int (a * r) / of_int (100 + r) + 1 / 2)\<bar> < 1 / (2 * of_int (100 + r))"
proof -
  let ?rate = "fdiv (of_int r) 100"
  let ?p = "fmul (of_int a) ?rate" and ?q = "fadd 1 ?rate"
  let ?P = "of_int (a * r) / 100 :: rat" and ?Q = "1 + of_int r / 100 :: rat"
  have r: "1 \<le> (of_int r :: rat)" "of_int r \<le> (100 :: rat)" using assms by simp_all
  have P: "0 \<le> ?P" "?P \<le> 2 ^ 40"
  proof -
    show "0 \<le> ?P" using assms by simp
    have "a * r \<le> 2 ^ 40 * 100" using assms unfolding tax_limit_def by (intro mult_mono) simp_all
    then show "?P \<le> 2 ^ 40" using of_int_le_iff [where 'a = rat, of "a * r" "2 ^ 40 * 100"] by simp
  qed
  have Q: "1 \<le> ?Q" "?Q \<le> 2" using r by simp_all
  have q: "\<bar>?q - ?Q\<bar> \<le> ueps + ueps * (2 * 2)"
    unfolding fadd_def by (rule fl_near) (use rate_near(1) [OF assms(3,4)] Q in \<open>auto simp: ueps_def\<close>)
  have "ueps + ueps * (2 * 2) \<le> 1 / 2" by (simp add: ueps_def)
  then have q1: "1 / 2 \<le> ?q" using q Q(1) by linarith
  have quot: "?p / ?q - ?P / ?Q = ((?p - ?P) - (?P / ?Q) * (?q - ?Q)) / ?q"
    by (rule quotient_diff) (use q1 Q in linarith)+
  have PQ: "0 \<le> ?P / ?Q" "?P / ?Q \<le> 2 ^ 40"
    using P Q by (auto simp: divide_le_eq intro: order_trans mult_left_mono)
  have "\<bar>(?P / ?Q) * (?q - ?Q)\<bar> \<le> 2 ^ 40 * (5 * ueps)"
    unfolding abs_mult
  proof (rule mult_mono)
    show "\<bar>?P / ?Q\<bar> \<le> 2 ^ 40" using PQ by (simp only: abs_of_nonneg)
    show "\<bar>?q - ?Q\<bar> \<le> 5 * ueps" using q by linarith
  qed (simp_all add: ueps_def)
  then have num: "\<bar>(?p - ?P) - (?P / ?Q) * (?q - ?Q)\<bar> \<le> 8 / 2 ^ 13"
  proof -
    have "\<bar>x - y\<bar> \<le> 8 / 2 ^ 13" if "\<bar>x\<bar> \<le> 3 / 2 ^ 13" and "\<bar>y\<bar> \<le> 2 ^ 40 * (5 * ueps)" for x y :: rat
    proof -
      have "2 ^ 40 * (5 * ueps) = 5 / 2 ^ 13" by (simp add: ueps_def)
      then show ?thesis using that by linarith
    qed
    then show ?thesis using product_near(1) [OF assms] \<open>\<bar>(?P / ?Q) * (?q - ?Q)\<bar> \<le> _\<close> by blast
  qed
  have "\<bar>?p / ?q - ?P / ?Q\<bar> \<le> (8 / 2 ^ 13) / (1 / 2)"
    unfolding quot abs_divide using num q1 by (intro frac_le) simp_all
  then have 1: "\<bar>?p / ?q - ?P / ?Q\<bar> \<le> 16 / 2 ^ 13" by simp
  have 2: "\<bar>fdiv ?p ?q - ?P / ?Q\<bar> \<le> 16 / 2 ^ 13 + ueps * (2 * 2 ^ 40)"
    unfolding fdiv_def [of ?p ?q] by (rule fl_near [OF 1 PQ]) simp
  have nn: "0 \<le> fdiv ?p ?q" using product_near(2) [OF assms] q1 by (simp add: fdiv_def fl_nonneg)
  have e: "?P / ?Q = of_int (a * r) / of_int (100 + r)" using r by (simp add: field_simps)
  obtain w where w: "roundHalfUp (fdiv ?p ?q) = \<lfloor>w\<rfloor>"
    "\<bar>w - (?P / ?Q + 1 / 2)\<bar> \<le> 16 / 2 ^ 13 + ueps * (2 * 2 ^ 40) + ueps * (2 * (2 ^ 40 + 1))"
    using roundHalfUp_near [OF 2 nn PQ(1), where M = "2 ^ 40 + 1"] PQ by (auto simp: ueps_def)
  have "\<bar>w - (?P / ?Q + 1 / 2)\<bar> < 1 / 400" using w(2) by (simp add: ueps_def)
  moreover have "1 / 400 \<le> 1 / (2 * of_int (100 + r) :: rat)" using r by (simp add: field_simps)
  ultimately show ?thesis using w(1) unfolding e by (intro exI [of _ w]) simp
qed

section \<open>What the tax is\<close>

lemma CalcTax_exclusive_eq:
  assumes "0 < a" and "a \<le> tax_limit" and "1 \<le> r" and "r \<le> 100"
  shows "tr_Tax (CalcTax a (of_int r) False) = half_up_div (a * r) 100
    \<or> tr_Tax (CalcTax a (of_int r) False) = half_up_div (a * r) 100 - 1"
    and "\<not> 200 dvd 2 * (a * r) + 100 \<Longrightarrow>
      tr_Tax (CalcTax a (of_int r) False) = half_up_div (a * r) 100"
proof -
  have f: "float_of_int a = of_int a" using assms by (intro float_of_int_exact) (auto simp: tax_limit_def)
  have t: "tr_Tax (CalcTax a (of_int r) False) = roundHalfUp (fmul (of_int a) (fdiv (of_int r) 100))"
    using assms by (simp add: CalcTax_def f Let_def)
  obtain w :: rat where w: "roundHalfUp (fmul (of_int a) (fdiv (of_int r) 100)) = \<lfloor>w\<rfloor>"
    "\<bar>w - (of_int (a * r) / of_int 100 + 1 / 2)\<bar> < 1 / (2 * of_int 100)"
    using exclusive_near [of a r] assms by auto
  show "tr_Tax (CalcTax a (of_int r) False) = half_up_div (a * r) 100
    \<or> tr_Tax (CalcTax a (of_int r) False) = half_up_div (a * r) 100 - 1"
    unfolding t w(1) by (rule half_up_floor(2) [OF w(2)]) simp
  show "tr_Tax (CalcTax a (of_int r) False) = half_up_div (a * r) 100"
    if "\<not> 200 dvd 2 * (a * r) + 100"
    unfolding t w(1) by (rule half_up_floor(1) [OF w(2)]) (use that in simp_all)
qed

lemma CalcTax_inclusive_eq:
  assumes "0 < a" and "a \<le> tax_limit" and "1 \<le> r" and "r \<le> 100"
  shows "tr_Tax (CalcTax a (of_int r) True) = half_up_div (a * r) (100 + r)
    \<or> tr_Tax (CalcTax a (of_int r) True) = half_up_div (a * r) (100 + r) - 1"
    and "\<not> 2 * (100 + r) dvd 2 * (a * r) + (100 + r) \<Longrightarrow>
      tr_Tax (CalcTax a (of_int r) True) = half_up_div (a * r) (100 + r)"
proof -
  have f: "float_of_int a = of_int a" using assms by (intro float_of_int_exact) (auto simp: tax_limit_def)
  have t: "tr_Tax (CalcTax a (of_int r) True) =
      roundHalfUp (fdiv (fmul (of_int a) (fdiv (of_int r) 100)) (fadd 1 (fdiv (of_int r) 100)))"
    using assms by (simp add: CalcTax_def f Let_def)
  obtain w :: rat where w:
    "roundHalfUp (fdiv (fmul (of_int a) (fdiv (of_int r) 100)) (fadd 1 (fdiv (of_int r) 100))) = \<lfloor>w\<rfloor>"
    "\<bar>w - (of_int (a * r) / of_int (100 + r) + 1 / 2)\<bar> < 1 / (2 * of_int (100 + r))"
    using inclusive_near [of a r] assms by auto
  show "tr_Tax (CalcTax a (of_int r) True) = half_up_div (a * r) (100 + r)
    \<or> tr_Tax (CalcTax a (of_int r) True) = half_up_div (a * r) (100 + r) - 1"
    unfolding t w(1) by (rule half_up_floor(2) [OF w(2)]) (use assms in simp)
  show "tr_Tax (CalcTax a (of_int r) True) = half_up_div (a * r) (100 + r)"
    if "\<not> 2 * (100 + r) dvd 2 * (a * r) + (100 + r)"
    unfolding t w(1) by (rule half_up_floor(1) [OF w(2)]) (use assms that in simp_all)
qed

lemma times_div_less_eq_dividend_int: "0 < b \<Longrightarrow> b * (a div b) \<le> (a :: int)"
  using mult_div_mod_eq [of b a] pos_mod_sign [of b a] by linarith

lemma half_up_div_bounds:
  assumes "0 \<le> A" and "0 < B" and "A \<le> B * M"
  shows "0 \<le> half_up_div A B" and "half_up_div A B \<le> M"
proof -
  show "0 \<le> half_up_div A B" using assms by (simp add: half_up_div_def pos_imp_zdiv_nonneg_iff)
  have "2 * A + B < 2 * B * (M + 1)" using assms by (simp add: algebra_simps)
  moreover have "2 * B * half_up_div A B \<le> 2 * A + B"
    using assms(2) unfolding half_up_div_def by (intro times_div_less_eq_dividend_int) simp
  ultimately have "2 * B * half_up_div A B < 2 * B * (M + 1)" by linarith
  then show "half_up_div A B \<le> M" using assms(2) by simp
qed

end
