(* ===== verification/Cycle.thy ===== *)
theory Cycle
  imports GoTime Tax Enums
begin

text \<open>
  \<open>backend/internal/domain/cycle.go\<close> and \<open>prorate.go\<close>: the length of a billing cycle, the
  date one cycle later with month ends clamped, and the charge for part of a cycle.
\<close>

fun CycleMonths :: "BillingCycle \<Rightarrow> int" where
  "CycleMonths CycleMonthly = 1"
| "CycleMonths CycleQuarterly = 3"
| "CycleMonths CycleSemiannually = 6"
| "CycleMonths CycleAnnually = 12"
| "CycleMonths CycleBiennially = 24"
| "CycleMonths _ = 0"

text \<open>Day 0 of the next month is the last day of this month.\<close>

definition daysIn :: "int \<Rightarrow> int \<Rightarrow> int" where
  "daysIn year month = (case civil (date_day year (month + 1) 0) of (_, _, d) \<Rightarrow> d)"

definition addMonthsClamped :: "time \<Rightarrow> int \<Rightarrow> time" where
  "addMonthsClamped t months =
     (case DateOf t of (y, m, d) \<Rightarrow>
      case civil (date_day y (m + months) 1) of (fy, fm, _) \<Rightarrow>
        let last = daysIn fy fm;
            d' = (if d > last then last else d)
        in mkDate fy fm d' (tod_of t))"

definition AddCycle :: "time \<Rightarrow> BillingCycle \<Rightarrow> time" where
  "AddCycle date c =
     (let months = CycleMonths c in if months = 0 then date else addMonthsClamped date months)"

text \<open>\<open>time.Time.Sub\<close> saturates at the ends of the \<open>int64\<close> duration.\<close>

definition dur_sub :: "time \<Rightarrow> time \<Rightarrow> int" where
  "dur_sub b a = max (- (2 ^ 63)) (min (2 ^ 63 - 1) (b - a))"

definition daysBetween :: "time \<Rightarrow> time \<Rightarrow> int" where
  "daysBetween a b = quo (dur_sub (day_of b * day_ns) (day_of a * day_ns)) day_ns"

definition Prorate :: "int \<Rightarrow> BillingCycle \<Rightarrow> time \<Rightarrow> time \<Rightarrow> int" where
  "Prorate cycleAmount cycle from to =
     (if CycleMonths cycle = 0 then cycleAmount
      else if \<not> to > from then 0
      else
        let cycleEnd = AddCycle from cycle;
            totalDays = daysBetween from cycleEnd
        in if totalDays \<le> 0 then cycleAmount
           else
             let usedDays = daysBetween from to
             in if usedDays \<ge> totalDays then cycleAmount
                else roundHalfUp (fdiv (fmul (float_of_int cycleAmount) (float_of_int usedDays)) (float_of_int totalDays)))"

section \<open>Months as one sequence\<close>

definition month_start :: "int \<Rightarrow> int" where
  "month_start k = days_before_year (k div 12) + days_before_month (k div 12) (k mod 12 + 1) - epoch_days"

definition month_size :: "int \<Rightarrow> int" where
  "month_size k = month_len (k div 12) (k mod 12 + 1)"

definition month_index :: "int \<Rightarrow> int \<Rightarrow> int" where
  "month_index y m = 12 * y + (m - 1)"

lemma date_day_month: "date_day y m d = month_start (month_index y m) + (d - 1)"
proof -
  have "month_index y m div 12 = y + (m - 1) div 12" "month_index y m mod 12 = (m - 1) mod 12"
    by (simp_all add: month_index_def)
  then show ?thesis by (simp add: date_day_def month_start_def Let_def)
qed

lemma month_cases:
  fixes m :: int
  assumes "0 \<le> m" and "m < 12"
  shows "m \<in> {0, 1, 2, 3, 4, 5, 6, 7, 8, 9, 10, 11}"
  using assms by simp presburger

lemma month_mod: "k mod 12 \<in> {0, 1, 2, 3, 4, 5, 6, 7, 8, 9, 10, 11 :: int}"
  by (rule month_cases) simp_all

lemma month_size_bounds: "28 \<le> month_size k" "month_size k \<le> 31"
  using month_mod [of k]
  by (auto simp: month_size_def month_len_def month_lens_def)

lemma month_start_Suc: "month_start (k + 1) = month_start k + month_size k"
proof (cases "k mod 12 = 11")
  case True
  then have "(k + 1) div 12 = k div 12 + 1" and "(k + 1) mod 12 = 0"
    by (simp_all add: div_add1_eq [of k 1] mod_add_eq [of k 12 1, symmetric])
  moreover have "year_len y = days_before_month y 12 + month_len y 12" for y
    by (simp add: year_len_def days_before_month_def month_len_def month_lens_def)
  moreover have "days_before_month y 1 = 0" for y by (simp add: days_before_month_def)
  ultimately show ?thesis
    using True days_before_year_Suc [of "k div 12"]
    by (simp add: month_start_def month_size_def add.commute)
next
  case False
  have b: "k mod 12 \<in> {0, 1, 2, 3, 4, 5, 6, 7, 8, 9, 10}"
    using False month_mod [of k] by auto
  then have "(k + 1) div 12 = k div 12" and "(k + 1) mod 12 = k mod 12 + 1"
    by (auto simp: div_add1_eq [of k 1] mod_add_eq [of k 12 1, symmetric])
  moreover have "days_before_month y (2 + k mod 12) = days_before_month y (k mod 12 + 1) + month_len y (k mod 12 + 1)" for y
    using b by (auto simp: days_before_month_def month_len_def month_lens_def numeral_eq_Suc)
  ultimately show ?thesis by (simp add: month_start_def month_size_def)
qed

lemma month_start_add: "month_start k + 28 * int n \<le> month_start (k + int n)"
  "month_start (k + int n) \<le> month_start k + 31 * int n"
proof (induction n)
  case (Suc n)
  { case 1 then show ?case using Suc month_start_Suc [of "k + int n"] month_size_bounds [of "k + int n"]
      by (simp add: add.assoc [symmetric]) (simp add: algebra_simps) }
  { case 2 then show ?case using Suc month_start_Suc [of "k + int n"] month_size_bounds [of "k + int n"]
      by (simp add: add.assoc [symmetric]) (simp add: algebra_simps) }
qed simp_all

lemma valid_date_month:
  "valid_date y m d \<longleftrightarrow> 1 \<le> m \<and> m \<le> 12 \<and> 1 \<le> d \<and> d \<le> month_size (month_index y m)"
proof -
  have "month_index y m div 12 = y" "month_index y m mod 12 = m - 1" if "1 \<le> m" "m \<le> 12"
    using that by (simp_all add: month_index_def)
  then show ?thesis by (auto simp: valid_date_def month_size_def)
qed

text \<open>Day \<open>d\<close> of month \<open>k\<close> reads back as that date.\<close>

lemma civil_month:
  assumes "1 \<le> d" and "d \<le> month_size k"
  shows "civil (month_start k + (d - 1)) = (k div 12, k mod 12 + 1, d)"
proof -
  have i: "month_index (k div 12) (k mod 12 + 1) = k" by (simp add: month_index_def)
  have b: "1 \<le> k mod 12 + 1" "k mod 12 + 1 \<le> 12" using month_mod [of k] by auto
  have "civil (date_day (k div 12) (k mod 12 + 1) d) = (k div 12, k mod 12 + 1, d)"
    by (rule civil_date_day) (use assms b in \<open>simp add: valid_date_month i\<close>)
  then show ?thesis by (simp add: date_day_month i)
qed

lemma daysIn_month: "daysIn (k div 12) (k mod 12 + 1) = month_size k"
proof -
  have "month_index (k div 12) (k mod 12 + 1 + 1) = k + 1" by (simp add: month_index_def)
  then have "date_day (k div 12) (k mod 12 + 1 + 1) 0 = month_start k + (month_size k - 1)"
    by (simp add: date_day_month month_start_Suc)
  then show ?thesis
    using civil_month [of "month_size k" k] month_size_bounds [of k] by (simp add: daysIn_def)
qed

section \<open>The date one cycle later\<close>

text \<open>An instant as its month, its day of the month and its time of day.\<close>

lemma time_split:
  obtains y m d where "DateOf t = (y, m, d)" and "1 \<le> m" and "m \<le> 12" and "1 \<le> d"
    and "d \<le> month_size (month_index y m)"
    and "day_of t = month_start (month_index y m) + (d - 1)"
proof -
  obtain y m d where c: "civil (day_of t) = (y, m, d)" by (metis prod_cases3)
  have v: "1 \<le> m \<and> m \<le> 12 \<and> 1 \<le> d \<and> d \<le> month_size (month_index y m)"
    using civil_sound(1) [OF c] by (simp only: valid_date_month)
  show thesis
  proof (rule that)
    show "DateOf t = (y, m, d)" using c by (simp only: DateOf_def)
    show "day_of t = month_start (month_index y m) + (d - 1)"
      using civil_sound(2) [OF c] by (simp only: date_day_month)
  qed (use v in simp_all)
qed

lemma day_of_mk: "0 \<le> x \<Longrightarrow> x < day_ns \<Longrightarrow> day_of (D * day_ns + x) = D"
  by (simp add: day_of_def)

lemma tod_of_mk: "0 \<le> x \<Longrightarrow> x < day_ns \<Longrightarrow> tod_of (D * day_ns + x) = x"
  by (simp add: tod_of_def)

lemma tod_of_bounds: "0 \<le> tod_of t" "tod_of t < day_ns"
  by (simp_all add: tod_of_def)

lemma time_parts: "t = day_of t * day_ns + tod_of t"
  by (simp add: day_of_def tod_of_def)

lemma addMonthsClamped_month:
  assumes "DateOf t = (y, m, d)"
  shows "addMonthsClamped t n =
    (month_start (month_index y m + n) + (min d (month_size (month_index y m + n)) - 1)) * day_ns + tod_of t"
proof -
  define k where "k = month_index y m + n"
  have i: "month_index y (m + n) = k" by (simp add: k_def month_index_def)
  have f: "civil (date_day y (m + n) 1) = (k div 12, k mod 12 + 1, 1)"
    using civil_month [of 1 k] month_size_bounds [of k] by (simp add: date_day_month i)
  have i': "month_index (k div 12) (k mod 12 + 1) = k" by (simp add: month_index_def)
  have "addMonthsClamped t n = mkDate (k div 12) (k mod 12 + 1) (min d (month_size k)) (tod_of t)"
    unfolding addMonthsClamped_def assms prod.case f by (simp add: daysIn_month Let_def min_def)
  then show ?thesis by (simp add: mkDate_def date_day_month i' flip: k_def)
qed

lemma addMonthsClamped_date:
  fixes n :: int
  assumes "DateOf t = (y, m, d)"
  defines "k \<equiv> month_index y m + n"
  shows "DateOf (addMonthsClamped t n) = (k div 12, k mod 12 + 1, min d (month_size k))"
    and "tod_of (addMonthsClamped t n) = tod_of t"
proof -
  have d: "1 \<le> d" using civil_sound(1) [of "day_of t" y m d] assms by (simp add: DateOf_def valid_date_def)
  note e = addMonthsClamped_month [OF assms(1), of n, folded k_def]
  show "tod_of (addMonthsClamped t n) = tod_of t"
    unfolding e by (rule tod_of_mk) (rule tod_of_bounds)+
  have "day_of (addMonthsClamped t n) = month_start k + (min d (month_size k) - 1)"
    unfolding e by (rule day_of_mk) (rule tod_of_bounds)+
  then show "DateOf (addMonthsClamped t n) = (k div 12, k mod 12 + 1, min d (month_size k))"
    using civil_month [of "min d (month_size k)" k] d month_size_bounds [of k] by (simp add: DateOf_def)
qed

lemma addMonthsClamped_days:
  assumes "1 \<le> n"
  shows "1 \<le> day_of (addMonthsClamped t n) - day_of t"
    and "day_of (addMonthsClamped t n) - day_of t \<le> 31 * n"
proof -
  obtain y m d where t: "DateOf t = (y, m, d)" "1 \<le> d" "d \<le> month_size (month_index y m)"
    "day_of t = month_start (month_index y m) + (d - 1)" using time_split [of t] by metis
  define k where "k = month_index y m"
  have r: "day_of (addMonthsClamped t n) = month_start (k + n) + (min d (month_size (k + n)) - 1)"
    unfolding addMonthsClamped_month [OF t(1)] k_def [symmetric] by (rule day_of_mk) (rule tod_of_bounds)+
  have up: "month_start (k + n) \<le> month_start k + 31 * n"
    using month_start_add(2) [of k "nat n"] assms by simp
  have lo: "month_start k + month_size k \<le> month_start (k + n)"
    using month_start_add(1) [of "k + 1" "nat (n - 1)"] assms month_start_Suc [of k] by simp
  show "1 \<le> day_of (addMonthsClamped t n) - day_of t"
    using lo t month_size_bounds [of "k + n"] unfolding r by (simp add: k_def)
  show "day_of (addMonthsClamped t n) - day_of t \<le> 31 * n"
    using up t unfolding r by (simp add: k_def)
qed

lemma CycleMonths_range: "0 \<le> CycleMonths c" "CycleMonths c \<le> 24"
  by (cases c; simp)+

lemma AddCycle_days:
  assumes "CycleMonths c \<noteq> 0"
  shows "1 \<le> day_of (AddCycle t c) - day_of t" and "day_of (AddCycle t c) - day_of t \<le> 744"
  using addMonthsClamped_days [of "CycleMonths c" t] assms CycleMonths_range [of c]
  by (simp_all add: AddCycle_def)

lemma day_of_less: "day_of a < day_of b \<Longrightarrow> a < b"
  using time_parts [of a] time_parts [of b] tod_of_bounds [of a] tod_of_bounds [of b]
    mult_right_mono [of "day_of a + 1" "day_of b" day_ns] by (simp add: algebra_simps)

lemma day_of_mono: "a \<le> b \<Longrightarrow> day_of a \<le> day_of b"
  unfolding day_of_def by (rule zdiv_mono1) simp_all

section \<open>Part of a cycle\<close>

lemma day_ns_facts [simp]: "day_ns \<noteq> 0" "0 \<le> day_ns"
  by (simp_all add: day_ns_def)

lemma daysBetween_days:
  assumes "0 \<le> day_of b - day_of a" and "day_of b - day_of a \<le> 100000"
  shows "daysBetween a b = day_of b - day_of a"
proof -
  let ?n = "day_of b - day_of a"
  have "?n * day_ns \<le> 100000 * day_ns" using assms by (intro mult_right_mono) (simp_all add: day_ns_def)
  then have "?n * day_ns \<le> 2 ^ 63 - 1" and "0 \<le> ?n * day_ns" using assms by (simp_all add: day_ns_def)
  then have "dur_sub (day_of b * day_ns) (day_of a * day_ns) = ?n * day_ns"
    unfolding dur_sub_def left_diff_distrib by linarith
  then show ?thesis using \<open>0 \<le> ?n * day_ns\<close> by (simp add: daysBetween_def quo_pos del: mult_nonneg_nonneg)
qed

lemma daysBetween_far:
  assumes "100000 < day_of b - day_of a"
  shows "100000 \<le> daysBetween a b"
proof -
  let ?n = "day_of b - day_of a"
  have "100000 * day_ns \<le> ?n * day_ns" using assms by (intro mult_right_mono) (simp_all add: day_ns_def)
  then have "100000 * day_ns \<le> min (2 ^ 63 - 1) (?n * day_ns)" by (simp add: day_ns_def)
  then have s: "100000 * day_ns \<le> dur_sub (day_of b * day_ns) (day_of a * day_ns)"
    unfolding dur_sub_def left_diff_distrib by linarith
  then have "100000 \<le> dur_sub (day_of b * day_ns) (day_of a * day_ns) div day_ns"
    using zdiv_mono1 [OF s day_ns_pos] by simp
  moreover have "0 \<le> dur_sub (day_of b * day_ns) (day_of a * day_ns)"
    using s by (simp add: day_ns_def)
  ultimately show ?thesis by (simp add: daysBetween_def quo_pos)
qed

text \<open>The division the charge is rounded from, with the rounding exact even at ties.\<close>

lemma prorate_round:
  assumes a: "0 \<le> a" "a \<le> tax_limit" and u: "0 \<le> u" "u < T" and T: "T \<le> 744"
  shows "roundHalfUp (fdiv (fmul (float_of_int a) (float_of_int u)) (float_of_int T)) = half_up_div (a * u) T"
proof -
  let ?N = "a * u"
  have "?N \<le> 2 ^ 40 * 744" using a u T unfolding tax_limit_def by (intro mult_mono) simp_all
  then have N: "0 \<le> ?N" "?N < 2 ^ 53" using a u by simp_all
  have f: "float_of_int a = of_int a" "float_of_int u = of_int u" "float_of_int T = of_int T"
    using a u T by (auto intro!: float_of_int_exact simp: tax_limit_def)
  have m: "fmul (of_int a) (of_int u) = of_int ?N" using fl_int [OF N] by (simp add: fmul_def)
  have le: "?N \<le> T * 2 ^ 40"
    using mult_mono [of a "2 ^ 40" u T] a u unfolding tax_limit_def by (simp add: mult.commute)
  have Tp: "0 < (of_int T :: rat)" using u by simp
  have y: "0 \<le> (of_int ?N / of_int T :: rat)" "of_int ?N / of_int T \<le> (2 :: rat) ^ 40"
  proof -
    have "0 \<le> (of_int ?N :: rat)" using N(1) by (simp only: of_int_0_le_iff)
    then show "0 \<le> (of_int ?N / of_int T :: rat)" using Tp by simp
    show "of_int ?N / of_int T \<le> (2 :: rat) ^ 40"
      using of_int_le_iff [where 'a = rat, THEN iffD2, OF le] Tp by (simp add: divide_le_eq mult.commute)
  qed
  have v: "\<bar>fl (of_int ?N / of_int T) - of_int ?N / of_int T\<bar> \<le> 0 + ueps * (2 * 2 ^ 40)"
    by (rule fl_near) (use y in simp_all)
  have "roundHalfUp (fl (of_int ?N / of_int T)) = half_up_div ?N T"
  proof (cases "2 * T dvd 2 * ?N + T")
    case True
    then obtain q where q: "2 * ?N + T = 2 * T * q" by (elim dvdE)
    have e: "of_int ?N / of_int T = (of_int (2 * q - 1) / 2 :: rat)"
    proof -
      have "of_int (2 * ?N + T) = (of_int (2 * T * q) :: rat)" using q by simp
      then show ?thesis using Tp by (simp add: field_simps)
    qed
    have hq: "half_up_div ?N T = q" using q u by (simp add: half_up_div_def)
    have b: "q \<le> 2 ^ 40" "0 \<le> q" using half_up_div_bounds [of ?N T "2 ^ 40"] hq N u le by auto
    have "0 < q"
    proof -
      have "0 < 2 * T * q" using q N u by linarith
      then show ?thesis using u by (simp add: zero_less_mult_iff)
    qed
    then have "fl (of_int ?N / of_int T) = of_int (2 * q - 1) / 2"
      unfolding e using fl_half_int [of "2 * q - 1"] b by simp
    moreover have "of_int (2 * q - 1) / 2 + 1 / 2 = (of_int q :: rat)" by (simp add: field_simps)
    moreover have "fl (of_int q) = of_int q" using b by (intro fl_int) simp_all
    ultimately have "fadd (fl (of_int ?N / of_int T)) (1 / 2) = of_int q" by (simp only: fadd_def)
    moreover have "\<not> fl (of_int ?N / of_int T) < 0" using fl_nonneg [OF y(1)] by simp
    ultimately have "roundHalfUp (fl (of_int ?N / of_int T)) = q"
      unfolding roundHalfUp_def by (simp only: if_False floor_of_int)
    then show ?thesis by (simp only: hq)
  next
    case False
    obtain w :: rat where w: "roundHalfUp (fl (of_int ?N / of_int T)) = \<lfloor>w\<rfloor>"
      "\<bar>w - (of_int ?N / of_int T + 1 / 2)\<bar> \<le> 0 + ueps * (2 * 2 ^ 40) + ueps * (2 * (2 ^ 40 + 1))"
      using roundHalfUp_near [OF v fl_nonneg [OF y(1)] y(1), where M = "2 ^ 40 + 1"] y
      by (auto simp: ueps_def)
    have "\<bar>w - (of_int ?N / of_int T + 1 / 2)\<bar> < 1 / 1488" using w(2) by (simp add: ueps_def)
    moreover have "1 / 1488 \<le> 1 / (2 * of_int T :: rat)" using Tp T by (simp add: field_simps)
    ultimately have "\<bar>w - (of_int ?N / of_int T + 1 / 2)\<bar> < 1 / (2 * of_int T)" by linarith
    from half_up_floor(1) [OF this] show ?thesis using False u w(1) by simp
  qed
  then show ?thesis unfolding f m by (simp add: fdiv_def)
qed

definition cycle_days :: "time \<Rightarrow> BillingCycle \<Rightarrow> int" where
  "cycle_days from c = day_of (AddCycle from c) - day_of from"

lemma Prorate_cases:
  assumes "0 \<le> a" and "a \<le> tax_limit" and "CycleMonths c \<noteq> 0"
  shows "Prorate a c from to =
    (if to \<le> from then 0
     else if cycle_days from c \<le> day_of to - day_of from then a
     else half_up_div (a * (day_of to - day_of from)) (cycle_days from c))"
proof (cases "to \<le> from")
  case True
  then show ?thesis using assms by (simp add: Prorate_def)
next
  case False
  note d = AddCycle_days [OF assms(3), of "from"]
  have tot: "daysBetween from (AddCycle from c) = cycle_days from c" "1 \<le> cycle_days from c" "cycle_days from c \<le> 744"
    using d by (simp_all add: daysBetween_days cycle_days_def)
  have nn: "0 \<le> day_of to - day_of from" using False day_of_mono [of "from" "to"] by simp
  have used: "daysBetween from to = day_of to - day_of from \<or> (100000 \<le> daysBetween from to \<and> 100000 < day_of to - day_of from)"
    using daysBetween_days [OF nn] daysBetween_far [of "to" "from"] by fastforce
  show ?thesis
    using used False assms tot nn by (auto simp: Prorate_def Let_def prorate_round)
qed

end
