(* ===== verification/StateMachine.thy ===== *)
theory StateMachine
  imports Enums
begin

text \<open>
  \<open>backend/internal/domain/statemachine.go\<close>: the transition tables, the check of one move and
  the typed transition functions. A Go map from a state to the slice of its successors is a
  function to lists; a missing key reads as the empty slice.
\<close>

fun invoiceTransitions :: "InvoiceStatus \<Rightarrow> InvoiceStatus list" where
  "invoiceTransitions InvoiceDraft = [InvoiceUnpaid]"
| "invoiceTransitions InvoiceUnpaid = [InvoicePaid, InvoiceCancelled, InvoiceOverdue]"
| "invoiceTransitions InvoiceOverdue = [InvoicePaid, InvoiceCancelled]"
| "invoiceTransitions InvoicePaid = [InvoiceRefunded]"
| "invoiceTransitions _ = []"

fun orderTransitions :: "OrderStatus \<Rightarrow> OrderStatus list" where
  "orderTransitions OrderPending = [OrderActive, OrderFraud, OrderCancelled]"
| "orderTransitions _ = []"

fun serviceTransitions :: "ServiceStatus \<Rightarrow> ServiceStatus list" where
  "serviceTransitions ServicePending = [ServiceActive, ServiceCancelled]"
| "serviceTransitions ServiceActive = [ServiceSuspended, ServiceTerminated]"
| "serviceTransitions ServiceSuspended = [ServiceActive, ServiceTerminated]"
| "serviceTransitions _ = []"

fun domainTransitions :: "DomainStatus \<Rightarrow> DomainStatus list" where
  "domainTransitions DomainPending = [DomainActive, DomainCancelled, DomainRejected]"
| "domainTransitions DomainActive = [DomainExpired, DomainSuspended, DomainRejected]"
| "domainTransitions DomainPendingTransfer = [DomainActive, DomainCancelled, DomainRejected]"
| "domainTransitions DomainExpired = [DomainActive]"
| "domainTransitions DomainSuspended = [DomainActive, DomainRejected, DomainCancelled]"
| "domainTransitions _ = []"

fun cancellationRequestTransitions :: "CancellationRequestStatus \<Rightarrow> CancellationRequestStatus list" where
  "cancellationRequestTransitions CancellationPending =
     [CancellationAccepted, CancellationRejected, CancellationAutoProcessed]"
| "cancellationRequestTransitions _ = []"

fun snipeTransitions :: "SnipeStatus \<Rightarrow> SnipeStatus list" where
  "snipeTransitions SnipePendingPayment = [SnipeActive, SnipeCancelled, SnipeFailed]"
| "snipeTransitions SnipeActive = [SnipeWon, SnipeExpired, SnipeCancelled, SnipeFailed]"
| "snipeTransitions _ = []"

text \<open>The loop of \<open>canTransition\<close> over the allowed successors.\<close>

fun scan_allowed :: "'s list \<Rightarrow> 's \<Rightarrow> bool" where
  "scan_allowed [] to = False"
| "scan_allowed (a # as) to = (if a = to then True else scan_allowed as to)"

definition canTransition :: "('s \<Rightarrow> 's list) \<Rightarrow> 's \<Rightarrow> 's \<Rightarrow> bool" where
  "canTransition table from to = scan_allowed (table from) to"

definition InvoiceCanTransition :: "InvoiceStatus \<Rightarrow> InvoiceStatus \<Rightarrow> bool" where
  "InvoiceCanTransition from to = canTransition invoiceTransitions from to"

definition OrderCanTransition :: "OrderStatus \<Rightarrow> OrderStatus \<Rightarrow> bool" where
  "OrderCanTransition from to = canTransition orderTransitions from to"

definition ServiceCanTransition :: "ServiceStatus \<Rightarrow> ServiceStatus \<Rightarrow> bool" where
  "ServiceCanTransition from to = canTransition serviceTransitions from to"

definition DomainCanTransition :: "DomainStatus \<Rightarrow> DomainStatus \<Rightarrow> bool" where
  "DomainCanTransition from to = canTransition domainTransitions from to"

definition CancellationRequestCanTransition ::
  "CancellationRequestStatus \<Rightarrow> CancellationRequestStatus \<Rightarrow> bool" where
  "CancellationRequestCanTransition from to = canTransition cancellationRequestTransitions from to"

definition SnipeCanTransition :: "SnipeStatus \<Rightarrow> SnipeStatus \<Rightarrow> bool" where
  "SnipeCanTransition from to = canTransition snipeTransitions from to"

definition SnipeTerminal :: "SnipeStatus \<Rightarrow> bool" where
  "SnipeTerminal s \<longleftrightarrow> (case s of SnipeWon \<Rightarrow> True | SnipeExpired \<Rightarrow> True | SnipeCancelled \<Rightarrow> True
     | SnipeFailed \<Rightarrow> True | _ \<Rightarrow> False)"

definition cannot_msg :: "string \<Rightarrow> string \<Rightarrow> string \<Rightarrow> string" where
  "cannot_msg entity from to = entity @ '' cannot transition from '' @ from @ '' to '' @ to"

text \<open>
  The typed transition functions return the new status, or the old one with a CONFLICT error.
  Every caller drops the status on an error, so the error is all that is kept of that case.
\<close>

definition TransitionInvoice :: "InvoiceStatus \<Rightarrow> InvoiceStatus \<Rightarrow> err + InvoiceStatus" where
  "TransitionInvoice from to =
     (if \<not> InvoiceCanTransition from to then Inl (Conflict (cannot_msg ''invoice'' (invoice_status_str from) (invoice_status_str to))) else Inr to)"

definition TransitionOrder :: "OrderStatus \<Rightarrow> OrderStatus \<Rightarrow> err + OrderStatus" where
  "TransitionOrder from to =
     (if \<not> OrderCanTransition from to then Inl (Conflict (cannot_msg ''order'' (order_status_str from) (order_status_str to))) else Inr to)"

definition TransitionService :: "ServiceStatus \<Rightarrow> ServiceStatus \<Rightarrow> err + ServiceStatus" where
  "TransitionService from to =
     (if \<not> ServiceCanTransition from to then Inl (Conflict (cannot_msg ''service'' (service_status_str from) (service_status_str to))) else Inr to)"

definition TransitionDomain :: "DomainStatus \<Rightarrow> DomainStatus \<Rightarrow> err + DomainStatus" where
  "TransitionDomain from to =
     (if \<not> DomainCanTransition from to then Inl (Conflict (cannot_msg ''domain'' (domain_status_str from) (domain_status_str to))) else Inr to)"

definition TransitionSnipe :: "SnipeStatus \<Rightarrow> SnipeStatus \<Rightarrow> err + SnipeStatus" where
  "TransitionSnipe from to =
     (if \<not> SnipeCanTransition from to then Inl (Conflict (cannot_msg ''snipe'' (snipe_status_str from) (snipe_status_str to))) else Inr to)"

definition TransitionCancellationRequest ::
  "CancellationRequestStatus \<Rightarrow> CancellationRequestStatus \<Rightarrow> err + CancellationRequestStatus" where
  "TransitionCancellationRequest from to =
     (if \<not> CancellationRequestCanTransition from to
      then Inl (Conflict (cannot_msg ''cancellation request'' (cancellation_status_str from) (cancellation_status_str to))) else Inr to)"

section \<open>Lifecycles: runs of a transition table\<close>

text \<open>
  What every status column of the program relies on, stated once: a status moves only along its
  table, so a property of the start that no move leaves holds for ever, a terminal status is
  never left, and a rank that every move raises bounds the number of moves.
\<close>

lemma scan_allowed_iff [simp]: "scan_allowed as to \<longleftrightarrow> to \<in> set as"
  by (induction as) auto

inductive runs :: "('s \<Rightarrow> 's list) \<Rightarrow> 's \<Rightarrow> 's list \<Rightarrow> 's \<Rightarrow> bool" for table where
  run_nil: "runs table s [] s"
| run_step: "canTransition table s t \<Longrightarrow> runs table t ts u \<Longrightarrow> runs table s (t # ts) u"

inductive_cases runs_NilE: "runs table s [] u"
inductive_cases runs_ConsE: "runs table s (t # ts) u"

locale lifecycle =
  fixes table :: "'s \<Rightarrow> 's list"
    and can :: "'s \<Rightarrow> 's \<Rightarrow> bool"
    and transition :: "'s \<Rightarrow> 's \<Rightarrow> err + 's"
  assumes can_table: "can a b = canTransition table a b"
    and transition_ok: "can a b \<Longrightarrow> transition a b = Inr b"
    and transition_bad: "\<not> can a b \<Longrightarrow> \<exists>m. transition a b = Inl (Conflict m)"
begin

lemma transition_iff: "transition a b = Inr x \<longleftrightarrow> can a b \<and> x = b"
  using transition_ok [of a b] transition_bad [of a b] by (cases "can a b") auto

lemma transition_err_code: "transition a b = Inl e \<Longrightarrow> err_code e = CodeConflict"
  using transition_ok [of a b] transition_bad [of a b] by (cases "can a b") auto

lemma terminal_stays: "table s = [] \<Longrightarrow> runs table s ts u \<Longrightarrow> ts = [] \<and> u = s"
  by (cases ts) (auto elim: runs_NilE runs_ConsE simp: canTransition_def)

lemma runs_invariant:
  assumes "runs table s ts u" and "I s" and "\<And>a b. I a \<Longrightarrow> can a b \<Longrightarrow> I b"
  shows "I u"
  using assms by (induction rule: runs.induct) (auto simp: can_table)

lemma rank_bounds_run:
  fixes rank :: "'s \<Rightarrow> nat"
  assumes "runs table s ts u" and "\<And>a b. can a b \<Longrightarrow> rank a < rank b"
  shows "rank s + length ts \<le> rank u"
  using assms(1)
proof (induction rule: runs.induct)
  case (run_nil s)
  then show ?case by simp
next
  case (run_step s t ts u)
  then have "rank s < rank t" using assms(2) by (simp add: can_table)
  with run_step show ?case by simp
qed

end

lemmas machine_defs = InvoiceCanTransition_def OrderCanTransition_def ServiceCanTransition_def
  DomainCanTransition_def CancellationRequestCanTransition_def SnipeCanTransition_def
  TransitionInvoice_def TransitionOrder_def TransitionService_def TransitionDomain_def
  TransitionSnipe_def TransitionCancellationRequest_def

interpretation invoice_sm: lifecycle invoiceTransitions InvoiceCanTransition TransitionInvoice
  by unfold_locales (auto simp: machine_defs)

interpretation order_sm: lifecycle orderTransitions OrderCanTransition TransitionOrder
  by unfold_locales (auto simp: machine_defs)

interpretation service_sm: lifecycle serviceTransitions ServiceCanTransition TransitionService
  by unfold_locales (auto simp: machine_defs)

interpretation domain_sm: lifecycle domainTransitions DomainCanTransition TransitionDomain
  by unfold_locales (auto simp: machine_defs)

interpretation cancellation_sm: lifecycle cancellationRequestTransitions
    CancellationRequestCanTransition TransitionCancellationRequest
  by unfold_locales (auto simp: machine_defs)

interpretation snipe_sm: lifecycle snipeTransitions SnipeCanTransition TransitionSnipe
  by unfold_locales (auto simp: machine_defs)

lemma InvoiceCanTransition_iff [simp]:
  "InvoiceCanTransition from to \<longleftrightarrow> to \<in> set (invoiceTransitions from)"
  by (simp add: InvoiceCanTransition_def canTransition_def)

lemma OrderCanTransition_iff [simp]:
  "OrderCanTransition from to \<longleftrightarrow> to \<in> set (orderTransitions from)"
  by (simp add: OrderCanTransition_def canTransition_def)

fun invoice_rank :: "InvoiceStatus \<Rightarrow> nat" where
  "invoice_rank InvoiceDraft = 0"
| "invoice_rank InvoiceUnpaid = 1"
| "invoice_rank InvoiceOverdue = 2"
| "invoice_rank InvoicePaid = 3"
| "invoice_rank InvoiceCancelled = 3"
| "invoice_rank InvoiceRefunded = 4"

lemma invoice_rank_step: "InvoiceCanTransition a b \<Longrightarrow> invoice_rank a < invoice_rank b"
  by (cases a) auto

text \<open>Once an invoice has been paid, it can only become refunded, and at most once.\<close>

lemma paid_run:
  assumes "runs invoiceTransitions InvoicePaid ts u"
  shows "ts = [] \<or> ts = [InvoiceRefunded]"
proof (cases ts)
  case (Cons t ts')
  with assms have "t = InvoiceRefunded" and r: "runs invoiceTransitions InvoiceRefunded ts' u"
    by (auto elim!: runs_ConsE simp: canTransition_def)
  with Cons invoice_sm.terminal_stays [OF _ r] show ?thesis by simp
qed simp

end
