(* ===== verification/Money.thy ===== *)
theory Money
  imports GoTime
begin

text \<open>
  \<open>backend/internal/domain/money.go\<close> and \<open>numbers.go\<close>: the rupiah format, and the numbers of
  invoices, orders and tickets with the scopes of the counters they are drawn from.
\<close>

text \<open>The loop that appends a separator and the next three digits; \<open>ds\<close> is \<open>digits[i:]\<close>.\<close>

fun app_groups :: "string \<Rightarrow> string" where
  "app_groups [] = []"
| "app_groups (d # ds) = CHR ''.'' # take 3 (d # ds) @ app_groups (drop 2 ds)"

definition FormatIDR :: "int \<Rightarrow> string" where
  "FormatIDR amount =
     (let neg = amount < 0;
          a = (if neg then i64 (- amount) else amount);
          digits = FormatInt a;
          n = length digits;
          groups = (n - 1) div 3;
          lead = n - groups * 3
      in (if neg then ''-'' else []) @ ''Rp'' @ take lead digits @ app_groups (drop lead digits) @ '',-'')"

definition FormatInvoiceNumber :: "time \<Rightarrow> int \<Rightarrow> string" where
  "FormatInvoiceNumber t n = ''INV-'' @ fmt_yyyymm t @ ''-'' @ fmt0d 6 n"

definition FormatOrderNumber :: "time \<Rightarrow> int \<Rightarrow> string" where
  "FormatOrderNumber t n = ''ORD-'' @ fmt_yyyymm t @ ''-'' @ fmt0d 6 n"

definition FormatTicketNumber :: "int \<Rightarrow> string" where
  "FormatTicketNumber n = ''TKT-'' @ fmt0d 6 n"

definition InvoiceCounterScope :: "time \<Rightarrow> string" where
  "InvoiceCounterScope t = ''invoice:'' @ fmt_yyyymm t"

definition OrderCounterScope :: "time \<Rightarrow> string" where
  "OrderCounterScope t = ''order:'' @ fmt_yyyymm t"

definition TicketCounterScope :: string where
  "TicketCounterScope = ''ticket''"

section \<open>The shape of a rupiah amount\<close>

lemma app_groups_concat:
  assumes "length ds = 3 * k"
  shows "\<exists>gs. app_groups ds = concat (map (\<lambda>g. CHR ''.'' # g) gs) \<and> concat gs = ds \<and> (\<forall>g \<in> set gs. length g = 3)"
  using assms
proof (induction k arbitrary: ds)
  case 0
  then show ?case by (intro exI [of _ "[]"]) simp
next
  case (Suc k)
  then obtain a b c ds' where ds: "ds = a # b # c # ds'" "length ds' = 3 * k"
    by (auto simp: length_Suc_conv numeral_3_eq_3)
  then obtain gs where "app_groups ds' = concat (map (\<lambda>g. CHR ''.'' # g) gs)" "concat gs = ds'"
    "\<forall>g \<in> set gs. length g = 3" using Suc.IH by blast
  then show ?case using ds by (intro exI [of _ "[a, b, c] # gs"]) (simp add: numeral_3_eq_3 numeral_2_eq_2)
qed

text \<open>The leading group is what is left of the digits after the full groups.\<close>

lemma lead_bounds:
  fixes n :: nat
  assumes "0 < n"
  shows "1 \<le> n - (n - 1) div 3 * 3" and "n - (n - 1) div 3 * 3 \<le> 3"
    and "n - (n - (n - 1) div 3 * 3) = 3 * ((n - 1) div 3)"
proof -
  define q r where "q = (n - 1) div 3" and "r = (n - 1) mod 3"
  have "n - 1 = q * 3 + r" "r < 3" by (simp_all add: q_def r_def)
  then have n: "n = q * 3 + r + 1" using assms by linarith
  show "1 \<le> n - (n - 1) div 3 * 3" "n - (n - 1) div 3 * 3 \<le> 3"
    "n - (n - (n - 1) div 3 * 3) = 3 * ((n - 1) div 3)"
    unfolding q_def [symmetric] using n \<open>r < 3\<close> by linarith+
qed

lemma FormatIDR_nat:
  assumes "in_i64 x" and "x \<noteq> - (2 ^ 63)"
  shows "FormatIDR x = (if x < 0 then ''-'' else []) @ ''Rp'' @
    (let ds = nat_str (nat \<bar>x\<bar>); lead = length ds - (length ds - 1) div 3 * 3
     in take lead ds @ app_groups (drop lead ds)) @ '',-''"
proof -
  have "in_i64 (- x)" using assms by (auto simp: in_i64_def)
  then have "(if x < 0 then i64 (- x) else x) = \<bar>x\<bar>" by (simp add: wrap_simps)
  then show ?thesis by (simp add: FormatIDR_def Let_def FormatInt_def)
qed

lemma FormatIDR_groups:
  assumes "in_i64 x" and "x \<noteq> - (2 ^ 63)"
  shows "\<exists>lead gs. FormatIDR x = (if x < 0 then ''-'' else []) @ ''Rp'' @ lead
      @ concat (map (\<lambda>g. CHR ''.'' # g) gs) @ '',-''
    \<and> lead @ concat gs = nat_str (nat \<bar>x\<bar>)
    \<and> 1 \<le> length lead \<and> length lead \<le> 3 \<and> (\<forall>g \<in> set gs. length g = 3)"
proof -
  define ds where "ds = nat_str (nat \<bar>x\<bar>)"
  define l where "l = length ds - (length ds - 1) div 3 * 3"
  have pos: "0 < length ds" by (simp add: ds_def)
  note b = lead_bounds [OF pos, folded l_def]
  have len: "length (drop l ds) = 3 * ((length ds - 1) div 3)" using b(3) by simp
  obtain gs where gs: "app_groups (drop l ds) = concat (map (\<lambda>g. CHR ''.'' # g) gs)"
    "concat gs = drop l ds" "\<forall>g \<in> set gs. length g = 3" using app_groups_concat [OF len] by blast
  have "FormatIDR x = (if x < 0 then ''-'' else []) @ ''Rp'' @ take l ds @ app_groups (drop l ds) @ '',-''"
    using FormatIDR_nat [OF assms] by (simp add: Let_def ds_def l_def)
  moreover have "1 \<le> length (take l ds)" "length (take l ds) \<le> 3" using b pos by (simp_all only: length_take)
  ultimately show ?thesis using gs by (intro exI [of _ "take l ds"] exI [of _ gs]) (simp add: ds_def)
qed

text \<open>Reading an amount back: the digits, negated after a leading minus sign.\<close>

definition parseIDR :: "string \<Rightarrow> int" where
  "parseIDR s = (let v = int (digits_val 0 (filter is_digit s))
     in if take 1 s = ''-'' then - v else v)"

lemma filter_digits_groups:
  assumes "\<forall>c \<in> set (concat gs). is_digit c"
  shows "filter is_digit (concat (map (\<lambda>g. CHR ''.'' # g) gs)) = concat gs"
  using assms by (induction gs) (auto simp: is_digit_def in_range_def)

lemma parse_FormatIDR:
  assumes "in_i64 x" and "x \<noteq> - (2 ^ 63)"
  shows "parseIDR (FormatIDR x) = x"
proof -
  obtain lead gs where f: "FormatIDR x = (if x < 0 then ''-'' else []) @ ''Rp'' @ lead
      @ concat (map (\<lambda>g. CHR ''.'' # g) gs) @ '',-''" "lead @ concat gs = nat_str (nat \<bar>x\<bar>)"
    using FormatIDR_groups [OF assms] by blast
  have "\<forall>c \<in> set (lead @ concat gs). is_digit c" unfolding f(2) using nat_str_digits by blast
  then have d: "filter is_digit lead = lead" "\<forall>c \<in> set (concat gs). is_digit c" by auto
  have "filter is_digit (FormatIDR x) = nat_str (nat \<bar>x\<bar>)"
    unfolding f(1) by (simp add: filter_digits_groups [OF d(2)] d(1) f(2)) (simp add: is_digit_def in_range_def)
  moreover have "take 1 (FormatIDR x) = ''-'' \<longleftrightarrow> x < 0" unfolding f(1) by simp
  ultimately show ?thesis by (auto simp: parseIDR_def Let_def)
qed

section \<open>Numbers are not reused\<close>

definition year_ok :: "time \<Rightarrow> bool" where
  "year_ok t \<longleftrightarrow> 0 \<le> fst (DateOf t)"

lemma fmt0d_digits: "0 \<le> x \<Longrightarrow> c \<in> set (fmt0d w x) \<Longrightarrow> is_digit c"
  using nat_str_digits [of c "nat x"] by (auto simp: fmt0d_def zpad_def is_digit_def in_range_def)

lemma fmt_yyyymm_digits:
  assumes "year_ok t" and "c \<in> set (fmt_yyyymm t)"
  shows "is_digit c"
proof -
  obtain y m d where c: "civil (day_of t) = (y, m, d)" by (metis prod_cases3)
  then have "0 \<le> y" "0 \<le> m" using assms(1) civil_sound(1) [OF c] by (auto simp: year_ok_def DateOf_def valid_date_def)
  then show ?thesis using assms(2) fmt0d_digits by (auto simp: fmt_yyyymm_def DateOf_def c)
qed

lemma dash_split:
  assumes "a @ CHR ''-'' # b = a' @ CHR ''-'' # b'" and "CHR ''-'' \<notin> set a" and "CHR ''-'' \<notin> set a'"
  shows "a = a' \<and> b = b'"
  using assms by (induction a arbitrary: a') (case_tac a'; auto)+

lemma number_split:
  assumes "fmt_yyyymm t @ ''-'' @ fmt0d 6 n = fmt_yyyymm t' @ ''-'' @ fmt0d 6 n'"
    and "year_ok t" and "year_ok t'" and "0 \<le> n" and "0 \<le> n'"
  shows "fmt_yyyymm t = fmt_yyyymm t' \<and> n = n'"
proof -
  have nd: "\<not> is_digit CHR ''-''" by (simp add: is_digit_def in_range_def)
  have "fmt_yyyymm t = fmt_yyyymm t' \<and> fmt0d 6 n = fmt0d 6 n'"
    by (rule dash_split) (use assms nd fmt_yyyymm_digits in auto)
  then show ?thesis using fmt0d_inj assms(4,5) by blast
qed

lemma FormatInvoiceNumber_inj:
  assumes "FormatInvoiceNumber t n = FormatInvoiceNumber t' n'"
    and "year_ok t" and "year_ok t'" and "0 \<le> n" and "0 \<le> n'"
  shows "InvoiceCounterScope t = InvoiceCounterScope t' \<and> n = n'"
  using assms number_split [of t n t' n'] by (simp add: FormatInvoiceNumber_def InvoiceCounterScope_def)

lemma FormatOrderNumber_inj:
  assumes "FormatOrderNumber t n = FormatOrderNumber t' n'"
    and "year_ok t" and "year_ok t'" and "0 \<le> n" and "0 \<le> n'"
  shows "OrderCounterScope t = OrderCounterScope t' \<and> n = n'"
  using assms number_split [of t n t' n'] by (simp add: FormatOrderNumber_def OrderCounterScope_def)

end
