(* ===== verification/Store.thy ===== *)
theory Store
  imports Entities Cycle StateMachine Money
begin

text \<open>
  The state the services share and the statements the repositories run on it.

  A \<open>world\<close> is the database, which a failed transaction restores, and what it does not restore:
  the id sequences, the job queue in Redis, the calls made to control panels and the random source. The flag \<open>w_intx\<close> says that
  the context carries a transaction. A table is the list of its rows in the order of their ids.
  A statement fails where a constraint of \<open>backend/migrations\<close> or a missing row makes it fail;
  failures of the database connection itself are outside the model. Handlers run one at a time,
  which is what the row locks give two transactions on the same row; what happens between two
  statements that are not in one transaction is stated with the statements as separate steps.
\<close>

named_theorems frame_rules \<open>what an operation leaves as it was\<close>

datatype tbl = TInvoices | TInvoiceItems | TTransactions | TLedger | TOrders | TOrderItems
  | TServices | TDomains | TEmails | TCancellations | TServers | TServerGroups

text \<open>Jobs (\<open>backend/internal/jobs/jobs.go\<close>) with their payload.\<close>

datatype job = JobProvisionCreate int | JobProvisionSuspend int string | JobProvisionUnsuspend int
  | JobProvisionTerminate int | JobProvisionChangePackage int
  | JobDomainRegister int int | JobDomainTransfer int int | JobDomainRenew int int
  | JobMailSend int | JobInvoiceGeneratePDF int

record db =
  db_users :: "User list"
  db_clients :: "Client list"
  db_products :: "Product list"
  db_product_pricing :: "ProductPricing list"
  db_option_values :: "ConfigurableOptionValue list"
  db_product_specs :: "ProductSpec list"
  db_spec_pricing :: "ProductSpecPricing list"
  db_tld_pricing :: "TLDPricing list"
  db_premium_pricing :: "PremiumDomainPricing list"
  db_premium_lengths :: "PremiumLengthPricing list"
  db_domain_addons :: "DomainAddon list"
  db_coupons :: "Coupon list"
  db_orders :: "Order list"
  db_order_items :: "OrderItem list"
  db_invoices :: "Invoice list"
  db_invoice_items :: "InvoiceItem list"
  db_transactions :: "Transaction list"
  db_ledger :: "CreditLedgerEntry list"
  db_services :: "Service list"
  db_cancellations :: "CancellationRequest list"
  db_servers :: "Server list"
  db_server_groups :: "ServerGroup list"
  db_domains :: "Domain list"
  db_registrars :: "Registrar list"
  db_snipes :: "DomainSnipe list"
  db_snipe_events :: "SnipeEvent list"
  db_counters :: "string \<Rightarrow> int option"
  db_settings :: "string \<Rightarrow> json option"
  db_emails :: "EmailLogEntry list"
  db_audit :: "AuditRow list"
  db_integration :: "IntegrationRow list"

record world =
  w_db :: db
  w_seq :: "tbl \<Rightarrow> int"
  w_queue :: "job list"
  w_panel :: "panel_call list"
  w_entropy :: "nat list"
  w_intx :: bool

type_synonym 'a act = "(world, 'a) eff"

text \<open>
  What a handler is given from outside: the clock, the configured URLs, the template renderer
  (which template, locale and data give which subject, or which error), the alert webhook's
  answer (the HTTP status, or none), the queue's and the object store's answers, and the
  encryptor.
\<close>

record env =
  e_now :: time
  e_FrontendURL :: string
  e_AppBaseURL :: string
  e_AdminAlertEmail :: string
  e_AdminAlertWebhookURL :: string
  e_post_webhook :: "string \<Rightarrow> string \<Rightarrow> int option"
  e_render :: "string \<Rightarrow> string \<Rightarrow> (string \<times> string) list \<Rightarrow> err + string"
  e_enqueue_err :: "job \<Rightarrow> err option"
  e_store_err :: "int \<Rightarrow> err option"
  e_encrypt :: "string \<Rightarrow> err + string"
  e_decrypt :: "string \<Rightarrow> err + string"

section \<open>Transactions (platform/db)\<close>

definition WithinTx :: "'a act \<Rightarrow> 'a act" where
  "WithinTx fn = (\<lambda>w.
     if w_intx w then fn w
     else case fn (w\<lparr>w_intx := True\<rparr>) of
            (Inl e, w') \<Rightarrow> (Inl e, w'\<lparr>w_db := w_db w, w_intx := False\<rparr>)
          | (Inr x, w') \<Rightarrow> (Inr x, w'\<lparr>w_intx := False\<rparr>))"

definition q_db :: "(db \<Rightarrow> 'a) \<Rightarrow> 'a act" where
  "q_db f = reads (\<lambda>w. f (w_db w))"

definition x_db :: "(db \<Rightarrow> db) \<Rightarrow> unit act" where
  "x_db f = writes (\<lambda>w. w\<lparr>w_db := f (w_db w)\<rparr>)"

definition nextval :: "tbl \<Rightarrow> int act" where
  "nextval t = (\<lambda>w. (Inr (w_seq w t + 1), w\<lparr>w_seq := (w_seq w)(t := w_seq w t + 1)\<rparr>))"

definition need :: "err \<Rightarrow> 'a option \<Rightarrow> 'a act" where
  "need e x = (case x of None \<Rightarrow> fail e | Some y \<Rightarrow> ret y)"

text \<open>A lookup whose NOT_FOUND the caller reads as a missing value.\<close>

definition optional :: "'a act \<Rightarrow> 'a option act" where
  "optional m = bnd (attempt m) (\<lambda>r. case r of
     Inr x \<Rightarrow> ret (Some x) | Inl e \<Rightarrow> if err_code (From e) = CodeNotFound then ret None else fail e)"

text \<open>\<open>_ = f(...)\<close>: the error is dropped.\<close>

definition ignore_err :: "'a act \<Rightarrow> unit act" where
  "ignore_err m = bnd (attempt m) (\<lambda>_. ret ())"

definition from_result :: "err + 'a \<Rightarrow> 'a act" where
  "from_result r = (case r of Inl e \<Rightarrow> fail e | Inr x \<Rightarrow> ret x)"

section \<open>Settings (repository/settings_repo.go)\<close>

definition settings_get :: "string \<Rightarrow> json option act" where
  "settings_get key = q_db (\<lambda>d. db_settings d key)"

definition json_int :: "json \<Rightarrow> int option" where
  "json_int j = (case j of JInt n \<Rightarrow> if in_i64 n then Some n else None | JNull \<Rightarrow> Some 0 | _ \<Rightarrow> None)"

definition json_bool :: "json \<Rightarrow> bool option" where
  "json_bool j = (case j of JBool b \<Rightarrow> Some b | JNull \<Rightarrow> Some False | _ \<Rightarrow> None)"

definition GetInt :: "string \<Rightarrow> int \<Rightarrow> int act" where
  "GetInt key dflt = bnd (settings_get key) (\<lambda>raw. ret (case raw of
     None \<Rightarrow> dflt | Some j \<Rightarrow> (case json_int j of None \<Rightarrow> dflt | Some n \<Rightarrow> n)))"

definition GetBool :: "string \<Rightarrow> bool \<Rightarrow> bool act" where
  "GetBool key dflt = bnd (settings_get key) (\<lambda>raw. ret (case raw of
     None \<Rightarrow> dflt | Some j \<Rightarrow> (case json_bool j of None \<Rightarrow> dflt | Some b \<Rightarrow> b)))"

text \<open>\<open>GetJSON\<close> into a value with a decoder; a missing key leaves the value as it is.\<close>

definition GetJSON :: "(json \<Rightarrow> 'a \<Rightarrow> 'a option) \<Rightarrow> string \<Rightarrow> 'a \<Rightarrow> 'a act" where
  "GetJSON decode key out = bnd (settings_get key) (\<lambda>raw. case raw of
     None \<Rightarrow> ret out
   | Some j \<Rightarrow> (case decode j out of None \<Rightarrow> fail (RawErr (''settings: decode '' @ key)) | Some v \<Rightarrow> ret v))"

text \<open>Decoders for \<open>float64\<close>, \<open>[]int\<close> and \<open>[]string\<close>; null leaves a number and clears a slice.\<close>

definition dec_float :: "json \<Rightarrow> float64 \<Rightarrow> float64 option" where
  "dec_float j v = (case j of JInt n \<Rightarrow> Some (float_of_int n) | JFrac r \<Rightarrow> Some (fl r) | JNull \<Rightarrow> Some v | _ \<Rightarrow> None)"

definition dec_ints :: "json \<Rightarrow> int list \<Rightarrow> int list option" where
  "dec_ints j v = (case j of JNull \<Rightarrow> Some [] | JArr js \<Rightarrow> those (map json_int js) | _ \<Rightarrow> None)"

definition json_str :: "json \<Rightarrow> string option" where
  "json_str j = (case j of JStr s \<Rightarrow> Some s | JNull \<Rightarrow> Some [] | _ \<Rightarrow> None)"

definition dec_strs :: "json \<Rightarrow> string list \<Rightarrow> string list option" where
  "dec_strs j v = (case j of JNull \<Rightarrow> Some [] | JArr js \<Rightarrow> those (map json_str js) | _ \<Rightarrow> None)"

section \<open>Counters\<close>

definition NextNumber :: "string \<Rightarrow> int act" where
  "NextNumber scope =
     bnd (q_db (\<lambda>d. case db_counters d scope of None \<Rightarrow> 1 | Some n \<Rightarrow> n + 1)) (\<lambda>n.
     bnd (x_db (\<lambda>d. d\<lparr>db_counters := (db_counters d)(scope := Some n)\<rparr>)) (\<lambda>_. ret n))"

section \<open>Audit log and notifications\<close>

definition audit_Log :: "int \<Rightarrow> string \<Rightarrow> string \<Rightarrow> int \<Rightarrow> unit act" where
  "audit_Log actor action entity eid = x_db (\<lambda>d. d\<lparr>db_audit := db_audit d @ [(actor, action, entity, eid)]\<rparr>)"

definition integration_Log :: "string \<Rightarrow> string \<Rightarrow> int \<Rightarrow> bool \<Rightarrow> unit act" where
  "integration_Log provider endpoint statusCode success = x_db (\<lambda>d. d\<lparr>db_integration :=
     db_integration d @ [(provider, endpoint, statusCode, success)]\<rparr>)"

definition Enqueue :: "env \<Rightarrow> job \<Rightarrow> unit act" where
  "Enqueue env j = (case e_enqueue_err env j of
     Some e \<Rightarrow> fail e
   | None \<Rightarrow> writes (\<lambda>w. w\<lparr>w_queue := w_queue w @ [j]\<rparr>))"

definition users_GetByID :: "int \<Rightarrow> User act" where
  "users_GetByID uid = bnd (q_db (\<lambda>d. row u_ID uid (db_users d))) (need (NotFound ''user''))"

definition email_MarkFailed :: "int \<Rightarrow> unit act" where
  "email_MarkFailed eid = x_db (\<lambda>d. d\<lparr>db_emails := upd el_ID eid (\<lambda>e. e\<lparr>el_Failed := True\<rparr>) (db_emails d)\<rparr>)"

definition queue_mail :: "env \<Rightarrow> int option \<Rightarrow> string \<Rightarrow> string \<Rightarrow> string \<Rightarrow> unit act" where
  "queue_mail env uid toEmail key subject =
     bnd (nextval TEmails) (\<lambda>eid.
     bnd (x_db (\<lambda>d. d\<lparr>db_emails := db_emails d @ [\<lparr>el_ID = eid, el_UserID = uid, el_ToEmail = toEmail,
            el_TemplateKey = key, el_Subject = subject, el_Failed = False, el_CreatedAt = e_now env\<rparr>]\<rparr>)) (\<lambda>_.
     case e_store_err env eid of
       Some e \<Rightarrow> bnd (email_MarkFailed eid) (\<lambda>_. fail (Internal e))
     | None \<Rightarrow> bnd (attempt (Enqueue env (JobMailSend eid))) (\<lambda>r. case r of
           Inl e \<Rightarrow> bnd (email_MarkFailed eid) (\<lambda>_. fail (Internal e))
         | Inr _ \<Rightarrow> ret ())))"

definition SendTemplate :: "env \<Rightarrow> int \<Rightarrow> string \<Rightarrow> (string \<times> string) list \<Rightarrow> unit act" where
  "SendTemplate env uid key data =
     bnd (users_GetByID uid) (\<lambda>user.
     bnd (from_result (e_render env key (u_Locale user) data)) (\<lambda>subject.
     queue_mail env (Some uid) (u_Email user) key subject))"

definition postAlertWebhook :: "env \<Rightarrow> string \<Rightarrow> string \<Rightarrow> unit act" where
  "postAlertWebhook env subject message =
     (let url = e_AdminAlertWebhookURL env in
      if url = [] then ret ()
      else case e_post_webhook env subject message of
        None \<Rightarrow> integration_Log ''admin_alert_webhook'' url 0 False
      | Some code \<Rightarrow> integration_Log ''admin_alert_webhook'' url code (200 \<le> code \<and> code < 300))"

definition AlertAdmin :: "env \<Rightarrow> string \<Rightarrow> string \<Rightarrow> unit act" where
  "AlertAdmin env subject message =
     (if e_AdminAlertEmail env = [] then fail (Internal (RawErr ''notifications: ADMIN_ALERT_EMAIL is not configured''))
      else bnd (from_result (e_render env ''admin_alert'' ''id'' [(''Subject'', subject), (''Detail'', message)])) (\<lambda>s.
        bnd (postAlertWebhook env subject message) (\<lambda>_.
        queue_mail env None (e_AdminAlertEmail env) ''admin_alert'' s)))"

section \<open>Clients\<close>

definition clients_GetByID :: "int \<Rightarrow> Client act" where
  "clients_GetByID cid =
     bnd (q_db (\<lambda>d. find (\<lambda>c. c_ID c = cid \<and> c_DeletedAt c = None) (db_clients d))) (need (NotFound ''client''))"

section \<open>Invoices (billing/repo.go)\<close>

definition invoice_GetByID :: "int \<Rightarrow> Invoice act" where
  "invoice_GetByID iid = bnd (q_db (\<lambda>d. row i_ID iid (db_invoices d))) (need (NotFound ''invoice''))"

text \<open>The row lock adds nothing to a run in which handlers do not interleave.\<close>

definition invoice_GetByIDForUpdate :: "int \<Rightarrow> Invoice act" where
  "invoice_GetByIDForUpdate iid = invoice_GetByID iid"

definition invoice_GetItems :: "int \<Rightarrow> InvoiceItem list act" where
  "invoice_GetItems iid = q_db (\<lambda>d. filter (\<lambda>it. ii_InvoiceID it = iid) (db_invoice_items d))"

definition invoice_AddItem :: "InvoiceItem \<Rightarrow> InvoiceItem act" where
  "invoice_AddItem item =
     bnd (nextval TInvoiceItems) (\<lambda>n.
     bnd (x_db (\<lambda>d. d\<lparr>db_invoice_items := db_invoice_items d @ [item\<lparr>ii_ID := n\<rparr>]\<rparr>)) (\<lambda>_.
     ret (item\<lparr>ii_ID := n\<rparr>)))"

text \<open>\<open>invoices.invoice_number\<close> is UNIQUE.\<close>

definition invoice_Create :: "env \<Rightarrow> Invoice \<Rightarrow> InvoiceItem list \<Rightarrow> Invoice act" where
  "invoice_Create env iv items =
     bnd (nextval TInvoices) (\<lambda>n.
     bnd (q_db (\<lambda>d. \<exists>i \<in> set (db_invoices d). i_InvoiceNumber i = i_InvoiceNumber iv)) (\<lambda>dup.
     bnd (guard (\<not> dup) (RawErr ''billing: create invoice'')) (\<lambda>_.
     let iv' = iv\<lparr>i_ID := n, i_CreatedAt := e_now env\<rparr> in
     bnd (x_db (\<lambda>d. d\<lparr>db_invoices := db_invoices d @ [iv']\<rparr>)) (\<lambda>_.
     bnd (each (\<lambda>it. bnd (invoice_AddItem (it\<lparr>ii_InvoiceID := n\<rparr>)) (\<lambda>_. ret ())) items) (\<lambda>_.
     ret iv')))))"

definition invoice_exec :: "int \<Rightarrow> (Invoice \<Rightarrow> Invoice) \<Rightarrow> unit act" where
  "invoice_exec iid f =
     bnd (q_db (\<lambda>d. row i_ID iid (db_invoices d))) (\<lambda>r.
     case r of None \<Rightarrow> fail (NotFound ''invoice'')
     | Some _ \<Rightarrow> x_db (\<lambda>d. d\<lparr>db_invoices := upd i_ID iid f (db_invoices d)\<rparr>))"

definition invoice_Update :: "Invoice \<Rightarrow> unit act" where
  "invoice_Update iv = invoice_exec (i_ID iv) (\<lambda>i. i\<lparr>i_Status := i_Status iv, i_Subtotal := i_Subtotal iv,
     i_Discount := i_Discount iv, i_TaxRate := i_TaxRate iv, i_TaxTotal := i_TaxTotal iv,
     i_CreditApplied := i_CreditApplied iv, i_Total := i_Total iv, i_DueDate := i_DueDate iv,
     i_PaidAt := i_PaidAt iv, i_Notes := i_Notes iv, i_PDFObjectKey := i_PDFObjectKey iv\<rparr>)"

definition invoice_UpdateStatus :: "int \<Rightarrow> InvoiceStatus \<Rightarrow> time option \<Rightarrow> unit act" where
  "invoice_UpdateStatus iid status paidAt = invoice_exec iid (\<lambda>i. i\<lparr>i_Status := status,
     i_PaidAt := (case paidAt of None \<Rightarrow> i_PaidAt i | Some t \<Rightarrow> Some t)\<rparr>)"

text \<open>\<open>ORDER BY due_date, id\<close> on a list in the order of the ids.\<close>

definition invoice_ListDueForStatus :: "InvoiceStatus \<Rightarrow> time \<Rightarrow> Invoice list act" where
  "invoice_ListDueForStatus status before = q_db (\<lambda>d. sort_key i_DueDate
     (filter (\<lambda>i. i_Status i = status \<and> i_DueDate i \<le> before) (db_invoices d)))"

definition OrderIDForOrderItem :: "int \<Rightarrow> int act" where
  "OrderIDForOrderItem oid = bnd (q_db (\<lambda>d. map_option oi_OrderID (row oi_ID oid (db_order_items d))))
     (need (NotFound ''order item''))"

definition HasOpenRenewalInvoice :: "InvoiceItemRelatedType \<Rightarrow> int \<Rightarrow> bool act" where
  "HasOpenRenewalInvoice rt rid = q_db (\<lambda>d. \<exists>ii \<in> set (db_invoice_items d). \<exists>i \<in> set (db_invoices d).
     i_ID i = ii_InvoiceID ii \<and> ii_RelatedType ii = rt \<and> ii_RelatedID ii = Some rid
     \<and> (i_Status i = InvoiceUnpaid \<or> i_Status i = InvoiceOverdue))"

definition HasEmailSince :: "string \<Rightarrow> string \<Rightarrow> time \<Rightarrow> bool act" where
  "HasEmailSince key ref since = q_db (\<lambda>d. \<exists>e \<in> set (db_emails d).
     el_TemplateKey e = key \<and> sublist ref (el_Subject e) \<and> since \<le> el_CreatedAt e)"

section \<open>Transactions (payments/repo.go)\<close>

text \<open>
  \<open>merchant_order_id\<close> is UNIQUE and \<open>transactions_one_success_per_invoice_uniq\<close> allows one
  success row per invoice. \<open>Create\<close> turns the violation into CONFLICT, \<open>Update\<close> returns it raw.
\<close>

definition tx_violates :: "Transaction list \<Rightarrow> Transaction \<Rightarrow> bool" where
  "tx_violates others t \<longleftrightarrow>
     (t_MerchantOrderID t \<noteq> None \<and> (\<exists>x \<in> set others. t_MerchantOrderID x = t_MerchantOrderID t))
     \<or> (t_Status t = TxSuccess \<and> (\<exists>x \<in> set others. t_InvoiceID x = t_InvoiceID t \<and> t_Status x = TxSuccess))"

definition nonempty_raw :: "string \<Rightarrow> string" where
  "nonempty_raw raw = (if raw = [] then ''{}'' else raw)"

definition tx_Create :: "env \<Rightarrow> Transaction \<Rightarrow> Transaction act" where
  "tx_Create env t =
     bnd (nextval TTransactions) (\<lambda>n.
     let t' = t\<lparr>t_ID := n, t_Raw := nonempty_raw (t_Raw t), t_CreatedAt := e_now env\<rparr> in
     bnd (q_db (\<lambda>d. tx_violates (db_transactions d) t')) (\<lambda>bad.
     bnd (guard (\<not> bad) (Conflict ''a transaction with this merchant order id already exists'')) (\<lambda>_.
     bnd (x_db (\<lambda>d. d\<lparr>db_transactions := db_transactions d @ [t']\<rparr>)) (\<lambda>_. ret t'))))"

definition NextAttempt :: "int \<Rightarrow> int act" where
  "NextAttempt invoiceID = NextNumber (''payment_attempt:'' @ FormatInt invoiceID)"

definition tx_GetByID :: "int \<Rightarrow> Transaction act" where
  "tx_GetByID tid = bnd (q_db (\<lambda>d. row t_ID tid (db_transactions d))) (need (NotFound ''transaction''))"

definition tx_GetByMerchantOrderID :: "string \<Rightarrow> Transaction act" where
  "tx_GetByMerchantOrderID mo =
     bnd (q_db (\<lambda>d. find (\<lambda>t. t_MerchantOrderID t = Some mo) (db_transactions d))) (need (NotFound ''transaction''))"

text \<open>The columns an UPDATE sets; the invoice and the expiry stay.\<close>

definition tx_set :: "Transaction \<Rightarrow> Transaction \<Rightarrow> Transaction" where
  "tx_set t old = old\<lparr>t_Gateway := t_Gateway t, t_MethodCode := t_MethodCode t, t_MerchantOrderID := t_MerchantOrderID t,
     t_GatewayReference := t_GatewayReference t, t_Amount := t_Amount t, t_Fee := t_Fee t, t_Status := t_Status t,
     t_Raw := nonempty_raw (t_Raw t), t_PaidAt := t_PaidAt t\<rparr>"

definition tx_Update :: "Transaction \<Rightarrow> unit act" where
  "tx_Update t =
     bnd (q_db (\<lambda>d. row t_ID (t_ID t) (db_transactions d))) (\<lambda>r.
     case r of None \<Rightarrow> fail (NotFound ''transaction'')
     | Some old \<Rightarrow>
         bnd (q_db (\<lambda>d. tx_violates (filter (\<lambda>x. t_ID x \<noteq> t_ID t) (db_transactions d)) (tx_set t old))) (\<lambda>bad.
         bnd (guard (\<not> bad) (RawErr ''transactions: update'')) (\<lambda>_.
         x_db (\<lambda>d. d\<lparr>db_transactions := upd t_ID (t_ID t) (tx_set t) (db_transactions d)\<rparr>))))"

definition tx_ListByInvoice :: "int \<Rightarrow> Transaction list act" where
  "tx_ListByInvoice iid = q_db (\<lambda>d. filter (\<lambda>t. t_InvoiceID t = iid) (db_transactions d))"

definition tx_ListPending :: "Gateway \<Rightarrow> time \<Rightarrow> Transaction list act" where
  "tx_ListPending gw olderThan = q_db (\<lambda>d. filter (\<lambda>t. t_Gateway t = gw \<and> t_Status t = TxPending
     \<and> t_CreatedAt t \<le> olderThan) (db_transactions d))"

end
