(* ===== verification/Frames.thy ===== *)
theory Frames
  imports Store
begin

text \<open>
  How the statements of \<open>Store\<close> run, and the frame calculus: \<open>frame f\<close> says that a computation
  leaves the part \<open>f\<close> of the database as it was, returns with the transaction flag it was called
  with and never moves an id sequence back. One rule per way of composing computations, so that
  the frame of a handler is read off its body.
\<close>

section \<open>Running the statements\<close>

lemma q_db_run [eff_simps]: "q_db f w = (Inr (f (w_db w)), w)"
  by (simp add: q_db_def eff_simps)

lemma bnd_q_db [eff_simps]: "bnd (q_db f) g w = g (f (w_db w)) w"
  by (simp add: q_db_def eff_simps)

lemma x_db_run [eff_simps]: "x_db f w = (Inr (), w\<lparr>w_db := f (w_db w)\<rparr>)"
  by (simp add: x_db_def eff_simps)

lemma bnd_x_db [eff_simps]: "bnd (x_db f) g w = g () (w\<lparr>w_db := f (w_db w)\<rparr>)"
  by (simp add: x_db_def eff_simps)

lemma nextval_run [eff_simps]:
  "nextval t w = (Inr (w_seq w t + 1), w\<lparr>w_seq := (w_seq w)(t := w_seq w t + 1)\<rparr>)"
  by (simp add: nextval_def)

lemma bnd_nextval [eff_simps]:
  "bnd (nextval t) g w = g (w_seq w t + 1) (w\<lparr>w_seq := (w_seq w)(t := w_seq w t + 1)\<rparr>)"
  by (simp add: nextval_def bnd_def)

lemma need_simps [eff_simps]: "need e None = fail e" "need e (Some x) = ret x"
  by (simp_all add: need_def)

lemma from_result_simps [eff_simps]: "from_result (Inl e) = fail e" "from_result (Inr x) = ret x"
  by (simp_all add: from_result_def)

lemma bnd_need [eff_simps]: "bnd (need e x) f = (case x of None \<Rightarrow> fail e | Some y \<Rightarrow> f y)"
  by (cases x) (simp_all add: eff_simps)

lemma bnd_attempt [eff_simps]: "bnd (attempt m) f w = (case m w of (r, w') \<Rightarrow> f r w')"
  by (simp add: attempt_def bnd_def split: prod.splits)

lemma ignore_err_run [eff_simps]: "ignore_err m w = (Inr (), snd (m w))"
  by (simp add: ignore_err_def attempt_def bnd_def ret_def split: prod.splits)

lemma bnd_ignore_err [eff_simps]: "bnd (ignore_err m) f w = f () (snd (m w))"
  by (simp add: bnd_def ignore_err_run)

lemma audit_Log_run [eff_simps]: "audit_Log a b c e w =
    (Inr (), w\<lparr>w_db := (w_db w)\<lparr>db_audit := db_audit (w_db w) @ [(a, b, c, e)]\<rparr>\<rparr>)"
  by (simp add: audit_Log_def eff_simps)

lemma bnd_audit_Log [eff_simps]: "bnd (audit_Log a b c e) f w =
    f () (w\<lparr>w_db := (w_db w)\<lparr>db_audit := db_audit (w_db w) @ [(a, b, c, e)]\<rparr>\<rparr>)"
  by (simp add: audit_Log_def eff_simps)

lemma invoice_GetByID_run: "invoice_GetByID iid w =
    (case row i_ID iid (db_invoices (w_db w)) of None \<Rightarrow> (Inl (NotFound ''invoice''), w) | Some i \<Rightarrow> (Inr i, w))"
  by (auto simp: invoice_GetByID_def eff_simps split: option.splits)

lemma bnd_invoice_GetByID [eff_simps]: "bnd (invoice_GetByID iid) f w =
    (case row i_ID iid (db_invoices (w_db w)) of None \<Rightarrow> (Inl (NotFound ''invoice''), w) | Some i \<Rightarrow> f i w)"
  by (simp add: bnd_def invoice_GetByID_run split: option.splits)

lemma bnd_invoice_GetItems [eff_simps]: "bnd (invoice_GetItems iid) f w =
    f (filter (\<lambda>it. ii_InvoiceID it = iid) (db_invoice_items (w_db w))) w"
  by (simp add: invoice_GetItems_def eff_simps)

lemma invoice_exec_run: "invoice_exec iid g w =
    (case row i_ID iid (db_invoices (w_db w)) of None \<Rightarrow> (Inl (NotFound ''invoice''), w)
     | Some _ \<Rightarrow> (Inr (), w\<lparr>w_db := (w_db w)\<lparr>db_invoices := upd i_ID iid g (db_invoices (w_db w))\<rparr>\<rparr>))"
  by (auto simp: invoice_exec_def eff_simps split: option.splits)

lemma bnd_invoice_exec: "bnd (invoice_exec iid g) f w =
    (case row i_ID iid (db_invoices (w_db w)) of None \<Rightarrow> (Inl (NotFound ''invoice''), w)
     | Some _ \<Rightarrow> f () (w\<lparr>w_db := (w_db w)\<lparr>db_invoices := upd i_ID iid g (db_invoices (w_db w))\<rparr>\<rparr>))"
  by (simp add: bnd_def invoice_exec_run split: option.splits)

lemma tx_GetByMerchantOrderID_run: "tx_GetByMerchantOrderID mo w =
    (case find (\<lambda>t. t_MerchantOrderID t = Some mo) (db_transactions (w_db w)) of
       None \<Rightarrow> (Inl (NotFound ''transaction''), w) | Some t \<Rightarrow> (Inr t, w))"
  by (auto simp: tx_GetByMerchantOrderID_def eff_simps split: option.splits)

lemma bnd_tx_GetByMerchantOrderID [eff_simps]: "bnd (tx_GetByMerchantOrderID mo) f w =
    (case find (\<lambda>t. t_MerchantOrderID t = Some mo) (db_transactions (w_db w)) of
       None \<Rightarrow> (Inl (NotFound ''transaction''), w) | Some t \<Rightarrow> f t w)"
  by (simp add: bnd_def tx_GetByMerchantOrderID_run split: option.splits)

lemma bnd_tx_GetByID [eff_simps]: "bnd (tx_GetByID tid) f w =
    (case row t_ID tid (db_transactions (w_db w)) of
       None \<Rightarrow> (Inl (NotFound ''transaction''), w) | Some t \<Rightarrow> f t w)"
  by (auto simp: tx_GetByID_def bnd_assoc eff_simps split: option.splits)

lemma optional_run: "optional m w = (case m w of (Inr x, w') \<Rightarrow> (Inr (Some x), w')
    | (Inl e, w') \<Rightarrow> (if err_code e = CodeNotFound then (Inr None, w') else (Inl e, w')))"
  by (auto simp: optional_def eff_simps split: prod.splits sum.splits)

lemma WithinTx_nested: "w_intx w \<Longrightarrow> WithinTx m w = m w"
  by (simp add: WithinTx_def)

text \<open>A transaction that fails leaves the database as it was; one that returns keeps its writes.\<close>

lemma WithinTx_rollback:
  assumes "WithinTx m w = (Inl e, w')" and "\<not> w_intx w"
  shows "w_db w' = w_db w"
  using assms by (auto simp: WithinTx_def split: prod.splits sum.splits)

lemma WithinTx_commit:
  assumes "WithinTx m w = (Inr x, w')" and "\<not> w_intx w"
  obtains w1 where "m (w\<lparr>w_intx := True\<rparr>) = (Inr x, w1)" and "w' = w1\<lparr>w_intx := False\<rparr>"
  using assms by (auto simp: WithinTx_def split: prod.splits sum.splits)

section \<open>Frames\<close>

definition frame :: "(db \<Rightarrow> 'p) \<Rightarrow> world \<Rightarrow> world \<Rightarrow> bool" where
  "frame f w w' \<longleftrightarrow> f (w_db w') = f (w_db w) \<and> w_intx w' = w_intx w \<and> (\<forall>t. w_seq w t \<le> w_seq w' t)"

lemma reflp_frame [simp]: "reflp (frame f)"
  by (simp add: reflp_def frame_def)

lemma transp_frame [simp]: "transp (frame f)"
  by (auto simp: transp_def frame_def intro: order_trans)

lemma frame_part: "frame f w w' \<Longrightarrow> frame (\<lambda>d. g (f d)) w w'"
  by (simp add: frame_def)

lemma keeps_frame_part: "keeps (frame f) m \<Longrightarrow> keeps (frame (\<lambda>d. g (f d))) m"
  by (simp add: keeps_def frame_part)

lemma frame_ret [frame_rules]: "keeps (frame f) (ret x)"
  by (simp add: keeps_ret)

lemma frame_fail [frame_rules]: "keeps (frame f) (fail e)"
  by (simp add: keeps_fail)

lemma frame_guard [frame_rules]: "keeps (frame f) (guard b e)"
  by (simp add: keeps_guard)

lemma frame_q_db [frame_rules]: "keeps (frame f) (q_db g)"
  by (simp add: q_db_def keeps_reads)

lemma frame_x_db [frame_rules]: "(\<And>d. f (g d) = f d) \<Longrightarrow> keeps (frame f) (x_db g)"
  by (simp add: x_db_def keeps_writes frame_def)

lemma frame_nextval [frame_rules]: "keeps (frame f) (nextval t)"
  by (simp add: keeps_def nextval_def frame_def)

lemma frame_need [frame_rules]: "keeps (frame f) (need e x)"
  by (cases x) (simp_all add: need_def frame_rules)

lemma frame_from_result [frame_rules]: "keeps (frame f) (from_result r)"
  by (cases r) (simp_all add: from_result_def frame_rules)

lemma frame_bnd [frame_rules]:
  "keeps (frame f) m \<Longrightarrow> (\<And>x. keeps (frame f) (g x)) \<Longrightarrow> keeps (frame f) (bnd m g)"
  by (simp add: keeps_bnd)

lemma frame_attempt [frame_rules]: "keeps (frame f) m \<Longrightarrow> keeps (frame f) (attempt m)"
  by (rule keeps_attempt)

lemma frame_on_err [frame_rules]: "keeps (frame f) m \<Longrightarrow> keeps (frame f) (on_err g m)"
  by (rule keeps_on_err)

lemma frame_each [frame_rules]: "(\<And>x. keeps (frame f) (g x)) \<Longrightarrow> keeps (frame f) (each g xs)"
  by (simp add: keeps_each)

lemma frame_foldE [frame_rules]: "(\<And>x b. keeps (frame f) (g x b)) \<Longrightarrow> keeps (frame f) (foldE g xs b)"
  by (simp add: keeps_foldE)

lemma frame_if [frame_rules]:
  "keeps (frame f) m \<Longrightarrow> keeps (frame f) n \<Longrightarrow> keeps (frame f) (if b then m else n)"
  by simp

lemma frame_case_option [frame_rules]:
  "keeps (frame f) m \<Longrightarrow> (\<And>x. keeps (frame f) (n x)) \<Longrightarrow> keeps (frame f) (case y of None \<Rightarrow> m | Some x \<Rightarrow> n x)"
  by (cases y) auto

lemma frame_case_sum [frame_rules]:
  "(\<And>x. keeps (frame f) (m x)) \<Longrightarrow> (\<And>x. keeps (frame f) (n x)) \<Longrightarrow>
    keeps (frame f) (case y of Inl x \<Rightarrow> m x | Inr x \<Rightarrow> n x)"
  by (cases y) auto

lemma frame_case_prod [frame_rules]:
  "(\<And>x y. keeps (frame f) (m x y)) \<Longrightarrow> keeps (frame f) (case p of (x, y) \<Rightarrow> m x y)"
  by (cases p) auto

lemma frame_optional [frame_rules]: "keeps (frame f) m \<Longrightarrow> keeps (frame f) (optional m)"
  unfolding optional_def by (intro frame_rules)

lemma frame_ignore_err [frame_rules]: "keeps (frame f) m \<Longrightarrow> keeps (frame f) (ignore_err m)"
  unfolding ignore_err_def by (intro frame_rules)

lemma frame_WithinTx [frame_rules]:
  assumes "keeps (frame f) m"
  shows "keeps (frame f) (WithinTx m)"
proof (rule keepsI)
  fix w
  obtain r w' where m: "m (w\<lparr>w_intx := True\<rparr>) = (r, w')" by (cases "m (w\<lparr>w_intx := True\<rparr>)")
  have "frame f (w\<lparr>w_intx := True\<rparr>) w'" using keepsD [OF assms m] .
  moreover have "frame f w (snd (m w))" using assms by (simp add: keeps_def)
  ultimately show "frame f w (snd (WithinTx m w))"
    using m by (cases r) (auto simp: WithinTx_def frame_def)
qed

section \<open>Frames of the shared operations\<close>

lemma frame_GetInt [frame_rules]: "keeps (frame f) (GetInt k v)"
  unfolding GetInt_def settings_get_def by (intro frame_rules)

lemma frame_GetBool [frame_rules]: "keeps (frame f) (GetBool k v)"
  unfolding GetBool_def settings_get_def by (intro frame_rules)

lemma frame_GetJSON [frame_rules]: "keeps (frame f) (GetJSON dec k v)"
  unfolding GetJSON_def settings_get_def by (intro frame_rules)

lemma frame_clients_GetByID [frame_rules]: "keeps (frame f) (clients_GetByID cid)"
  unfolding clients_GetByID_def by (intro frame_rules)

lemma frame_users_GetByID [frame_rules]: "keeps (frame f) (users_GetByID uid)"
  unfolding users_GetByID_def by (intro frame_rules)

lemma frame_invoice_GetByID [frame_rules]: "keeps (frame f) (invoice_GetByID iid)"
  unfolding invoice_GetByID_def by (intro frame_rules)

lemma frame_invoice_GetByIDForUpdate [frame_rules]: "keeps (frame f) (invoice_GetByIDForUpdate iid)"
  unfolding invoice_GetByIDForUpdate_def by (intro frame_rules)

lemma frame_invoice_reads [frame_rules]:
  "keeps (frame f) (invoice_GetItems iid)" "keeps (frame f) (invoice_ListDueForStatus st t)"
  "keeps (frame f) (OrderIDForOrderItem oid)" "keeps (frame f) (HasOpenRenewalInvoice rt rid)"
  "keeps (frame f) (HasEmailSince k r t)"
  unfolding invoice_GetItems_def invoice_ListDueForStatus_def OrderIDForOrderItem_def
    HasOpenRenewalInvoice_def HasEmailSince_def by (intro frame_rules)+

lemma frame_tx_reads [frame_rules]:
  "keeps (frame f) (tx_GetByID tid)" "keeps (frame f) (tx_GetByMerchantOrderID mo)"
  "keeps (frame f) (tx_ListByInvoice iid)" "keeps (frame f) (tx_ListPending gw t)"
  unfolding tx_GetByID_def tx_GetByMerchantOrderID_def tx_ListByInvoice_def tx_ListPending_def
  by (intro frame_rules)+

lemma frame_Enqueue [frame_rules]: "keeps (frame f) (Enqueue env j)"
  by (cases "e_enqueue_err env j") (simp_all add: Enqueue_def frame_fail keeps_writes frame_def)

text \<open>The log tables; \<open>f\<close> reads neither the emails nor the audit and integration logs.\<close>

definition no_logs :: "(db \<Rightarrow> 'p) \<Rightarrow> bool" where
  "no_logs f \<longleftrightarrow> (\<forall>d x. f (d\<lparr>db_emails := x\<rparr>) = f d) \<and> (\<forall>d x. f (d\<lparr>db_audit := x\<rparr>) = f d)
     \<and> (\<forall>d x. f (d\<lparr>db_integration := x\<rparr>) = f d)"

lemma no_logsD: "no_logs f \<Longrightarrow> f (d\<lparr>db_emails := x\<rparr>) = f d" "no_logs f \<Longrightarrow> f (d\<lparr>db_audit := y\<rparr>) = f d"
  "no_logs f \<Longrightarrow> f (d\<lparr>db_integration := z\<rparr>) = f d"
  by (simp_all add: no_logs_def)

lemma frame_audit_Log [frame_rules]: "no_logs f \<Longrightarrow> keeps (frame f) (audit_Log a b c e)"
  unfolding audit_Log_def by (intro frame_rules) (rule no_logsD)

lemma frame_integration_Log [frame_rules]: "no_logs f \<Longrightarrow> keeps (frame f) (integration_Log a b c e)"
  unfolding integration_Log_def by (intro frame_rules) (rule no_logsD)

lemma frame_email_MarkFailed [frame_rules]: "no_logs f \<Longrightarrow> keeps (frame f) (email_MarkFailed eid)"
  unfolding email_MarkFailed_def by (intro frame_rules) (rule no_logsD)

lemma frame_queue_mail [frame_rules]: "no_logs f \<Longrightarrow> keeps (frame f) (queue_mail env uid a k s)"
  unfolding queue_mail_def by (intro frame_rules no_logsD(1))

lemma frame_SendTemplate [frame_rules]: "no_logs f \<Longrightarrow> keeps (frame f) (SendTemplate env uid k x)"
  unfolding SendTemplate_def by (intro frame_rules)

lemma frame_postAlertWebhook [frame_rules]: "no_logs f \<Longrightarrow> keeps (frame f) (postAlertWebhook env s m)"
  unfolding postAlertWebhook_def Let_def by (intro frame_rules)

lemma frame_AlertAdmin [frame_rules]: "no_logs f \<Longrightarrow> keeps (frame f) (AlertAdmin env s m)"
  unfolding AlertAdmin_def by (intro frame_rules)

lemma frame_NextNumber [frame_rules]:
  "(\<And>d x. f (d\<lparr>db_counters := x\<rparr>) = f d) \<Longrightarrow> keeps (frame f) (NextNumber scope)"
  unfolding NextNumber_def by (intro frame_rules) auto

lemma frame_invoice_exec [frame_rules]:
  "(\<And>d. f (d\<lparr>db_invoices := upd i_ID iid g (db_invoices d)\<rparr>) = f d) \<Longrightarrow> keeps (frame f) (invoice_exec iid g)"
  unfolding invoice_exec_def by (intro frame_rules) auto

lemma frame_tx_Create [frame_rules]:
  "(\<And>d x. f (d\<lparr>db_transactions := x\<rparr>) = f d) \<Longrightarrow> keeps (frame f) (tx_Create env t)"
  unfolding tx_Create_def Let_def by (intro frame_rules) auto

lemma frame_tx_Update [frame_rules]:
  "(\<And>d x. f (d\<lparr>db_transactions := x\<rparr>) = f d) \<Longrightarrow> keeps (frame f) (tx_Update t)"
  unfolding tx_Update_def by (intro frame_rules) auto

lemma frame_invoice_AddItem [frame_rules]:
  "(\<And>d x. f (d\<lparr>db_invoice_items := x\<rparr>) = f d) \<Longrightarrow> keeps (frame f) (invoice_AddItem it)"
  unfolding invoice_AddItem_def by (intro frame_rules) auto

lemma frame_invoice_Create [frame_rules]:
  "(\<And>d x. f (d\<lparr>db_invoices := x\<rparr>) = f d) \<Longrightarrow> (\<And>d x. f (d\<lparr>db_invoice_items := x\<rparr>) = f d) \<Longrightarrow>
    keeps (frame f) (invoice_Create env iv its)"
  unfolding invoice_Create_def Let_def by (intro frame_rules) auto

end
