(* ===== verification/Generate.thy ===== *)
theory Generate
  imports Prelude "HOL-Library.Multiset" "HOL-Library.Word"
begin

unbundle bit_operations_syntax

text \<open>
  \<open>backend/internal/domain/generate.go\<close>: random passwords and panel usernames. The system's
  random source is the list of the numbers it will deliver; \<open>rand.Int\<close> reduces the next one
  below its bound and fails when there is none.
\<close>

definition pwLower :: string where "pwLower = ''abcdefghijkmnopqrstuvwxyz''"
definition pwUpper :: string where "pwUpper = ''ABCDEFGHJKLMNPQRSTUVWXYZ''"
definition pwDigits :: string where "pwDigits = ''23456789''"
definition pwSymbols :: string where "pwSymbols = ''!@#$%^&*''"

definition randInt :: "nat \<Rightarrow> (nat list, nat) eff" where
  "randInt n = (\<lambda>g. case g of [] \<Rightarrow> (Inl (RawErr ''domain: crypto/rand unavailable''), [])
     | x # g' \<Rightarrow> (Inr (x mod n), g'))"

definition randByte :: "string \<Rightarrow> (nat list, char) eff" where
  "randByte cs = bnd (randInt (length cs)) (\<lambda>i. ret (cs ! i))"

text \<open>The loop from 4 to \<open>length\<close>, on the number of bytes still to draw.\<close>

fun fill :: "string \<Rightarrow> nat \<Rightarrow> (nat list, string) eff" where
  "fill cs 0 = ret []"
| "fill cs (Suc k) = bnd (randByte cs) (\<lambda>c. bnd (fill cs k) (\<lambda>bs. ret (c # bs)))"

fun shuffle :: "nat \<Rightarrow> string \<Rightarrow> (nat list, string) eff" where
  "shuffle 0 buf = ret buf"
| "shuffle (Suc i) buf = bnd (randInt (Suc i + 1)) (\<lambda>j.
     shuffle i (buf[Suc i := buf ! j, j := buf ! Suc i]))"

definition GeneratePassword :: "int \<Rightarrow> (nat list, string) eff" where
  "GeneratePassword len =
     (let len' = (if len < 12 then 12 else len);
          all = pwLower @ pwUpper @ pwDigits @ pwSymbols
      in bnd (randByte pwLower) (\<lambda>b0.
         bnd (randByte pwUpper) (\<lambda>b1.
         bnd (randByte pwDigits) (\<lambda>b2.
         bnd (randByte pwSymbols) (\<lambda>b3.
         bnd (fill all (nat len' - 4)) (\<lambda>bs.
         let buf = b0 # b1 # b2 # b3 # bs in shuffle (length buf - 1) buf))))))"

text \<open>\<open>strings.IndexByte(d, '.')\<close> and the slice before it.\<close>

definition UsernameFromDomain :: "string \<Rightarrow> string" where
  "UsernameFromDomain domain =
     (let d = ToLower (TrimSpace domain);
          d = TrimPrefix d ''www.'';
          d = takeWhile (\<lambda>c. c \<noteq> CHR ''.'') d;
          u = filter (\<lambda>r. is_lower r \<or> is_digit r) d;
          u = (if u = [] \<or> is_digit (hd u) then CHR ''u'' # u else u)
      in if length u > 8 then take 8 u else u)"

text \<open>\<open>hash/fnv\<close>: FNV-1a over 32 bits.\<close>

fun fnv32a :: "32 word \<Rightarrow> string \<Rightarrow> 32 word" where
  "fnv32a h [] = h"
| "fnv32a h (c # cs) = fnv32a ((h XOR of_nat (of_char c)) * 16777619) cs"

definition DisambiguateUsername :: "string \<Rightarrow> int \<Rightarrow> string" where
  "DisambiguateUsername base serviceID =
     (let h = fnv32a 2166136261 (base @ '':'' @ FormatInt serviceID);
          suffix = nat_str (unat h mod 1000);
          mx = 8 - length suffix;
          base' = (if length base > mx then take mx base else base)
      in base' @ suffix)"

section \<open>Passwords\<close>

lemma randInt_ok: "randInt n g = (Inr i, g') \<Longrightarrow> 0 < n \<Longrightarrow> i < n \<and> length g = Suc (length g')"
  by (auto simp: randInt_def split: list.splits)

lemma randByte_ok:
  assumes "randByte cs g = (Inr c, g')" and "cs \<noteq> []"
  shows "c \<in> set cs" and "length g = Suc (length g')"
  using assms by (auto simp: randByte_def ret_run elim!: bnd_InrE dest!: randInt_ok)

lemma fill_ok:
  assumes "fill cs k g = (Inr s, g')" and "cs \<noteq> []"
  shows "length s = k \<and> set s \<subseteq> set cs"
  using assms
proof (induction k arbitrary: g s g')
  case (Suc k)
  then obtain c g1 s' g2 where "randByte cs g = (Inr c, g1)" "fill cs k g1 = (Inr s', g2)" "s = c # s'"
    by (auto simp: ret_run elim!: bnd_InrE)
  then show ?case using Suc.IH Suc.prems(2) randByte_ok(1) by fastforce
qed (simp add: ret_run)

lemma shuffle_ok:
  assumes "shuffle i buf g = (Inr s, g')" and "i < length buf"
  shows "mset s = mset buf"
  using assms
proof (induction i arbitrary: buf g)
  case (Suc i)
  obtain j g1 where j: "randInt (Suc i + 1) g = (Inr j, g1)"
    and r: "shuffle i (buf[Suc i := buf ! j, j := buf ! Suc i]) g1 = (Inr s, g')"
    using Suc.prems(1) by (auto elim!: bnd_InrE)
  have "j < length buf" using randInt_ok [OF j] Suc.prems(2) by simp
  then have "mset (buf[Suc i := buf ! j, j := buf ! Suc i]) = mset buf"
    using Suc.prems(2) mset_swap by blast
  then show ?case using Suc.IH [OF r] Suc.prems(2) by simp
qed (simp add: ret_run)

lemma randByte_total: "randByte cs (x # g) = (Inr (cs ! (x mod length cs)), g)"
  by (simp add: randByte_def randInt_def bnd_def ret_def)

lemma fill_total: "k \<le> length g \<Longrightarrow> \<exists>s. fill cs k g = (Inr s, drop k g)"
proof (induction k arbitrary: g)
  case (Suc k)
  then obtain x g0 where g: "g = x # g0" by (cases g) auto
  then obtain s where "fill cs k g0 = (Inr s, drop k g0)" using Suc by auto
  then show ?case by (simp add: g bnd_def randByte_total ret_def)
qed (simp add: ret_run)

lemma shuffle_total: "i \<le> length g \<Longrightarrow> \<exists>s. shuffle i buf g = (Inr s, drop i g)"
proof (induction i arbitrary: buf g)
  case (Suc i)
  then obtain x g0 where g: "g = x # g0" by (cases g) auto
  then show ?case using Suc by (simp add: bnd_def randInt_def)
qed (simp add: ret_run)

lemma length_ge4: "4 \<le> length g \<Longrightarrow> \<exists>a b c d g'. g = a # b # c # d # g'"
  by (auto simp: Suc_le_length_iff numeral_eq_Suc)

lemma pw_sets [simp]: "pwLower \<noteq> []" "pwUpper \<noteq> []" "pwDigits \<noteq> []" "pwSymbols \<noteq> []"
  by (simp_all add: pwLower_def pwUpper_def pwDigits_def pwSymbols_def)

lemma GeneratePassword_ok:
  assumes "GeneratePassword len g = (Inr p, g')"
  shows "int (length p) = max 12 len"
    and "\<exists>c \<in> set p. c \<in> set pwLower" and "\<exists>c \<in> set p. c \<in> set pwUpper"
    and "\<exists>c \<in> set p. c \<in> set pwDigits" and "\<exists>c \<in> set p. c \<in> set pwSymbols"
    and "set p \<subseteq> set (pwLower @ pwUpper @ pwDigits @ pwSymbols)"
proof -
  let ?all = "pwLower @ pwUpper @ pwDigits @ pwSymbols"
  let ?n = "if len < 12 then 12 else len"
  obtain b0 g0 b1 g1 b2 g2 b3 g3 bs g4 where
    b: "randByte pwLower g = (Inr b0, g0)" "randByte pwUpper g0 = (Inr b1, g1)"
      "randByte pwDigits g1 = (Inr b2, g2)" "randByte pwSymbols g2 = (Inr b3, g3)"
    and f: "fill ?all (nat ?n - 4) g3 = (Inr bs, g4)"
    and s: "shuffle (length (b0 # b1 # b2 # b3 # bs) - 1) (b0 # b1 # b2 # b3 # bs) g4 = (Inr p, g')"
    using assms unfolding GeneratePassword_def Let_def by (elim bnd_InrE)
  have m: "mset p = mset (b0 # b1 # b2 # b3 # bs)" by (rule shuffle_ok [OF s]) simp
  then have "length p = 4 + length bs" and st: "set p = {b0, b1, b2, b3} \<union> set bs"
    using mset_eq_length [OF m] mset_eq_setD [OF m] by auto
  moreover have "length bs = nat ?n - 4" and bs: "set bs \<subseteq> set ?all" using fill_ok [OF f] by auto
  ultimately show "int (length p) = max 12 len" by (auto simp: max_def split: if_splits)
  note c = b [THEN randByte_ok(1)]
  show "\<exists>c \<in> set p. c \<in> set pwLower" "\<exists>c \<in> set p. c \<in> set pwUpper"
    "\<exists>c \<in> set p. c \<in> set pwDigits" "\<exists>c \<in> set p. c \<in> set pwSymbols"
    "set p \<subseteq> set ?all" using st bs c by auto
qed

lemma GeneratePassword_total:
  assumes "2 * nat (max 12 len) - 1 \<le> length g"
  shows "\<exists>p g'. GeneratePassword len g = (Inr p, g')"
proof -
  define n where "n = nat (if len < 12 then 12 else len)"
  have n: "12 \<le> n" "2 * n - 1 \<le> length g" using assms by (auto simp: n_def max_def split: if_splits)
  then obtain x0 x1 x2 x3 g3 where g: "g = x0 # x1 # x2 # x3 # g3"
    using length_ge4 [of g] by force
  have l: "n - 4 + (n - 1) \<le> length g3" using n g by simp
  obtain bs where bs: "fill (pwLower @ pwUpper @ pwDigits @ pwSymbols) (n - 4) g3 = (Inr bs, drop (n - 4) g3)"
    using fill_total [of "n - 4" g3] l by force
  have "length bs = n - 4" using fill_ok [OF bs] by simp
  then have sh: "\<exists>s. shuffle (length bs + 3) buf (drop (n - 4) g3) = (Inr s, drop (length bs + 3) (drop (n - 4) g3))" for buf
    by (intro shuffle_total) (use n l in simp)
  have "length (a # b # c # d # bs) - 1 = length bs + 3" for a b c d :: char by simp
  then have "GeneratePassword len g =
      (let b0 = pwLower ! (x0 mod length pwLower); b1 = pwUpper ! (x1 mod length pwUpper);
           b2 = pwDigits ! (x2 mod length pwDigits); b3 = pwSymbols ! (x3 mod length pwSymbols)
       in shuffle (length bs + 3) (b0 # b1 # b2 # b3 # bs) (drop (n - 4) g3))"
    using bs unfolding GeneratePassword_def Let_def n_def g
    by (simp only: bnd_def randByte_total prod.case sum.case)
  then show ?thesis using sh by (metis (no_types))
qed

section \<open>Usernames\<close>

definition panel_safe :: "string \<Rightarrow> bool" where
  "panel_safe u \<longleftrightarrow> u \<noteq> [] \<and> length u \<le> 8 \<and> is_lower (hd u) \<and> (\<forall>c \<in> set u. is_lower c \<or> is_digit c)"

lemma panel_safe_take:
  assumes "u \<noteq> []" and "is_lower (hd u)" and "\<forall>c \<in> set u. is_lower c \<or> is_digit c" and "0 < k" and "k \<le> 8"
  shows "panel_safe (take k u)"
  using assms by (cases u; cases k) (auto simp: panel_safe_def dest: in_set_takeD)

lemma UsernameFromDomain_safe: "panel_safe (UsernameFromDomain domain)"
proof -
  define d where "d = takeWhile (\<lambda>c. c \<noteq> CHR ''.'') (TrimPrefix (ToLower (TrimSpace domain)) ''www.'')"
  define u where "u = filter (\<lambda>r. is_lower r \<or> is_digit r) d"
  define v where "v = (if u = [] \<or> is_digit (hd u) then CHR ''u'' # u else u)"
  have a: "\<forall>c \<in> set u. is_lower c \<or> is_digit c" by (simp add: u_def)
  have "is_lower CHR ''u''" by (simp add: is_lower_def in_range_def)
  then have v: "v \<noteq> []" "is_lower (hd v)" "\<forall>c \<in> set v. is_lower c \<or> is_digit c"
    using a by (auto simp: v_def dest: hd_in_set)
  have "UsernameFromDomain domain = take 8 v"
    by (simp add: UsernameFromDomain_def Let_def u_def v_def d_def)
  then show ?thesis using panel_safe_take [OF v] by simp
qed

lemma nat_str_length: "n < 10 ^ Suc k \<Longrightarrow> length (nat_str n) \<le> Suc k"
proof (induction k arbitrary: n)
  case 0
  then show ?case by (subst nat_str.simps) simp
next
  case (Suc k)
  then have "n div 10 < 10 ^ Suc k" by (simp add: div_less_iff_less_mult mult.commute)
  with Suc.IH [of "n div 10"] show ?case by (subst nat_str.simps) simp
qed

lemma DisambiguateUsername_safe:
  assumes "panel_safe base"
  shows "panel_safe (DisambiguateUsername base serviceID)"
proof -
  define sfx where "sfx = nat_str (unat (fnv32a 2166136261 (base @ '':'' @ FormatInt serviceID)) mod 1000)"
  have l: "length sfx \<le> 3" unfolding sfx_def using nat_str_length [of _ 2] by simp
  have d: "\<forall>c \<in> set sfx. is_digit c" using nat_str_digits by (auto simp: sfx_def)
  have e: "DisambiguateUsername base serviceID = take (8 - length sfx) base @ sfx"
    by (simp add: DisambiguateUsername_def Let_def sfx_def)
  have "panel_safe (take (8 - length sfx) base)"
    by (rule panel_safe_take) (use assms l in \<open>auto simp: panel_safe_def\<close>)
  then show ?thesis using l d unfolding e panel_safe_def by auto
qed

end
