(* ===== verification/Activation.thy ===== *)
theory Activation
  imports Frames Generate
begin

text \<open>
  Order activation: \<open>backend/internal/modules/orders/activate.go\<close> with the repository statements
  it runs (\<open>orders/repo.go\<close>, \<open>catalog/repo.go\<close>, \<open>provisioning/repo.go\<close>, \<open>domains/repo.go\<close>).
\<close>

section \<open>Repositories\<close>

definition order_GetByID :: "int \<Rightarrow> Order act" where
  "order_GetByID oid = bnd (q_db (\<lambda>d. row o_ID oid (db_orders d))) (need (NotFound ''order''))"

definition order_GetItems :: "int \<Rightarrow> OrderItem list act" where
  "order_GetItems oid = q_db (\<lambda>d. filter (\<lambda>it. oi_OrderID it = oid) (db_order_items d))"

definition order_UpdateStatus :: "int \<Rightarrow> OrderStatus \<Rightarrow> unit act" where
  "order_UpdateStatus oid status =
     bnd (q_db (\<lambda>d. row o_ID oid (db_orders d))) (\<lambda>r.
     case r of None \<Rightarrow> fail (NotFound ''order'')
     | Some _ \<Rightarrow> x_db (\<lambda>d. d\<lparr>db_orders := upd o_ID oid (\<lambda>x. x\<lparr>o_Status := status\<rparr>) (db_orders d)\<rparr>))"

definition coalesce :: "'a option \<Rightarrow> 'a option \<Rightarrow> 'a option" where
  "coalesce a b = (case a of None \<Rightarrow> b | Some x \<Rightarrow> Some x)"

definition UpdateItemBackRefs :: "int \<Rightarrow> int option \<Rightarrow> int option \<Rightarrow> unit act" where
  "UpdateItemBackRefs itemID serviceID domainID =
     bnd (q_db (\<lambda>d. row oi_ID itemID (db_order_items d))) (\<lambda>r.
     case r of None \<Rightarrow> fail (NotFound ''order item'')
     | Some _ \<Rightarrow> x_db (\<lambda>d. d\<lparr>db_order_items := upd oi_ID itemID (\<lambda>x. x\<lparr>oi_ServiceID := coalesce serviceID (oi_ServiceID x),
         oi_DomainID := coalesce domainID (oi_DomainID x)\<rparr>) (db_order_items d)\<rparr>))"

definition product_GetByID :: "int \<Rightarrow> Product act" where
  "product_GetByID pid = bnd (q_db (\<lambda>d. find (\<lambda>p. p_ID p = pid \<and> p_DeletedAt p = None) (db_products d)))
     (need (NotFound ''product''))"

definition coupon_GetByID :: "int \<Rightarrow> Coupon act" where
  "coupon_GetByID cid = bnd (q_db (\<lambda>d. row cp_ID cid (db_coupons d))) (need (NotFound ''coupon''))"

definition registrar_GetByName :: "string \<Rightarrow> Registrar act" where
  "registrar_GetByName name = bnd (q_db (\<lambda>d. find (\<lambda>r. r_Name r = name) (db_registrars d))) (need (NotFound ''registrar''))"

definition service_Create :: "env \<Rightarrow> Service \<Rightarrow> Service act" where
  "service_Create env s =
     bnd (nextval TServices) (\<lambda>n.
     let s' = s\<lparr>s_ID := n, s_CreatedAt := e_now env, s_UpdatedAt := e_now env\<rparr> in
     bnd (x_db (\<lambda>d. d\<lparr>db_services := db_services d @ [s']\<rparr>)) (\<lambda>_. ret s'))"

text \<open>\<open>domains_name_active_uniq\<close>: one live domain per name.\<close>

definition domain_Create :: "Domain \<Rightarrow> Domain act" where
  "domain_Create dm =
     bnd (nextval TDomains) (\<lambda>n.
     bnd (q_db (\<lambda>d. \<exists>x \<in> set (db_domains d). d_Name x = d_Name dm \<and> d_Status x \<notin> {DomainCancelled, DomainRejected})) (\<lambda>dup.
     bnd (guard (\<not> dup) (Conflict (''domain '' @ d_Name dm @ '' already exists''))) (\<lambda>_.
     bnd (x_db (\<lambda>d. d\<lparr>db_domains := db_domains d @ [dm\<lparr>d_ID := n\<rparr>]\<rparr>)) (\<lambda>_. ret (dm\<lparr>d_ID := n\<rparr>)))))"

section \<open>Coupons on an order line (orders/pricing.go)\<close>

text \<open>
  \<open>couponProductIDs\<close>: a bare array of ids, or an object with \<open>product_ids\<close>; anything else is no
  restriction. A field of another type makes the whole decoding fail.
\<close>

definition couponProductIDs :: "Coupon \<Rightarrow> int list" where
  "couponProductIDs c =
     (case cp_AppliesTo c of
        JArr js \<Rightarrow> (case those (map json_int js) of Some ids \<Rightarrow> ids | None \<Rightarrow> [])
      | JObj fs \<Rightarrow> (case map_of (rev fs) ''product_ids'' of
            Some (JArr js) \<Rightarrow> (case those (map json_int js) of Some ids \<Rightarrow> ids | None \<Rightarrow> [])
          | _ \<Rightarrow> [])
      | _ \<Rightarrow> [])"

definition couponAppliesToProduct :: "Coupon \<Rightarrow> int \<Rightarrow> bool" where
  "couponAppliesToProduct c productID =
     (let ids = couponProductIDs c in if ids = [] then True else productID \<in> set ids)"

definition recurringWithCoupon :: "Coupon \<Rightarrow> int \<Rightarrow> int" where
  "recurringWithCoupon c unit =
     (case cp_Type c of
        CouponPercentage \<Rightarrow> i64 (unit - quo (i64 (i64 (unit * cp_Value c) + 50)) 100)
      | CouponFixed \<Rightarrow> if cp_Value c \<ge> unit then 0 else i64 (unit - cp_Value c))"

section \<open>Activation\<close>

definition dateOnly :: "time \<Rightarrow> time" where
  "dateOnly t = (case DateOf t of (y, m, d) \<Rightarrow> mkDate y m d 0)"

definition rand_password :: "string act" where
  "rand_password = (\<lambda>w. case GeneratePassword 16 (w_entropy w) of (r, g) \<Rightarrow> (r, w\<lparr>w_entropy := g\<rparr>))"

text \<open>The item is passed by reference: the updated item is returned with the alert message.\<close>

definition activateProductItem ::
  "env \<Rightarrow> Order \<Rightarrow> OrderItem \<Rightarrow> Coupon option \<Rightarrow> time \<Rightarrow> string act" where
  "activateProductItem env order item coupon today =
     (case oi_ProductID item of
        None \<Rightarrow> fail (AppErr CodeInternal (''order item '' @ FormatInt (oi_ID item) @ '' has no product'') [])
      | Some pid \<Rightarrow>
        bnd (product_GetByID pid) (\<lambda>product.
        let applies = (case coupon of None \<Rightarrow> False
              | Some c \<Rightarrow> cp_Recurring c \<and> couponAppliesToProduct c (p_ID product));
            recurring = (case coupon of None \<Rightarrow> oi_UnitPrice item
              | Some c \<Rightarrow> if applies then recurringWithCoupon c (oi_UnitPrice item) else oi_UnitPrice item);
            couponID = (if applies then map_option cp_ID coupon else None) in
        bnd (on_err Internal rand_password) (\<lambda>password.
        bnd (on_err Internal (from_result (e_encrypt env password))) (\<lambda>passwordEnc.
        let svc = \<lparr>s_ID = 0, s_ClientID = o_ClientID order, s_OrderItemID = Some (oi_ID item),
              s_ProductID = p_ID product, s_ServerID = None, s_Domain = oi_Domain item,
              s_Username = UsernameFromDomain (oi_Domain item), s_PasswordEnc = passwordEnc,
              s_Status = (if p_Module product = ModuleNone then ServiceActive else ServicePending),
              s_BillingCycle = oi_Cycle item, s_RecurringAmount = recurring, s_SetupFee = oi_SetupFee item,
              s_NextDueDate = (if oi_Cycle item \<noteq> CycleOneTime then Some (AddCycle today (oi_Cycle item)) else None),
              s_RegistrationDate = (if p_Module product = ModuleNone then Some today else None),
              s_TerminatedAt = None, s_SuspendReason = [],
              s_PanelMeta = no_meta\<lparr>pm_ChosenSpecs := (if p_Configurable product then io_Specs (oi_Options item) else [])\<rparr>,
              s_CouponID = couponID, s_PendingUpgrade = None, s_Notes = [], s_CreatedAt = 0, s_UpdatedAt = 0\<rparr> in
        bnd (service_Create env svc) (\<lambda>svc.
        bnd (UpdateItemBackRefs (oi_ID item) (Some (s_ID svc)) None) (\<lambda>_.
        if p_Module product = ModuleNone then ret []
        else if p_AutoSetup product = SetupManual then
          ret (''Order '' @ o_OrderNumber order @ '': service for product '' @ [CHR 0x27] @ p_Name product
            @ [CHR 0x27] @ '' ('' @ oi_Domain item @ '') requires manual setup'')
        else bnd (Enqueue env (JobProvisionCreate (s_ID svc))) (\<lambda>_. ret [])))))))"

definition containsAddon :: "string list \<Rightarrow> string \<Rightarrow> bool" where
  "containsAddon keys key \<longleftrightarrow> key \<in> set keys"

definition defaultDomainYears :: int where "defaultDomainYears = 1"

definition activateDomainItem :: "env \<Rightarrow> Order \<Rightarrow> OrderItem \<Rightarrow> unit act" where
  "activateDomainItem env order item =
     bnd (registrar_GetByName ''rdash'') (\<lambda>registrar.
     let opts = oi_Options item;
         years = (if io_DomainYears opts = 0 then defaultDomainYears else io_DomainYears opts) in
     bnd (on_err Internal (GetJSON dec_strs ''domains.default_nameservers'' [])) (\<lambda>ns.
     let status = (if oi_ItemType item = ItemDomainTransfer then DomainPendingTransfer else DomainPending);
         perYear = (if io_DomainRenewPerYear opts = 0
           then (if years > 0 then quo (oi_UnitPrice item) years else oi_UnitPrice item)
           else io_DomainRenewPerYear opts) in
     bnd (domain_Create \<lparr>d_ID = 0, d_ClientID = o_ClientID order, d_RegistrarID = r_ID registrar,
          d_Name = oi_Domain item, d_Status = status, d_RegistrationDate = None, d_ExpiryDate = None,
          d_NextDueDate = None, d_RecurringAmount = perYear, d_BillingCycle = CycleAnnually, d_AutoRenew = True,
          d_Nameservers = ns, d_EPPCodeEnc = io_EPPCodeEnc opts,
          d_IDProtection = containsAddon (io_DomainAddons opts) ''id_protection'',
          d_DNSManagementEnabled = containsAddon (io_DomainAddons opts) ''dns_management'',
          d_EmailForwardingEnabled = containsAddon (io_DomainAddons opts) ''email_forwarding'',
          d_DocumentRequired = False, d_Verification = VerificationNone, d_RegistrarRefundable = False,
          d_RefundAmount = 0, d_RefundedAt = None\<rparr>) (\<lambda>dm.
     bnd (UpdateItemBackRefs (oi_ID item) None (Some (d_ID dm))) (\<lambda>_.
     if oi_ItemType item = ItemDomainTransfer then Enqueue env (JobDomainTransfer (d_ID dm) years)
     else Enqueue env (JobDomainRegister (d_ID dm) years)))))"

text \<open>One turn of the loop; the accumulator is \<open>manualAlerts\<close>.\<close>

definition activateItem ::
  "env \<Rightarrow> Order \<Rightarrow> Coupon option \<Rightarrow> time \<Rightarrow> OrderItem \<Rightarrow> string list \<Rightarrow> string list act" where
  "activateItem env order coupon today item alerts =
     (if oi_ServiceID item \<noteq> None \<or> oi_DomainID item \<noteq> None then ret alerts
      else case oi_ItemType item of
        ItemProduct \<Rightarrow> bnd (activateProductItem env order item coupon today) (\<lambda>alert.
          ret (if alert \<noteq> [] then alerts @ [alert] else alerts))
      | ItemDomainRegister \<Rightarrow> bnd (activateDomainItem env order item) (\<lambda>_. ret alerts)
      | ItemDomainTransfer \<Rightarrow> bnd (activateDomainItem env order item) (\<lambda>_. ret alerts)
      | ItemOther _ \<Rightarrow> ret alerts)"

definition ActivateOrder :: "env \<Rightarrow> int \<Rightarrow> unit act" where
  "ActivateOrder env orderID =
     bnd (order_GetByID orderID) (\<lambda>order.
     if o_Status order = OrderActive then ret ()
     else if o_Status order \<noteq> OrderPending then
       fail (AppErr CodeConflict (''order '' @ order_status_str (o_Status order) @ '' cannot be activated'') [])
     else
       bnd (clients_GetByID (o_ClientID order)) (\<lambda>client.
       bnd (order_GetItems orderID) (\<lambda>items.
       bnd (case o_CouponID order of None \<Rightarrow> ret None | Some cid \<Rightarrow> optional (coupon_GetByID cid)) (\<lambda>coupon.
       bnd (WithinTx (
         bnd (foldE (activateItem env order coupon (dateOnly (e_now env))) items []) (\<lambda>alerts.
         bnd (from_result (TransitionOrder (o_Status order) OrderActive)) (\<lambda>newStatus.
         bnd (order_UpdateStatus orderID newStatus) (\<lambda>_. ret alerts))))) (\<lambda>alerts.
       bnd (each (\<lambda>msg. ignore_err (AlertAdmin env ''Manual provisioning required'' msg)) alerts) (\<lambda>_.
       ignore_err (SendTemplate env (c_UserID client) ''order_activated''
         [(''OrderNumber'', o_OrderNumber order), (''Name'', FullName client)])))))))"

section \<open>Frames\<close>

lemma frame_activation_reads [frame_rules]:
  "keeps (frame f) (order_GetByID oid)" "keeps (frame f) (order_GetItems oid)"
  "keeps (frame f) (product_GetByID pid)" "keeps (frame f) (coupon_GetByID cid)"
  "keeps (frame f) (registrar_GetByName nm)"
  unfolding order_GetByID_def order_GetItems_def product_GetByID_def coupon_GetByID_def registrar_GetByName_def
  by (intro frame_rules)+

lemma frame_rand_password [frame_rules]: "keeps (frame f) rand_password"
  by (auto simp: keeps_def rand_password_def frame_def split: prod.splits)

text \<open>What activation may write: services, domains, order lines, orders and the logs.\<close>

definition no_fulfilment :: "(db \<Rightarrow> 'p) \<Rightarrow> bool" where
  "no_fulfilment f \<longleftrightarrow> (\<forall>d x. f (d\<lparr>db_services := x\<rparr>) = f d) \<and> (\<forall>d x. f (d\<lparr>db_domains := x\<rparr>) = f d)
     \<and> (\<forall>d x. f (d\<lparr>db_order_items := x\<rparr>) = f d) \<and> (\<forall>d x. f (d\<lparr>db_orders := x\<rparr>) = f d)"

lemma frame_order_UpdateStatus [frame_rules]: "no_fulfilment f \<Longrightarrow> keeps (frame f) (order_UpdateStatus oid st)"
  unfolding order_UpdateStatus_def by (intro frame_rules) (simp add: no_fulfilment_def)

lemma frame_UpdateItemBackRefs [frame_rules]: "no_fulfilment f \<Longrightarrow> keeps (frame f) (UpdateItemBackRefs i s x)"
  unfolding UpdateItemBackRefs_def by (intro frame_rules) (simp add: no_fulfilment_def)

lemma frame_service_Create [frame_rules]: "no_fulfilment f \<Longrightarrow> keeps (frame f) (service_Create env s)"
  unfolding service_Create_def Let_def by (intro frame_rules) (simp add: no_fulfilment_def)

lemma frame_domain_Create [frame_rules]: "no_fulfilment f \<Longrightarrow> keeps (frame f) (domain_Create s)"
  unfolding domain_Create_def by (intro frame_rules) (simp add: no_fulfilment_def)

lemma frame_activateProductItem [frame_rules]:
  "no_fulfilment f \<Longrightarrow> keeps (frame f) (activateProductItem env ord item cp today)"
  unfolding activateProductItem_def Let_def by (intro frame_rules)

lemma frame_activateDomainItem [frame_rules]:
  "no_fulfilment f \<Longrightarrow> keeps (frame f) (activateDomainItem env ord item)"
  unfolding activateDomainItem_def Let_def by (intro frame_rules)

lemma frame_activateItem [frame_rules]:
  "no_fulfilment f \<Longrightarrow> keeps (frame f) (activateItem env ord cp today item al)"
  unfolding activateItem_def by (cases "oi_ItemType item") (simp_all add: frame_rules)

lemma frame_ActivateOrder [frame_rules]:
  "no_fulfilment f \<Longrightarrow> no_logs f \<Longrightarrow> keeps (frame f) (ActivateOrder env oid)"
  unfolding ActivateOrder_def by (intro frame_rules)

end
