(* ===== verification/Pricing.thy ===== *)
theory Pricing
  imports Activation
begin

text \<open>
  Pricing of a cart: \<open>backend/internal/modules/orders/pricing.go\<close> with the catalogue statements it
  reads (\<open>catalog/repo.go\<close>, \<open>catalog/specs_repo.go\<close>, \<open>domains/repo.go\<close>). A function that returns
  a plan or a list of field errors is a computation with a sum as its value; its third result in
  the source, an error that aborts the checkout, is the failure of the computation. The
  registrar's answer to an availability query is an argument.
\<close>

section \<open>The catalogue\<close>

text \<open>\<open>ORDER BY sort, id\<close> on a list in the order of the ids.\<close>

definition GetPricing :: "int \<Rightarrow> BillingCycle \<Rightarrow> ProductPricing act" where
  "GetPricing productID cycle = bnd (q_db (\<lambda>d. find (\<lambda>p. pp_ProductID p = productID \<and> pp_Cycle p = cycle
     \<and> pp_Currency p = ''IDR'') (db_product_pricing d))) (need (NotFound ''pricing''))"

definition ListOptionValues :: "int \<Rightarrow> ConfigurableOptionValue list act" where
  "ListOptionValues optionID = q_db (\<lambda>d. sort_key ov_Sort (filter (\<lambda>v. ov_OptionID v = optionID) (db_option_values d)))"

definition ListSpecs :: "int \<Rightarrow> ProductSpec list act" where
  "ListSpecs productID = q_db (\<lambda>d. sort_key ps_Sort (filter (\<lambda>s. ps_ProductID s = productID) (db_product_specs d)))"

definition GetSpecPricing :: "int \<Rightarrow> BillingCycle \<Rightarrow> ProductSpecPricing act" where
  "GetSpecPricing specID cycle = bnd (q_db (\<lambda>d. find (\<lambda>p. psp_SpecID p = specID \<and> psp_Cycle p = cycle
     \<and> psp_Currency p = ''IDR'') (db_spec_pricing d))) (need (NotFound ''spec pricing''))"

definition GetByTLD :: "string \<Rightarrow> TLDPricing act" where
  "GetByTLD tld = bnd (q_db (\<lambda>d. find (\<lambda>t. tp_TLD t = tld) (db_tld_pricing d))) (need (NotFound ''tld pricing''))"

definition premium_GetByName :: "string \<Rightarrow> PremiumDomainPricing act" where
  "premium_GetByName name = bnd (q_db (\<lambda>d. find (\<lambda>p. pd_DomainName p = name) (db_premium_pricing d)))
     (need (NotFound ''premium domain pricing''))"

definition GetByTLDAndLength :: "string \<Rightarrow> int \<Rightarrow> PremiumLengthPricing act" where
  "GetByTLDAndLength tld charLength = bnd (q_db (\<lambda>d. find (\<lambda>p. pl_TLD p = tld \<and> pl_CharLength p = charLength)
     (db_premium_lengths d))) (need (NotFound ''premium length pricing''))"

definition addons_ListActive :: "DomainAddon list act" where
  "addons_ListActive = q_db (\<lambda>d. filter da_Active (db_domain_addons d))"

section \<open>Requests and plans (orders/dto.go)\<close>

record OptionSelectionRequest =
  osr_OptionID :: int
  osr_ValueID :: int

record SpecSelectionRequest =
  ssr_Key :: string
  ssr_Qty :: int
  ssr_Unlimited :: bool

record OrderItemRequest =
  oir_ItemType :: string
  oir_ProductID :: int
  oir_Domain :: string
  oir_Cycle :: string
  oir_Options :: "OptionSelectionRequest list"
  oir_Specs :: "SpecSelectionRequest list"
  oir_DomainYears :: int
  oir_DomainAddons :: "string list"
  oir_EPPCode :: string

record itemPlan =
  ip_itemType :: OrderItemType
  ip_product :: "Product option"
  ip_cycle :: BillingCycle
  ip_unit :: int
  ip_setup :: int
  ip_desc :: string
  ip_domainName :: string
  ip_opts :: itemOptions
  ip_years :: int

record DomainAvailability =
  av_Name :: string
  av_Available :: bool

definition allAutoSetupOnOrder :: "itemPlan list \<Rightarrow> bool" where
  "allAutoSetupOnOrder plans \<longleftrightarrow> plans \<noteq> []
     \<and> (\<forall>p \<in> set plans. ip_itemType p = ItemProduct \<and> map_option p_AutoSetup (ip_product p) = Some SetupOnOrder)"

definition requiresRegistrantContact :: "itemPlan list \<Rightarrow> bool" where
  "requiresRegistrantContact plans \<longleftrightarrow>
     (\<exists>p \<in> set plans. ip_itemType p = ItemDomainRegister \<or> ip_itemType p = ItemDomainTransfer)"

definition ferr :: "string \<Rightarrow> string \<Rightarrow> FieldError" where
  "ferr fld msg = \<lparr>fe_Field = fld, fe_Message = msg\<rparr>"

section \<open>A product line\<close>

text \<open>\<open>json.Unmarshal\<close> into \<open>map[string]int64\<close>: every value a number, or the whole map is lost.\<close>

definition optionDelta :: "json \<Rightarrow> BillingCycle \<Rightarrow> int" where
  "optionDelta raw cycle =
     (case raw of
        JObj fs \<Rightarrow>
          (case those (map (\<lambda>(k, v). map_option (Pair k) (json_int v)) fs) of
             None \<Rightarrow> 0
           | Some m \<Rightarrow> (case map_of (rev m) (cycle_str cycle) of None \<Rightarrow> 0 | Some n \<Rightarrow> n))
      | _ \<Rightarrow> 0)"

definition priceSpec :: "ProductSpec \<Rightarrow> int \<Rightarrow> bool \<Rightarrow> BillingCycle \<Rightarrow> (FieldError list + SpecSelection) act" where
  "priceSpec sp qty unlimited cycle =
     (let fe = ferr (''specs.'' @ ps_Key sp);
          errs = (if unlimited then
              (if \<not> ps_AllowUnlimited sp then [fe ''unlimited is not allowed for this spec''] else [])
            else
              (if qty < ps_MinQty sp then [fe (''must be at least '' @ FormatInt (ps_MinQty sp))] else [])
              @ (if ps_MaxQty sp \<noteq> 0 \<and> qty > ps_MaxQty sp then [fe (''must be at most '' @ FormatInt (ps_MaxQty sp))] else [])
              @ (if ps_StepQty sp > 1 \<and> remi (i64 (qty - ps_MinQty sp)) (ps_StepQty sp) \<noteq> 0
                 then [fe (''must be in increments of '' @ FormatInt (ps_StepQty sp))] else []))
      in if errs \<noteq> [] then ret (Inl errs)
      else bnd (attempt (optional (GetSpecPricing (ps_ID sp) cycle))) (\<lambda>r. ret (case r of
        Inl _ \<Rightarrow> Inl [fe ''could not load spec pricing'']
      | Inr pricing \<Rightarrow>
          Inr \<lparr>ss_Key = ps_Key sp, ss_ProvisionKey = provision_key_str (ps_ProvisionKey sp), ss_Unit = spec_unit_str (ps_Unit sp),
            ss_Qty = (if unlimited then UnlimitedQty else qty), ss_Unlimited = unlimited,
            ss_Amount = (case pricing of
                None \<Rightarrow> 0
              | Some p \<Rightarrow> if unlimited then psp_UnlimitedPrice p
                  else let chargeable = i64 (qty - ps_IncludedQty sp);
                           chargeable = (if chargeable < 0 then 0 else chargeable)
                       in i64 (chargeable * psp_UnitPrice p))\<rparr>)))"

definition spec_unit_suffix :: "SpecUnit \<Rightarrow> string" where
  "spec_unit_suffix u = (case u of UnitGB \<Rightarrow> ''GB'' | UnitMB \<Rightarrow> ''MB'' | _ \<Rightarrow> [])"

definition spec_part :: "SpecSelection \<Rightarrow> string" where
  "spec_part s = (if ss_Unlimited s then ''unlimited''
     else FormatInt (ss_Qty s) @ spec_unit_suffix (spec_unit_of (ss_Unit s))) @ '' '' @ ss_Key s"

fun Join :: "string list \<Rightarrow> string \<Rightarrow> string" where
  "Join [] sep = []"
| "Join [x] sep = x"
| "Join (x # y # ys) sep = x @ sep @ Join (y # ys) sep"

definition specSummary :: "SpecSelection list \<Rightarrow> string" where
  "specSummary sels = Join (map spec_part sels) '', ''"

text \<open>One turn of the option loop; the accumulator is \<open>(errs, unit, selections)\<close>.\<close>

definition planOption :: "BillingCycle \<Rightarrow> OptionSelectionRequest \<Rightarrow>
    FieldError list \<times> int \<times> OptionSelection list \<Rightarrow> (FieldError list \<times> int \<times> OptionSelection list) act" where
  "planOption cycle sel acc = (case acc of (errs, unit, sels) \<Rightarrow>
     bnd (attempt (ListOptionValues (osr_OptionID sel))) (\<lambda>r. ret (case r of
       Inl _ \<Rightarrow> (errs @ [ferr ''options'' ''could not load configurable options''], unit, sels)
     | Inr values \<Rightarrow>
         (case find (\<lambda>v. ov_ID v = osr_ValueID sel) values of
            None \<Rightarrow> (errs @ [ferr ''options'' (''invalid value '' @ FormatInt (osr_ValueID sel) @ '' for option ''
              @ FormatInt (osr_OptionID sel))], unit, sels)
          | Some v \<Rightarrow>
              let delta = optionDelta (ov_PriceDeltas v) cycle
              in (errs, i64 (unit + delta), sels @ [\<lparr>os_OptionID = osr_OptionID sel, os_ValueID = osr_ValueID sel,
                   os_Value = ov_Name v, os_Delta = delta\<rparr>])))))"

text \<open>
  The specs the client chose, by key; a key given twice keeps the later choice. Go visits the
  entries of a map in no fixed order; the model visits the keys in the order of the request,
  which only orders the details of an error.
\<close>

definition chosen_specs :: "SpecSelectionRequest list \<Rightarrow> string \<Rightarrow> SpecSelectionRequest option" where
  "chosen_specs reqs = map_of (rev (map (\<lambda>r. (ssr_Key r, r)) reqs))"

definition planSpec :: "BillingCycle \<Rightarrow> SpecSelectionRequest list \<Rightarrow> ProductSpec \<Rightarrow>
    FieldError list \<times> int \<times> SpecSelection list \<Rightarrow> (FieldError list \<times> int \<times> SpecSelection list) act" where
  "planSpec cycle reqs sp acc = (case acc of (errs, unit, sels) \<Rightarrow>
     let (qty, unlimited) = (case chosen_specs reqs (ps_Key sp) of
           None \<Rightarrow> (ps_DefaultQty sp, False) | Some sc \<Rightarrow> (ssr_Qty sc, ssr_Unlimited sc)) in
     bnd (priceSpec sp qty unlimited cycle) (\<lambda>r. ret (case r of
       Inl ferrs \<Rightarrow> (errs @ ferrs, unit, sels)
     | Inr sel \<Rightarrow> (errs, i64 (unit + ss_Amount sel), sels @ [sel]))))"

text \<open>\<open>%q\<close> for a string of printable ASCII.\<close>

definition GoQuote :: "string \<Rightarrow> string" where
  "GoQuote s = [CHR 0x22] @ concat (map (\<lambda>c. if c = CHR 0x22 \<or> c = CHR 0x5C then [CHR 0x5C, c] else [c]) s) @ [CHR 0x22]"

definition planSpecs :: "Product \<Rightarrow> BillingCycle \<Rightarrow> SpecSelectionRequest list \<Rightarrow>
    FieldError list \<times> int \<Rightarrow> (FieldError list \<times> int \<times> SpecSelection list) act" where
  "planSpecs product cycle reqs acc = (case acc of (errs, unit) \<Rightarrow>
     if p_Configurable product then
       bnd (attempt (ListSpecs (p_ID product))) (\<lambda>r. case r of
         Inl _ \<Rightarrow> ret (errs @ [ferr ''specs'' ''could not load product specs''], unit, [])
       | Inr specs \<Rightarrow>
           bnd (foldE (planSpec cycle reqs) specs (errs, unit, [])) (\<lambda>(errs, unit, sels).
           ret (errs @ map (\<lambda>k. ferr ''specs'' (''unknown spec '' @ GoQuote k))
                  (filter (\<lambda>k. k \<notin> ps_Key ` set specs) (remdups (map ssr_Key reqs))), unit, sels)))
     else if reqs \<noteq> [] then ret (errs @ [ferr ''specs'' ''product is not configurable''], unit, [])
     else ret (errs, unit, []))"

definition product_plan ::
  "OrderItemRequest \<Rightarrow> Product \<Rightarrow> BillingCycle \<Rightarrow> int \<Rightarrow> int \<Rightarrow> OptionSelection list \<Rightarrow> SpecSelection list \<Rightarrow> itemPlan" where
  "product_plan it product cycle unit setup selections specSels =
     (let name = ToLower (TrimSpace (oir_Domain it)); summary = specSummary specSels in
      \<lparr>ip_itemType = ItemProduct, ip_product = Some product, ip_cycle = cycle, ip_unit = unit, ip_setup = setup,
       ip_desc = p_Name product @ '' ('' @ cycle_str cycle @ '')''
         @ (if oir_Domain it \<noteq> [] then '' - '' @ name else []) @ (if summary \<noteq> [] then '' - '' @ summary else []),
       ip_domainName = name,
       ip_opts = \<lparr>io_Selections = selections, io_Specs = specSels, io_DomainYears = 0, io_DomainAddons = [],
         io_DomainRenewPerYear = 0, io_EPPCodeEnc = []\<rparr>,
       ip_years = 0\<rparr>)"

text \<open>The options and specs of a product that is on sale and priced.\<close>

definition product_line ::
  "OrderItemRequest \<Rightarrow> Product \<Rightarrow> FieldError list \<Rightarrow> ProductPricing \<Rightarrow> BillingCycle \<Rightarrow> (FieldError list + itemPlan) act" where
  "product_line it product errs pricing cycle =
     bnd (foldE (planOption cycle) (oir_Options it) (errs, pp_Price pricing, [])) (\<lambda>(errs, unit, selections).
     bnd (planSpecs product cycle (oir_Specs it) (errs, unit)) (\<lambda>(errs, unit, specSels).
     ret (if errs \<noteq> [] then Inl errs
          else Inr (product_plan it product cycle unit (pp_SetupFee pricing) selections specSels))))"

definition planProduct :: "OrderItemRequest \<Rightarrow> (FieldError list + itemPlan) act" where
  "planProduct it =
     (if oir_ProductID it = 0 then ret (Inl [ferr ''product_id'' ''is required for product items''])
      else bnd (attempt (optional (product_GetByID (oir_ProductID it)))) (\<lambda>r. case r of
        Inl _ \<Rightarrow> ret (Inl [ferr ''product_id'' ''could not load product''])
      | Inr None \<Rightarrow> ret (Inl [ferr ''product_id'' ''product not found''])
      | Inr (Some product) \<Rightarrow>
        if p_DeletedAt product \<noteq> None then ret (Inl [ferr ''product_id'' ''product not found''])
        else if p_Hidden product then ret (Inl [ferr ''product_id'' ''product is not available''])
        else if p_Type product = ProductDomain then
          ret (Inl [ferr ''item_type'' ''domain products must be ordered as domain_register''])
        else
          let errs = (if p_StockEnabled product \<and> p_StockQty product < 1
                then [ferr ''product_id'' ''product is out of stock''] else []);
              cycle = cycle_of (oir_Cycle it) in
          if oir_Cycle it = [] \<or> \<not> BillingCycle_Valid cycle then
            ret (Inl (errs @ [ferr ''cycle'' ''a valid billing cycle is required'']))
          else bnd (attempt (optional (GetPricing (p_ID product) cycle))) (\<lambda>r. case r of
            Inl _ \<Rightarrow> ret (Inl (errs @ [ferr ''cycle'' ''could not load pricing'']))
          | Inr None \<Rightarrow> ret (Inl (errs @ [ferr ''cycle'' ''product is not priced for this billing cycle'']))
          | Inr (Some pricing) \<Rightarrow>
              product_line it product errs pricing cycle)))"

section \<open>A domain line\<close>

definition domainExtensionOf :: "string \<Rightarrow> string" where
  "domainExtensionOf name = (case Cut CHR ''.'' name of (_, after, found) \<Rightarrow> if found then after else [])"

definition label_ok :: "string \<Rightarrow> bool" where
  "label_ok l \<longleftrightarrow> l \<noteq> [] \<and> length l \<le> 63 \<and> hd l \<noteq> CHR ''-'' \<and> last l \<noteq> CHR ''-''
     \<and> (\<forall>c \<in> set l. is_lower c \<or> is_digit c \<or> c = CHR ''-'')"

definition ValidDomainName :: "string \<Rightarrow> bool" where
  "ValidDomainName name \<longleftrightarrow>
     \<not> (length name < 3 \<or> length name > 253)
     \<and> (let labels = Split CHR ''.'' name in
         length labels \<ge> 2 \<and> (\<forall>l \<in> set labels. label_ok l) \<and> length (last labels) \<ge> 2)"

definition premiumFor :: "string \<Rightarrow> string \<Rightarrow> (PremiumDomainPricing option \<times> PremiumLengthPricing option) act" where
  "premiumFor name ext =
     bnd (attempt (premium_GetByName name)) (\<lambda>r. case r of
       Inr premium \<Rightarrow> ret (Some premium, None)
     | Inl _ \<Rightarrow>
         let label = int (length (TrimSuffix name (''.'' @ ext))) in
         bnd (attempt (GetByTLDAndLength ext label)) (\<lambda>r. ret (case r of
           Inr tier \<Rightarrow> (None, Some tier) | Inl _ \<Rightarrow> (None, None))))"

text \<open>The loop over the addon keys: \<open>(errs, seen, total)\<close>.\<close>

fun addons_loop :: "(string \<Rightarrow> int option) \<Rightarrow> string list \<Rightarrow> string list \<Rightarrow> int \<Rightarrow> FieldError list \<Rightarrow> FieldError list \<times> int" where
  "addons_loop prices [] seen tot errs = (errs, tot)"
| "addons_loop prices (k # ks) seen tot errs =
     (if k \<in> set seen then addons_loop prices ks seen tot errs
      else case prices k of
        None \<Rightarrow> addons_loop prices ks seen tot (errs @ [ferr ''domain_addons'' (''addon '' @ k @ '' is not available'')])
      | Some price \<Rightarrow> addons_loop prices ks (k # seen) (i64 (tot + price)) errs)"

definition domainAddonsTotal :: "string list \<Rightarrow> (FieldError list \<times> int) act" where
  "domainAddonsTotal keys =
     (if keys = [] then ret ([], 0)
      else bnd (on_err Internal addons_ListActive) (\<lambda>catalog.
        ret (addons_loop (map_of (rev (map (\<lambda>a. (da_Key a, da_Price a)) catalog))) keys [] 0 [])))"

text \<open>The price of the term and the renewal rate per year; a left value is a field error.\<close>

definition domain_price ::
  "bool \<Rightarrow> int \<Rightarrow> TLDPricing \<Rightarrow> PremiumDomainPricing option \<times> PremiumLengthPricing option \<Rightarrow> FieldError + int \<times> int" where
  "domain_price isTransfer years tld prem =
     (case prem of
        (Some premium, _) \<Rightarrow>
          Inr (i64 ((if isTransfer then pd_TransferPrice premium else pd_RegisterPrice premium) * years), pd_RenewPrice premium)
      | (None, Some tier) \<Rightarrow> Inr (i64 (pl_Price tier * years), pl_Price tier)
      | (None, None) \<Rightarrow>
          if years < tp_MinYears tld \<or> years > tp_MaxYears tld then
            Inl (ferr ''domain_years'' (''must be between '' @ FormatInt (tp_MinYears tld) @ '' and ''
              @ FormatInt (tp_MaxYears tld) @ '' years for this TLD''))
          else
            let renew = (case map_of (tp_RenewPrices tld) ''1'' of None \<Rightarrow> 0 | Some n \<Rightarrow> n) in
            if isTransfer then Inr (i64 (tp_TransferPrice tld * years), renew)
            else (case map_of (tp_RegisterPrices tld) (FormatInt years) of
                None \<Rightarrow> Inl (ferr ''domain_years'' ''no price configured for this many years'')
              | Some price \<Rightarrow> Inr (price, renew)))"

definition domain_product :: "int \<Rightarrow> (FieldError + Product option) act" where
  "domain_product productID =
     (if productID = 0 then ret (Inr None)
      else bnd (optional (product_GetByID productID)) (\<lambda>p. ret (case p of
        None \<Rightarrow> Inl (ferr ''product_id'' ''must reference a domain product'')
      | Some pr \<Rightarrow> if p_DeletedAt pr \<noteq> None \<or> p_Type pr \<noteq> ProductDomain
          then Inl (ferr ''product_id'' ''must reference a domain product'') else Inr (Some pr))))"

definition name_available :: "DomainAvailability list \<Rightarrow> string \<Rightarrow> bool" where
  "name_available res name = (case find (\<lambda>r. EqualFold (av_Name r) name) res of None \<Rightarrow> False | Some r \<Rightarrow> av_Available r)"

definition domain_available ::
  "(string list \<Rightarrow> err + DomainAvailability list) \<Rightarrow> bool \<Rightarrow> string \<Rightarrow> bool act" where
  "domain_available CheckAvailability isTransfer name =
     (if isTransfer then ret True
      else bnd (from_result (CheckAvailability [name])) (\<lambda>res. ret (name_available res name)))"

definition domain_epp :: "env \<Rightarrow> bool \<Rightarrow> string \<Rightarrow> string act" where
  "domain_epp env isTransfer code =
     (if isTransfer \<and> code \<noteq> [] then on_err Internal (from_result (e_encrypt env code)) else ret [])"

definition domain_plan ::
  "bool \<Rightarrow> string \<Rightarrow> int \<Rightarrow> string list \<Rightarrow> Product option \<Rightarrow> int \<Rightarrow> int \<Rightarrow> string \<Rightarrow> itemPlan" where
  "domain_plan isTransfer name years addons product unit renewPerYear epp =
     \<lparr>ip_itemType = (if isTransfer then ItemDomainTransfer else ItemDomainRegister), ip_product = product,
      ip_cycle = CycleAnnually, ip_unit = unit, ip_setup = 0,
      ip_desc = ''Domain '' @ (if isTransfer then ''Transfer'' else ''Registration'') @ '' '' @ name @ '' (''
        @ FormatInt years @ '' year(s))'',
      ip_domainName = name,
      ip_opts = \<lparr>io_Selections = [], io_Specs = [], io_DomainYears = years, io_DomainAddons = addons,
        io_DomainRenewPerYear = renewPerYear, io_EPPCodeEnc = epp\<rparr>,
      ip_years = years\<rparr>"

text \<open>The checks of a name that has a price: availability, addons, and the line itself.\<close>

definition domain_line ::
  "env \<Rightarrow> (string list \<Rightarrow> err + DomainAvailability list) \<Rightarrow> OrderItemRequest \<Rightarrow> bool \<Rightarrow> string \<Rightarrow> int \<Rightarrow>
    int \<Rightarrow> int \<Rightarrow> Product option \<Rightarrow> (FieldError list + itemPlan) act" where
  "domain_line env CheckAvailability it isTransfer name years unit renewPerYear product =
     bnd (domain_available CheckAvailability isTransfer name) (\<lambda>available.
     if \<not> available then ret (Inl [ferr ''domain'' ''domain is not available for registration''])
     else
       bnd (domainAddonsTotal (oir_DomainAddons it)) (\<lambda>(errs, addonTotal).
       if errs \<noteq> [] then ret (Inl errs)
       else
         bnd (domain_epp env isTransfer (oir_EPPCode it)) (\<lambda>epp.
         ret (Inr (domain_plan isTransfer name years (oir_DomainAddons it) product
           (i64 (unit + i64 (addonTotal * years))) (i64 (renewPerYear + addonTotal)) epp)))))"

text \<open>A name under an extension that is on sale: its price, then the product that labels the line.\<close>

definition domain_on_sale ::
  "env \<Rightarrow> (string list \<Rightarrow> err + DomainAvailability list) \<Rightarrow> OrderItemRequest \<Rightarrow> bool \<Rightarrow> string \<Rightarrow> int \<Rightarrow>
    TLDPricing \<Rightarrow> (FieldError list + itemPlan) act" where
  "domain_on_sale env CheckAvailability it isTransfer name years tld =
     bnd (premiumFor name (domainExtensionOf name)) (\<lambda>prem.
     case domain_price isTransfer years tld prem of
       Inl e \<Rightarrow> ret (Inl [e])
     | Inr (unit, renewPerYear) \<Rightarrow>
         bnd (domain_product (oir_ProductID it)) (\<lambda>p. case p of
           Inl e \<Rightarrow> ret (Inl [e])
         | Inr product \<Rightarrow> domain_line env CheckAvailability it isTransfer name years unit renewPerYear product))"

definition planDomain ::
  "env \<Rightarrow> (string list \<Rightarrow> err + DomainAvailability list) \<Rightarrow> OrderItemRequest \<Rightarrow> (FieldError list + itemPlan) act" where
  "planDomain env CheckAvailability it =
     (let name = ToLower (TrimSpace (oir_Domain it));
          years = (if oir_DomainYears it = 0 then defaultDomainYears else oir_DomainYears it);
          isTransfer = (item_type_of (oir_ItemType it) = ItemDomainTransfer);
          ext = domainExtensionOf name in
      if name = [] then ret (Inl [ferr ''domain'' ''is required for domain items''])
      else if \<not> ValidDomainName name then ret (Inl [ferr ''domain'' ''is not a valid domain name''])
      else bnd (optional (GetByTLD ext)) (\<lambda>found.
        case (case found of None \<Rightarrow> None | Some tld \<Rightarrow> if tp_Active tld then Some tld else None) of
          None \<Rightarrow> ret (Inl [ferr ''domain'' (''the .'' @ ext @ '' extension is not offered for sale'')])
        | Some tld \<Rightarrow> domain_on_sale env CheckAvailability it isTransfer name years tld))"

section \<open>The cart\<close>

definition item_field :: "nat \<Rightarrow> FieldError \<Rightarrow> FieldError" where
  "item_field i fe = fe\<lparr>fe_Field := ''items['' @ FormatInt (int i) @ ''].'' @ fe_Field fe\<rparr>"

definition planItem ::
  "env \<Rightarrow> (string list \<Rightarrow> err + DomainAvailability list) \<Rightarrow> OrderItemRequest \<Rightarrow> (FieldError list + itemPlan) act" where
  "planItem env CheckAvailability it =
     (case item_type_of (oir_ItemType it) of
        ItemProduct \<Rightarrow> planProduct it
      | ItemDomainRegister \<Rightarrow> planDomain env CheckAvailability it
      | ItemDomainTransfer \<Rightarrow> planDomain env CheckAvailability it
      | ItemOther _ \<Rightarrow> ret (Inl [ferr ''item_type'' ''must be one of: product, domain_register, domain_transfer'']))"

text \<open>One turn of the loop over the items; the accumulator is \<open>(plans, details)\<close>.\<close>

definition planStep ::
  "env \<Rightarrow> (string list \<Rightarrow> err + DomainAvailability list) \<Rightarrow> nat \<times> OrderItemRequest \<Rightarrow>
    itemPlan list \<times> FieldError list \<Rightarrow> (itemPlan list \<times> FieldError list) act" where
  "planStep env CheckAvailability x acc =
     bnd (planItem env CheckAvailability (snd x)) (\<lambda>r. ret (case r of
       Inl errs \<Rightarrow> (fst acc, snd acc @ map (item_field (fst x)) errs)
     | Inr plan \<Rightarrow> (fst acc @ [plan], snd acc)))"

definition buildPlans ::
  "env \<Rightarrow> (string list \<Rightarrow> err + DomainAvailability list) \<Rightarrow> OrderItemRequest list \<Rightarrow> itemPlan list act" where
  "buildPlans env CheckAvailability items =
     bnd (foldE (planStep env CheckAvailability) (enumerate 0 items) ([], [])) (\<lambda>(plans, details).
     if details \<noteq> [] then fail (Validation ''invalid order items'' details) else ret plans)"

section \<open>Coupons on a cart\<close>

definition planEligible :: "Coupon \<Rightarrow> itemPlan \<Rightarrow> bool" where
  "planEligible c p \<longleftrightarrow>
     (if couponProductIDs c = [] then True
      else case ip_product p of None \<Rightarrow> False | Some pr \<Rightarrow> couponAppliesToProduct c (p_ID pr))"

definition couponDiscount :: "Coupon \<Rightarrow> itemPlan list \<Rightarrow> int" where
  "couponDiscount c plans =
     (let base = sum64 0 (map ip_unit (filter (planEligible c) plans)) in
      if base \<le> 0 then 0
      else case cp_Type c of
        CouponPercentage \<Rightarrow> quo (i64 (i64 (base * cp_Value c) + 50)) 100
      | CouponFixed \<Rightarrow> if cp_Value c > base then base else cp_Value c)"

end
