(* ===== verification/Renewals.thy ===== *)
theory Renewals
  imports Activation
begin

text \<open>
  What a paid renewal or upgrade does: \<open>RenewService\<close> and \<open>ApplyUpgrade\<close> of
  \<open>backend/internal/modules/provisioning/service.go\<close>, \<open>RenewDomainAfterPayment\<close> of
  \<open>domains/service.go\<close>, and the repository statements of services and domains billing reads.
\<close>

definition service_GetByID :: "int \<Rightarrow> Service act" where
  "service_GetByID sid = bnd (q_db (\<lambda>d. row s_ID sid (db_services d))) (need (NotFound ''service''))"

definition service_GetByIDForUpdate :: "int \<Rightarrow> Service act" where
  "service_GetByIDForUpdate sid = service_GetByID sid"

definition service_GetByIDs :: "int list \<Rightarrow> Service list act" where
  "service_GetByIDs ids = q_db (\<lambda>d. filter (\<lambda>s. s_ID s \<in> set ids) (db_services d))"

text \<open>A trigger keeps \<open>updated_at\<close>.\<close>

definition service_Update :: "env \<Rightarrow> Service \<Rightarrow> unit act" where
  "service_Update env s =
     bnd (q_db (\<lambda>d. row s_ID (s_ID s) (db_services d))) (\<lambda>r.
     case r of None \<Rightarrow> fail (NotFound ''service'')
     | Some _ \<Rightarrow> x_db (\<lambda>d. d\<lparr>db_services := upd s_ID (s_ID s)
         (\<lambda>old. s\<lparr>s_CreatedAt := s_CreatedAt old, s_UpdatedAt := e_now env\<rparr>) (db_services d)\<rparr>))"

definition due_by :: "time \<Rightarrow> time option \<Rightarrow> bool" where
  "due_by before due = (case due of None \<Rightarrow> False | Some t \<Rightarrow> t \<le> before)"

definition due_key :: "time option \<Rightarrow> time" where
  "due_key due = (case due of None \<Rightarrow> 0 | Some t \<Rightarrow> t)"

definition service_ListRenewalsDue :: "time \<Rightarrow> Service list act" where
  "service_ListRenewalsDue before = q_db (\<lambda>d. sort_key (\<lambda>s. due_key (s_NextDueDate s))
     (filter (\<lambda>s. s_Status s = ServiceActive \<and> due_by before (s_NextDueDate s)) (db_services d)))"

definition domain_GetByID :: "int \<Rightarrow> Domain act" where
  "domain_GetByID did = bnd (q_db (\<lambda>d. row d_ID did (db_domains d))) (need (NotFound ''domain''))"

definition domain_GetByIDForUpdate :: "int \<Rightarrow> Domain act" where
  "domain_GetByIDForUpdate did = domain_GetByID did"

definition domain_GetByIDs :: "int list \<Rightarrow> Domain list act" where
  "domain_GetByIDs ids = q_db (\<lambda>d. filter (\<lambda>x. d_ID x \<in> set ids) (db_domains d))"

definition domain_ListRenewalsDue :: "time \<Rightarrow> Domain list act" where
  "domain_ListRenewalsDue before = q_db (\<lambda>d. sort_key (\<lambda>x. due_key (d_NextDueDate x))
     (filter (\<lambda>x. d_Status x = DomainActive \<and> d_AutoRenew x \<and> due_by before (d_NextDueDate x)) (db_domains d)))"

text \<open>\<open>wrap\<close>: an application error passes, anything else is INTERNAL.\<close>

definition wrap :: "err \<Rightarrow> err" where
  "wrap e = (case e of AppErr _ _ _ \<Rightarrow> e | RawErr _ \<Rightarrow> Internal e)"

definition notifyService :: "env \<Rightarrow> Service \<Rightarrow> string \<Rightarrow> (string \<times> string) list \<Rightarrow> unit act" where
  "notifyService env svc key data =
     ignore_err (bnd (clients_GetByID (s_ClientID svc)) (\<lambda>client.
       SendTemplate env (c_UserID client) key
         (if ''Domain'' \<in> fst ` set data then data else data @ [(''Domain'', s_Domain svc)])))"

text \<open>\<open>RenewService\<close> after the row is written: the job, the email and the audit row.\<close>

definition renewal_effects :: "env \<Rightarrow> Service \<Rightarrow> time \<Rightarrow> unit act" where
  "renewal_effects env svc nxt =
     bnd (if s_Status svc = ServiceSuspended then on_err wrap (Enqueue env (JobProvisionUnsuspend (s_ID svc))) else ret ()) (\<lambda>_.
     bnd (notifyService env svc ''service_renewed'' [(''ServiceName'', s_Domain svc), (''NextDueDate'', fmt_date nxt)]) (\<lambda>_.
     audit_Log 0 ''service.renew'' ''service'' (s_ID svc)))"

definition RenewService :: "env \<Rightarrow> int \<Rightarrow> unit act" where
  "RenewService env serviceID =
     bnd (on_err wrap (service_GetByID serviceID)) (\<lambda>svc.
     let base = (case s_NextDueDate svc of None \<Rightarrow> dateOnly (e_now env) | Some d \<Rightarrow> d);
         nxt = AddCycle base (s_BillingCycle svc);
         svc = svc\<lparr>s_NextDueDate := Some nxt\<rparr> in
     bnd (on_err wrap (service_Update env svc)) (\<lambda>_. renewal_effects env svc nxt))"

definition panelMetaWithChosenSpecs :: "PanelMeta \<Rightarrow> SpecSelection list \<Rightarrow> PanelMeta" where
  "panelMetaWithChosenSpecs meta specs = meta\<lparr>pm_ChosenSpecs := specs\<rparr>"

definition ApplyUpgrade :: "env \<Rightarrow> int \<Rightarrow> unit act" where
  "ApplyUpgrade env serviceID =
     bnd (on_err wrap (service_GetByID serviceID)) (\<lambda>svc.
     case s_PendingUpgrade svc of
       None \<Rightarrow> ret ()
     | Some up \<Rightarrow>
         bnd (on_err wrap (WithinTx (service_Update env (svc\<lparr>s_ProductID := su_ProductID up, s_BillingCycle := su_Cycle up,
           s_RecurringAmount := su_RecurringAmount up, s_PendingUpgrade := None,
           s_PanelMeta := panelMetaWithChosenSpecs (s_PanelMeta svc) (su_Specs up)\<rparr>)))) (\<lambda>_.
         bnd (on_err wrap (Enqueue env (JobProvisionChangePackage (s_ID svc)))) (\<lambda>_.
         audit_Log 0 ''service.apply_upgrade'' ''service'' (s_ID svc))))"

definition cycleYears :: "BillingCycle \<Rightarrow> int" where
  "cycleYears c = (let months = CycleMonths c in if months \<ge> 12 then quo months 12 else 1)"

definition RenewDomainAfterPayment :: "env \<Rightarrow> int \<Rightarrow> unit act" where
  "RenewDomainAfterPayment env domainID =
     bnd (domain_GetByID domainID) (\<lambda>dm. Enqueue env (JobDomainRenew (d_ID dm) (cycleYears (d_BillingCycle dm))))"

section \<open>Frames\<close>

lemma frame_renewal_reads [frame_rules]:
  "keeps (frame f) (service_GetByID sid)" "keeps (frame f) (service_GetByIDForUpdate sid)"
  "keeps (frame f) (service_GetByIDs ids)" "keeps (frame f) (service_ListRenewalsDue t)"
  "keeps (frame f) (domain_GetByID sid)" "keeps (frame f) (domain_GetByIDForUpdate sid)"
  "keeps (frame f) (domain_GetByIDs ids)" "keeps (frame f) (domain_ListRenewalsDue t)"
  unfolding service_GetByIDForUpdate_def domain_GetByIDForUpdate_def service_GetByID_def service_GetByIDs_def
    service_ListRenewalsDue_def domain_GetByID_def domain_GetByIDs_def domain_ListRenewalsDue_def
  by (intro frame_rules)+

lemma frame_service_Update [frame_rules]: "no_fulfilment f \<Longrightarrow> keeps (frame f) (service_Update env s)"
  unfolding service_Update_def by (intro frame_rules) (simp add: no_fulfilment_def)

lemma frame_notifyService [frame_rules]: "no_logs f \<Longrightarrow> keeps (frame f) (notifyService env s k x)"
  unfolding notifyService_def by (intro frame_rules)

lemma frame_renewal_effects [frame_rules]: "no_logs f \<Longrightarrow> keeps (frame f) (renewal_effects env s t)"
  unfolding renewal_effects_def by (intro frame_rules)

lemma frame_RenewService [frame_rules]:
  "no_fulfilment f \<Longrightarrow> no_logs f \<Longrightarrow> keeps (frame f) (RenewService env sid)"
  unfolding RenewService_def Let_def by (intro frame_rules)

lemma frame_ApplyUpgrade [frame_rules]:
  "no_fulfilment f \<Longrightarrow> no_logs f \<Longrightarrow> keeps (frame f) (ApplyUpgrade env sid)"
  unfolding ApplyUpgrade_def by (intro frame_rules)

lemma frame_RenewDomainAfterPayment [frame_rules]: "keeps (frame f) (RenewDomainAfterPayment env did)"
  unfolding RenewDomainAfterPayment_def by (intro frame_rules)

section \<open>A renewal moves the due date on by one cycle\<close>

lemma service_run: "service_GetByID sid w =
    (case row s_ID sid (db_services (w_db w)) of None \<Rightarrow> (Inl (NotFound ''service''), w) | Some s \<Rightarrow> (Inr s, w))"
  by (auto simp: service_GetByID_def eff_simps split: option.splits)

text \<open>The part of the row every write of the services table keeps.\<close>

definition service_row :: "int \<Rightarrow> db \<Rightarrow> Service option" where
  "service_row sid d = row s_ID sid (db_services d)"

lemma no_logs_service_row [simp]: "no_logs (service_row sid)"
  by (simp add: no_logs_def service_row_def)

lemma RenewService_next:
  assumes "service_row sid (w_db w) = Some s" and "RenewService env sid w = (Inr (), w')"
  shows "service_row sid (w_db w') = Some (s\<lparr>s_NextDueDate :=
    Some (AddCycle (case s_NextDueDate s of None \<Rightarrow> dateOnly (e_now env) | Some d \<Rightarrow> d) (s_BillingCycle s)), s_UpdatedAt := e_now env\<rparr>)"
proof -
  let ?nxt = "AddCycle (case s_NextDueDate s of None \<Rightarrow> dateOnly (e_now env) | Some d \<Rightarrow> d) (s_BillingCycle s)"
  let ?s = "s\<lparr>s_NextDueDate := Some ?nxt\<rparr>"
  define w1 where "w1 = w\<lparr>w_db := (w_db w)\<lparr>db_services := upd s_ID sid
    (\<lambda>old. ?s\<lparr>s_CreatedAt := s_CreatedAt old, s_UpdatedAt := e_now env\<rparr>) (db_services (w_db w))\<rparr>\<rparr>"
  have id: "s_ID s = sid" using assms(1) row_Some_key by (fastforce simp: service_row_def)
  have run: "RenewService env sid w = renewal_effects env ?s ?nxt w1"
    using assms(1) id
    by (simp add: RenewService_def w1_def bnd_def on_err_def service_run service_row_def Let_def
        service_Update_def eff_simps)
  have "keeps (frame (service_row sid)) (renewal_effects env ?s ?nxt)" by (intro frame_rules) simp
  then have "frame (service_row sid) w1 w'" using assms(2) run keepsD by metis
  then have "service_row sid (w_db w') = service_row sid (w_db w1)" by (simp add: frame_def)
  also have "\<dots> = Some (?s\<lparr>s_UpdatedAt := e_now env\<rparr>)"
    using assms(1) id by (simp add: w1_def service_row_def row_upd_to)
  finally show ?thesis by simp
qed

end
