(* ===== verification/Credit.thy ===== *)
theory Credit
  imports Frames
begin

text \<open>
  The credit ledger of \<open>backend/internal/modules/clients\<close> (\<open>service.go\<close>, \<open>repo.go\<close>): the atomic
  balance update with its ledger row, and the operations other modules call. The interface they
  rely on is the locale \<open>credit_service\<close>.
\<close>

text \<open>
  \<open>validate.Struct\<close>: the violated fields with the message of the first violated tag. A field is
  given with its message when it is violated.
\<close>

definition val_Struct :: "(string \<times> string option) list \<Rightarrow> unit act" where
  "val_Struct fds =
     (let details = List.map_filter (\<lambda>(f, m). map_option (\<lambda>x. \<lparr>fe_Field = f, fe_Message = x\<rparr>) m) fds
      in guard (details = []) (Validation ''validation failed'' details))"

definition tag :: "bool \<Rightarrow> string \<Rightarrow> string option" where
  "tag violated msg = (if violated then Some msg else None)"

definition live_client :: "int \<Rightarrow> db \<Rightarrow> Client option" where
  "live_client cid d = find (\<lambda>c. c_ID c = cid \<and> c_DeletedAt c = None) (db_clients d)"

text \<open>The single statement; a sum outside \<open>bigint\<close> is a database error.\<close>

definition AdjustCredit :: "int \<Rightarrow> int \<Rightarrow> string \<Rightarrow> int option \<Rightarrow> int act" where
  "AdjustCredit clientID delta reason relatedInvoiceID =
     bnd (q_db (live_client clientID)) (\<lambda>r.
     case r of
       None \<Rightarrow> fail (NotFound ''client'')
     | Some c \<Rightarrow>
         let balance = c_CreditBalance c + delta in
         if \<not> in_i64 balance then fail (RawErr ''clients: adjust credit'')
         else if balance < 0 then fail (Conflict ''insufficient credit balance'')
         else
           bnd (nextval TLedger) (\<lambda>n.
           bnd (x_db (\<lambda>d. d\<lparr>db_clients := upd c_ID clientID (\<lambda>c. c\<lparr>c_CreditBalance := balance\<rparr>) (db_clients d),
                db_ledger := db_ledger d @ [\<lparr>cl_ID = n, cl_ClientID = clientID, cl_Delta = delta,
                  cl_BalanceAfter = balance, cl_Reason = reason, cl_RelatedInvoiceID = relatedInvoiceID\<rparr>]\<rparr>)) (\<lambda>_.
           ret balance)))"

definition applyCredit :: "int \<Rightarrow> int \<Rightarrow> string \<Rightarrow> int \<Rightarrow> int act" where
  "applyCredit clientID delta reason relatedInvoiceID =
     (let invoiceRef = (if relatedInvoiceID > 0 then Some relatedInvoiceID else None)
      in on_err normalize_err (WithinTx (AdjustCredit clientID delta reason invoiceRef)))"

definition AddCredit :: "int \<Rightarrow> int \<Rightarrow> string \<Rightarrow> int \<Rightarrow> unit act" where
  "AddCredit clientID delta reason relatedInvoiceID =
     (if delta \<le> 0 then fail (Validation ''credit delta must be positive'' [])
      else bnd (applyCredit clientID delta reason relatedInvoiceID) (\<lambda>_. ret ()))"

definition DeductCredit :: "int \<Rightarrow> int \<Rightarrow> string \<Rightarrow> int \<Rightarrow> unit act" where
  "DeductCredit clientID amount reason relatedInvoiceID =
     (if amount \<le> 0 then fail (Validation ''credit amount must be positive'' [])
      else bnd (applyCredit clientID (i64 (- amount)) reason relatedInvoiceID) (\<lambda>_. ret ()))"

definition AdminAdjustCredit :: "int \<Rightarrow> int \<Rightarrow> int \<Rightarrow> string \<Rightarrow> int act" where
  "AdminAdjustCredit actorUserID clientID delta reason =
     bnd (val_Struct [(''delta'', tag (delta = 0) ''is required''),
       (''reason'', if reason = [] then Some ''is required''
         else tag (length reason > 500) ''must be at most 500 characters'')]) (\<lambda>_.
     bnd (applyCredit clientID delta reason 0) (\<lambda>balance.
     bnd (audit_Log actorUserID ''client.credit_adjust'' ''client'' clientID) (\<lambda>_.
     ret balance)))"

section \<open>The books of the ledger\<close>

definition credits_of :: "int \<Rightarrow> CreditLedgerEntry list \<Rightarrow> int" where
  "credits_of cid es = sum_list (map cl_Delta (filter (\<lambda>e. cl_ClientID e = cid) es))"

text \<open>Every balance is the sum of the client's ledger rows, is not negative and fits its column.\<close>

definition ledger_ok :: "db \<Rightarrow> bool" where
  "ledger_ok d \<longleftrightarrow> distinct (map c_ID (db_clients d))
     \<and> (\<forall>c \<in> set (db_clients d). c_CreditBalance c = credits_of (c_ID c) (db_ledger d)
          \<and> 0 \<le> c_CreditBalance c \<and> in_i64 (c_CreditBalance c))"

definition balance_of :: "db \<Rightarrow> int \<Rightarrow> int option" where
  "balance_of d cid = map_option c_CreditBalance (live_client cid d)"

lemma live_clientD:
  assumes "live_client cid d = Some c"
  shows "c \<in> set (db_clients d)" and "c_ID c = cid" and "c_DeletedAt c = None"
  using assms by (auto simp: live_client_def find_Some_iff)

lemma credits_of_snoc: "credits_of cid (es @ [e]) = credits_of cid es + (if cl_ClientID e = cid then cl_Delta e else 0)"
  by (simp add: credits_of_def)

definition book_credit :: "int \<Rightarrow> int \<Rightarrow> CreditLedgerEntry \<Rightarrow> db \<Rightarrow> db" where
  "book_credit cid b e d = d\<lparr>db_clients := upd c_ID cid (\<lambda>c. c\<lparr>c_CreditBalance := b\<rparr>) (db_clients d),
     db_ledger := db_ledger d @ [e]\<rparr>"

lemma AdjustCredit_run: "AdjustCredit cid delta reason rel w =
    (case live_client cid (w_db w) of
       None \<Rightarrow> (Inl (NotFound ''client''), w)
     | Some c \<Rightarrow>
         if \<not> in_i64 (c_CreditBalance c + delta) then (Inl (RawErr ''clients: adjust credit''), w)
         else if c_CreditBalance c + delta < 0 then (Inl (Conflict ''insufficient credit balance''), w)
         else (Inr (c_CreditBalance c + delta),
           w\<lparr>w_seq := (w_seq w)(TLedger := w_seq w TLedger + 1),
             w_db := book_credit cid (c_CreditBalance c + delta)
               \<lparr>cl_ID = w_seq w TLedger + 1, cl_ClientID = cid, cl_Delta = delta,
                cl_BalanceAfter = c_CreditBalance c + delta, cl_Reason = reason, cl_RelatedInvoiceID = rel\<rparr> (w_db w)\<rparr>))"
  by (simp add: AdjustCredit_def eff_simps Let_def book_credit_def split: option.splits)

lemma book_credit_ledger_ok:
  assumes "ledger_ok d" and "live_client cid d = Some c" and "cl_ClientID e = cid"
    and "b = c_CreditBalance c + cl_Delta e" and "0 \<le> b" and "in_i64 b"
  shows "ledger_ok (book_credit cid b e d)"
  unfolding ledger_ok_def
proof (intro conjI ballI)
  have dist: "distinct (map c_ID (db_clients d))" using assms(1) by (simp add: ledger_ok_def)
  then show "distinct (map c_ID (db_clients (book_credit cid b e d)))" by (simp add: book_credit_def)
  fix x assume "x \<in> set (db_clients (book_credit cid b e d))"
  then consider (hit) x0 where "x0 \<in> set (db_clients d)" "c_ID x0 = cid" "x = x0\<lparr>c_CreditBalance := b\<rparr>"
    | (miss) "x \<in> set (db_clients d)" "c_ID x \<noteq> cid"
    by (auto simp: book_credit_def dest!: upd_in)
  then have "c_CreditBalance x = credits_of (c_ID x) (db_ledger (book_credit cid b e d))
      \<and> 0 \<le> c_CreditBalance x \<and> in_i64 (c_CreditBalance x)"
  proof cases
    case hit
    have "c_CreditBalance c = credits_of cid (db_ledger d)"
      using assms(1) live_clientD [OF assms(2)] by (auto simp: ledger_ok_def)
    then show ?thesis using hit assms(3-6) by (simp add: book_credit_def credits_of_snoc)
  next
    case miss
    then show ?thesis using assms(1,3) by (auto simp: ledger_ok_def book_credit_def credits_of_snoc)
  qed
  then show "c_CreditBalance x = credits_of (c_ID x) (db_ledger (book_credit cid b e d))"
    and "0 \<le> c_CreditBalance x" and "in_i64 (c_CreditBalance x)" by auto
qed

lemma book_credit_balance:
  assumes "live_client cid d = Some c"
  shows "balance_of (book_credit cid b e d) cid' = (if cid' = cid then Some b else balance_of d cid')"
proof -
  have "find (\<lambda>c. c_ID c = cid' \<and> c_DeletedAt c = None) (upd c_ID cid (\<lambda>c. c\<lparr>c_CreditBalance := b\<rparr>) cs) =
      map_option (\<lambda>c. if c_ID c = cid then c\<lparr>c_CreditBalance := b\<rparr> else c)
        (find (\<lambda>c. c_ID c = cid' \<and> c_DeletedAt c = None) cs)" for cs
    by (induction cs) (auto simp: upd_def)
  then have "live_client cid' (book_credit cid b e d) =
      map_option (\<lambda>c. if c_ID c = cid then c\<lparr>c_CreditBalance := b\<rparr> else c) (live_client cid' d)"
    by (simp add: live_client_def book_credit_def)
  then show ?thesis
    using assms live_clientD(2) [of cid' d] by (cases "live_client cid' d") (auto simp: balance_of_def)
qed

text \<open>One statement is a transaction of its own: wrapping it changes nothing.\<close>

lemma WithinTx_AdjustCredit: "WithinTx (AdjustCredit cid delta reason rel) w = AdjustCredit cid delta reason rel w"
  by (cases w) (auto simp: WithinTx_def AdjustCredit_run split: option.splits)

lemma applyCredit_run: "applyCredit cid delta reason iid w =
    on_err normalize_err (AdjustCredit cid delta reason (if iid > 0 then Some iid else None)) w"
  by (simp add: applyCredit_def on_err_def WithinTx_AdjustCredit)

lemma applyCredit_ok:
  assumes "applyCredit cid delta reason iid w = (Inr b, w')"
  shows "\<exists>c e n. live_client cid (w_db w) = Some c \<and> b = c_CreditBalance c + delta \<and> 0 \<le> b \<and> in_i64 b
    \<and> cl_ClientID e = cid \<and> cl_Delta e = delta
    \<and> w' = w\<lparr>w_seq := (w_seq w)(TLedger := n), w_db := book_credit cid b e (w_db w)\<rparr>"
  using assms unfolding applyCredit_run on_err_def AdjustCredit_run
  by (simp split: option.splits if_splits) (metis CreditLedgerEntry.select_convs(2,3) not_less)+

lemma applyCredit_err:
  assumes "applyCredit cid delta reason iid w = (Inl e, w')"
  shows "w' = w"
  using assms by (auto simp: applyCredit_run on_err_def AdjustCredit_run split: option.splits if_splits)

lemma applyCredit_ledger_ok:
  assumes "ledger_ok (w_db w)" and "applyCredit cid delta reason iid w = (r, w')"
  shows "ledger_ok (w_db w')"
proof (cases r)
  case (Inl e)
  then show ?thesis using assms applyCredit_err by blast
next
  case (Inr b)
  with assms(2) obtain c e n where "live_client cid (w_db w) = Some c" "b = c_CreditBalance c + delta" "0 \<le> b"
    "in_i64 b" "cl_ClientID e = cid" "cl_Delta e = delta"
    "w' = w\<lparr>w_seq := (w_seq w)(TLedger := n), w_db := book_credit cid b e (w_db w)\<rparr>"
    using applyCredit_ok by blast
  then show ?thesis using book_credit_ledger_ok [OF assms(1)] by auto
qed

lemma applyCredit_succeeds:
  assumes "live_client cid (w_db w) = Some c" and "0 \<le> c_CreditBalance c + delta" and "in_i64 (c_CreditBalance c + delta)"
  shows "\<exists>w'. applyCredit cid delta reason iid w = (Inr (c_CreditBalance c + delta), w')"
  using assms by (simp add: applyCredit_run on_err_def AdjustCredit_run)

section \<open>The interface\<close>

text \<open>
  What billing and payments rely on: a positive amount is added or deducted exactly or nothing
  happens, other balances do not move, and no deduction overdraws.
\<close>

locale credit_service =
  fixes balance :: "world \<Rightarrow> int \<Rightarrow> int option"
    and add deduct :: "int \<Rightarrow> int \<Rightarrow> string \<Rightarrow> int \<Rightarrow> unit act"
    and inv_ok :: "world \<Rightarrow> bool"
  assumes add_ok: "add c a r i w = (Inr (), w') \<Longrightarrow>
      0 < a \<and> (\<exists>b. balance w c = Some b \<and> balance w' c = Some (b + a)) \<and> (\<forall>c'. c' \<noteq> c \<longrightarrow> balance w' c' = balance w c')"
    and add_err: "add c a r i w = (Inl e, w') \<Longrightarrow> w' = w"
    and deduct_ok: "inv_ok w \<Longrightarrow> in_i64 a \<Longrightarrow> deduct c a r i w = (Inr (), w') \<Longrightarrow>
      0 < a \<and> (\<exists>b. balance w c = Some b \<and> a \<le> b \<and> balance w' c = Some (b - a)) \<and> (\<forall>c'. c' \<noteq> c \<longrightarrow> balance w' c' = balance w c')"
    and deduct_err: "deduct c a r i w = (Inl e, w') \<Longrightarrow> w' = w"
    and deduct_total: "inv_ok w \<Longrightarrow> in_i64 a \<Longrightarrow> balance w c = Some b \<Longrightarrow> 0 < a \<Longrightarrow> a \<le> b \<Longrightarrow>
      \<exists>w'. deduct c a r i w = (Inr (), w')"
    and add_inv: "inv_ok w \<Longrightarrow> add c a r i w = (x, w') \<Longrightarrow> inv_ok w'"
    and deduct_inv: "inv_ok w \<Longrightarrow> deduct c a r i w = (x, w') \<Longrightarrow> inv_ok w'"
begin

lemma deduct_iff:
  assumes "inv_ok w" and "in_i64 a" and "balance w c = Some b" and "0 < a"
  shows "(\<exists>w'. deduct c a r i w = (Inr (), w')) \<longleftrightarrow> a \<le> b"
  using deduct_ok [OF assms(1,2)] deduct_total [OF assms] assms(3) by fastforce

lemma refund_restores:
  assumes "inv_ok w" and "in_i64 a" and "deduct c a r i w = (Inr (), w1)" and "add c a r' i' w1 = (Inr (), w2)"
  shows "balance w2 c' = balance w c'"
  using deduct_ok [OF assms(1-3)] add_ok [OF assms(4)] by (cases "c' = c") auto

end

lemma AddCredit_run:
  "AddCredit cid a r i w = (if a \<le> 0 then (Inl (Validation ''credit delta must be positive'' []), w)
    else case applyCredit cid a r i w of (Inl e, w') \<Rightarrow> (Inl e, w') | (Inr b, w') \<Rightarrow> (Inr (), w'))"
  by (simp add: AddCredit_def eff_simps bnd_run split: prod.splits sum.splits)

lemma DeductCredit_run:
  "DeductCredit cid a r i w = (if a \<le> 0 then (Inl (Validation ''credit amount must be positive'' []), w)
    else case applyCredit cid (i64 (- a)) r i w of (Inl e, w') \<Rightarrow> (Inl e, w') | (Inr b, w') \<Rightarrow> (Inr (), w'))"
  by (simp add: DeductCredit_def eff_simps bnd_run split: prod.splits sum.splits)

lemma neg_i64 [wrap_simps]: "0 < a \<Longrightarrow> in_i64 a \<Longrightarrow> i64 (- a) = - a"
  by (simp add: in_i64_def wrap_simps)

definition ledger_inv :: "world \<Rightarrow> bool" where
  "ledger_inv w \<longleftrightarrow> ledger_ok (w_db w)"

definition balance :: "world \<Rightarrow> int \<Rightarrow> int option" where
  "balance w cid = balance_of (w_db w) cid"

lemma balance_bound:
  "ledger_ok d \<Longrightarrow> balance_of d cid = Some b \<Longrightarrow> 0 \<le> b \<and> in_i64 b"
  by (auto simp: balance_of_def ledger_ok_def dest: live_clientD)

lemma applyCredit_balance:
  assumes "applyCredit cid delta reason iid w = (Inr b, w')"
  shows "\<exists>b0. balance w cid = Some b0 \<and> 0 \<le> b0 + delta \<and> balance w' cid = Some (b0 + delta)"
    and "cid' \<noteq> cid \<Longrightarrow> balance w' cid' = balance w cid'"
  using applyCredit_ok [OF assms] by (auto simp: balance_def book_credit_balance) (simp add: balance_of_def)

interpretation ledger: credit_service balance AddCredit DeductCredit ledger_inv
proof
  fix c a r i w w' e b and x :: "err + unit"
  show "0 < a \<and> (\<exists>b. balance w c = Some b \<and> balance w' c = Some (b + a)) \<and> (\<forall>c'. c' \<noteq> c \<longrightarrow> balance w' c' = balance w c')"
    if "AddCredit c a r i w = (Inr (), w')"
    using that by (auto simp: AddCredit_run split: if_splits prod.splits sum.splits dest: applyCredit_balance)
  show "w' = w" if "AddCredit c a r i w = (Inl e, w')"
    using that by (auto simp: AddCredit_run split: if_splits prod.splits sum.splits dest: applyCredit_err)
  show "0 < a \<and> (\<exists>b. balance w c = Some b \<and> a \<le> b \<and> balance w' c = Some (b - a)) \<and> (\<forall>c'. c' \<noteq> c \<longrightarrow> balance w' c' = balance w c')"
    if "in_i64 a" "DeductCredit c a r i w = (Inr (), w')"
    using that by (auto simp: DeductCredit_run wrap_simps split: if_splits prod.splits sum.splits dest: applyCredit_balance)
  show "w' = w" if "DeductCredit c a r i w = (Inl e, w')"
    using that by (auto simp: DeductCredit_run split: if_splits prod.splits sum.splits dest: applyCredit_err)
  show "\<exists>w'. DeductCredit c a r i w = (Inr (), w')"
    if h: "ledger_inv w" "in_i64 a" "balance w c = Some b" "0 < a" "a \<le> b"
  proof -
    have b: "0 \<le> b" "in_i64 b" using balance_bound [of "w_db w" c b] h by (auto simp: ledger_inv_def balance_def)
    obtain cl where cl: "live_client c (w_db w) = Some cl" "c_CreditBalance cl = b"
      using h(3) by (auto simp: balance_def balance_of_def)
    have "in_i64 (b + - a)" using b h(4,5) by (simp add: in_i64_def)
    then show ?thesis
      using applyCredit_succeeds [OF cl(1), of "- a" r i] h(2,4,5) cl(2)
      by (auto simp: DeductCredit_run wrap_simps)
  qed
  show "ledger_inv w'" if "ledger_inv w" "AddCredit c a r i w = (x, w')"
    using that by (auto simp: ledger_inv_def AddCredit_run split: if_splits prod.splits sum.splits
        dest: applyCredit_ledger_ok)
  show "ledger_inv w'" if "ledger_inv w" "DeductCredit c a r i w = (x, w')"
    using that by (auto simp: ledger_inv_def DeductCredit_run split: if_splits prod.splits sum.splits
        dest: applyCredit_ledger_ok)
qed

section \<open>Frames\<close>

definition no_credit :: "(db \<Rightarrow> 'p) \<Rightarrow> bool" where
  "no_credit f \<longleftrightarrow> (\<forall>d x y. f (d\<lparr>db_clients := x, db_ledger := y\<rparr>) = f d)"

lemma frame_AdjustCredit [frame_rules]: "no_credit f \<Longrightarrow> keeps (frame f) (AdjustCredit c a r i)"
  unfolding AdjustCredit_def Let_def by (intro frame_rules) (auto simp: no_credit_def)

lemma frame_applyCredit [frame_rules]: "no_credit f \<Longrightarrow> keeps (frame f) (applyCredit c a r i)"
  unfolding applyCredit_def Let_def by (intro frame_rules)

lemma frame_AddCredit [frame_rules]: "no_credit f \<Longrightarrow> keeps (frame f) (AddCredit c a r i)"
  unfolding AddCredit_def by (intro frame_rules)

lemma frame_DeductCredit [frame_rules]: "no_credit f \<Longrightarrow> keeps (frame f) (DeductCredit c a r i)"
  unfolding DeductCredit_def by (intro frame_rules)

end
