(* ===== verification/Snipe.thy ===== *)
theory Snipe
  imports Credit
begin

text \<open>
  The money of a domain hunt: the lifecycle of \<open>backend/internal/modules/snipe/service.go\<close>
  (\<open>refundFor\<close>, \<open>finish\<close>), the payment hook of \<open>client.go\<close> and the guarded statements of
  \<open>repo.go\<close>. The hunt itself (leases, registrar calls, pacing) is not modelled.
\<close>

section \<open>Repository\<close>

definition snipe_GetByID :: "int \<Rightarrow> DomainSnipe act" where
  "snipe_GetByID sid = bnd (q_db (\<lambda>d. row sn_ID sid (db_snipes d))) (need (NotFound ''snipe''))"

text \<open>A guarded UPDATE: the rows with the id that pass the guard, and whether one did.\<close>

definition snipe_cas :: "int \<Rightarrow> (DomainSnipe \<Rightarrow> bool) \<Rightarrow> (DomainSnipe \<Rightarrow> DomainSnipe) \<Rightarrow> bool act" where
  "snipe_cas sid ok f =
     bnd (q_db (\<lambda>d. row sn_ID sid (db_snipes d))) (\<lambda>r.
     case r of None \<Rightarrow> ret False
     | Some s \<Rightarrow> if ok s then bnd (x_db (\<lambda>d. d\<lparr>db_snipes := upd sn_ID sid f (db_snipes d)\<rparr>)) (\<lambda>_. ret True)
               else ret False)"

definition snipe_Activate :: "int \<Rightarrow> time \<Rightarrow> bool act" where
  "snipe_Activate sid paidAt = snipe_cas sid (\<lambda>s. sn_Status s = SnipePendingPayment)
     (\<lambda>s. s\<lparr>sn_Status := SnipeActive, sn_PaidAt := Some paidAt,
        sn_DeadlineAt := Some (paidAt + (case sn_DeadlineAt s of Some t \<Rightarrow> t - sn_CreatedAt s | None \<Rightarrow> 30 * day_ns))\<rparr>)"

record SnipeFinish =
  sf_ID :: int
  sf_From :: SnipeStatus
  sf_To :: SnipeStatus
  sf_Owner :: string
  sf_RequireIdle :: bool
  sf_Now :: time
  sf_RefundAmount :: int
  sf_LastError :: string
  sf_Attempts :: int

definition snipe_Finish :: "SnipeFinish \<Rightarrow> bool act" where
  "snipe_Finish f = snipe_cas (sf_ID f)
     (\<lambda>s. sn_Status s = sf_From f
        \<and> (sf_Owner f = [] \<or> sn_LeaseOwner s = sf_Owner f)
        \<and> (\<not> sf_RequireIdle f \<or> (case sn_LeaseUntil s of None \<Rightarrow> True | Some t \<Rightarrow> t < sf_Now f)))
     (\<lambda>s. s\<lparr>sn_Status := sf_To f, sn_RefundAmount := sf_RefundAmount f,
        sn_LastError := (if sf_LastError f \<noteq> [] then sf_LastError f else sn_LastError s),
        sn_WonAt := (if sf_To f = SnipeWon then Some (sf_Now f) else sn_WonAt s),
        sn_Attempts := max (sn_Attempts s) (sf_Attempts f),
        sn_LeaseOwner := [], sn_LeaseUntil := None\<rparr>)"

definition snipe_MarkRefunded :: "int \<Rightarrow> time \<Rightarrow> unit act" where
  "snipe_MarkRefunded sid t = x_db (\<lambda>d. d\<lparr>db_snipes := upd sn_ID sid (\<lambda>s. s\<lparr>sn_RefundedAt := Some t\<rparr>) (db_snipes d)\<rparr>)"

definition snipe_RecordRefund :: "int \<Rightarrow> int \<Rightarrow> time \<Rightarrow> bool act" where
  "snipe_RecordRefund sid amount t = snipe_cas sid
     (\<lambda>s. sn_RefundAmount s = 0 \<and> sn_RefundedAt s = None \<and> sn_Status s \<in> {SnipeCancelled, SnipeFailed, SnipeExpired})
     (\<lambda>s. s\<lparr>sn_RefundAmount := amount, sn_RefundedAt := Some t\<rparr>)"

definition snipe_AddEvent :: "int \<Rightarrow> string \<Rightarrow> string \<Rightarrow> unit act" where
  "snipe_AddEvent sid kind msg = x_db (\<lambda>d. d\<lparr>db_snipe_events := db_snipe_events d @
     [\<lparr>se_SnipeID = sid, se_Kind = kind, se_Message = msg\<rparr>]\<rparr>)"

section \<open>The lifecycle\<close>

record finishOpts =
  fo_Owner :: string
  fo_RequireIdle :: bool
  fo_RefundFee :: bool
  fo_Reason :: string
  fo_ActorUserID :: int
  fo_Attempts :: int

definition refundFor :: "DomainSnipe \<Rightarrow> SnipeStatus \<Rightarrow> bool \<Rightarrow> int" where
  "refundFor s to refundFee =
     (if sn_Status s \<noteq> SnipeActive then 0
      else case to of
        SnipeExpired \<Rightarrow> sn_RefundableDomain s
      | SnipeCancelled \<Rightarrow> if refundFee then i64 (sn_RefundableDomain s + sn_RefundableFee s) else sn_RefundableDomain s
      | SnipeFailed \<Rightarrow> i64 (sn_RefundableDomain s + sn_RefundableFee s)
      | _ \<Rightarrow> 0)"

text \<open>At most \<open>n\<close> bytes of a trimmed ASCII message.\<close>

definition truncate_msg :: "string \<Rightarrow> nat \<Rightarrow> string" where
  "truncate_msg s n = (let s = TrimSpace s in if length s \<le> n then s else take n s)"

definition trailMessage :: "SnipeStatus \<Rightarrow> string \<Rightarrow> int \<Rightarrow> string" where
  "trailMessage to reason refund =
     (if reason \<noteq> [] then reason else snipe_status_str to)
     @ (if refund > 0 then '' (refunded '' @ FormatIDR refund @ '')'' else [])"

definition sendToClient :: "env \<Rightarrow> DomainSnipe \<Rightarrow> string \<Rightarrow> (string \<times> string) list \<Rightarrow> unit act" where
  "sendToClient env s key data = ignore_err (bnd (clients_GetByID (sn_ClientID s)) (\<lambda>cl.
     SendTemplate env (c_UserID cl) key data))"

fun templateFor :: "SnipeStatus \<Rightarrow> string" where
  "templateFor SnipeWon = ''snipe_won''"
| "templateFor SnipeExpired = ''snipe_expired''"
| "templateFor SnipeFailed = ''snipe_failed''"
| "templateFor SnipeCancelled = ''snipe_cancelled''"
| "templateFor _ = []"

definition notifyEnded :: "env \<Rightarrow> DomainSnipe \<Rightarrow> SnipeStatus \<Rightarrow> int \<Rightarrow> unit act" where
  "notifyEnded env s to refund =
     (let key = templateFor to in
      if key = [] then ret ()
      else sendToClient env s key ((''Domain'', sn_DomainName s) #
        (if refund > 0 then [(''RefundAmount'', FormatIDR refund)] else [])))"

text \<open>The credit of the refund; a client that is gone is skipped.\<close>

definition snipe_refund :: "DomainSnipe \<Rightarrow> int \<Rightarrow> time \<Rightarrow> bool act" where
  "snipe_refund s refund now =
     (if refund > 0 then
        bnd (attempt (AdjustCredit (sn_ClientID s) refund (''Domain snipe refund: '' @ sn_DomainName s) (sn_InvoiceID s))) (\<lambda>r.
        bnd (case r of Inr _ \<Rightarrow> ret False
             | Inl e \<Rightarrow> if err_code e = CodeNotFound then ret True else fail e) (\<lambda>skipped.
        bnd (snipe_MarkRefunded (sn_ID s) now) (\<lambda>_. ret skipped)))
      else ret False)"

text \<open>The result of the transaction is \<open>(applied, creditSkipped)\<close>.\<close>

definition finishTx :: "DomainSnipe \<Rightarrow> SnipeStatus \<Rightarrow> finishOpts \<Rightarrow> int \<Rightarrow> time \<Rightarrow> (bool \<times> bool) act" where
  "finishTx s to opts refund now =
     bnd (snipe_Finish \<lparr>sf_ID = sn_ID s, sf_From = sn_Status s, sf_To = to, sf_Owner = fo_Owner opts,
          sf_RequireIdle = fo_RequireIdle opts, sf_Now = now, sf_RefundAmount = refund,
          sf_LastError = fo_Reason opts, sf_Attempts = fo_Attempts opts\<rparr>) (\<lambda>ok.
     if \<not> ok then ret (False, False)
     else
       bnd (snipe_refund s refund now) (\<lambda>skipped.
       bnd (snipe_AddEvent (sn_ID s) (snipe_status_str to) (truncate_msg (trailMessage to (fo_Reason opts) refund) 500)) (\<lambda>_.
       ret (True, skipped))))"

text \<open>After the commit: audit, alert, notification.\<close>

definition finish_effects :: "env \<Rightarrow> DomainSnipe \<Rightarrow> SnipeStatus \<Rightarrow> finishOpts \<Rightarrow> int \<Rightarrow> bool \<Rightarrow> unit act" where
  "finish_effects env s to opts refund creditSkipped =
     bnd (audit_Log (fo_ActorUserID opts) (''snipe.'' @ snipe_status_str to) ''domain_snipe'' (sn_ID s)) (\<lambda>_.
     bnd (if creditSkipped then ignore_err (AlertAdmin env ''Domain snipe refund could not be credited''
            (''Snipe #'' @ FormatInt (sn_ID s) @ '' ('' @ sn_DomainName s @ '') ended as '' @ snipe_status_str to
             @ '' with '' @ FormatIDR refund @ '' due back to client #'' @ FormatInt (sn_ClientID s)
             @ '', but that client account no longer exists. Settle the refund manually.'')) else ret ()) (\<lambda>_.
     notifyEnded env s to refund))"

definition snipe_finish :: "env \<Rightarrow> DomainSnipe \<Rightarrow> SnipeStatus \<Rightarrow> finishOpts \<Rightarrow> bool act" where
  "snipe_finish env s to opts =
     bnd (from_result (TransitionSnipe (sn_Status s) to)) (\<lambda>_.
     let refund = refundFor s to (fo_RefundFee opts); now = e_now env in
     bnd (WithinTx (finishTx s to opts refund now)) (\<lambda>(applied, creditSkipped).
     if \<not> applied then ret False
     else bnd (finish_effects env s to opts refund creditSkipped) (\<lambda>_. ret True)))"

definition refundLatePayment :: "env \<Rightarrow> DomainSnipe \<Rightarrow> time \<Rightarrow> unit act" where
  "refundLatePayment env sn now =
     (let amount = i64 (sn_RefundableDomain sn + sn_RefundableFee sn) in
      if amount \<le> 0 \<or> sn_InvoiceID sn = None then ret ()
      else
        bnd (snipe_RecordRefund (sn_ID sn) amount now) (\<lambda>recorded.
        if \<not> recorded then ret ()
        else
          bnd (AdjustCredit (sn_ClientID sn) amount
            (''Domain snipe refund (payment arrived after the hunt ended): '' @ sn_DomainName sn) (sn_InvoiceID sn)) (\<lambda>_.
          bnd (snipe_AddEvent (sn_ID sn) ''late_payment_refund''
            (truncate_msg (''payment arrived after the hunt ended; credited back '' @ FormatIDR amount) 500)) (\<lambda>_.
          bnd (audit_Log 0 ''snipe.late_payment_refund'' ''domain_snipe'' (sn_ID sn)) (\<lambda>_.
          notifyEnded env sn SnipeCancelled amount)))))"

definition ActivateSnipeAfterPayment :: "env \<Rightarrow> int \<Rightarrow> unit act" where
  "ActivateSnipeAfterPayment env snipeID =
     (let now = e_now env in
      bnd (snipe_Activate snipeID now) (\<lambda>activated.
      bnd (snipe_GetByID snipeID) (\<lambda>sn.
      if activated then
        bnd (snipe_AddEvent snipeID ''paid'' ''payment received, the hunt is active'') (\<lambda>_.
        bnd (audit_Log 0 ''snipe.activate'' ''domain_snipe'' snipeID) (\<lambda>_.
        sendToClient env sn ''snipe_active'' ((''Domain'', sn_DomainName sn) #
          (case sn_DeadlineAt sn of None \<Rightarrow> [] | Some t \<Rightarrow> [(''DeadlineAt'', fmt_date t)]))))
      else if sn_Status sn \<in> {SnipeCancelled, SnipeFailed, SnipeExpired} then refundLatePayment env sn now
      else ret ())))"

section \<open>Frames\<close>

definition no_snipes :: "(db \<Rightarrow> 'p) \<Rightarrow> bool" where
  "no_snipes f \<longleftrightarrow> (\<forall>d x. f (d\<lparr>db_snipes := x\<rparr>) = f d) \<and> (\<forall>d x. f (d\<lparr>db_snipe_events := x\<rparr>) = f d)"

lemma frame_snipe_GetByID [frame_rules]: "keeps (frame f) (snipe_GetByID sid)"
  unfolding snipe_GetByID_def by (intro frame_rules)

lemma frame_snipe_cas [frame_rules]: "no_snipes f \<Longrightarrow> keeps (frame f) (snipe_cas sid ok g)"
  unfolding snipe_cas_def by (intro frame_rules) (simp add: no_snipes_def)

lemma frame_snipe_writes [frame_rules]:
  "no_snipes f \<Longrightarrow> keeps (frame f) (snipe_Activate sid t)"
  "no_snipes f \<Longrightarrow> keeps (frame f) (snipe_Finish sf)"
  "no_snipes f \<Longrightarrow> keeps (frame f) (snipe_RecordRefund sid a t)"
  by (simp_all only: snipe_Activate_def snipe_Finish_def snipe_RecordRefund_def frame_snipe_cas)

lemma frame_snipe_marks [frame_rules]:
  "no_snipes f \<Longrightarrow> keeps (frame f) (snipe_MarkRefunded sid t)"
  "no_snipes f \<Longrightarrow> keeps (frame f) (snipe_AddEvent sid k m)"
  by (simp_all add: snipe_MarkRefunded_def snipe_AddEvent_def frame_x_db no_snipes_def)

lemma frame_sendToClient [frame_rules]: "no_logs f \<Longrightarrow> keeps (frame f) (sendToClient env s k x)"
  unfolding sendToClient_def by (intro frame_rules)

lemma frame_notifyEnded [frame_rules]: "no_logs f \<Longrightarrow> keeps (frame f) (notifyEnded env s to a)"
  unfolding notifyEnded_def Let_def by (intro frame_rules)

lemma frame_refundLatePayment [frame_rules]:
  "no_snipes f \<Longrightarrow> no_logs f \<Longrightarrow> no_credit f \<Longrightarrow> keeps (frame f) (refundLatePayment env s t)"
  unfolding refundLatePayment_def Let_def by (intro frame_rules)

lemma frame_ActivateSnipeAfterPayment [frame_rules]:
  "no_snipes f \<Longrightarrow> no_logs f \<Longrightarrow> no_credit f \<Longrightarrow> keeps (frame f) (ActivateSnipeAfterPayment env sid)"
  unfolding ActivateSnipeAfterPayment_def Let_def by (intro frame_rules)

lemma frame_snipe_finish [frame_rules]:
  "no_snipes f \<Longrightarrow> no_logs f \<Longrightarrow> no_credit f \<Longrightarrow> keeps (frame f) (snipe_finish env s to opts)"
  unfolding snipe_finish_def finishTx_def snipe_refund_def finish_effects_def Let_def by (intro frame_rules)

end
