(* ===== verification/Billing.thy ===== *)
theory Billing
  imports Renewals Snipe
begin

text \<open>
  \<open>backend/internal/modules/billing/service.go\<close>: creating invoices, dispatching what a paid
  invoice pays for, the renewal, overdue, reminder and late-fee runs, and the administrator's
  operations. A function with an \<open>(int, error)\<close> result that joins the errors of its loop returns
  the count and the list of errors.
\<close>

section \<open>Creating an invoice\<close>

record CreateInvoiceItem =
  cii_Description :: string
  cii_Amount :: int
  cii_Taxed :: bool
  cii_RelatedType :: InvoiceItemRelatedType
  cii_RelatedID :: int

record CreateInvoiceInput =
  cin_ClientID :: int
  cin_Items :: "CreateInvoiceItem list"
  cin_Discount :: int
  cin_DueDate :: time
  cin_Notes :: string

text \<open>The loop over the items: \<open>(subtotal, taxedSum)\<close>.\<close>

fun sum_items :: "CreateInvoiceItem list \<Rightarrow> int \<times> int \<Rightarrow> err + int \<times> int" where
  "sum_items [] acc = Inr acc"
| "sum_items (it # its) acc =
     (if cii_Amount it < 0 then Inl (Validation ''item amount must not be negative'' [])
      else sum_items its (i64 (fst acc + cii_Amount it),
        if cii_Taxed it then i64 (snd acc + cii_Amount it) else snd acc))"

text \<open>The tax block: rate, tax and total of the discounted invoice.\<close>

definition invoice_tax :: "int \<Rightarrow> int \<Rightarrow> int \<Rightarrow> (float64 \<times> int \<times> int) act" where
  "invoice_tax subtotal taxedSum discount =
     bnd (on_err Internal (GetBool ''billing.tax_enabled'' False)) (\<lambda>taxEnabled.
     let total = i64 (subtotal - discount) in
     if taxEnabled \<and> taxedSum > 0 then
       bnd (on_err Internal (GetInt ''billing.tax_rate'' 11)) (\<lambda>rateInt.
       bnd (on_err Internal (GetBool ''billing.tax_inclusive'' False)) (\<lambda>inclusive.
       if rateInt > 0 then
         let taxRate = float_of_int rateInt;
             taxedBase = i64 (taxedSum - discount);
             taxedBase = (if taxedBase < 0 then 0 else taxedBase);
             taxTotal = tr_Tax (CalcTax taxedBase taxRate inclusive)
         in ret (taxRate, taxTotal, if inclusive then total else i64 (total + taxTotal))
       else ret (0, 0, total)))
     else ret (0, 0, total))"

definition invoice_items_of :: "CreateInvoiceItem list \<Rightarrow> InvoiceItem list" where
  "invoice_items_of its = map (\<lambda>it. \<lparr>ii_ID = 0, ii_InvoiceID = 0, ii_Description = cii_Description it,
     ii_Amount = cii_Amount it, ii_Taxed = cii_Taxed it, ii_RelatedType = cii_RelatedType it,
     ii_RelatedID = (if cii_RelatedID it \<noteq> 0 then Some (cii_RelatedID it) else None)\<rparr>) its"

definition CreateInvoice :: "env \<Rightarrow> CreateInvoiceInput \<Rightarrow> Invoice act" where
  "CreateInvoice env inp =
     (if cin_ClientID inp \<le> 0 then fail (Validation ''client_id is required'' [])
      else if cin_Items inp = [] then fail (Validation ''at least one invoice item is required'' [])
      else if cin_Discount inp < 0 then fail (Validation ''discount must not be negative'' [])
      else
        bnd (from_result (sum_items (cin_Items inp) (0, 0))) (\<lambda>(subtotal, taxedSum).
        bnd (clients_GetByID (cin_ClientID inp)) (\<lambda>_.
        let now = e_now env in
        bnd (if IsZero (cin_DueDate inp) then
               bnd (on_err Internal (GetInt ''billing.invoice_due_days'' 3)) (\<lambda>dueDays.
               ret (AddDays (dateOnly now) dueDays))
             else ret (cin_DueDate inp)) (\<lambda>due.
        let discount = (if cin_Discount inp > subtotal then subtotal else cin_Discount inp) in
        bnd (invoice_tax subtotal taxedSum discount) (\<lambda>(taxRate, taxTotal, total).
        let iv = \<lparr>i_ID = 0, i_InvoiceNumber = [], i_ClientID = cin_ClientID inp, i_Status = InvoiceUnpaid,
              i_Subtotal = subtotal, i_Discount = discount, i_TaxRate = taxRate, i_TaxTotal = taxTotal,
              i_CreditApplied = 0, i_Total = total, i_Currency = ''IDR'', i_DueDate = dateOnly due,
              i_PaidAt = None, i_Notes = cin_Notes inp, i_PDFObjectKey = [], i_CreatedAt = 0\<rparr> in
        bnd (on_err normalize_err (WithinTx (
          bnd (NextNumber (InvoiceCounterScope now)) (\<lambda>n.
          invoice_Create env (iv\<lparr>i_InvoiceNumber := FormatInvoiceNumber now n\<rparr>) (invoice_items_of (cin_Items inp)))))) (\<lambda>iv.
        bnd (audit_Log 0 ''invoice.create'' ''invoice'' (i_ID iv)) (\<lambda>_.
        ret iv)))))))"

section \<open>A paid invoice\<close>

definition invoiceURL :: "env \<Rightarrow> int \<Rightarrow> string" where
  "invoiceURL env iid = TrimSuffix (e_FrontendURL env) ''/'' @ ''/billing/invoices/'' @ FormatInt iid"

text \<open>The caller's data has no \<open>Name\<close> entry.\<close>

definition notifyClient :: "env \<Rightarrow> int \<Rightarrow> string \<Rightarrow> (string \<times> string) list \<Rightarrow> unit act" where
  "notifyClient env clientID key data =
     ignore_err (bnd (clients_GetByID clientID) (\<lambda>client.
       SendTemplate env (c_UserID client) key (data @ [(''Name'', FullName client)])))"

text \<open>One turn of the dispatch loop; the accumulator is \<open>activatedOrders\<close>.\<close>

definition dispatchItem :: "env \<Rightarrow> Invoice \<Rightarrow> InvoiceItem \<Rightarrow> int list \<Rightarrow> int list act" where
  "dispatchItem env iv it activated =
     (let relatedID = (case ii_RelatedID it of None \<Rightarrow> 0 | Some x \<Rightarrow> x) in
      case ii_RelatedType it of
        RelatedOrderItem \<Rightarrow>
          if relatedID = 0 then ret activated
          else bnd (OrderIDForOrderItem relatedID) (\<lambda>orderID.
            if orderID \<in> set activated then ret activated
            else bnd (ActivateOrder env orderID) (\<lambda>_. ret (orderID # activated)))
      | RelatedServiceRenewal \<Rightarrow>
          if relatedID = 0 then ret activated else bnd (RenewService env relatedID) (\<lambda>_. ret activated)
      | RelatedServiceUpgrade \<Rightarrow>
          if relatedID = 0 then ret activated else bnd (ApplyUpgrade env relatedID) (\<lambda>_. ret activated)
      | RelatedDomainRenewal \<Rightarrow>
          if relatedID = 0 then ret activated else bnd (RenewDomainAfterPayment env relatedID) (\<lambda>_. ret activated)
      | RelatedDomainSnipe \<Rightarrow>
          if relatedID = 0 then ret activated else bnd (ActivateSnipeAfterPayment env relatedID) (\<lambda>_. ret activated)
      | RelatedDeposit \<Rightarrow>
          bnd (AddCredit (i_ClientID iv) (ii_Amount it) (''Deposit '' @ i_InvoiceNumber iv) (i_ID iv)) (\<lambda>_. ret activated)
      | _ \<Rightarrow> ret activated)"

definition ProcessPaid :: "env \<Rightarrow> int \<Rightarrow> unit act" where
  "ProcessPaid env invoiceID =
     bnd (invoice_GetByID invoiceID) (\<lambda>iv.
     if i_Status iv \<noteq> InvoicePaid then
       fail (AppErr CodeConflict (''invoice '' @ i_InvoiceNumber iv @ '' is not paid'') [])
     else
       bnd (invoice_GetItems invoiceID) (\<lambda>items.
       bnd (foldE (dispatchItem env iv) items []) (\<lambda>_.
       bnd (notifyClient env (i_ClientID iv) ''payment_received'' [(''InvoiceNumber'', i_InvoiceNumber iv),
         (''Amount'', FormatIDR (i_Total iv)), (''InvoiceURL'', invoiceURL env (i_ID iv))]) (\<lambda>_.
       ignore_err (Enqueue env (JobInvoiceGeneratePDF (i_ID iv)))))))"

section \<open>Renewal invoices\<close>

definition panelMetaCancelAtPeriodEnd :: "PanelMeta \<Rightarrow> bool" where
  "panelMetaCancelAtPeriodEnd meta = pm_CancelAtPeriodEnd meta"

definition recurringDiscount :: "env \<Rightarrow> int option \<Rightarrow> int \<Rightarrow> int act" where
  "recurringDiscount env couponID amount =
     (case couponID of
        None \<Rightarrow> ret 0
      | Some cid \<Rightarrow>
        if cid = 0 \<or> amount \<le> 0 then ret 0
        else bnd (attempt (coupon_GetByID cid)) (\<lambda>r. case r of
          Inl _ \<Rightarrow> ret 0
        | Inr c \<Rightarrow>
            if \<not> cp_Active c \<or> \<not> cp_Recurring c then ret 0
            else if (case cp_ExpiresAt c of None \<Rightarrow> False | Some t \<Rightarrow> t < e_now env) then ret 0
            else
              let discount = (case cp_Type c of CouponPercentage \<Rightarrow> quo (i64 (amount * cp_Value c)) 100
                    | CouponFixed \<Rightarrow> cp_Value c);
                  discount = (if discount > amount then amount else discount)
              in ret (if discount < 0 then 0 else discount)))"

definition notifyInvoiceCreated :: "env \<Rightarrow> Invoice \<Rightarrow> unit act" where
  "notifyInvoiceCreated env iv = notifyClient env (i_ClientID iv) ''invoice_created''
     [(''InvoiceNumber'', i_InvoiceNumber iv), (''Total'', FormatIDR (i_Total iv)),
      (''DueDate'', fmt_date (i_DueDate iv)), (''InvoiceURL'', invoiceURL env (i_ID iv))]"

definition skipAlreadyInvoiced :: string where "skipAlreadyInvoiced = ''already invoiced''"
definition skipNotEligible :: string where "skipNotEligible = ''not eligible for renewal invoicing''"
definition skipCancelAtPeriodEnd :: string where "skipCancelAtPeriodEnd = ''cancellation scheduled at period end''"

text \<open>The body of the row-locked transaction, then the transaction with the notification.\<close>

definition serviceRenewalTx :: "env \<Rightarrow> int \<Rightarrow> (Invoice option \<times> string) act" where
  "serviceRenewalTx env serviceID =
     bnd (service_GetByIDForUpdate serviceID) (\<lambda>svc.
     case s_NextDueDate svc of
       None \<Rightarrow> ret (None, skipNotEligible)
     | Some due \<Rightarrow>
       if s_Status svc \<noteq> ServiceActive \<or> s_RecurringAmount svc \<le> 0 then ret (None, skipNotEligible)
       else if panelMetaCancelAtPeriodEnd (s_PanelMeta svc) then ret (None, skipCancelAtPeriodEnd)
       else
         bnd (HasOpenRenewalInvoice RelatedServiceRenewal (s_ID svc)) (\<lambda>opn.
         if opn then ret (None, skipAlreadyInvoiced)
         else
           let name = (if s_Domain svc = [] then ''Service #'' @ FormatInt (s_ID svc) else s_Domain svc);
               desc = ''Renewal: '' @ name @ '' ('' @ cycle_str (s_BillingCycle svc) @ '') - due '' @ fmt_date due in
           bnd (recurringDiscount env (s_CouponID svc) (s_RecurringAmount svc)) (\<lambda>discount.
           bnd (CreateInvoice env \<lparr>cin_ClientID = s_ClientID svc,
                cin_Items = [\<lparr>cii_Description = desc, cii_Amount = s_RecurringAmount svc, cii_Taxed = True,
                  cii_RelatedType = RelatedServiceRenewal, cii_RelatedID = s_ID svc\<rparr>],
                cin_Discount = discount, cin_DueDate = due, cin_Notes = []\<rparr>) (\<lambda>iv.
           ret (Some iv, [])))))"

definition notify_created :: "env \<Rightarrow> Invoice option \<times> string \<Rightarrow> (Invoice option \<times> string) act" where
  "notify_created env r = (case fst r of None \<Rightarrow> ret r | Some iv \<Rightarrow> bnd (notifyInvoiceCreated env iv) (\<lambda>_. ret r))"

definition generateServiceRenewalInvoice :: "env \<Rightarrow> int \<Rightarrow> (Invoice option \<times> string) act" where
  "generateServiceRenewalInvoice env serviceID = bnd (WithinTx (serviceRenewalTx env serviceID)) (notify_created env)"

definition domainRenewalTx :: "env \<Rightarrow> int \<Rightarrow> (Invoice option \<times> string) act" where
  "domainRenewalTx env domainID =
     bnd (domain_GetByIDForUpdate domainID) (\<lambda>dm.
     case d_NextDueDate dm of
       None \<Rightarrow> ret (None, skipNotEligible)
     | Some due \<Rightarrow>
       if d_Status dm \<noteq> DomainActive \<or> d_RecurringAmount dm \<le> 0 then ret (None, skipNotEligible)
       else
         bnd (HasOpenRenewalInvoice RelatedDomainRenewal (d_ID dm)) (\<lambda>opn.
         if opn then ret (None, skipAlreadyInvoiced)
         else
           let desc = ''Domain renewal: '' @ d_Name dm @ '' (1 year) - due '' @ fmt_date due in
           bnd (CreateInvoice env \<lparr>cin_ClientID = d_ClientID dm,
                cin_Items = [\<lparr>cii_Description = desc, cii_Amount = d_RecurringAmount dm, cii_Taxed = True,
                  cii_RelatedType = RelatedDomainRenewal, cii_RelatedID = d_ID dm\<rparr>],
                cin_Discount = 0, cin_DueDate = due, cin_Notes = []\<rparr>) (\<lambda>iv.
           ret (Some iv, []))))"

definition generateDomainRenewalInvoice :: "env \<Rightarrow> int \<Rightarrow> (Invoice option \<times> string) act" where
  "generateDomainRenewalInvoice env domainID = bnd (WithinTx (domainRenewalTx env domainID)) (notify_created env)"

text \<open>One turn of a run: count a created invoice, collect an error.\<close>

definition count_created ::
  "(int \<Rightarrow> (Invoice option \<times> string) act) \<Rightarrow> int \<Rightarrow> int \<times> err list \<Rightarrow> (int \<times> err list) act" where
  "count_created gen i acc = bnd (attempt (gen i)) (\<lambda>r. ret (case r of
     Inl e \<Rightarrow> (fst acc, snd acc @ [e])
   | Inr (None, _) \<Rightarrow> acc
   | Inr (Some _, _) \<Rightarrow> (fst acc + 1, snd acc)))"

definition GenerateRenewalInvoices :: "env \<Rightarrow> (int \<times> err list) act" where
  "GenerateRenewalInvoices env =
     bnd (on_err Internal (GetInt ''billing.renewal_lead_days'' 14)) (\<lambda>lead.
     let before = AddDays (dateOnly (e_now env)) lead in
     bnd (on_err Internal (service_ListRenewalsDue before)) (\<lambda>services.
     bnd (foldE (count_created (generateServiceRenewalInvoice env)) (map s_ID services) (0, [])) (\<lambda>acc.
     bnd (domain_ListRenewalsDue before) (\<lambda>domains.
     foldE (count_created (generateDomainRenewalInvoice env)) (map d_ID domains) acc))))"

section \<open>Overdue, reminders, late fees\<close>

definition overdue_data :: "env \<Rightarrow> Invoice \<Rightarrow> int \<Rightarrow> (string \<times> string) list" where
  "overdue_data env iv amt = [(''InvoiceNumber'', i_InvoiceNumber iv), (''Total'', FormatIDR amt),
     (''DueDate'', fmt_date (i_DueDate iv)), (''InvoiceURL'', invoiceURL env (i_ID iv))]"

text \<open>One turn of \<open>MarkOverdue\<close>, on the row as the list query read it.\<close>

definition markOverdueOne :: "env \<Rightarrow> Invoice \<Rightarrow> int \<times> err list \<Rightarrow> (int \<times> err list) act" where
  "markOverdueOne env iv acc =
     (case TransitionInvoice (i_Status iv) InvoiceOverdue of
        Inl e \<Rightarrow> ret (fst acc, snd acc @ [e])
      | Inr nxt \<Rightarrow>
          bnd (attempt (invoice_UpdateStatus (i_ID iv) nxt None)) (\<lambda>r. case r of
            Inl e \<Rightarrow> ret (fst acc, snd acc @ [e])
          | Inr _ \<Rightarrow>
              bnd (notifyClient env (i_ClientID iv) ''invoice_overdue'' (overdue_data env iv (i_Total iv))) (\<lambda>_.
              ret (fst acc + 1, snd acc))))"

definition listOverdue :: "env \<Rightarrow> Invoice list act" where
  "listOverdue env = on_err Internal
     (invoice_ListDueForStatus InvoiceUnpaid (AddDays (dateOnly (e_now env)) (- 1)))"

definition MarkOverdue :: "env \<Rightarrow> (int \<times> err list) act" where
  "MarkOverdue env = bnd (listOverdue env) (\<lambda>xs. foldE (markOverdueOne env) xs (0, []))"

definition hour_ns :: int where "hour_ns = 3600000000000"

definition ftrunc :: "float64 \<Rightarrow> int" where
  "ftrunc x = (if x < 0 then - \<lfloor>- x\<rfloor> else \<lfloor>x\<rfloor>)"

text \<open>\<open>Duration.Hours() / 24\<close>, truncated.\<close>

definition billing_daysBetween :: "time \<Rightarrow> time \<Rightarrow> int" where
  "billing_daysBetween from to =
     (let d = dur_sub (dateOnly to) (dateOnly from);
          hours = fadd (float_of_int (quo d hour_ns)) (fdiv (float_of_int (remi d hour_ns)) (float_of_int hour_ns))
      in ftrunc (fdiv hours 24))"

definition sendReminderOnce :: "env \<Rightarrow> Invoice \<Rightarrow> string \<Rightarrow> time \<Rightarrow> bool act" where
  "sendReminderOnce env iv key today =
     bnd (HasEmailSince key (i_InvoiceNumber iv) today) (\<lambda>already.
     if already then ret False
     else
       bnd (clients_GetByID (i_ClientID iv)) (\<lambda>client.
       bnd (SendTemplate env (c_UserID client) key ((''Name'', FullName client) # overdue_data env iv (i_Total iv))) (\<lambda>_.
       ret True)))"

definition remindOne ::
  "env \<Rightarrow> string \<Rightarrow> time \<Rightarrow> (Invoice \<Rightarrow> bool) \<Rightarrow> Invoice \<Rightarrow> int \<times> err list \<Rightarrow> (int \<times> err list) act" where
  "remindOne env key today wanted iv acc =
     (if \<not> wanted iv then ret acc
      else bnd (attempt (sendReminderOnce env iv key today)) (\<lambda>r. ret (case r of
        Inl e \<Rightarrow> (fst acc, snd acc @ [e])
      | Inr sent \<Rightarrow> if sent then (fst acc + 1, snd acc) else acc)))"

definition SendReminders :: "env \<Rightarrow> (int \<times> err list) act" where
  "SendReminders env =
     bnd (on_err Internal (GetJSON dec_ints ''billing.reminder_days'' [7, 3, 1])) (\<lambda>reminderDays.
     bnd (on_err Internal (GetJSON dec_ints ''billing.overdue_reminder_days'' [1, 3, 7])) (\<lambda>overdueDays.
     let today = dateOnly (e_now env); maxLead = foldl max 0 reminderDays in
     bnd (on_err Internal (invoice_ListDueForStatus InvoiceUnpaid (AddDays today maxLead))) (\<lambda>unpaid.
     bnd (foldE (remindOne env ''invoice_reminder'' today (\<lambda>iv. let n = billing_daysBetween today (i_DueDate iv) in
            \<not> (n < 0 \<or> n \<notin> set reminderDays))) unpaid (0, [])) (\<lambda>acc.
     bnd (invoice_ListDueForStatus InvoiceOverdue today) (\<lambda>overdue.
     foldE (remindOne env ''invoice_overdue'' today (\<lambda>iv. let n = billing_daysBetween (i_DueDate iv) today in
            \<not> (n \<le> 0 \<or> n \<notin> set overdueDays))) overdue acc)))))"

definition lateFeeTx :: "int \<Rightarrow> int \<Rightarrow> bool act" where
  "lateFeeTx fee invoiceID =
     bnd (invoice_GetByIDForUpdate invoiceID) (\<lambda>locked.
     if i_Status locked \<noteq> InvoiceOverdue then ret False
     else
       bnd (invoice_AddItem \<lparr>ii_ID = 0, ii_InvoiceID = i_ID locked, ii_Description = ''Late fee'', ii_Amount = fee,
         ii_Taxed = False, ii_RelatedType = RelatedLateFee, ii_RelatedID = None\<rparr>) (\<lambda>_.
       bnd (invoice_Update (locked\<lparr>i_Subtotal := i64 (i_Subtotal locked + fee), i_Total := i64 (i_Total locked + fee)\<rparr>)) (\<lambda>_.
       ret True)))"

definition lateFeeOne :: "env \<Rightarrow> int \<Rightarrow> Invoice \<Rightarrow> int \<times> err list \<Rightarrow> (int \<times> err list) act" where
  "lateFeeOne env fee iv acc =
     bnd (invoice_GetItems (i_ID iv)) (\<lambda>items.
     if \<exists>it \<in> set items. ii_RelatedType it = RelatedLateFee then ret acc
     else
       bnd (attempt (WithinTx (lateFeeTx fee (i_ID iv)))) (\<lambda>r. case r of
         Inl e \<Rightarrow> ret (fst acc, snd acc @ [e])
       | Inr applied \<Rightarrow>
           if \<not> applied then ret acc
           else bnd (notifyClient env (i_ClientID iv) ''invoice_overdue'' (overdue_data env iv (i64 (i_Total iv + fee)))) (\<lambda>_.
             ret (fst acc + 1, snd acc))))"

definition ApplyLateFees :: "env \<Rightarrow> (int \<times> err list) act" where
  "ApplyLateFees env =
     bnd (on_err Internal (GetBool ''billing.late_fee_enabled'' False)) (\<lambda>enabled.
     bnd (on_err Internal (GetInt ''billing.late_fee_amount'' 0)) (\<lambda>fee.
     if \<not> enabled \<or> fee \<le> 0 then ret (0, [])
     else
       bnd (on_err Internal (invoice_ListDueForStatus InvoiceOverdue (dateOnly (e_now env)))) (\<lambda>overdue.
       foldE (lateFeeOne env fee) overdue (0, []))))"

section \<open>The administrator's operations\<close>

text \<open>\<open>time.Parse("2006-01-02", s)\<close>.\<close>

definition parseDate :: "string \<Rightarrow> time option" where
  "parseDate s =
     (if length s = 10 \<and> s ! 4 = CHR ''-'' \<and> s ! 7 = CHR ''-''
         \<and> list_all is_digit (take 4 s @ take 2 (drop 5 s) @ take 2 (drop 8 s)) then
        let y = int (digits_val 0 (take 4 s)); m = int (digits_val 0 (take 2 (drop 5 s)));
            d = int (digits_val 0 (take 2 (drop 8 s)))
        in if 1 \<le> m \<and> m \<le> 12 \<and> 1 \<le> d \<and> d \<le> month_len y m then Some (mkDate y m d 0) else None
      else None)"

definition invalid_due_date :: err where
  "invalid_due_date = Validation ''invalid due_date'' [\<lparr>fe_Field = ''due_date'', fe_Message = ''must be YYYY-MM-DD''\<rparr>]"

definition CancelInvoice :: "int \<Rightarrow> int \<Rightarrow> Invoice act" where
  "CancelInvoice actorUserID invoiceID =
     bnd (on_err normalize_err (WithinTx (
       bnd (invoice_GetByIDForUpdate invoiceID) (\<lambda>iv.
       bnd (from_result (TransitionInvoice (i_Status iv) InvoiceCancelled)) (\<lambda>nxt.
       bnd (invoice_UpdateStatus (i_ID iv) nxt None) (\<lambda>_.
       ret (iv\<lparr>i_Status := nxt\<rparr>))))))) (\<lambda>out.
     bnd (audit_Log actorUserID ''invoice.cancel'' ''invoice'' invoiceID) (\<lambda>_. ret out))"

definition refund_credit :: "Invoice \<Rightarrow> bool \<Rightarrow> unit act" where
  "refund_credit iv toCredit =
     (if toCredit \<and> i_Total iv > 0
      then AddCredit (i_ClientID iv) (i_Total iv) (''Refund '' @ i_InvoiceNumber iv) (i_ID iv) else ret ())"

definition refundTx :: "int \<Rightarrow> bool \<Rightarrow> Invoice act" where
  "refundTx invoiceID toCredit =
     bnd (invoice_GetByIDForUpdate invoiceID) (\<lambda>iv.
     bnd (from_result (TransitionInvoice (i_Status iv) InvoiceRefunded)) (\<lambda>nxt.
     bnd (invoice_GetItems (i_ID iv)) (\<lambda>items.
     bnd (guard (\<not> (\<exists>it \<in> set items. ii_RelatedType it = RelatedDomainSnipe))
       (Conflict ''this invoice pays for a domain hunt - cancel the hunt instead of refunding the invoice'')) (\<lambda>_.
     bnd (invoice_UpdateStatus (i_ID iv) nxt None) (\<lambda>_.
     bnd (tx_ListByInvoice (i_ID iv)) (\<lambda>txs.
     bnd (each (\<lambda>t. if t_Status t = TxSuccess then tx_Update (t\<lparr>t_Status := TxRefunded\<rparr>) else ret ()) txs) (\<lambda>_.
     bnd (refund_credit iv toCredit) (\<lambda>_.
     ret (iv\<lparr>i_Status := nxt\<rparr>)))))))))"

definition RefundInvoice :: "int \<Rightarrow> int \<Rightarrow> bool \<Rightarrow> Invoice act" where
  "RefundInvoice actorUserID invoiceID toCredit =
     bnd (on_err normalize_err (WithinTx (refundTx invoiceID toCredit))) (\<lambda>out.
     bnd (audit_Log actorUserID ''invoice.refund'' ''invoice'' invoiceID) (\<lambda>_. ret out))"

definition updateTx :: "int \<Rightarrow> string option \<Rightarrow> string option \<Rightarrow> Invoice act" where
  "updateTx invoiceID dueDate notes =
     bnd (invoice_GetByIDForUpdate invoiceID) (\<lambda>iv.
     bnd (guard (i_Status iv \<in> {InvoiceDraft, InvoiceUnpaid, InvoiceOverdue})
       (AppErr CodeConflict (''cannot edit a '' @ invoice_status_str (i_Status iv) @ '' invoice'') [])) (\<lambda>_.
     bnd (case dueDate of None \<Rightarrow> ret (i_DueDate iv)
          | Some s \<Rightarrow> (case parseDate s of None \<Rightarrow> fail invalid_due_date | Some t \<Rightarrow> ret t)) (\<lambda>due.
     let iv' = iv\<lparr>i_DueDate := due, i_Notes := (case notes of None \<Rightarrow> i_Notes iv | Some n \<Rightarrow> n)\<rparr> in
     bnd (invoice_Update iv') (\<lambda>_. ret iv'))))"

definition UpdateInvoice :: "int \<Rightarrow> int \<Rightarrow> string option \<Rightarrow> string option \<Rightarrow> Invoice act" where
  "UpdateInvoice actorUserID invoiceID dueDate notes =
     bnd (val_Struct [(''due_date'', case dueDate of None \<Rightarrow> None
            | Some s \<Rightarrow> tag (parseDate s = None) ''failed validation: datetime''),
          (''notes'', case notes of None \<Rightarrow> None | Some s \<Rightarrow> tag (length s > 2000) ''must be at most 2000 characters'')]) (\<lambda>_.
     if dueDate = None \<and> notes = None then fail (Validation ''nothing to update'' [])
     else
       bnd (on_err normalize_err (WithinTx (updateTx invoiceID dueDate notes))) (\<lambda>out.
       bnd (audit_Log actorUserID ''invoice.update'' ''invoice'' invoiceID) (\<lambda>_. ret out)))"

record ManualInvoiceItemInput =
  mii_Description :: string
  mii_Amount :: int
  mii_Taxed :: bool

record ManualInvoiceInput =
  mi_ClientID :: int
  mi_Items :: "ManualInvoiceItemInput list"
  mi_Discount :: int
  mi_DueDate :: string
  mi_Notes :: string

definition CreateManualInvoice :: "env \<Rightarrow> int \<Rightarrow> ManualInvoiceInput \<Rightarrow> Invoice act" where
  "CreateManualInvoice env actorUserID inp =
     bnd (val_Struct ([(''client_id'', if mi_ClientID inp = 0 then Some ''is required''
              else tag (mi_ClientID inp \<le> 0) ''must be greater than 0''),
            (''items'', if mi_Items inp = [] then Some ''is required''
              else tag (length (mi_Items inp) > 50) ''must be at most 50'')]
          @ concat (map (\<lambda>it. [(''items.description'', if mii_Description it = [] then Some ''is required''
                else tag (length (mii_Description it) > 500) ''must be at most 500 characters''),
              (''items.amount'', if mii_Amount it = 0 then Some ''is required''
                else tag (mii_Amount it \<le> 0) ''must be greater than 0'')]) (mi_Items inp))
          @ [(''discount'', tag (mi_Discount inp < 0) ''must be at least 0''),
             (''due_date'', tag (mi_DueDate inp \<noteq> [] \<and> parseDate (mi_DueDate inp) = None) ''failed validation: datetime''),
             (''notes'', tag (length (mi_Notes inp) > 2000) ''must be at most 2000 characters'')])) (\<lambda>_.
     bnd (if mi_DueDate inp = [] then ret zero_time
          else (case parseDate (mi_DueDate inp) of None \<Rightarrow> fail invalid_due_date | Some t \<Rightarrow> ret t)) (\<lambda>due.
     bnd (CreateInvoice env \<lparr>cin_ClientID = mi_ClientID inp,
          cin_Items = map (\<lambda>it. \<lparr>cii_Description = mii_Description it, cii_Amount = mii_Amount it,
            cii_Taxed = mii_Taxed it, cii_RelatedType = RelatedManual, cii_RelatedID = 0\<rparr>) (mi_Items inp),
          cin_Discount = mi_Discount inp, cin_DueDate = due, cin_Notes = mi_Notes inp\<rparr>) (\<lambda>iv.
     bnd (audit_Log actorUserID ''invoice.create_manual'' ''invoice'' (i_ID iv)) (\<lambda>_.
     bnd (notifyInvoiceCreated env iv) (\<lambda>_. ret iv)))))"

definition GetInvoice :: "int \<Rightarrow> int \<Rightarrow> (Invoice \<times> InvoiceItem list \<times> Transaction list) act" where
  "GetInvoice clientID invoiceID =
     bnd (invoice_GetByID invoiceID) (\<lambda>iv.
     if clientID \<noteq> 0 \<and> i_ClientID iv \<noteq> clientID then fail (NotFound ''invoice'')
     else bnd (invoice_GetItems invoiceID) (\<lambda>items. bnd (tx_ListByInvoice invoiceID) (\<lambda>txs. ret (iv, items, txs))))"

text \<open>\<open>clients.Deposit\<close>, which asks billing for the invoice.\<close>

definition Deposit :: "env \<Rightarrow> int \<Rightarrow> int \<Rightarrow> Invoice act" where
  "Deposit env clientID amount =
     bnd (val_Struct [(''amount'', if amount = 0 then Some ''is required''
       else tag (amount < 10000) ''must be at least 10000'')]) (\<lambda>_.
     bnd (on_err normalize_err (clients_GetByID clientID)) (\<lambda>_.
     bnd (on_err Internal (GetInt ''billing.invoice_due_days'' 3)) (\<lambda>dueDays.
     bnd (on_err normalize_err (CreateInvoice env \<lparr>cin_ClientID = clientID,
          cin_Items = [\<lparr>cii_Description = ''Credit deposit'', cii_Amount = amount, cii_Taxed = False,
            cii_RelatedType = RelatedDeposit, cii_RelatedID = 0\<rparr>],
          cin_Discount = 0, cin_DueDate = AddDays (e_now env) dueDays, cin_Notes = ''Credit deposit''\<rparr>)) (\<lambda>iv.
     bnd (audit_Log 0 ''client.deposit'' ''client'' clientID) (\<lambda>_. ret iv)))))"

section \<open>Frames\<close>

lemma frame_notifyClient [frame_rules]: "no_logs f \<Longrightarrow> keeps (frame f) (notifyClient env c k x)"
  unfolding notifyClient_def by (intro frame_rules)

lemma frame_notifyInvoiceCreated [frame_rules]: "no_logs f \<Longrightarrow> keeps (frame f) (notifyInvoiceCreated env iv)"
  unfolding notifyInvoiceCreated_def by (intro frame_rules)

lemma frame_recurringDiscount [frame_rules]: "keeps (frame f) (recurringDiscount env c a)"
  unfolding recurringDiscount_def Let_def by (intro frame_rules)

lemma frame_invoice_tax [frame_rules]: "keeps (frame f) (invoice_tax a b c)"
  unfolding invoice_tax_def Let_def by (intro frame_rules)

lemma frame_val_Struct [frame_rules]: "keeps (frame f) (val_Struct fds)"
  unfolding val_Struct_def Let_def by (intro frame_rules)

text \<open>What the dispatch of a paid invoice may write.\<close>

definition no_dispatch :: "(db \<Rightarrow> 'p) \<Rightarrow> bool" where
  "no_dispatch f \<longleftrightarrow> no_fulfilment f \<and> no_snipes f \<and> no_credit f \<and> no_logs f"

lemma no_dispatchD: "no_dispatch f \<Longrightarrow> no_fulfilment f" "no_dispatch f \<Longrightarrow> no_snipes f"
  "no_dispatch f \<Longrightarrow> no_credit f" "no_dispatch f \<Longrightarrow> no_logs f"
  by (simp_all add: no_dispatch_def)

lemma frame_dispatchItem [frame_rules]: "no_dispatch f \<Longrightarrow> keeps (frame f) (dispatchItem env iv it acc)"
  unfolding dispatchItem_def Let_def
  by (cases "ii_RelatedType it"; simp only: InvoiceItemRelatedType.case; (intro frame_rules no_dispatchD; assumption)?)

lemma frame_ProcessPaid [frame_rules]: "no_dispatch f \<Longrightarrow> keeps (frame f) (ProcessPaid env iid)"
  unfolding ProcessPaid_def by (intro frame_rules no_dispatchD)

text \<open>What creating an invoice may write.\<close>

definition no_invoicing :: "(db \<Rightarrow> 'p) \<Rightarrow> bool" where
  "no_invoicing f \<longleftrightarrow> (\<forall>d x. f (d\<lparr>db_invoices := x\<rparr>) = f d) \<and> (\<forall>d x. f (d\<lparr>db_invoice_items := x\<rparr>) = f d)
     \<and> (\<forall>d x. f (d\<lparr>db_counters := x\<rparr>) = f d)"

lemma no_invoicingD: "no_invoicing f \<Longrightarrow> f (d\<lparr>db_invoices := x\<rparr>) = f d"
  "no_invoicing f \<Longrightarrow> f (d\<lparr>db_invoice_items := y\<rparr>) = f d" "no_invoicing f \<Longrightarrow> f (d\<lparr>db_counters := z\<rparr>) = f d"
  by (simp_all add: no_invoicing_def)

lemma frame_CreateInvoice [frame_rules]:
  "no_invoicing f \<Longrightarrow> no_logs f \<Longrightarrow> keeps (frame f) (CreateInvoice env inp)"
  unfolding CreateInvoice_def Let_def by (intro frame_rules no_invoicingD)

lemma frame_invoice_Update [frame_rules]: "no_invoicing f \<Longrightarrow> keeps (frame f) (invoice_Update iv)"
  unfolding invoice_Update_def by (intro frame_rules no_invoicingD)

lemma frame_invoice_UpdateStatus [frame_rules]: "no_invoicing f \<Longrightarrow> keeps (frame f) (invoice_UpdateStatus i s t)"
  unfolding invoice_UpdateStatus_def by (intro frame_rules no_invoicingD)

lemma frame_serviceRenewalTx [frame_rules]:
  "no_invoicing f \<Longrightarrow> no_logs f \<Longrightarrow> keeps (frame f) (serviceRenewalTx env sid)"
  unfolding serviceRenewalTx_def Let_def by (intro frame_rules)

lemma frame_domainRenewalTx [frame_rules]:
  "no_invoicing f \<Longrightarrow> no_logs f \<Longrightarrow> keeps (frame f) (domainRenewalTx env sid)"
  unfolding domainRenewalTx_def Let_def by (intro frame_rules)

lemma frame_notify_created [frame_rules]: "no_logs f \<Longrightarrow> keeps (frame f) (notify_created env r)"
  unfolding notify_created_def by (intro frame_rules)

lemma frame_generate [frame_rules]:
  "no_invoicing f \<Longrightarrow> no_logs f \<Longrightarrow> keeps (frame f) (generateServiceRenewalInvoice env sid)"
  "no_invoicing f \<Longrightarrow> no_logs f \<Longrightarrow> keeps (frame f) (generateDomainRenewalInvoice env sid)"
  unfolding generateServiceRenewalInvoice_def generateDomainRenewalInvoice_def by (intro frame_rules; assumption)+

lemma frame_count_created [frame_rules]: "(\<And>i. keeps (frame f) (g i)) \<Longrightarrow> keeps (frame f) (count_created g i acc)"
  unfolding count_created_def by (intro frame_rules)

lemma frame_GenerateRenewalInvoices [frame_rules]:
  "no_invoicing f \<Longrightarrow> no_logs f \<Longrightarrow> keeps (frame f) (GenerateRenewalInvoices env)"
  unfolding GenerateRenewalInvoices_def Let_def by (intro frame_rules)

lemma frame_MarkOverdue [frame_rules]:
  "no_invoicing f \<Longrightarrow> no_logs f \<Longrightarrow> keeps (frame f) (MarkOverdue env)"
  unfolding MarkOverdue_def listOverdue_def markOverdueOne_def by (intro frame_rules)

lemma frame_sendReminderOnce [frame_rules]: "no_logs f \<Longrightarrow> keeps (frame f) (sendReminderOnce env iv k t)"
  unfolding sendReminderOnce_def by (intro frame_rules)

lemma frame_remindOne [frame_rules]: "no_logs f \<Longrightarrow> keeps (frame f) (remindOne env k t p iv acc)"
  unfolding remindOne_def by (intro frame_rules)

lemma frame_SendReminders [frame_rules]: "no_logs f \<Longrightarrow> keeps (frame f) (SendReminders env)"
  unfolding SendReminders_def Let_def by (intro frame_rules)

lemma frame_lateFeeTx [frame_rules]: "no_invoicing f \<Longrightarrow> keeps (frame f) (lateFeeTx fee iid)"
  unfolding lateFeeTx_def by (intro frame_rules no_invoicingD)

lemma frame_ApplyLateFees [frame_rules]:
  "no_invoicing f \<Longrightarrow> no_logs f \<Longrightarrow> keeps (frame f) (ApplyLateFees env)"
  unfolding ApplyLateFees_def lateFeeOne_def by (intro frame_rules)

lemma frame_refund_credit [frame_rules]: "no_credit f \<Longrightarrow> keeps (frame f) (refund_credit iv b)"
  unfolding refund_credit_def by (intro frame_rules)

lemma frame_CancelInvoice [frame_rules]:
  "no_invoicing f \<Longrightarrow> no_logs f \<Longrightarrow> keeps (frame f) (CancelInvoice a iid)"
  unfolding CancelInvoice_def by (intro frame_rules)

lemma frame_UpdateInvoice [frame_rules]:
  "no_invoicing f \<Longrightarrow> no_logs f \<Longrightarrow> keeps (frame f) (UpdateInvoice a iid dd n)"
  unfolding UpdateInvoice_def updateTx_def Let_def by (intro frame_rules)

lemma frame_CreateManualInvoice [frame_rules]:
  "no_invoicing f \<Longrightarrow> no_logs f \<Longrightarrow> keeps (frame f) (CreateManualInvoice env a mi)"
  unfolding CreateManualInvoice_def Let_def by (intro frame_rules)

lemma frame_Deposit [frame_rules]:
  "no_invoicing f \<Longrightarrow> no_logs f \<Longrightarrow> keeps (frame f) (Deposit env c a)"
  unfolding Deposit_def by (intro frame_rules)

end
