(* ===== verification/Payments.thy ===== *)
theory Payments
  imports Billing
begin

text \<open>
  \<open>backend/internal/modules/payments/service.go\<close>: opening a payment, paying with credit, the
  idempotent core \<open>ApplyPayment\<close>, the webhook, the return page and reconciliation, and
  \<open>AddManualPayment\<close> of the billing service. The payment gateways are adapters of external
  services: a gateway is a record of the functions of \<open>ports.PaymentGateway\<close>, an argument of
  every operation that calls one. The processor \<open>ApplyPayment\<close> calls in its transaction is an
  argument too; \<open>ProcessPaid\<close> is what the program passes.
\<close>

section \<open>Data (ports.go, payments/dto.go)\<close>

record ApplyTx =
  at_Gateway :: Gateway
  at_MethodCode :: string
  at_MerchantOrderID :: string
  at_GatewayReference :: string
  at_Amount :: int
  at_Fee :: int
  at_Raw :: string
  at_PaidAt :: time

record PaymentMethod =
  pmt_Code :: string
  pmt_Name :: string
  pmt_Image :: string
  pmt_Fee :: int
  pmt_Gateway :: string

record CreateTxRequest =
  rq_MerchantOrderID :: string
  rq_Amount :: int
  rq_Method :: string
  rq_ProductDetails :: string
  rq_Email :: string
  rq_Phone :: string
  rq_CustomerName :: string
  rq_ReturnURL :: string
  rq_CallbackURL :: string
  rq_ExpiryMinutes :: int

record BankAccount =
  ba_BankName :: string
  ba_AccountNumber :: string
  ba_AccountHolder :: string

text \<open>An absent \<open>BankAccounts\<close> is the empty list.\<close>

record CreateTxResult =
  rs_Reference :: string
  rs_PaymentURL :: string
  rs_VANumber :: string
  rs_QRString :: string
  rs_Amount :: int
  rs_BankAccounts :: "BankAccount list"
  rs_Note :: string

record TxStatusResult =
  st_Reference :: string
  st_Amount :: int
  st_Fee :: int
  st_StatusCode :: string
  st_StatusMessage :: string

record CallbackPayload =
  cb_MerchantCode :: string
  cb_Amount :: string
  cb_MerchantOrderID :: string
  cb_ProductDetail :: string
  cb_AdditionalParam :: string
  cb_PaymentCode :: string
  cb_ResultCode :: string
  cb_Reference :: string
  cb_Signature :: string

record PaymentGateway =
  gw_GetPaymentMethods :: "int \<Rightarrow> err + PaymentMethod list"
  gw_CreateTransaction :: "CreateTxRequest \<Rightarrow> err + CreateTxResult"
  gw_CheckTransaction :: "string \<Rightarrow> err + TxStatusResult"
  gw_VerifyCallbackSignature :: "CallbackPayload \<Rightarrow> bool"

type_synonym gateways = "Gateway \<Rightarrow> PaymentGateway option"

record PaymentInstruction =
  pi_Status :: string
  pi_TransactionID :: int
  pi_MerchantOrderID :: string
  pi_Reference :: string
  pi_PaymentURL :: string
  pi_VANumber :: string
  pi_QRString :: string
  pi_BankAccounts :: "BankAccount list"
  pi_Note :: string
  pi_Amount :: int
  pi_Fee :: int
  pi_ExpiresAt :: "time option"

definition TxStatusSuccess :: string where "TxStatusSuccess = ''00''"
definition TxStatusPending :: string where "TxStatusPending = ''01''"
definition TxStatusCancelled :: string where "TxStatusCancelled = ''02''"
definition resultCodeSuccess :: string where "resultCodeSuccess = ''00''"
definition defaultExpiryMinutes :: int where "defaultExpiryMinutes = 1440"
definition ManualMethodBankTransfer :: string where "ManualMethodBankTransfer = ''bank_transfer''"
definition minute_ns :: int where "minute_ns = 60000000000"

definition ErrBadSignature :: err where "ErrBadSignature = RawErr ''invalid callback signature''"

section \<open>The raw payloads that are stored (encoding/json)\<close>

definition json_hex :: "nat \<Rightarrow> char" where
  "json_hex n = (if n < 10 then char_of (48 + n) else char_of (87 + n))"

text \<open>One byte of an ASCII string in a JSON string literal, with the HTML escapes of \<open>Marshal\<close>.\<close>

definition json_byte :: "char \<Rightarrow> string" where
  "json_byte c =
     (let n = (of_char c :: nat) in
      if n = 34 \<or> n = 92 then [char_of (92::nat), c]
      else if n = 8 then [char_of (92::nat), CHR ''b'']
      else if n = 9 then [char_of (92::nat), CHR ''t'']
      else if n = 10 then [char_of (92::nat), CHR ''n'']
      else if n = 12 then [char_of (92::nat), CHR ''f'']
      else if n = 13 then [char_of (92::nat), CHR ''r'']
      else if n < 32 \<or> n \<in> {38, 60, 62} then
        char_of (92::nat) # ''u00'' @ [json_hex (n div 16), json_hex (n mod 16)]
      else [c])"

definition json_lit :: "string \<Rightarrow> string" where
  "json_lit s = char_of (34::nat) # concat (map json_byte s) @ [char_of (34::nat)]"

fun json_commas :: "string list \<Rightarrow> string" where
  "json_commas [] = []"
| "json_commas [x] = x"
| "json_commas (x # xs) = x @ '','' @ json_commas xs"

definition json_object :: "(string \<times> string) list \<Rightarrow> string" where
  "json_object fds = ''{'' @ json_commas (map (\<lambda>(k, v). json_lit k @ '':'' @ v) fds) @ ''}''"

definition marshal_result :: "CreateTxResult \<Rightarrow> string" where
  "marshal_result r = json_object [(''Reference'', json_lit (rs_Reference r)), (''PaymentURL'', json_lit (rs_PaymentURL r)),
     (''VANumber'', json_lit (rs_VANumber r)), (''QRString'', json_lit (rs_QRString r)), (''Amount'', FormatInt (rs_Amount r)),
     (''BankAccounts'', if rs_BankAccounts r = [] then ''null'' else ''['' @ json_commas (map (\<lambda>b. json_object
        [(''bank_name'', json_lit (ba_BankName b)), (''account_number'', json_lit (ba_AccountNumber b)),
         (''account_holder'', json_lit (ba_AccountHolder b))]) (rs_BankAccounts r)) @ '']''),
     (''Note'', json_lit (rs_Note r))]"

definition marshal_callback :: "CallbackPayload \<Rightarrow> string" where
  "marshal_callback p = json_object [(''merchantCode'', json_lit (cb_MerchantCode p)), (''amount'', json_lit (cb_Amount p)),
     (''merchantOrderId'', json_lit (cb_MerchantOrderID p)), (''productDetail'', json_lit (cb_ProductDetail p)),
     (''additionalParam'', json_lit (cb_AdditionalParam p)), (''paymentCode'', json_lit (cb_PaymentCode p)),
     (''resultCode'', json_lit (cb_ResultCode p)), (''reference'', json_lit (cb_Reference p)),
     (''signature'', json_lit (cb_Signature p))]"

definition marshal_status :: "TxStatusResult \<Rightarrow> string" where
  "marshal_status s = json_object [(''Reference'', json_lit (st_Reference s)), (''Amount'', FormatInt (st_Amount s)),
     (''Fee'', FormatInt (st_Fee s)), (''StatusCode'', json_lit (st_StatusCode s)), (''StatusMessage'', json_lit (st_StatusMessage s))]"

section \<open>Opening a payment\<close>

definition duitkuGateway :: "gateways \<Rightarrow> PaymentGateway act" where
  "duitkuGateway gws = (case gws GatewayDuitku of
     None \<Rightarrow> fail (Internal (RawErr ''payments: duitku gateway not wired'')) | Some g \<Rightarrow> ret g)"

definition getOwnedInvoice :: "int \<Rightarrow> int \<Rightarrow> Invoice act" where
  "getOwnedInvoice clientID invoiceID =
     bnd (invoice_GetByID invoiceID) (\<lambda>iv.
     if clientID \<noteq> 0 \<and> i_ClientID iv \<noteq> clientID then fail (NotFound ''invoice'') else ret iv)"

definition invoicePayable :: "InvoiceStatus \<Rightarrow> bool" where
  "invoicePayable status \<longleftrightarrow> status = InvoiceUnpaid \<or> status = InvoiceOverdue"

fun gateway_str :: "Gateway \<Rightarrow> string" where
  "gateway_str GatewayDuitku = ''duitku''"
| "gateway_str GatewayCredit = ''credit''"
| "gateway_str GatewayManual = ''manual''"

text \<open>
  The loop over \<open>GatewayOrder\<close>: the default gateway's error is returned, another gateway's is
  dropped. The cache is its answer for each amount and is returned as the call leaves it.
\<close>

fun collect_methods :: "gateways \<Rightarrow> Gateway \<Rightarrow> int \<Rightarrow> Gateway list \<Rightarrow> PaymentMethod list \<Rightarrow> err + PaymentMethod list" where
  "collect_methods gws dflt amount [] acc = Inr acc"
| "collect_methods gws dflt amount (code # codes) acc =
     (case gws code of
        None \<Rightarrow> collect_methods gws dflt amount codes acc
      | Some g \<Rightarrow> (case gw_GetPaymentMethods g amount of
            Inl e \<Rightarrow> if code = dflt then Inl e else collect_methods gws dflt amount codes acc
          | Inr ms \<Rightarrow> collect_methods gws dflt amount codes
              (acc @ map (\<lambda>m. m\<lparr>pmt_Gateway := gateway_str code\<rparr>) ms)))"

definition GetPaymentMethods ::
  "gateways \<Rightarrow> Gateway list \<Rightarrow> Gateway \<Rightarrow> (int \<Rightarrow> PaymentMethod list option) \<Rightarrow> int \<Rightarrow> int \<Rightarrow>
    (PaymentMethod list \<times> (int \<Rightarrow> PaymentMethod list option)) act" where
  "GetPaymentMethods gws order dflt cache clientID invoiceID =
     bnd (getOwnedInvoice clientID invoiceID) (\<lambda>iv.
     if \<not> invoicePayable (i_Status iv) then fail (Conflict ''invoice is not payable'')
     else
       let amount = i64 (i_Total iv - i_CreditApplied iv) in
       if amount \<le> 0 then ret ([], cache)
       else (case cache amount of
         Some ms \<Rightarrow> ret (ms, cache)
       | None \<Rightarrow> bnd (from_result (collect_methods gws dflt amount order [])) (\<lambda>ms.
           ret (ms, cache(amount := Some ms)))))"

definition dec_int_map :: "json \<Rightarrow> (string \<rightharpoonup> int) \<Rightarrow> (string \<rightharpoonup> int) option" where
  "dec_int_map j m = (case j of
     JNull \<Rightarrow> Some Map.empty
   | JObj kvs \<Rightarrow> if list_all (\<lambda>(k, v). json_int v \<noteq> None) kvs
       then Some (m ++ map_of (rev (map (\<lambda>(k, v). (k, the (json_int v))) kvs))) else None
   | _ \<Rightarrow> None)"

definition expiryMinutesFor :: "string \<Rightarrow> int act" where
  "expiryMinutesFor mthd =
     bnd (attempt (GetJSON dec_int_map ''payments.method_expiry_minutes'' Map.empty)) (\<lambda>r. ret (case r of
       Inl _ \<Rightarrow> defaultExpiryMinutes
     | Inr overrides \<Rightarrow> (case overrides mthd of
         Some minutes \<Rightarrow> if minutes > 0 then minutes else defaultExpiryMinutes
       | None \<Rightarrow> defaultExpiryMinutes)))"

definition merchant_order_id :: "string \<Rightarrow> int \<Rightarrow> string" where
  "merchant_order_id invoiceNumber k = invoiceNumber @ ''-'' @ fmt0d 2 k"

text \<open>After the gateway answered: the pending row, the audit row and the instruction.\<close>

definition record_pending ::
  "env \<Rightarrow> int \<Rightarrow> Invoice \<Rightarrow> Gateway \<Rightarrow> string \<Rightarrow> string \<Rightarrow> int \<Rightarrow> int \<Rightarrow> CreateTxResult \<Rightarrow> PaymentInstruction act" where
  "record_pending env actorUserID iv gatewayCode mthd merchantOrderID remaining expiryMinutes res =
     (let fee = i64 (rs_Amount res - remaining);
          fee = (if fee < 0 then 0 else fee);
          grossAmount = i64 (remaining + fee);
          expiresAt = e_now env + i64 (expiryMinutes * minute_ns) in
      bnd (tx_Create env \<lparr>t_ID = 0, t_InvoiceID = i_ID iv, t_Gateway = gatewayCode, t_MethodCode = mthd,
        t_MerchantOrderID = Some merchantOrderID, t_GatewayReference = rs_Reference res, t_Amount = remaining, t_Fee = fee,
        t_Status = TxPending, t_Raw = marshal_result res, t_PaidAt = None, t_ExpiresAt = Some expiresAt, t_CreatedAt = 0\<rparr>) (\<lambda>t.
      bnd (audit_Log actorUserID ''payment.initiated'' ''invoice'' (i_ID iv)) (\<lambda>_.
      ret \<lparr>pi_Status = ''pending'', pi_TransactionID = t_ID t, pi_MerchantOrderID = merchantOrderID,
        pi_Reference = rs_Reference res, pi_PaymentURL = rs_PaymentURL res, pi_VANumber = rs_VANumber res,
        pi_QRString = rs_QRString res, pi_BankAccounts = rs_BankAccounts res, pi_Note = rs_Note res,
        pi_Amount = grossAmount, pi_Fee = fee, pi_ExpiresAt = Some expiresAt\<rparr>)))"

definition payWithGateway :: "gateways \<Rightarrow> env \<Rightarrow> int \<Rightarrow> Invoice \<Rightarrow> Gateway \<Rightarrow> string \<Rightarrow> PaymentInstruction act" where
  "payWithGateway gws env actorUserID iv gatewayCode mthd =
     (case gws gatewayCode of
        None \<Rightarrow> fail (Internal (RawErr ''payments: gateway not wired''))
      | Some g \<Rightarrow>
        let remaining = i64 (i_Total iv - i_CreditApplied iv) in
        if remaining \<le> 0 then fail (Conflict ''invoice has no remaining amount due'')
        else
          bnd (NextAttempt (i_ID iv)) (\<lambda>attempt_no.
          let merchantOrderID = merchant_order_id (i_InvoiceNumber iv) attempt_no in
          bnd (clients_GetByID (i_ClientID iv)) (\<lambda>client.
          bnd (attempt (users_GetByID (c_UserID client))) (\<lambda>user.
          bnd (expiryMinutesFor mthd) (\<lambda>expiryMinutes.
          bnd (from_result (gw_CreateTransaction g \<lparr>rq_MerchantOrderID = merchantOrderID, rq_Amount = remaining,
            rq_Method = mthd, rq_ProductDetails = ''Invoice '' @ i_InvoiceNumber iv,
            rq_Email = (case user of Inr u \<Rightarrow> u_Email u | Inl _ \<Rightarrow> []), rq_Phone = c_Phone client,
            rq_CustomerName = FullName client, rq_ReturnURL = e_FrontendURL env @ ''/payments/return'',
            rq_CallbackURL = e_AppBaseURL env @ ''/api/v1/webhooks/duitku'', rq_ExpiryMinutes = expiryMinutes\<rparr>)) (\<lambda>res.
          record_pending env actorUserID iv gatewayCode mthd merchantOrderID remaining expiryMinutes res))))))"

section \<open>ApplyPayment\<close>

text \<open>The success transaction: the row with the merchant order id, or a new one.\<close>

definition existing_tx :: "string \<Rightarrow> Transaction option act" where
  "existing_tx mo = (if mo = [] then ret None else optional (tx_GetByMerchantOrderID mo))"

definition settled :: "ApplyTx \<Rightarrow> time \<Rightarrow> string \<Rightarrow> Transaction \<Rightarrow> Transaction" where
  "settled tx paidAt raw t = t\<lparr>t_Status := TxSuccess,
     t_MethodCode := (if at_MethodCode tx \<noteq> [] then at_MethodCode tx else t_MethodCode t),
     t_GatewayReference := (if at_GatewayReference tx \<noteq> [] then at_GatewayReference tx else t_GatewayReference t),
     t_Amount := at_Amount tx, t_Fee := at_Fee tx, t_Raw := raw, t_PaidAt := Some paidAt\<rparr>"

definition success_tx :: "int \<Rightarrow> ApplyTx \<Rightarrow> time \<Rightarrow> string \<Rightarrow> Transaction" where
  "success_tx invoiceID tx paidAt raw = \<lparr>t_ID = 0, t_InvoiceID = invoiceID, t_Gateway = at_Gateway tx,
     t_MethodCode = at_MethodCode tx,
     t_MerchantOrderID = (if at_MerchantOrderID tx \<noteq> [] then Some (at_MerchantOrderID tx) else None),
     t_GatewayReference = at_GatewayReference tx, t_Amount = at_Amount tx, t_Fee = at_Fee tx, t_Status = TxSuccess,
     t_Raw = raw, t_PaidAt = Some paidAt, t_ExpiresAt = None, t_CreatedAt = 0\<rparr>"

definition upsert_success :: "env \<Rightarrow> int \<Rightarrow> ApplyTx \<Rightarrow> time \<Rightarrow> string \<Rightarrow> Transaction option \<Rightarrow> unit act" where
  "upsert_success env invoiceID tx paidAt raw existing =
     (case existing of
        Some t \<Rightarrow>
          if t_InvoiceID t \<noteq> invoiceID then fail (Conflict ''transaction belongs to a different invoice'')
          else if t_Status t \<noteq> TxSuccess then tx_Update (settled tx paidAt raw t)
          else ret ()
      | None \<Rightarrow> bnd (tx_Create env (success_tx invoiceID tx paidAt raw)) (\<lambda>_. ret ()))"

definition short_payment :: "Invoice \<Rightarrow> int \<Rightarrow> int \<Rightarrow> err" where
  "short_payment iv amount remaining = AppErr CodeConflict (''payment amount '' @ FormatInt amount @ '' is less than the ''
     @ FormatInt remaining @ '' due on invoice '' @ i_InvoiceNumber iv) []"

definition applyTx :: "env \<Rightarrow> (int \<Rightarrow> unit act) \<Rightarrow> int \<Rightarrow> ApplyTx \<Rightarrow> unit act" where
  "applyTx env process invoiceID tx =
     bnd (invoice_GetByIDForUpdate invoiceID) (\<lambda>iv.
     if i_Status iv = InvoicePaid \<or> i_Status iv = InvoiceRefunded then ret ()
     else
       bnd (from_result (TransitionInvoice (i_Status iv) InvoicePaid)) (\<lambda>_.
       let remaining = i64 (i_Total iv - i_CreditApplied iv) in
       if at_Amount tx < remaining then fail (short_payment iv (at_Amount tx) remaining)
       else
         let paidAt = (if IsZero (at_PaidAt tx) then e_now env else at_PaidAt tx);
             raw = (if at_Raw tx = [] then ''{}'' else at_Raw tx) in
         bnd (existing_tx (at_MerchantOrderID tx)) (\<lambda>existing.
         bnd (upsert_success env invoiceID tx paidAt raw existing) (\<lambda>_.
         bnd (invoice_UpdateStatus invoiceID InvoicePaid (Some paidAt)) (\<lambda>_.
         bnd (audit_Log 0 ''invoice.paid'' ''invoice'' invoiceID) (\<lambda>_.
         process invoiceID))))))"

definition ApplyPayment :: "env \<Rightarrow> (int \<Rightarrow> unit act) \<Rightarrow> int \<Rightarrow> ApplyTx \<Rightarrow> unit act" where
  "ApplyPayment env process invoiceID tx = WithinTx (applyTx env process invoiceID tx)"

section \<open>Paying with credit\<close>

definition credit_ApplyTx :: "env \<Rightarrow> int \<Rightarrow> ApplyTx" where
  "credit_ApplyTx env remaining = \<lparr>at_Gateway = GatewayCredit, at_MethodCode = ''credit'', at_MerchantOrderID = [],
     at_GatewayReference = [], at_Amount = remaining, at_Fee = 0, at_Raw = [], at_PaidAt = e_now env\<rparr>"

definition paid_instruction :: "int \<Rightarrow> PaymentInstruction" where
  "paid_instruction amount = \<lparr>pi_Status = ''paid'', pi_TransactionID = 0, pi_MerchantOrderID = [], pi_Reference = [],
     pi_PaymentURL = [], pi_VANumber = [], pi_QRString = [], pi_BankAccounts = [], pi_Note = [], pi_Amount = amount,
     pi_Fee = 0, pi_ExpiresAt = None\<rparr>"

definition deduct_due :: "Invoice \<Rightarrow> int \<Rightarrow> int \<Rightarrow> unit act" where
  "deduct_due iv invoiceID remaining =
     (if remaining > 0 then DeductCredit (i_ClientID iv) remaining (''Payment for invoice '' @ i_InvoiceNumber iv) invoiceID
      else ret ())"

definition creditTx :: "env \<Rightarrow> (int \<Rightarrow> unit act) \<Rightarrow> int \<Rightarrow> int \<Rightarrow> PaymentInstruction act" where
  "creditTx env process actorUserID invoiceID =
     bnd (invoice_GetByIDForUpdate invoiceID) (\<lambda>iv.
     if \<not> invoicePayable (i_Status iv) then fail (Conflict ''invoice is not payable'')
     else
       bnd (invoice_GetItems invoiceID) (\<lambda>items.
       bnd (guard (\<not> (\<exists>it \<in> set items. ii_RelatedType it = RelatedDeposit))
         (Conflict ''deposit invoices cannot be paid with credit'')) (\<lambda>_.
       let remaining = i64 (i_Total iv - i_CreditApplied iv) in
       bnd (deduct_due iv invoiceID remaining) (\<lambda>_.
       bnd (ApplyPayment env process invoiceID (credit_ApplyTx env remaining)) (\<lambda>_.
       bnd (audit_Log actorUserID ''payment.credit'' ''invoice'' invoiceID) (\<lambda>_.
       ret (paid_instruction remaining)))))))"

definition payWithCredit :: "env \<Rightarrow> (int \<Rightarrow> unit act) \<Rightarrow> int \<Rightarrow> int \<Rightarrow> PaymentInstruction act" where
  "payWithCredit env process actorUserID invoiceID = WithinTx (creditTx env process actorUserID invoiceID)"

definition PayInvoice ::
  "gateways \<Rightarrow> env \<Rightarrow> (int \<Rightarrow> unit act) \<Rightarrow> int \<Rightarrow> int \<Rightarrow> int \<Rightarrow> string \<Rightarrow> PaymentInstruction act" where
  "PayInvoice gws env process actorUserID clientID invoiceID mthd =
     (let mthd = TrimSpace mthd in
      if mthd = [] then fail (Validation ''method is required'' [\<lparr>fe_Field = ''method'', fe_Message = ''must not be empty''\<rparr>])
      else
        bnd (getOwnedInvoice clientID invoiceID) (\<lambda>iv.
        if \<not> invoicePayable (i_Status iv) then fail (Conflict ''invoice is not payable'')
        else if i_Currency iv \<noteq> [] \<and> i_Currency iv \<noteq> ''IDR'' then fail (Conflict ''only IDR invoices are supported'')
        else if mthd = ''credit'' then payWithCredit env process actorUserID (i_ID iv)
        else if mthd = ManualMethodBankTransfer then payWithGateway gws env actorUserID iv GatewayManual mthd
        else payWithGateway gws env actorUserID iv GatewayDuitku mthd))"

section \<open>The webhook\<close>

fun StatusFor :: "Code \<Rightarrow> int" where
  "StatusFor CodeValidation = 422"
| "StatusFor CodeUnauthorized = 401"
| "StatusFor CodeForbidden = 403"
| "StatusFor CodeNotFound = 404"
| "StatusFor CodeConflict = 409"
| "StatusFor CodeRateLimited = 429"
| "StatusFor CodePaymentRequired = 402"
| "StatusFor CodeExternal = 502"
| "StatusFor CodeInternal = 500"

definition webhookLogStatus :: "err + unit \<Rightarrow> int" where
  "webhookLogStatus r = (case r of
     Inr _ \<Rightarrow> 200
   | Inl e \<Rightarrow> if e = ErrBadSignature then 400 else (case e of AppErr c _ _ \<Rightarrow> StatusFor c | RawErr _ \<Rightarrow> 500))"

text \<open>\<open>%q\<close> of an ASCII string.\<close>

definition quote_byte :: "char \<Rightarrow> string" where
  "quote_byte c =
     (let n = (of_char c :: nat) in
      if n = 34 \<or> n = 92 then [char_of (92::nat), c]
      else if 7 \<le> n \<and> n \<le> 13 then [char_of (92::nat), ''abtnvfr'' ! (n - 7)]
      else if n < 32 \<or> n = 127 then char_of (92::nat) # CHR ''x'' # [json_hex (n div 16), json_hex (n mod 16)]
      else [c])"

definition quoted :: "string \<Rightarrow> string" where
  "quoted s = char_of (34::nat) # concat (map quote_byte s) @ [char_of (34::nat)]"

text \<open>\<open>strconv.ParseInt(s, 10, 64)\<close>: an optional sign and digits, in range.\<close>

definition ParseInt :: "string \<Rightarrow> int option" where
  "ParseInt s =
     (let neg = (s \<noteq> [] \<and> hd s = CHR ''-'');
          ds = (if s \<noteq> [] \<and> (hd s = CHR ''-'' \<or> hd s = CHR ''+'') then tl s else s) in
      if ds = [] \<or> \<not> list_all is_digit ds then None
      else let n = int (digits_val 0 ds); n = (if neg then - n else n) in if in_i64 n then Some n else None)"

definition parseAmount :: "string \<Rightarrow> int" where
  "parseAmount raw =
     (let raw = TrimSpace raw; raw = takeWhile (\<lambda>c. c \<noteq> CHR ''.'') raw
      in case ParseInt raw of None \<Rightarrow> 0 | Some n \<Rightarrow> n)"

definition callback_ApplyTx :: "env \<Rightarrow> CallbackPayload \<Rightarrow> Transaction \<Rightarrow> TxStatusResult \<Rightarrow> ApplyTx" where
  "callback_ApplyTx env p t st = \<lparr>at_Gateway = GatewayDuitku,
     at_MethodCode = (if cb_PaymentCode p = [] then t_MethodCode t else cb_PaymentCode p),
     at_MerchantOrderID = cb_MerchantOrderID p,
     at_GatewayReference = (if st_Reference st = [] then cb_Reference p else st_Reference st),
     at_Amount = (if st_Amount st \<le> 0 then parseAmount (cb_Amount p) else st_Amount st),
     at_Fee = st_Fee st, at_Raw = marshal_callback p, at_PaidAt = e_now env\<rparr>"

text \<open>A result code other than success.\<close>

definition callback_failed :: "PaymentGateway \<Rightarrow> CallbackPayload \<Rightarrow> Transaction \<Rightarrow> unit act" where
  "callback_failed g p t =
     (if t_Status t \<noteq> TxPending then ret ()
      else
        bnd (from_result (gw_CheckTransaction g (cb_MerchantOrderID p))) (\<lambda>st.
        if st_StatusCode st \<noteq> TxStatusCancelled then ret ()
        else tx_Update (t\<lparr>t_Status := TxFailed, t_Raw := marshal_callback p,
          t_GatewayReference := (if cb_Reference p \<noteq> [] then cb_Reference p else t_GatewayReference t)\<rparr>)))"

definition callback_success :: "env \<Rightarrow> (int \<Rightarrow> unit act) \<Rightarrow> PaymentGateway \<Rightarrow> CallbackPayload \<Rightarrow> Transaction \<Rightarrow> unit act" where
  "callback_success env process g p t =
     bnd (from_result (gw_CheckTransaction g (cb_MerchantOrderID p))) (\<lambda>st.
     if st_StatusCode st = TxStatusSuccess then ApplyPayment env process (t_InvoiceID t) (callback_ApplyTx env p t st)
     else if st_StatusCode st = TxStatusPending then ret ()
     else if st_StatusCode st = TxStatusCancelled then
       (if t_Status t = TxPending then tx_Update (t\<lparr>t_Status := TxFailed, t_Raw := marshal_callback p\<rparr>) else ret ())
     else fail (AppErr CodeExternal (''duitku returned unknown status code '' @ quoted (st_StatusCode st)) []))"

definition callback_body :: "gateways \<Rightarrow> env \<Rightarrow> (int \<Rightarrow> unit act) \<Rightarrow> CallbackPayload \<Rightarrow> unit act" where
  "callback_body gws env process p =
     bnd (duitkuGateway gws) (\<lambda>g.
     bnd (tx_GetByMerchantOrderID (cb_MerchantOrderID p)) (\<lambda>t.
     if \<not> gw_VerifyCallbackSignature g p then fail ErrBadSignature
     else if cb_ResultCode p \<noteq> resultCodeSuccess then callback_failed g p t
     else callback_success env process g p t))"

text \<open>The deferred log call runs on every return path.\<close>

definition HandleCallback :: "gateways \<Rightarrow> env \<Rightarrow> (int \<Rightarrow> unit act) \<Rightarrow> CallbackPayload \<Rightarrow> unit act" where
  "HandleCallback gws env process p =
     bnd (attempt (callback_body gws env process p)) (\<lambda>r.
     bnd (integration_Log ''duitku'' ''/api/v1/webhooks/duitku'' (webhookLogStatus r) (case r of Inr _ \<Rightarrow> True | Inl _ \<Rightarrow> False)) (\<lambda>_.
     from_result r))"

section \<open>Return page, reconciliation, confirmation\<close>

definition ResolveReturn :: "env \<Rightarrow> string \<Rightarrow> string act" where
  "ResolveReturn env merchantOrderID =
     (let fallback = e_FrontendURL env @ ''/billing'' in
      if merchantOrderID = [] then ret fallback
      else bnd (attempt (tx_GetByMerchantOrderID merchantOrderID)) (\<lambda>r. case r of
        Inl _ \<Rightarrow> ret fallback
      | Inr t \<Rightarrow> bnd (attempt (invoice_GetByID (t_InvoiceID t))) (\<lambda>ri.
          let status = (case ri of Inr iv \<Rightarrow> if i_Status iv = InvoicePaid then ''success'' else tx_status_str (t_Status t)
            | Inl _ \<Rightarrow> tx_status_str (t_Status t)) in
          ret (e_FrontendURL env @ ''/billing/invoices/'' @ FormatInt (t_InvoiceID t) @ ''?paid='' @ status))))"

text \<open>The zero \<open>ReturnInfo\<close> is \<open>(0, [])\<close>.\<close>

definition ResolveReturnInfo :: "string \<Rightarrow> int \<Rightarrow> (int \<times> string) act" where
  "ResolveReturnInfo merchantOrderID clientID =
     (if merchantOrderID = [] then ret (0, [])
      else bnd (attempt (tx_GetByMerchantOrderID merchantOrderID)) (\<lambda>r. case r of
        Inl _ \<Rightarrow> ret (0, [])
      | Inr t \<Rightarrow> bnd (attempt (invoice_GetByID (t_InvoiceID t))) (\<lambda>ri. case ri of
          Inl _ \<Rightarrow> ret (0, [])
        | Inr iv \<Rightarrow> if clientID \<noteq> 0 \<and> i_ClientID iv \<noteq> clientID then ret (0, [])
            else ret (t_InvoiceID t, invoice_status_str (i_Status iv)))))"

definition reconcile_ApplyTx :: "env \<Rightarrow> Transaction \<Rightarrow> string \<Rightarrow> TxStatusResult \<Rightarrow> ApplyTx" where
  "reconcile_ApplyTx env t mo st = \<lparr>at_Gateway = GatewayDuitku, at_MethodCode = t_MethodCode t, at_MerchantOrderID = mo,
     at_GatewayReference = (if st_Reference st = [] then t_GatewayReference t else st_Reference st),
     at_Amount = (if st_Amount st \<le> 0 then t_Amount t else st_Amount st),
     at_Fee = st_Fee st, at_Raw = marshal_status st, at_PaidAt = e_now env\<rparr>"

definition reconcile_with :: "gateways \<Rightarrow> env \<Rightarrow> (int \<Rightarrow> unit act) \<Rightarrow> Transaction \<Rightarrow> string \<Rightarrow> unit act" where
  "reconcile_with gws env process t mo =
     bnd (duitkuGateway gws) (\<lambda>g.
     bnd (from_result (gw_CheckTransaction g mo)) (\<lambda>st.
     if st_StatusCode st = TxStatusSuccess then ApplyPayment env process (t_InvoiceID t) (reconcile_ApplyTx env t mo st)
     else if st_StatusCode st = TxStatusCancelled then tx_Update (t\<lparr>t_Status := TxExpired\<rparr>)
     else ret ()))"

definition ReconcileOne :: "gateways \<Rightarrow> env \<Rightarrow> (int \<Rightarrow> unit act) \<Rightarrow> int \<Rightarrow> unit act" where
  "ReconcileOne gws env process transactionID =
     bnd (tx_GetByID transactionID) (\<lambda>t.
     if t_Status t \<noteq> TxPending \<or> t_Gateway t \<noteq> GatewayDuitku then ret ()
     else (case t_MerchantOrderID t of None \<Rightarrow> ret () | Some mo \<Rightarrow> reconcile_with gws env process t mo))"

definition ReconcilePending :: "gateways \<Rightarrow> env \<Rightarrow> (int \<Rightarrow> unit act) \<Rightarrow> int act" where
  "ReconcilePending gws env process =
     bnd (tx_ListPending GatewayDuitku (e_now env - 5 * minute_ns)) (\<lambda>pending.
     foldE (\<lambda>t n. bnd (attempt (ReconcileOne gws env process (t_ID t))) (\<lambda>r.
       ret (case r of Inl _ \<Rightarrow> n | Inr _ \<Rightarrow> n + 1))) pending 0)"

definition confirm_ApplyTx :: "env \<Rightarrow> Transaction \<Rightarrow> ApplyTx" where
  "confirm_ApplyTx env t = \<lparr>at_Gateway = GatewayManual, at_MethodCode = t_MethodCode t,
     at_MerchantOrderID = (case t_MerchantOrderID t of None \<Rightarrow> [] | Some mo \<Rightarrow> mo),
     at_GatewayReference = t_GatewayReference t, at_Amount = t_Amount t, at_Fee = 0, at_Raw = [], at_PaidAt = e_now env\<rparr>"

definition ConfirmManualTransaction :: "env \<Rightarrow> (int \<Rightarrow> unit act) \<Rightarrow> int \<Rightarrow> int \<Rightarrow> unit act" where
  "ConfirmManualTransaction env process actorUserID transactionID =
     bnd (tx_GetByID transactionID) (\<lambda>t.
     if t_Gateway t \<noteq> GatewayManual \<or> t_Status t \<noteq> TxPending then
       fail (Conflict ''transaction is not a pending manual bank-transfer payment'')
     else
       bnd (ApplyPayment env process (t_InvoiceID t) (confirm_ApplyTx env t)) (\<lambda>_.
       audit_Log actorUserID ''payment.manual_confirmed'' ''invoice'' (t_InvoiceID t)))"

text \<open>\<open>AddManualPayment\<close> of the billing service, through the payments service.\<close>

definition manual_ApplyTx :: "env \<Rightarrow> int \<Rightarrow> string \<Rightarrow> ApplyTx" where
  "manual_ApplyTx env amount mthd = \<lparr>at_Gateway = GatewayManual, at_MethodCode = mthd, at_MerchantOrderID = [],
     at_GatewayReference = [], at_Amount = amount, at_Fee = 0, at_Raw = [], at_PaidAt = e_now env\<rparr>"

definition AddManualPayment :: "env \<Rightarrow> (int \<Rightarrow> unit act) \<Rightarrow> int \<Rightarrow> int \<Rightarrow> int \<Rightarrow> string \<Rightarrow> Invoice act" where
  "AddManualPayment env process actorUserID invoiceID amount mthd =
     bnd (val_Struct [(''amount'', if amount = 0 then Some ''is required'' else tag (amount \<le> 0) ''must be greater than 0''),
       (''method'', if mthd = [] then Some ''is required'' else tag (length mthd > 50) ''must be at most 50 characters'')]) (\<lambda>_.
     bnd (invoice_GetByID invoiceID) (\<lambda>_.
     bnd (ApplyPayment env process invoiceID (manual_ApplyTx env amount mthd)) (\<lambda>_.
     bnd (audit_Log actorUserID ''invoice.manual_payment'' ''invoice'' invoiceID) (\<lambda>_.
     invoice_GetByID invoiceID))))"

end
