(* ===== verification/Checkout.thy ===== *)
theory Checkout
  imports Pricing Payments
begin

text \<open>
  Checkout and the administrator's order lifecycle: \<open>backend/internal/modules/orders/service.go\<close> and
  \<open>orders/repo.go\<close>, with the stock and usage statements of \<open>catalog/repo.go\<close>. Stock and usage
  counters are \<open>INTEGER\<close> columns, so a statement that would leave the range fails.
\<close>

section \<open>Statements\<close>

definition in_i32 :: "int \<Rightarrow> bool" where
  "in_i32 x \<longleftrightarrow> - (2 ^ 31) \<le> x \<and> x < 2 ^ 31"

definition set_stock :: "int \<Rightarrow> (int \<Rightarrow> int) \<Rightarrow> db \<Rightarrow> db" where
  "set_stock productID g d = d\<lparr>db_products := upd p_ID productID (\<lambda>p. p\<lparr>p_StockQty := g (p_StockQty p)\<rparr>) (db_products d)\<rparr>"

definition DecrementStock :: "int \<Rightarrow> unit act" where
  "DecrementStock productID =
     bnd (q_db (\<lambda>d. row p_ID productID (db_products d))) (\<lambda>r. case r of
       None \<Rightarrow> fail (NotFound ''product'')
     | Some p \<Rightarrow>
         if p_DeletedAt p \<noteq> None then fail (NotFound ''product'')
         else if \<not> p_StockEnabled p then ret ()
         else if p_StockQty p > 0 then x_db (set_stock productID (\<lambda>q. q - 1))
         else fail (Conflict ''product out of stock''))"

definition RestoreStock :: "int \<Rightarrow> unit act" where
  "RestoreStock productID =
     bnd (q_db (\<lambda>d. row p_ID productID (db_products d))) (\<lambda>r. case r of
       None \<Rightarrow> ret ()
     | Some p \<Rightarrow>
         if \<not> p_StockEnabled p then ret ()
         else bnd (guard (in_i32 (p_StockQty p + 1)) (RawErr ''orders: restore stock'')) (\<lambda>_.
           x_db (set_stock productID (\<lambda>q. q + 1))))"

definition IncrementUsage :: "int \<Rightarrow> unit act" where
  "IncrementUsage cid =
     bnd (q_db (\<lambda>d. row cp_ID cid (db_coupons d))) (\<lambda>r. case r of
       None \<Rightarrow> fail (NotFound ''coupon'')
     | Some c \<Rightarrow>
         if cp_MaxUses c = 0 \<or> cp_UsedCount c < cp_MaxUses c then
           bnd (guard (in_i32 (cp_UsedCount c + 1)) (RawErr ''catalog: increment coupon usage'')) (\<lambda>_.
           x_db (\<lambda>d. d\<lparr>db_coupons := upd cp_ID cid (\<lambda>c. c\<lparr>cp_UsedCount := cp_UsedCount c + 1\<rparr>) (db_coupons d)\<rparr>))
         else fail (Conflict ''coupon usage limit reached''))"

definition coupon_GetByCode :: "string \<Rightarrow> Coupon act" where
  "coupon_GetByCode code = bnd (q_db (\<lambda>d. find (\<lambda>c. cp_Code c = code) (db_coupons d))) (need (NotFound ''coupon''))"

definition CountByClientSince :: "int \<Rightarrow> time \<Rightarrow> int act" where
  "CountByClientSince clientID since = q_db (\<lambda>d. int (length (filter (\<lambda>x. o_ClientID x = clientID
     \<and> since \<le> o_CreatedAt x) (db_orders d))))"

text \<open>\<open>ORDER BY ii.invoice_id LIMIT 1\<close>: the least invoice id, 0 when there is none.\<close>

definition InvoiceIDForOrder :: "int \<Rightarrow> int act" where
  "InvoiceIDForOrder orderID = q_db (\<lambda>d.
     let ids = map ii_InvoiceID (filter (\<lambda>ii. ii_RelatedType ii = RelatedOrderItem
           \<and> (\<exists>oi \<in> set (db_order_items d). Some (oi_ID oi) = ii_RelatedID ii \<and> oi_OrderID oi = orderID)) (db_invoice_items d))
     in if ids = [] then 0 else Min (set ids))"

definition order_AddItem :: "OrderItem \<Rightarrow> OrderItem act" where
  "order_AddItem it =
     bnd (nextval TOrderItems) (\<lambda>n.
     bnd (x_db (\<lambda>d. d\<lparr>db_order_items := db_order_items d @ [it\<lparr>oi_ID := n\<rparr>]\<rparr>)) (\<lambda>_. ret (it\<lparr>oi_ID := n\<rparr>)))"

text \<open>\<open>orders.order_number\<close> is UNIQUE.\<close>

definition order_Create :: "env \<Rightarrow> Order \<Rightarrow> OrderItem list \<Rightarrow> (Order \<times> OrderItem list) act" where
  "order_Create env ord items =
     bnd (nextval TOrders) (\<lambda>n.
     bnd (q_db (\<lambda>d. \<exists>x \<in> set (db_orders d). o_OrderNumber x = o_OrderNumber ord)) (\<lambda>dup.
     bnd (guard (\<not> dup) (RawErr ''orders: create'')) (\<lambda>_.
     let ord' = ord\<lparr>o_ID := n, o_CreatedAt := e_now env\<rparr> in
     bnd (x_db (\<lambda>d. d\<lparr>db_orders := db_orders d @ [ord']\<rparr>)) (\<lambda>_.
     bnd (foldE (\<lambda>it acc. bnd (order_AddItem (it\<lparr>oi_OrderID := n\<rparr>)) (\<lambda>x. ret (acc @ [x]))) items []) (\<lambda>items'.
     ret (ord', items'))))))"

section \<open>The request\<close>

record CreateOrderRequest =
  cor_Items :: "OrderItemRequest list"
  cor_CouponCode :: string
  cor_Notes :: string
  cor_CaptchaToken :: string

record CheckoutResponse =
  cr_Order :: Order
  cr_Items :: "OrderItem list"
  cr_Invoice :: Invoice

record OrderDetail =
  odt_Order :: Order
  odt_Items :: "OrderItem list"
  odt_InvoiceID :: int

text \<open>The registrar's and the CAPTCHA guard's answers; no guard is a guard that finds no error.\<close>

record checkout_ports =
  ck_CheckAvailability :: "string list \<Rightarrow> err + DomainAvailability list"
  ck_Captcha :: "string \<Rightarrow> string \<Rightarrow> err option"

definition idx :: "string \<Rightarrow> nat \<Rightarrow> string" where
  "idx fld i = fld @ ''['' @ FormatInt (int i) @ '']''"

definition required_gt0 :: "int \<Rightarrow> string option" where
  "required_gt0 x = (if x = 0 then Some ''is required'' else tag (x \<le> 0) ''must be greater than 0'')"

text \<open>A slice that fails \<open>max\<close> is not dived into.\<close>

definition dived :: "nat \<Rightarrow> 'a list \<Rightarrow> 'a list" where
  "dived mx xs = (if length xs > mx then [] else xs)"

definition val_item :: "nat \<times> OrderItemRequest \<Rightarrow> (string \<times> string option) list" where
  "val_item x = (case x of (i, it) \<Rightarrow>
     let at_item = idx ''items'' i @ ''.'' in
     [(at_item @ ''item_type'', if oir_ItemType it = [] then Some ''is required''
         else tag (item_type_of (oir_ItemType it) = ItemOther (oir_ItemType it))
           ''must be one of: product, domain_register, domain_transfer''),
      (at_item @ ''product_id'', tag (oir_ProductID it < 0) ''must be greater than 0''),
      (at_item @ ''domain'', tag (length (oir_Domain it) > 253) ''must be at most 253 characters''),
      (at_item @ ''cycle'', tag (oir_Cycle it \<noteq> [] \<and> \<not> BillingCycle_Valid (cycle_of (oir_Cycle it)))
         ''must be one of: one_time, monthly, quarterly, semiannually, annually, biennially''),
      (at_item @ ''options'', tag (length (oir_Options it) > 20) ''must be at most 20'')]
     @ concat (map (\<lambda>(j, s). [(at_item @ idx ''options'' j @ ''.option_id'', required_gt0 (osr_OptionID s)),
         (at_item @ idx ''options'' j @ ''.value_id'', required_gt0 (osr_ValueID s))]) (enumerate 0 (dived 20 (oir_Options it))))
     @ [(at_item @ ''specs'', tag (length (oir_Specs it) > 20) ''must be at most 20'')]
     @ concat (map (\<lambda>(j, s). [(at_item @ idx ''specs'' j @ ''.key'', if ssr_Key s = [] then Some ''is required''
           else tag (length (ssr_Key s) > 50) ''must be at most 50 characters''),
         (at_item @ idx ''specs'' j @ ''.qty'', tag (ssr_Qty s < 0) ''must be at least 0'')]) (enumerate 0 (dived 20 (oir_Specs it))))
     @ [(at_item @ ''domain_years'', if oir_DomainYears it = 0 then None
           else if oir_DomainYears it < 1 then Some ''must be at least 1''
           else tag (oir_DomainYears it > 10) ''must be at most 10''),
        (at_item @ ''domain_addons'', tag (length (oir_DomainAddons it) > 3) ''must be at most 3'')]
     @ map (\<lambda>(j, k). (at_item @ idx ''domain_addons'' j,
         tag (k \<notin> {''id_protection'', ''dns_management'', ''email_forwarding''})
           ''must be one of: id_protection, dns_management, email_forwarding'')) (enumerate 0 (dived 3 (oir_DomainAddons it)))
     @ [(at_item @ ''epp_code'', tag (length (oir_EPPCode it) > 255) ''must be at most 255 characters'')])"

definition val_order :: "CreateOrderRequest \<Rightarrow> (string \<times> string option) list" where
  "val_order req =
     (''items'', if cor_Items req = [] then Some ''is required'' else tag (length (cor_Items req) > 20) ''must be at most 20'')
     # concat (map val_item (enumerate 0 (dived 20 (cor_Items req))))
     @ [(''coupon_code'', tag (length (cor_CouponCode req) > 64) ''must be at most 64 characters''),
        (''notes'', tag (length (cor_Notes req) > 1000) ''must be at most 1000 characters'')]"

section \<open>Coupon and fraud checks\<close>

definition invalid_coupon :: "string \<Rightarrow> err" where
  "invalid_coupon msg = Validation ''invalid coupon'' [ferr ''coupon_code'' msg]"

definition loadCoupon :: "string \<Rightarrow> time \<Rightarrow> Coupon act" where
  "loadCoupon code now =
     bnd (optional (coupon_GetByCode code)) (\<lambda>r. case r of
       None \<Rightarrow> fail (invalid_coupon ''unknown coupon code'')
     | Some c \<Rightarrow>
         if \<not> cp_Active c then fail (invalid_coupon ''coupon is not active'')
         else if (case cp_ExpiresAt c of None \<Rightarrow> False | Some t \<Rightarrow> t \<le> now) then fail (invalid_coupon ''coupon has expired'')
         else if cp_MaxUses c > 0 \<and> cp_UsedCount c \<ge> cp_MaxUses c then fail (invalid_coupon ''coupon usage limit reached'')
         else ret c)"

definition emailDomain :: "string \<Rightarrow> string" where
  "emailDomain email =
     (let after = rev (takeWhile (\<lambda>c. c \<noteq> CHR ''@'') (rev email))
      in if length after = length email then [] else ToLower after)"

definition fraudReason :: "int \<Rightarrow> string \<Rightarrow> time \<Rightarrow> string act" where
  "fraudReason clientID email now =
     bnd (on_err Internal (GetJSON dec_strs ''fraud.email_domain_blacklist'' [])) (\<lambda>blacklist.
     let dm = emailDomain email in
     if dm \<noteq> [] \<and> (\<exists>b \<in> set blacklist. EqualFold (TrimSpace b) dm) then ret (''email domain blacklisted: '' @ dm)
     else
       bnd (on_err Internal (GetInt ''fraud.max_orders_per_day'' 10)) (\<lambda>maxPerDay.
       if maxPerDay > 0 then
         bnd (CountByClientSince clientID (dateOnly now)) (\<lambda>n.
         ret (if n \<ge> maxPerDay then ''max orders per day exceeded ('' @ FormatInt maxPerDay @ '')'' else []))
       else ret []))"

section \<open>Checkout\<close>

text \<open>The tax block: \<open>(taxTotal, total)\<close> of the order.\<close>

definition order_tax :: "int \<Rightarrow> int \<Rightarrow> (int \<times> int) act" where
  "order_tax subtotal discount =
     bnd (on_err Internal (GetBool ''billing.tax_enabled'' False)) (\<lambda>taxEnabled.
     let net = i64 (subtotal - discount) in
     if taxEnabled then
       bnd (on_err Internal (GetJSON dec_float ''billing.tax_rate'' 11)) (\<lambda>rate.
       bnd (on_err Internal (GetBool ''billing.tax_inclusive'' False)) (\<lambda>inclusive.
       let res = CalcTax net rate inclusive in ret (tr_Tax res, tr_Gross res)))
     else ret (0, net))"

definition new_order ::
  "int \<Rightarrow> int \<Rightarrow> int \<Rightarrow> int \<Rightarrow> int \<Rightarrow> Coupon option \<Rightarrow> string \<Rightarrow> string \<Rightarrow> Order" where
  "new_order clientID subtotal discount taxTotal tot coupon ip notes =
     \<lparr>o_ID = 0, o_OrderNumber = [], o_ClientID = clientID, o_Status = OrderPending, o_Subtotal = subtotal,
      o_Discount = discount, o_TaxTotal = taxTotal, o_Total = tot, o_CouponID = map_option cp_ID coupon,
      o_IP = ip, o_Notes = notes, o_CreatedAt = 0\<rparr>"

definition order_item_of :: "itemPlan \<Rightarrow> OrderItem" where
  "order_item_of p = \<lparr>oi_ID = 0, oi_OrderID = 0, oi_ItemType = ip_itemType p, oi_ProductID = map_option p_ID (ip_product p),
     oi_Description = ip_desc p, oi_Domain = ip_domainName p, oi_Cycle = ip_cycle p, oi_UnitPrice = ip_unit p,
     oi_SetupFee = ip_setup p, oi_Options = ip_opts p, oi_ServiceID = None, oi_DomainID = None\<rparr>"

definition order_invoice_item :: "OrderItem \<Rightarrow> CreateInvoiceItem" where
  "order_invoice_item it = \<lparr>cii_Description = oi_Description it, cii_Amount = i64 (oi_UnitPrice it + oi_SetupFee it),
     cii_Taxed = True, cii_RelatedType = RelatedOrderItem, cii_RelatedID = oi_ID it\<rparr>"

definition take_stock :: "itemPlan \<Rightarrow> unit act" where
  "take_stock p = (case ip_product p of None \<Rightarrow> ret ()
     | Some pr \<Rightarrow> if p_StockEnabled pr then DecrementStock (p_ID pr) else ret ())"

definition use_coupon :: "Coupon option \<Rightarrow> unit act" where
  "use_coupon coupon = (case coupon of None \<Rightarrow> ret () | Some c \<Rightarrow> IncrementUsage (cp_ID c))"

text \<open>A fraud rule fired: the order becomes fraud and its invoice is cancelled.\<close>

definition flag_fraud :: "Order \<Rightarrow> Invoice \<Rightarrow> (Order \<times> Invoice) act" where
  "flag_fraud ord iv =
     bnd (from_result (TransitionOrder (o_Status ord) OrderFraud)) (\<lambda>newStatus.
     bnd (order_UpdateStatus (o_ID ord) newStatus) (\<lambda>_.
     bnd (from_result (TransitionInvoice (i_Status iv) InvoiceCancelled)) (\<lambda>invStatus.
     bnd (invoice_UpdateStatus (i_ID iv) invStatus None) (\<lambda>_.
     ret (ord\<lparr>o_Status := newStatus\<rparr>, iv\<lparr>i_Status := invStatus\<rparr>)))))"

text \<open>The body of the transaction.\<close>

definition orderTx ::
  "env \<Rightarrow> Order \<Rightarrow> itemPlan list \<Rightarrow> Coupon option \<Rightarrow> int \<Rightarrow> time \<Rightarrow> bool \<Rightarrow> (Order \<times> OrderItem list \<times> Invoice) act" where
  "orderTx env ord plans coupon discount dueDate isFraud =
     bnd (NextNumber (OrderCounterScope (e_now env))) (\<lambda>seq.
     bnd (order_Create env (ord\<lparr>o_OrderNumber := FormatOrderNumber (e_now env) seq\<rparr>) (map order_item_of plans)) (\<lambda>(ord, items).
     bnd (if isFraud then ret () else bnd (each take_stock plans) (\<lambda>_. use_coupon coupon)) (\<lambda>_.
     bnd (CreateInvoice env \<lparr>cin_ClientID = o_ClientID ord, cin_Items = map order_invoice_item items,
            cin_Discount = discount, cin_DueDate = dueDate, cin_Notes = ''Order '' @ o_OrderNumber ord\<rparr>) (\<lambda>iv.
     if isFraud then bnd (flag_fraud ord iv) (\<lambda>(ord, iv). ret (ord, items, iv))
     else ret (ord, items, iv)))))"

definition zero_payment :: "env \<Rightarrow> ApplyTx" where
  "zero_payment env = \<lparr>at_Gateway = GatewayCredit, at_MethodCode = ''credit'', at_MerchantOrderID = [], at_GatewayReference = [],
     at_Amount = 0, at_Fee = 0, at_Raw = [], at_PaidAt = e_now env\<rparr>"

text \<open>What follows the transaction: a fraud row, a settlement of nothing, or an early activation.\<close>

definition after_checkout ::
  "env \<Rightarrow> (int \<Rightarrow> unit act) \<Rightarrow> int \<Rightarrow> itemPlan list \<Rightarrow> bool \<Rightarrow> Order \<Rightarrow> Invoice \<Rightarrow> (Order \<times> Invoice) act" where
  "after_checkout env process userID plans isFraud ord iv =
     (if isFraud then bnd (audit_Log userID ''order.fraud_auto'' ''order'' (o_ID ord)) (\<lambda>_. ret (ord, iv))
      else if i_Total iv \<le> 0 then
        bnd (attempt (ApplyPayment env process (i_ID iv) (zero_payment env))) (\<lambda>r. case r of
          Inl _ \<Rightarrow> bnd (audit_Log userID ''order.autopay_zero_failed'' ''order'' (o_ID ord)) (\<lambda>_. ret (ord, iv))
        | Inr _ \<Rightarrow> ret (ord, iv\<lparr>i_Status := InvoicePaid, i_PaidAt := Some (e_now env)\<rparr>))
      else if allAutoSetupOnOrder plans then
        bnd (attempt (ActivateOrder env (o_ID ord))) (\<lambda>r. case r of
          Inl _ \<Rightarrow> bnd (audit_Log userID ''order.autoactivate_on_order_failed'' ''order'' (o_ID ord)) (\<lambda>_. ret (ord, iv))
        | Inr _ \<Rightarrow> ret (ord\<lparr>o_Status := OrderActive\<rparr>, iv))
      else ret (ord, iv))"

definition incomplete_profile :: err where
  "incomplete_profile = Validation (''your profile is missing details (address, city, province, postal code, phone) required to ''
     @ ''register or transfer a domain - please complete your profile before checking out'')
     [ferr ''profile_address'' ''incomplete'']"

text \<open>The checks in front of the pricing: the client and the user who order.\<close>

definition checkout_client :: "checkout_ports \<Rightarrow> int \<Rightarrow> string \<Rightarrow> CreateOrderRequest \<Rightarrow> (Client \<times> User) act" where
  "checkout_client ck clientID ip req =
     bnd (val_Struct (val_order req)) (\<lambda>_.
     bnd (case ck_Captcha ck (cor_CaptchaToken req) ip of None \<Rightarrow> ret () | Some e \<Rightarrow> fail e) (\<lambda>_.
     bnd (clients_GetByID clientID) (\<lambda>client.
     bnd (users_GetByID (c_UserID client)) (\<lambda>user.
     bnd (on_err Internal (GetBool ''security.require_email_verification'' True)) (\<lambda>requireVerify.
     if requireVerify \<and> u_EmailVerifiedAt user = None then
       fail (Forbidden ''email verification required before checkout'')
     else ret (client, user))))))"

definition checkout_plans :: "env \<Rightarrow> checkout_ports \<Rightarrow> Client \<Rightarrow> OrderItemRequest list \<Rightarrow> itemPlan list act" where
  "checkout_plans env ck client items =
     bnd (buildPlans env (ck_CheckAvailability ck) items) (\<lambda>plans.
     if requiresRegistrantContact plans \<and> \<not> HasRegistrantAddress client then fail incomplete_profile else ret plans)"

definition checkout_coupon :: "env \<Rightarrow> string \<Rightarrow> itemPlan list \<Rightarrow> (Coupon option \<times> int) act" where
  "checkout_coupon env code plans =
     (if code \<noteq> [] then bnd (loadCoupon code (e_now env)) (\<lambda>c. ret (Some c, couponDiscount c plans)) else ret (None, 0))"

definition plans_subtotal :: "itemPlan list \<Rightarrow> int" where
  "plans_subtotal plans = sum64 0 (map (\<lambda>p. i64 (ip_unit p + ip_setup p)) plans)"

definition CreateOrder ::
  "checkout_ports \<Rightarrow> env \<Rightarrow> (int \<Rightarrow> unit act) \<Rightarrow> int \<Rightarrow> string \<Rightarrow> CreateOrderRequest \<Rightarrow> CheckoutResponse act" where
  "CreateOrder ck env process clientID ip req =
     bnd (checkout_client ck clientID ip req) (\<lambda>(client, user).
     bnd (checkout_plans env ck client (cor_Items req)) (\<lambda>plans.
     let subtotal = plans_subtotal plans in
     bnd (checkout_coupon env (cor_CouponCode req) plans) (\<lambda>(coupon, discount).
     bnd (fraudReason clientID (u_Email user) (e_now env)) (\<lambda>reason.
     bnd (order_tax subtotal discount) (\<lambda>(taxTotal, tot).
     bnd (on_err Internal (GetInt ''billing.invoice_due_days'' 3)) (\<lambda>dueDays.
     bnd (WithinTx (orderTx env (new_order clientID subtotal discount taxTotal tot coupon ip (cor_Notes req)) plans coupon
            discount (AddDays (e_now env) dueDays) (reason \<noteq> []))) (\<lambda>(ord, items, iv).
     bnd (audit_Log (c_UserID client) ''order.create'' ''order'' (o_ID ord)) (\<lambda>_.
     bnd (after_checkout env process (c_UserID client) plans (reason \<noteq> []) ord iv) (\<lambda>(ord, iv).
     ret \<lparr>cr_Order = ord, cr_Items = items, cr_Invoice = iv\<rparr>)))))))))"

section \<open>The order lifecycle\<close>

definition orders_Get :: "int \<Rightarrow> int \<Rightarrow> OrderDetail act" where
  "orders_Get clientID orderID =
     bnd (order_GetByID orderID) (\<lambda>ord.
     if clientID \<noteq> 0 \<and> o_ClientID ord \<noteq> clientID then fail (NotFound ''order'')
     else
       bnd (order_GetItems orderID) (\<lambda>items.
       bnd (InvoiceIDForOrder orderID) (\<lambda>invoiceID.
       ret \<lparr>odt_Order = ord, odt_Items = items, odt_InvoiceID = invoiceID\<rparr>)))"

definition Accept :: "env \<Rightarrow> int \<Rightarrow> int \<Rightarrow> Order act" where
  "Accept env actorUserID orderID =
     bnd (order_GetByID orderID) (\<lambda>ord.
     bnd (ActivateOrder env orderID) (\<lambda>_.
     bnd (audit_Log actorUserID ''order.accept'' ''order'' orderID) (\<lambda>_.
     ret (ord\<lparr>o_Status := OrderActive\<rparr>))))"

definition cancel_order_invoice :: "int \<Rightarrow> unit act" where
  "cancel_order_invoice invoiceID =
     (if invoiceID = 0 then ret ()
      else bnd (optional (invoice_GetByID invoiceID)) (\<lambda>found. case found of
        None \<Rightarrow> ret ()
      | Some iv \<Rightarrow>
          if InvoiceCanTransition (i_Status iv) InvoiceCancelled then invoice_UpdateStatus invoiceID InvoiceCancelled None
          else ret ()))"

definition restore_item :: "OrderItem \<Rightarrow> unit act" where
  "restore_item it = (case oi_ProductID it of None \<Rightarrow> ret ()
     | Some pid \<Rightarrow> if oi_ItemType it = ItemProduct then RestoreStock pid else ret ())"

definition terminalTx :: "int \<Rightarrow> OrderStatus \<Rightarrow> OrderItem list \<Rightarrow> unit act" where
  "terminalTx orderID newStatus items =
     bnd (order_UpdateStatus orderID newStatus) (\<lambda>_.
     bnd (InvoiceIDForOrder orderID) (\<lambda>invoiceID.
     bnd (cancel_order_invoice invoiceID) (\<lambda>_.
     each restore_item items)))"

definition setTerminalStatus :: "int \<Rightarrow> int \<Rightarrow> OrderStatus \<Rightarrow> string \<Rightarrow> Order act" where
  "setTerminalStatus actorUserID orderID to action =
     bnd (order_GetByID orderID) (\<lambda>ord.
     bnd (from_result (TransitionOrder (o_Status ord) to)) (\<lambda>newStatus.
     bnd (order_GetItems orderID) (\<lambda>items.
     bnd (WithinTx (terminalTx orderID newStatus items)) (\<lambda>_.
     bnd (audit_Log actorUserID action ''order'' orderID) (\<lambda>_.
     ret (ord\<lparr>o_Status := newStatus\<rparr>))))))"

definition orders_Cancel :: "int \<Rightarrow> int \<Rightarrow> Order act" where
  "orders_Cancel actorUserID orderID = setTerminalStatus actorUserID orderID OrderCancelled ''order.cancel''"

definition MarkFraud :: "int \<Rightarrow> int \<Rightarrow> Order act" where
  "MarkFraud actorUserID orderID = setTerminalStatus actorUserID orderID OrderFraud ''order.fraud''"

end
