(* ===== verification/Invariants.thy ===== *)
theory Invariants
  imports Frames
begin

text \<open>
  The invariant calculus, beside the frame calculus of \<open>Frames\<close>: \<open>maintains P\<close> says that a
  computation started where \<open>P\<close> holds ends where \<open>P\<close> holds, whether it returns or fails. An
  invariant is given with the part of the database it reads (\<open>view\<close>), so that every operation
  that leaves this part alone maintains it by its frame.
\<close>

definition maintains :: "(world \<Rightarrow> bool) \<Rightarrow> world \<Rightarrow> world \<Rightarrow> bool" where
  "maintains P w w' \<longleftrightarrow> (P w \<longrightarrow> P w') \<and> w_intx w' = w_intx w \<and> (\<forall>t. w_seq w t \<le> w_seq w' t)"

definition view :: "(db \<Rightarrow> 'p) \<Rightarrow> (world \<Rightarrow> bool) \<Rightarrow> bool" where
  "view f P \<longleftrightarrow> (\<forall>w w'. P w \<longrightarrow> f (w_db w') = f (w_db w) \<longrightarrow> (\<forall>t. w_seq w t \<le> w_seq w' t) \<longrightarrow> P w')"

named_theorems inv_rules \<open>what an operation maintains\<close>

lemma reflp_maintains [simp]: "reflp (maintains P)"
  by (simp add: reflp_def maintains_def)

lemma transp_maintains [simp]: "transp (maintains P)"
  by (auto simp: transp_def maintains_def intro: order_trans)

lemma maintains_frame: "view f P \<Longrightarrow> keeps (frame f) m \<Longrightarrow> keeps (maintains P) m"
  by (auto simp: keeps_def maintains_def frame_def view_def)

lemma inv_bnd [inv_rules]:
  "keeps (maintains P) m \<Longrightarrow> (\<And>x. keeps (maintains P) (g x)) \<Longrightarrow> keeps (maintains P) (bnd m g)"
  by (simp add: keeps_bnd)

lemma inv_basic [inv_rules]:
  "keeps (maintains P) (ret x)" "keeps (maintains P) (fail e)" "keeps (maintains P) (guard b e)"
  "keeps (maintains P) (q_db g)"
  by (simp_all add: keeps_ret keeps_fail keeps_guard q_db_def keeps_reads)

lemma inv_attempt [inv_rules]: "keeps (maintains P) m \<Longrightarrow> keeps (maintains P) (attempt m)"
  by (rule keeps_attempt)

lemma inv_on_err [inv_rules]: "keeps (maintains P) m \<Longrightarrow> keeps (maintains P) (on_err g m)"
  by (rule keeps_on_err)

lemma inv_each [inv_rules]: "(\<And>x. keeps (maintains P) (g x)) \<Longrightarrow> keeps (maintains P) (each g xs)"
  by (simp add: keeps_each)

lemma inv_foldE [inv_rules]: "(\<And>x b. keeps (maintains P) (g x b)) \<Longrightarrow> keeps (maintains P) (foldE g xs b)"
  by (simp add: keeps_foldE)

lemma inv_if [inv_rules]:
  "(b \<Longrightarrow> keeps (maintains P) m) \<Longrightarrow> (\<not> b \<Longrightarrow> keeps (maintains P) n) \<Longrightarrow> keeps (maintains P) (if b then m else n)"
  by simp

lemma inv_case_option [inv_rules]:
  "keeps (maintains P) m \<Longrightarrow> (\<And>x. keeps (maintains P) (n x)) \<Longrightarrow> keeps (maintains P) (case y of None \<Rightarrow> m | Some x \<Rightarrow> n x)"
  by (cases y) auto

lemma inv_case_sum [inv_rules]:
  "(\<And>x. keeps (maintains P) (m x)) \<Longrightarrow> (\<And>x. keeps (maintains P) (n x)) \<Longrightarrow>
    keeps (maintains P) (case y of Inl x \<Rightarrow> m x | Inr x \<Rightarrow> n x)"
  by (cases y) auto

lemma inv_case_prod [inv_rules]:
  "(\<And>x y. keeps (maintains P) (m x y)) \<Longrightarrow> keeps (maintains P) (case p of (x, y) \<Rightarrow> m x y)"
  by (cases p) auto

lemma inv_ignore_err [inv_rules]: "keeps (maintains P) m \<Longrightarrow> keeps (maintains P) (ignore_err m)"
  unfolding ignore_err_def by (intro inv_rules)

lemma inv_optional [inv_rules]: "keeps (maintains P) m \<Longrightarrow> keeps (maintains P) (optional m)"
  unfolding optional_def by (intro inv_rules)

text \<open>A transaction is judged by its whole body: a failed one restores the database.\<close>

definition stable :: "(world \<Rightarrow> bool) \<Rightarrow> bool" where
  "stable P \<longleftrightarrow> view id P"

lemma view_stable: "view f P \<Longrightarrow> stable P"
  by (simp add: view_def stable_def)

lemma inv_WithinTx:
  assumes "stable P" and "keeps (maintains P) m"
  shows "keeps (maintains P) (WithinTx m)"
proof (rule keepsI)
  fix w
  obtain r w' where m: "m (w\<lparr>w_intx := True\<rparr>) = (r, w')" by (cases "m (w\<lparr>w_intx := True\<rparr>)")
  have st: "P w1 \<Longrightarrow> w_db w2 = w_db w1 \<Longrightarrow> (\<forall>t. w_seq w1 t \<le> w_seq w2 t) \<Longrightarrow> P w2" for w1 w2
    using assms(1) by (simp add: stable_def view_def)
  have k: "maintains P (w\<lparr>w_intx := True\<rparr>) w'" using keepsD [OF assms(2) m] .
  then have seq: "\<forall>t. w_seq w t \<le> w_seq w' t" by (simp add: maintains_def)
  have n: "maintains P w (snd (m w))" using assms(2) by (simp add: keeps_def)
  have p: "P w \<Longrightarrow> P (w'\<lparr>w_intx := False\<rparr>)"
    using k st [of w "w\<lparr>w_intx := True\<rparr>"] st [of w' "w'\<lparr>w_intx := False\<rparr>"] by (simp add: maintains_def)
  have q: "P w \<Longrightarrow> P (w'\<lparr>w_db := w_db w, w_intx := False\<rparr>)"
    using st [of w "w'\<lparr>w_db := w_db w, w_intx := False\<rparr>"] seq by simp
  show "maintains P w (snd (WithinTx m w))"
    using m n p q seq by (cases r) (auto simp: WithinTx_def maintains_def)
qed

lemma maintainsD: "keeps (maintains P) m \<Longrightarrow> P w \<Longrightarrow> m w = (r, w') \<Longrightarrow> P w'"
  by (metis keepsD maintains_def)

section \<open>Relations every operation keeps\<close>

text \<open>
  A relation between the state before and the state after that composes, that holds when the
  part \<open>f\<close> of the database is left alone, and that survives the end of a transaction.
\<close>

locale transactional =
  fixes R :: "world \<Rightarrow> world \<Rightarrow> bool"
  assumes R_commit: "\<not> w_intx w \<Longrightarrow> R (w\<lparr>w_intx := True\<rparr>) w' \<Longrightarrow> R w (w'\<lparr>w_intx := False\<rparr>)"
    and R_rollback: "\<not> w_intx w \<Longrightarrow> R (w\<lparr>w_intx := True\<rparr>) w' \<Longrightarrow> R w (w'\<lparr>w_db := w_db w, w_intx := False\<rparr>)"
begin

lemma of_WithinTx:
  assumes "keeps R m"
  shows "keeps R (WithinTx m)"
proof (rule keepsI)
  fix w
  obtain r w' where m: "m (w\<lparr>w_intx := True\<rparr>) = (r, w')" by (cases "m (w\<lparr>w_intx := True\<rparr>)")
  have k: "R (w\<lparr>w_intx := True\<rparr>) w'" using keepsD [OF assms m] .
  show "R w (snd (WithinTx m w))"
    using assms k R_commit [OF _ k] R_rollback [OF _ k] m
    by (cases r) (auto simp: WithinTx_def keeps_def)
qed

end

locale kept = transactional R for R :: "world \<Rightarrow> world \<Rightarrow> bool" +
  fixes f :: "db \<Rightarrow> 'p"
  assumes R_refl: "reflp R" and R_trans: "transp R" and R_frame: "frame f w w' \<Longrightarrow> R w w'"
begin

lemma of_frame: "keeps (frame f) m \<Longrightarrow> keeps R m"
  by (auto simp: keeps_def intro: R_frame)

lemma of_bnd: "keeps R m \<Longrightarrow> (\<And>x. keeps R (g x)) \<Longrightarrow> keeps R (bnd m g)"
  by (simp add: keeps_bnd R_refl R_trans)

lemma of_basic: "keeps R (ret x)" "keeps R (fail e)" "keeps R (guard b e)" "keeps R (q_db h)" "keeps R (need e y)"
  "keeps R (from_result r)"
  by (intro of_frame frame_rules)+

lemma of_wraps: "keeps R m \<Longrightarrow> keeps R (attempt m)" "keeps R m \<Longrightarrow> keeps R (on_err h m)"
  "keeps R n \<Longrightarrow> keeps R (ignore_err n)" "keeps R m \<Longrightarrow> keeps R (optional m)"
proof -
  show "keeps R m \<Longrightarrow> keeps R (attempt m)" by (rule keeps_attempt)
  show "keeps R m \<Longrightarrow> keeps R (on_err h m)" by (rule keeps_on_err)
  show "keeps R n \<Longrightarrow> keeps R (ignore_err n)" unfolding ignore_err_def by (intro of_bnd of_basic keeps_attempt)
  show "keeps R m \<Longrightarrow> keeps R (optional m)" unfolding optional_def
    by (intro of_bnd of_basic keeps_attempt; simp add: of_basic split: sum.split)
qed

lemma of_loops: "(\<And>x. keeps R (g x)) \<Longrightarrow> keeps R (each g xs)" "(\<And>x b. keeps R (k x b)) \<Longrightarrow> keeps R (foldE k ys c)"
  by (simp_all add: keeps_each keeps_foldE R_refl R_trans)

lemma of_cases:
  "(b \<Longrightarrow> keeps R m) \<Longrightarrow> (\<not> b \<Longrightarrow> keeps R n) \<Longrightarrow> keeps R (if b then m else n)"
  "keeps R m \<Longrightarrow> (\<And>x. keeps R (k x)) \<Longrightarrow> keeps R (case y of None \<Rightarrow> m | Some x \<Rightarrow> k x)"
  "(\<And>x. keeps R (g x)) \<Longrightarrow> (\<And>x. keeps R (h x)) \<Longrightarrow> keeps R (case z of Inl x \<Rightarrow> g x | Inr x \<Rightarrow> h x)"
  "(\<And>x y. keeps R (l x y)) \<Longrightarrow> keeps R (case p of (x, y) \<Rightarrow> l x y)"
  by (auto split: option.split sum.split prod.split)

lemmas of_rules = of_bnd of_basic of_wraps of_loops of_cases of_WithinTx

end

text \<open>An invariant gives such a relation.\<close>

lemma kept_maintains: "view f P \<Longrightarrow> kept (maintains P) f"
  by unfold_locales (auto simp: maintains_def frame_def view_def)

end
