(* ===== verification/Books.thy ===== *)
theory Books
  imports Payments Invariants
begin

text \<open>
  The books of invoices and transactions: an invoice is paid exactly when it has a success
  transaction, it has one only, and that transaction covers what was due. This theory states
  the invariant, the effect of single writes on it, and proves it for \<open>ApplyPayment\<close> with every
  processor that writes neither table; \<open>ProcessPaid\<close> is one.
\<close>

section \<open>Frames\<close>

lemma frame_upsert_success [frame_rules]:
  "(\<And>d x. f (d\<lparr>db_transactions := x\<rparr>) = f d) \<Longrightarrow> keeps (frame f) (upsert_success env iid tx p raw ex)"
  unfolding upsert_success_def by (intro frame_rules)

lemma frame_deduct_due [frame_rules]: "no_credit f \<Longrightarrow> keeps (frame f) (deduct_due iv iid a)"
  unfolding deduct_due_def by (intro frame_rules)

lemma frame_existing_tx [frame_rules]: "keeps (frame f) (existing_tx mo)"
  unfolding existing_tx_def by (intro frame_rules)

lemma frame_applyTx [frame_rules]:
  "(\<And>d x. f (d\<lparr>db_transactions := x\<rparr>) = f d) \<Longrightarrow> no_invoicing f \<Longrightarrow> no_logs f \<Longrightarrow> (\<And>i. keeps (frame f) (process i)) \<Longrightarrow>
    keeps (frame f) (applyTx env process iid tx)"
  unfolding applyTx_def Let_def by (intro frame_rules)

lemma frame_ApplyPayment [frame_rules]:
  "(\<And>d x. f (d\<lparr>db_transactions := x\<rparr>) = f d) \<Longrightarrow> no_invoicing f \<Longrightarrow> no_logs f \<Longrightarrow> (\<And>i. keeps (frame f) (process i)) \<Longrightarrow>
    keeps (frame f) (ApplyPayment env process iid tx)"
  unfolding ApplyPayment_def by (intro frame_rules)

section \<open>The books\<close>

definition success_for :: "int \<Rightarrow> Transaction list \<Rightarrow> Transaction list" where
  "success_for iid txs = filter (\<lambda>t. t_InvoiceID t = iid \<and> t_Status t = TxSuccess) txs"

definition invoice_books :: "Transaction list \<Rightarrow> Invoice \<Rightarrow> bool" where
  "invoice_books txs i \<longleftrightarrow> (if i_Status i = InvoicePaid
     then i_PaidAt i \<noteq> None
       \<and> (\<exists>t. success_for (i_ID i) txs = [t] \<and> i64 (i_Total i - i_CreditApplied i) \<le> t_Amount t)
     else success_for (i_ID i) txs = [])"

definition tx_rows_ok :: "Invoice list \<Rightarrow> Transaction list \<Rightarrow> int \<Rightarrow> bool" where
  "tx_rows_ok invs txs nt \<longleftrightarrow> distinct (map t_ID txs) \<and> (\<forall>t \<in> set txs. t_ID t \<le> nt \<and> t_InvoiceID t \<in> i_ID ` set invs)"

definition books_of :: "Invoice list \<Rightarrow> Transaction list \<Rightarrow> int \<Rightarrow> int \<Rightarrow> bool" where
  "books_of invs txs ni nt \<longleftrightarrow> distinct (map i_ID invs) \<and> (\<forall>i \<in> set invs. i_ID i \<le> ni)
     \<and> distinct (map i_InvoiceNumber invs) \<and> tx_rows_ok invs txs nt \<and> (\<forall>i \<in> set invs. invoice_books txs i)"

definition books :: "world \<Rightarrow> bool" where
  "books w \<longleftrightarrow> books_of (db_invoices (w_db w)) (db_transactions (w_db w)) (w_seq w TInvoices) (w_seq w TTransactions)"

definition money :: "db \<Rightarrow> Invoice list \<times> Transaction list" where
  "money d = (db_invoices d, db_transactions d)"

lemma view_books: "view money books"
  by (fastforce simp: view_def books_def books_of_def tx_rows_ok_def money_def intro: order_trans)

lemma no_dispatch_money [simp]: "no_dispatch money"
  by (simp add: no_dispatch_def no_fulfilment_def no_snipes_def no_credit_def no_logs_def money_def)

section \<open>Reading the success rows after a write\<close>

lemma success_for_snoc: "success_for j (txs @ [t]) =
    success_for j txs @ (if t_InvoiceID t = j \<and> t_Status t = TxSuccess then [t] else [])"
  by (simp add: success_for_def)

lemma success_for_upd_same:
  assumes "\<And>r. r \<in> set txs \<Longrightarrow> t_ID r = tid \<Longrightarrow> \<not> (t_InvoiceID r = j \<and> t_Status r = TxSuccess)
      \<and> \<not> (t_InvoiceID (f r) = j \<and> t_Status (f r) = TxSuccess)"
  shows "success_for j (upd t_ID tid f txs) = success_for j txs"
  using assms by (induction txs) (auto simp: success_for_def upd_def)

lemma success_for_upd_hit:
  assumes "distinct (map t_ID txs)" and "row t_ID tid txs = Some r" and "success_for iid txs = []"
    and "t_InvoiceID (f r) = iid" and "t_Status (f r) = TxSuccess"
  shows "success_for iid (upd t_ID tid f txs) = [f r]"
  using assms
proof (induction txs)
  case (Cons t txs)
  have tl: "success_for iid txs = []" using Cons.prems(3) by (auto simp: success_for_def split: if_splits)
  show ?case
  proof (cases "t_ID t = tid")
    case True
    then have "t = r" and "row t_ID tid txs = None"
      using Cons.prems by (auto simp: row_Cons row_None_iff image_iff)
    then have "upd t_ID tid f (t # txs) = f r # txs"
      using True upd_absent [of t_ID tid txs f] by (simp add: upd_def)
    then show ?thesis using tl Cons.prems(4,5) by (simp add: success_for_def)
  next
    case False
    then have "success_for iid (upd t_ID tid f txs) = [f r]"
      using Cons tl by (simp add: row_Cons)
    then show ?thesis using False Cons.prems(3) by (auto simp: success_for_def upd_def split: if_splits)
  qed
qed simp

lemma invoice_books_cong:
  "success_for (i_ID i) txs' = success_for (i_ID i) txs \<Longrightarrow> invoice_books txs' i = invoice_books txs i"
  by (simp add: invoice_books_def)

text \<open>One invoice row and its success rows change together; everything else stays.\<close>

lemma books_change:
  assumes "books_of invs txs ni nt" and "row i_ID iid invs = Some r"
    and "\<And>x. i_ID (g x) = i_ID x" and "\<And>x. i_InvoiceNumber (g x) = i_InvoiceNumber x"
    and "tx_rows_ok invs txs' nt'" and "\<And>j. j \<noteq> iid \<Longrightarrow> success_for j txs' = success_for j txs"
    and "invoice_books txs' (g r)"
  shows "books_of (upd i_ID iid g invs) txs' ni nt'"
proof -
  have ids: "map i_ID (upd i_ID iid g invs) = map i_ID invs" using assms(3) by simp
  then have set_ids: "i_ID ` set (upd i_ID iid g invs) = i_ID ` set invs" by (metis set_map)
  have nums: "map i_InvoiceNumber (upd i_ID iid g invs) = map i_InvoiceNumber invs"
    using assms(4) by (simp add: upd_def)
  have rows: "invoice_books txs' i" if "i \<in> set (upd i_ID iid g invs)" for i
  proof -
    from upd_in [OF that] show ?thesis
    proof
      assume "\<exists>r0 \<in> set invs. i_ID r0 = iid \<and> i = g r0"
      then obtain r0 where "r0 \<in> set invs" "i_ID r0 = iid" "i = g r0" by blast
      moreover have "r0 = r"
        using row_distinct [of i_ID invs r0] assms(1,2) calculation by (simp add: books_of_def)
      ultimately show ?thesis using assms(7) by simp
    next
      assume h: "i \<in> set invs \<and> i_ID i \<noteq> iid"
      then have "invoice_books txs i" using assms(1) by (simp add: books_of_def)
      then show ?thesis using h assms(6) invoice_books_cong by blast
    qed
  qed
  have "\<forall>i \<in> set (upd i_ID iid g invs). i_ID i \<le> ni"
    using assms(1) set_ids by (metis (no_types, lifting) books_of_def image_iff)
  then show ?thesis
    using assms(1,5) rows ids nums set_ids by (simp add: books_of_def tx_rows_ok_def)
qed

lemma books_of_txs:
  assumes "books_of invs txs ni nt" and "tx_rows_ok invs txs' nt'" and "\<And>j. success_for j txs' = success_for j txs"
  shows "books_of invs txs' ni nt'"
proof -
  have "invoice_books txs' = invoice_books txs" by (rule ext) (simp add: invoice_books_def assms(3))
  then show ?thesis using assms(1,2) by (simp add: books_of_def)
qed

lemma tx_rows_ok_upd:
  assumes "tx_rows_ok invs txs nt" and "\<And>x. t_ID (f x) = t_ID x" and "\<And>x. t_InvoiceID (f x) = t_InvoiceID x"
  shows "tx_rows_ok invs (upd t_ID tid f txs) nt"
proof -
  have "t_ID x \<le> nt \<and> t_InvoiceID x \<in> i_ID ` set invs" if "x \<in> set (upd t_ID tid f txs)" for x
    using upd_in [OF that] assms by (auto simp: tx_rows_ok_def)
  then show ?thesis using assms by (simp add: tx_rows_ok_def)
qed

lemma tx_rows_ok_snoc:
  assumes "tx_rows_ok invs txs nt" and "t_ID t = nt + 1" and "t_InvoiceID t \<in> i_ID ` set invs"
  shows "tx_rows_ok invs (txs @ [t]) (nt + 1)"
  using assms by (auto simp: tx_rows_ok_def)

lemma tx_set_keys [simp]: "t_ID (tx_set t old) = t_ID old" "t_InvoiceID (tx_set t old) = t_InvoiceID old"
  "t_Status (tx_set t old) = t_Status t" "t_Amount (tx_set t old) = t_Amount t"
  by (simp_all add: tx_set_def)

lemma tx_Update_cases:
  assumes "tx_Update t w = (r, w')"
  obtains (err) e where "r = Inl e" and "w' = w"
  | (ok) old where "r = Inr ()" and "row t_ID (t_ID t) (db_transactions (w_db w)) = Some old"
      and "w' = w\<lparr>w_db := (w_db w)\<lparr>db_transactions := upd t_ID (t_ID t) (tx_set t) (db_transactions (w_db w))\<rparr>\<rparr>"
  using assms by (auto simp: tx_Update_def eff_simps split: option.splits if_splits)

lemma tx_Create_cases:
  assumes "tx_Create env t w = (r, w')"
  obtains (err) e where "r = Inl e" and "w' = w\<lparr>w_seq := (w_seq w)(TTransactions := w_seq w TTransactions + 1)\<rparr>"
  | (ok) t' where "r = Inr t'" and "t' = t\<lparr>t_ID := w_seq w TTransactions + 1, t_Raw := nonempty_raw (t_Raw t), t_CreatedAt := e_now env\<rparr>"
      and "w' = w\<lparr>w_seq := (w_seq w)(TTransactions := w_seq w TTransactions + 1),
         w_db := (w_db w)\<lparr>db_transactions := db_transactions (w_db w) @ [t']\<rparr>\<rparr>"
  using assms by (auto simp: tx_Create_def eff_simps Let_def split: if_splits)

section \<open>ApplyPayment\<close>

text \<open>What a settlement leaves: one success row of the given amount for the invoice.\<close>

definition settled_in :: "int \<Rightarrow> int \<Rightarrow> world \<Rightarrow> world \<Rightarrow> bool" where
  "settled_in iid amount w w1 \<longleftrightarrow> (\<exists>txs' t.
     w_db w1 = (w_db w)\<lparr>db_transactions := txs'\<rparr> \<and> w_intx w1 = w_intx w \<and> (\<forall>x. w_seq w x \<le> w_seq w1 x)
     \<and> success_for iid txs' = [t] \<and> t_Amount t = amount
     \<and> (\<forall>j. j \<noteq> iid \<longrightarrow> success_for j txs' = success_for j (db_transactions (w_db w)))
     \<and> tx_rows_ok (db_invoices (w_db w)) txs' (w_seq w1 TTransactions))"

definition same_db :: "world \<Rightarrow> world \<Rightarrow> bool" where
  "same_db w w1 \<longleftrightarrow> w_db w1 = w_db w \<and> w_intx w1 = w_intx w \<and> (\<forall>x. w_seq w x \<le> w_seq w1 x)"

lemma existing_tx_run: "existing_tx mo w = (Inr (if mo = [] then None
    else find (\<lambda>t. t_MerchantOrderID t = Some mo) (db_transactions (w_db w))), w)"
  by (simp add: existing_tx_def eff_simps optional_run tx_GetByMerchantOrderID_run split: option.splits)

lemma unpaid_no_success:
  assumes "books w" and "row i_ID iid (db_invoices (w_db w)) = Some iv" and "i_Status iv \<noteq> InvoicePaid"
  shows "success_for iid (db_transactions (w_db w)) = []"
  using assms row_Some_in [OF assms(2)] row_Some_key [OF assms(2)]
  by (auto simp: books_def books_of_def invoice_books_def)

lemma upsert_success_ok:
  assumes "books w" and "row i_ID iid (db_invoices (w_db w)) = Some iv" and "i_Status iv \<noteq> InvoicePaid"
    and "existing = None \<or> (\<exists>t. existing = Some t \<and> t \<in> set (db_transactions (w_db w)))"
    and "upsert_success env iid tx paidAt raw existing w = (r, w1)"
  shows "(\<exists>e. r = Inl e \<and> same_db w w1) \<or> (r = Inr () \<and> settled_in iid (at_Amount tx) w w1)"
proof -
  let ?txs = "db_transactions (w_db w)"
  have none: "success_for iid ?txs = []" using unpaid_no_success [OF assms(1-3)] .
  have ok: "tx_rows_ok (db_invoices (w_db w)) ?txs (w_seq w TTransactions)"
    using assms(1) by (simp add: books_def books_of_def)
  have known: "iid \<in> i_ID ` set (db_invoices (w_db w))"
    using row_Some_in [OF assms(2)] row_Some_key [OF assms(2)] by blast
  show ?thesis
  proof (cases existing)
    case None
    obtain r0 where "tx_Create env (success_tx iid tx paidAt raw) w = (r0, w1)" "r = map_sum id (\<lambda>_. ()) r0"
      using assms(5) None by (auto simp: upsert_success_def bnd_def eff_simps split: prod.splits sum.splits)
    then show ?thesis
    proof (cases rule: tx_Create_cases)
      case (ok t')
      let ?txs' = "?txs @ [t']"
      have "t_InvoiceID t' = iid" "t_Status t' = TxSuccess" "t_Amount t' = at_Amount tx"
        using ok by (simp_all add: success_tx_def)
      then show ?thesis using ok none known \<open>r = _\<close> tx_rows_ok_snoc [of _ ?txs _ t'] \<open>tx_rows_ok _ _ _\<close>
        by (auto simp: settled_in_def success_for_snoc intro!: exI [of _ ?txs'])
    qed (simp add: same_db_def)
  next
    case (Some t)
    then have t: "t \<in> set ?txs" using assms(4) by simp
    show ?thesis
    proof (cases "t_InvoiceID t = iid")
      case False
      then show ?thesis using assms(5) Some by (auto simp: upsert_success_def eff_simps same_db_def)
    next
      case True
      then have "t_Status t \<noteq> TxSuccess" using none t by (auto simp: success_for_def filter_empty_conv)
      then have "tx_Update (settled tx paidAt raw t) w = (r, w1)"
        using assms(5) Some True by (simp add: upsert_success_def)
      then show ?thesis
      proof (cases rule: tx_Update_cases)
        case (ok old)
        have rowt: "row t_ID (t_ID t) ?txs = Some t"
          using row_distinct [of t_ID ?txs t] t \<open>tx_rows_ok _ _ _\<close> by (simp add: tx_rows_ok_def)
        let ?f = "tx_set (settled tx paidAt raw t)"
        let ?txs' = "upd t_ID (t_ID t) ?f ?txs"
        have eq: "x = t" if "x \<in> set ?txs" "t_ID x = t_ID t" for x
          using row_distinct [of t_ID ?txs x] that rowt \<open>tx_rows_ok _ _ _\<close> by (simp add: tx_rows_ok_def)
        have "success_for iid ?txs' = [?f t]"
          using success_for_upd_hit [OF _ rowt none, of ?f] True \<open>tx_rows_ok _ _ _\<close>
          by (simp add: tx_rows_ok_def settled_def)
        moreover have "success_for j ?txs' = success_for j ?txs" if "j \<noteq> iid" for j
          by (rule success_for_upd_same) (use that True eq in auto)
        moreover have "tx_rows_ok (db_invoices (w_db w)) ?txs' (w_seq w TTransactions)"
          using tx_rows_ok_upd [OF \<open>tx_rows_ok _ _ _\<close>, of ?f] by simp
        ultimately show ?thesis using ok
          by (auto simp: settled_in_def settled_def intro!: exI [of _ ?txs'])
      qed (simp add: same_db_def)
    qed
  qed
qed

definition pay :: "time \<Rightarrow> Invoice \<Rightarrow> Invoice" where
  "pay t i = i\<lparr>i_Status := InvoicePaid, i_PaidAt := Some t\<rparr>"

text \<open>The state in which the processor starts: the row is paid and the audit row is written.\<close>

definition marked_paid :: "int \<Rightarrow> time \<Rightarrow> world \<Rightarrow> world" where
  "marked_paid iid t w = w\<lparr>w_db := (w_db w)\<lparr>db_invoices := upd i_ID iid (pay t) (db_invoices (w_db w)),
     db_audit := db_audit (w_db w) @ [(0, ''invoice.paid'', ''invoice'', iid)]\<rparr>\<rparr>"

lemma pay_keys [simp]: "i_ID (pay t i) = i_ID i" "i_InvoiceNumber (pay t i) = i_InvoiceNumber i"
  "i_Status (pay t i) = InvoicePaid" "i_PaidAt (pay t i) = Some t" "i_Total (pay t i) = i_Total i"
  "i_CreditApplied (pay t i) = i_CreditApplied i"
  by (simp_all add: pay_def)

lemma pay_eta: "(\<lambda>i. i\<lparr>i_Status := InvoicePaid, i_PaidAt := Some t\<rparr>) = pay t"
  by (rule ext) (simp add: pay_def)

lemma find_in: "find P xs = None \<or> (\<exists>x. find P xs = Some x \<and> x \<in> set xs)"
  by (induction xs) auto

lemma books_marked_paid:
  assumes "books w" and "row i_ID iid (db_invoices (w_db w)) = Some iv" and "settled_in iid amount w w1"
    and "i64 (i_Total iv - i_CreditApplied iv) \<le> amount"
  shows "books (marked_paid iid t w1)"
proof -
  obtain txs' tx where h: "w_db w1 = (w_db w)\<lparr>db_transactions := txs'\<rparr>" "\<forall>x. w_seq w x \<le> w_seq w1 x"
    "success_for iid txs' = [tx]" "t_Amount tx = amount"
    "\<forall>j. j \<noteq> iid \<longrightarrow> success_for j txs' = success_for j (db_transactions (w_db w))"
    "tx_rows_ok (db_invoices (w_db w)) txs' (w_seq w1 TTransactions)"
    using assms(3) by (auto simp: settled_in_def)
  have "invoice_books txs' (pay t iv)"
    using h assms(4) row_Some_key [OF assms(2)] by (simp add: invoice_books_def)
  then have b: "books_of (upd i_ID iid (pay t) (db_invoices (w_db w))) txs' (w_seq w TInvoices) (w_seq w1 TTransactions)"
    using books_change [OF assms(1) [unfolded books_def] assms(2), of "pay t" txs' "w_seq w1 TTransactions"] h by simp
  have "w_seq w TInvoices \<le> w_seq w1 TInvoices" using h(2) by blast
  with b have "books_of (upd i_ID iid (pay t) (db_invoices (w_db w))) txs' (w_seq w1 TInvoices) (w_seq w1 TTransactions)"
    by (auto simp: books_of_def intro: order_trans)
  then show ?thesis using h(1) by (simp add: books_def marked_paid_def)
qed

lemma bnd_GetForUpdate [eff_simps]: "bnd (invoice_GetByIDForUpdate iid) f w =
    (case row i_ID iid (db_invoices (w_db w)) of None \<Rightarrow> (Inl (NotFound ''invoice''), w) | Some i \<Rightarrow> f i w)"
  by (simp add: invoice_GetByIDForUpdate_def eff_simps)

lemma UpdateStatus_paid_run:
  assumes "row i_ID iid (db_invoices (w_db w)) = Some iv"
  shows "bnd (invoice_UpdateStatus iid InvoicePaid (Some t)) (\<lambda>_.
      bnd (audit_Log 0 ''invoice.paid'' ''invoice'' iid) (\<lambda>_. process iid)) w = process iid (marked_paid iid t w)"
  using assms by (simp add: invoice_UpdateStatus_def bnd_invoice_exec eff_simps marked_paid_def pay_eta)

definition paid_time :: "env \<Rightarrow> ApplyTx \<Rightarrow> time" where
  "paid_time env tx = (if IsZero (at_PaidAt tx) then e_now env else at_PaidAt tx)"

lemma applyTx_cases:
  assumes "applyTx env process iid tx w = (r, w')" and "books w"
    and "row i_ID iid (db_invoices (w_db w)) = Some iv"
  obtains (noop) "i_Status iv = InvoicePaid \<or> i_Status iv = InvoiceRefunded" and "r = Inr ()" and "w' = w"
  | (closed) m where "i_Status iv = InvoiceDraft \<or> i_Status iv = InvoiceCancelled" and "r = Inl (Conflict m)" and "w' = w"
  | (short) "invoicePayable (i_Status iv)" and "at_Amount tx < i64 (i_Total iv - i_CreditApplied iv)"
      and "r = Inl (short_payment iv (at_Amount tx) (i64 (i_Total iv - i_CreditApplied iv)))" and "w' = w"
  | (refused) e where "invoicePayable (i_Status iv)" and "i64 (i_Total iv - i_CreditApplied iv) \<le> at_Amount tx"
      and "r = Inl e" and "same_db w w'"
  | (paid) w1 where "invoicePayable (i_Status iv)" and "i64 (i_Total iv - i_CreditApplied iv) \<le> at_Amount tx"
      and "settled_in iid (at_Amount tx) w w1" and "process iid (marked_paid iid (paid_time env tx) w1) = (r, w')"
proof (cases "invoicePayable (i_Status iv)")
  case False
  then have "i_Status iv \<in> {InvoicePaid, InvoiceRefunded, InvoiceDraft, InvoiceCancelled}"
    by (cases "i_Status iv") (auto simp: invoicePayable_def)
  then show ?thesis
    using assms(1,3) noop closed
    by (auto simp: applyTx_def eff_simps TransitionInvoice_def InvoiceCanTransition_def canTransition_def)
next
  case True
  let ?rem = "i64 (i_Total iv - i_CreditApplied iv)"
  have go: "InvoiceCanTransition (i_Status iv) InvoicePaid" "i_Status iv \<noteq> InvoicePaid" "i_Status iv \<noteq> InvoiceRefunded"
    using True by (auto simp: invoicePayable_def InvoiceCanTransition_def canTransition_def)
  show ?thesis
  proof (cases "at_Amount tx < ?rem")
    case True': True
    then show ?thesis using short True go assms(1,3)
      by (simp add: applyTx_def eff_simps TransitionInvoice_def Let_def)
  next
    case False
    let ?ex = "if at_MerchantOrderID tx = [] then None
      else find (\<lambda>t. t_MerchantOrderID t = Some (at_MerchantOrderID tx)) (db_transactions (w_db w))"
    let ?up = "upsert_success env iid tx (paid_time env tx) (if at_Raw tx = [] then ''{}'' else at_Raw tx) ?ex"
    have ex: "?ex = None \<or> (\<exists>t. ?ex = Some t \<and> t \<in> set (db_transactions (w_db w)))"
      using find_in by auto
    obtain r1 w1 where up: "?up w = (r1, w1)" by (cases "?up w")
    have run: "applyTx env process iid tx w = (case r1 of Inl e \<Rightarrow> (Inl e, w1)
        | Inr _ \<Rightarrow> bnd (invoice_UpdateStatus iid InvoicePaid (Some (paid_time env tx))) (\<lambda>_.
            bnd (audit_Log 0 ''invoice.paid'' ''invoice'' iid) (\<lambda>_. process iid)) w1)"
      using False go assms(3) up
      by (simp add: applyTx_def eff_simps TransitionInvoice_def Let_def paid_time_def bnd_run [of "existing_tx _"]
          existing_tx_run bnd_run [of "upsert_success _ _ _ _ _ _"] split: sum.splits)
    from upsert_success_ok [OF assms(2,3) go(2) ex up] show ?thesis
    proof
      assume "\<exists>e. r1 = Inl e \<and> same_db w w1"
      then show ?thesis using refused [OF True] False run assms(1) by auto
    next
      assume ok: "r1 = Inr () \<and> settled_in iid (at_Amount tx) w w1"
      then have "row i_ID iid (db_invoices (w_db w1)) = Some iv" using assms(3) by (auto simp: settled_in_def)
      from UpdateStatus_paid_run [OF this, of "paid_time env tx" process] run ok
      have "applyTx env process iid tx w = process iid (marked_paid iid (paid_time env tx) w1)" by simp
      then have "process iid (marked_paid iid (paid_time env tx) w1) = (r, w')" using assms(1) by simp
      then show ?thesis using paid [OF True, of w1] False ok by simp
    qed
  qed
qed

section \<open>The interface of the processor\<close>

text \<open>
  What \<open>ApplyPayment\<close> relies on of the processor it calls in its transaction: it writes neither
  invoices nor transactions.
\<close>

locale paid_processor =
  fixes process :: "int \<Rightarrow> unit act"
  assumes process_frame: "keeps (frame money) (process i)"
begin

lemma applyTx_books: "keeps (maintains books) (applyTx env process iid tx)"
proof (rule keepsI)
  fix w
  obtain r w' where run: "applyTx env process iid tx w = (r, w')" by (cases "applyTx env process iid tx w")
  have fr: "frame (\<lambda>_. ()) w w'"
  proof -
    have "keeps (frame (\<lambda>_. ())) (process i)" for i using keeps_frame_part [OF process_frame, of "\<lambda>_. ()"] .
    then have "keeps (frame (\<lambda>_. ())) (applyTx env process iid tx)"
      by (intro frame_rules) (simp_all add: no_invoicing_def no_logs_def)
    then show ?thesis using run keepsD by metis
  qed
  have "books w'" if b: "books w"
  proof (cases "row i_ID iid (db_invoices (w_db w))")
    case None
    then show ?thesis using run b by (simp add: applyTx_def eff_simps)
  next
    case (Some iv)
    from run b Some show ?thesis
    proof (cases rule: applyTx_cases)
      case (refused e)
      then show ?thesis using b view_stable [OF view_books] by (auto simp: same_db_def stable_def view_def)
    next
      case (paid w1)
      then have m: "books (marked_paid iid (paid_time env tx) w1)" using books_marked_paid [OF b Some] by blast
      have "keeps (maintains books) (process iid)" using maintains_frame [OF view_books process_frame] .
      then show ?thesis using maintainsD m paid(4) by blast
    qed (use b in auto)
  qed
  then show "maintains books w (snd (applyTx env process iid tx w))" using fr run by (simp add: maintains_def frame_def)
qed

lemma ApplyPayment_books: "keeps (maintains books) (ApplyPayment env process iid tx)"
  unfolding ApplyPayment_def by (rule inv_WithinTx [OF view_stable [OF view_books] applyTx_books])

text \<open>Every way a call can end, seen from outside a transaction.\<close>

lemma applyTx_paid:
  assumes "books w" and "row i_ID iid (db_invoices (w_db w)) = Some iv" and "invoicePayable (i_Status iv)"
    and "applyTx env process iid tx w = (Inr (), w')"
  obtains w1 where "i64 (i_Total iv - i_CreditApplied iv) \<le> at_Amount tx" and "settled_in iid (at_Amount tx) w w1"
    and "process iid (marked_paid iid (paid_time env tx) w1) = (Inr (), w')"
    and "money (w_db w') = money (w_db (marked_paid iid (paid_time env tx) w1))"
  using assms(4,1,2)
proof (cases rule: applyTx_cases)
  case (paid w1)
  have "money (w_db w') = money (w_db (marked_paid iid (paid_time env tx) w1))"
    using keepsD [OF process_frame paid(4)] by (simp add: frame_def)
  then show ?thesis using that paid by blast
qed (use assms(3) in \<open>auto simp: invoicePayable_def\<close>)

text \<open>What the tables hold after a settlement, read off the two facts above.\<close>

lemma settled_tables:
  assumes "row i_ID iid (db_invoices (w_db w)) = Some iv" and "settled_in iid amount w w1"
    and "money (w_db w') = money (w_db (marked_paid iid t w1))"
  shows "row i_ID iid (db_invoices (w_db w')) = Some (pay t iv)"
    and "\<exists>t. success_for iid (db_transactions (w_db w')) = [t] \<and> t_Amount t = amount"
    and "j \<noteq> iid \<Longrightarrow> row i_ID j (db_invoices (w_db w')) = row i_ID j (db_invoices (w_db w))
       \<and> success_for j (db_transactions (w_db w')) = success_for j (db_transactions (w_db w))"
  using assms by (auto simp: money_def marked_paid_def settled_in_def row_upd)

lemma ApplyPayment_paid:
  assumes "books w" and "\<not> w_intx w" and "row i_ID iid (db_invoices (w_db w)) = Some iv" and "invoicePayable (i_Status iv)"
    and "ApplyPayment env process iid tx w = (Inr (), w')"
  shows "i64 (i_Total iv - i_CreditApplied iv) \<le> at_Amount tx"
    and "row i_ID iid (db_invoices (w_db w')) = Some (pay (paid_time env tx) iv)"
    and "\<exists>t. success_for iid (db_transactions (w_db w')) = [t] \<and> t_Amount t = at_Amount tx"
    and "j \<noteq> iid \<Longrightarrow> row i_ID j (db_invoices (w_db w')) = row i_ID j (db_invoices (w_db w))
       \<and> success_for j (db_transactions (w_db w')) = success_for j (db_transactions (w_db w))"
proof -
  let ?w = "w\<lparr>w_intx := True\<rparr>"
  obtain w2 where run: "applyTx env process iid tx ?w = (Inr (), w2)" and w': "w' = w2\<lparr>w_intx := False\<rparr>"
    using WithinTx_commit [OF assms(5) [unfolded ApplyPayment_def] assms(2)] by metis
  have b: "books ?w" and iv: "row i_ID iid (db_invoices (w_db ?w)) = Some iv" using assms(1,3) by (simp_all add: books_def)
  obtain w1 where p: "i64 (i_Total iv - i_CreditApplied iv) \<le> at_Amount tx" "settled_in iid (at_Amount tx) ?w w1"
    "money (w_db w2) = money (w_db (marked_paid iid (paid_time env tx) w1))"
    using applyTx_paid [OF b iv assms(4) run] by metis
  note tables = settled_tables [OF iv p(2,3)]
  show "i64 (i_Total iv - i_CreditApplied iv) \<le> at_Amount tx" by (rule p(1))
  show "row i_ID iid (db_invoices (w_db w')) = Some (pay (paid_time env tx) iv)" using tables(1) w' by simp
  show "\<exists>t. success_for iid (db_transactions (w_db w')) = [t] \<and> t_Amount t = at_Amount tx" using tables(2) w' by simp
  show "row i_ID j (db_invoices (w_db w')) = row i_ID j (db_invoices (w_db w))
       \<and> success_for j (db_transactions (w_db w')) = success_for j (db_transactions (w_db w))" if "j \<noteq> iid"
    using tables(3) [OF that] w' by simp
qed

end

interpretation processor: paid_processor "ProcessPaid env" for env
  by unfold_locales (intro frame_rules, simp)

end
