(* ===== verification/Integrity.thy ===== *)
theory Integrity
  imports Books
begin

text \<open>
  The books of \<open>Books\<close> under every other operation of billing and payments: creating and
  editing invoices, the renewal, overdue and late-fee runs, refunds, the webhook,
  reconciliation, confirmation and payment with credit.
\<close>

section \<open>The books under the other operations\<close>

lemma inv_money: "keeps (frame money) m \<Longrightarrow> keeps (maintains books) m"
  by (rule maintains_frame [OF view_books])

lemma stable_books [simp]: "stable books"
  by (rule view_stable [OF view_books])

lemma no_logs_money [simp]: "no_logs money"
  using no_dispatch_money by (rule no_dispatchD(4))

lemma no_credit_money [simp]: "no_credit money"
  using no_dispatch_money by (rule no_dispatchD(3))

lemma frame_counters_money: "money (d\<lparr>db_counters := x\<rparr>) = money d"
  by (simp add: money_def)

lemma frame_items_money: "money (d\<lparr>db_invoice_items := x\<rparr>) = money d"
  by (simp add: money_def)

lemma row_unique: "distinct (map key rows) \<Longrightarrow> r \<in> set rows \<Longrightarrow> s \<in> set rows \<Longrightarrow> key r = key s \<Longrightarrow> r = s"
  by (auto simp: distinct_map inj_on_def)

text \<open>A pending row that is closed without success.\<close>

lemma tx_close_rows:
  assumes "books w" and "t \<in> set (db_transactions (w_db w))" and "t_Status t \<noteq> TxSuccess"
    and "t_ID t' = t_ID t" and "t_Status t' \<noteq> TxSuccess" and "tx_Update t' w = (r, w')"
  shows "success_for j (db_transactions (w_db w')) = success_for j (db_transactions (w_db w))"
    and "tx_rows_ok (db_invoices (w_db w)) (db_transactions (w_db w')) (w_seq w TTransactions)"
    and "frame (\<lambda>d. (db_invoices d, db_clients d, db_ledger d)) w w'"
proof -
  have "success_for j (db_transactions (w_db w')) = success_for j (db_transactions (w_db w))
    \<and> tx_rows_ok (db_invoices (w_db w)) (db_transactions (w_db w')) (w_seq w TTransactions)
    \<and> frame (\<lambda>d. (db_invoices d, db_clients d, db_ledger d)) w w'"
  using assms(6)
  proof (cases rule: tx_Update_cases)
    case (err e)
    then show ?thesis using assms(1) by (simp add: books_def books_of_def frame_def)
  next
    case (ok old)
    let ?txs = "db_transactions (w_db w)"
    have rows: "tx_rows_ok (db_invoices (w_db w)) ?txs (w_seq w TTransactions)"
      using assms(1) by (simp add: books_def books_of_def)
    have eq: "x = t" if "x \<in> set ?txs" "t_ID x = t_ID t" for x
      using row_unique [of t_ID ?txs x t] rows that assms(2) by (simp add: tx_rows_ok_def)
    have "success_for j (upd t_ID (t_ID t') (tx_set t') ?txs) = success_for j ?txs"
    proof (rule success_for_upd_same)
      fix x assume "x \<in> set ?txs" and "t_ID x = t_ID t'"
      then have "x = t" using eq assms(4) by simp
      then show "\<not> (t_InvoiceID x = j \<and> t_Status x = TxSuccess)
        \<and> \<not> (t_InvoiceID (tx_set t' x) = j \<and> t_Status (tx_set t' x) = TxSuccess)" using assms(3,5) by simp
    qed
    then show ?thesis using tx_rows_ok_upd [OF rows, of "tx_set t'"] ok by (simp add: frame_def)
  qed
  then show "success_for j (db_transactions (w_db w')) = success_for j (db_transactions (w_db w))"
    "tx_rows_ok (db_invoices (w_db w)) (db_transactions (w_db w')) (w_seq w TTransactions)"
    "frame (\<lambda>d. (db_invoices d, db_clients d, db_ledger d)) w w'" by auto
qed

lemma tx_close_books:
  assumes "books w" and "t \<in> set (db_transactions (w_db w))" and "t_Status t \<noteq> TxSuccess"
    and "t_ID t' = t_ID t" and "t_Status t' \<noteq> TxSuccess" and "tx_Update t' w = (r, w')"
  shows "books w'"
proof -
  have bk: "books_of (db_invoices (w_db w)) (db_transactions (w_db w)) (w_seq w TInvoices) (w_seq w TTransactions)"
    using assms(1) by (simp add: books_def)
  have "books_of (db_invoices (w_db w)) (db_transactions (w_db w')) (w_seq w TInvoices) (w_seq w TTransactions)"
    by (rule books_of_txs [OF bk tx_close_rows(2) [OF assms] tx_close_rows(1) [OF assms]])
  moreover have "db_invoices (w_db w') = db_invoices (w_db w)" "w_seq w t \<le> w_seq w' t" for t
    using tx_close_rows(3) [OF assms] by (simp_all add: frame_def)
  ultimately show ?thesis by (auto simp: books_def books_of_def tx_rows_ok_def intro: order_trans)
qed

text \<open>A new row that is not a success row.\<close>

lemma tx_open_books:
  assumes "books w" and "t_InvoiceID t \<in> i_ID ` set (db_invoices (w_db w))" and "t_Status t \<noteq> TxSuccess"
    and "tx_Create env t w = (r, w')"
  shows "books w'"
  using assms(4)
proof (cases rule: tx_Create_cases)
  case (err e)
  then show ?thesis using assms(1) stable_books by (auto simp: stable_def view_def)
next
  case (ok t')
  let ?txs = "db_transactions (w_db w)"
  have bk: "books_of (db_invoices (w_db w)) ?txs (w_seq w TInvoices) (w_seq w TTransactions)"
    using assms(1) by (simp add: books_def)
  have "tx_rows_ok (db_invoices (w_db w)) (?txs @ [t']) (w_seq w TTransactions + 1)"
    using bk ok(2) assms(2) by (intro tx_rows_ok_snoc) (simp_all add: books_of_def)
  moreover have "success_for j (?txs @ [t']) = success_for j ?txs" for j
    using ok(2) assms(3) by (simp add: success_for_snoc)
  ultimately show ?thesis using books_of_txs [OF bk] ok by (simp add: books_def)
qed

text \<open>A change of a row that is not paid and does not become paid.\<close>

lemma invoice_exec_books:
  assumes "books w" and "\<And>x. i_ID (g x) = i_ID x" and "\<And>x. i_InvoiceNumber (g x) = i_InvoiceNumber x"
    and "\<And>iv. row i_ID iid (db_invoices (w_db w)) = Some iv \<Longrightarrow>
      i_Status iv \<noteq> InvoicePaid \<and> i_Status (g iv) \<noteq> InvoicePaid"
    and "invoice_exec iid g w = (r, w')"
  shows "books w'"
proof (cases "row i_ID iid (db_invoices (w_db w))")
  case None
  then show ?thesis using assms(1,5) by (simp add: invoice_exec_run)
next
  case (Some iv)
  let ?txs = "db_transactions (w_db w)"
  have st: "i_Status iv \<noteq> InvoicePaid" "i_Status (g iv) \<noteq> InvoicePaid" using assms(4) Some by auto
  have "invoice_books ?txs (g iv)"
    using unpaid_no_success [OF assms(1) Some st(1)] st(2) assms(2) row_Some_key [OF Some]
    by (simp add: invoice_books_def)
  then have "books_of (upd i_ID iid g (db_invoices (w_db w))) ?txs (w_seq w TInvoices) (w_seq w TTransactions)"
  proof (intro books_change [OF assms(1) [unfolded books_def] Some])
    show "tx_rows_ok (db_invoices (w_db w)) ?txs (w_seq w TTransactions)"
      using assms(1) by (simp add: books_def books_of_def)
  qed (simp_all add: assms(2,3))
  then show ?thesis using assms(5) Some by (auto simp: invoice_exec_run books_def)
qed

text \<open>A new row with a fresh id and number that is not paid.\<close>

lemma books_new_invoice:
  assumes "books_of invs txs ni nt" and "i_ID iv = ni + 1" and "i_InvoiceNumber iv \<notin> i_InvoiceNumber ` set invs"
    and "i_Status iv \<noteq> InvoicePaid"
  shows "books_of (invs @ [iv]) txs (ni + 1) nt"
proof -
  have fresh: "ni + 1 \<notin> i_ID ` set invs" using assms(1) by (auto simp: books_of_def)
  then have "success_for (ni + 1) txs = []"
    using assms(1) by (fastforce simp: success_for_def filter_empty_conv books_of_def tx_rows_ok_def)
  then have "invoice_books txs iv" using assms(2,4) by (simp add: invoice_books_def)
  then show ?thesis using assms fresh by (force simp: books_of_def tx_rows_ok_def)
qed

lemma invoice_Create_books:
  assumes "i_Status iv \<noteq> InvoicePaid"
  shows "keeps (maintains books) (invoice_Create env iv its)"
proof (rule keepsI)
  fix w :: world
  let ?n = "w_seq w TInvoices + 1"
  let ?iv = "iv\<lparr>i_ID := ?n, i_CreatedAt := e_now env\<rparr>"
  let ?w1 = "w\<lparr>w_seq := (w_seq w)(TInvoices := ?n)\<rparr>"
  let ?w2 = "?w1\<lparr>w_db := (w_db w)\<lparr>db_invoices := db_invoices (w_db w) @ [?iv]\<rparr>\<rparr>"
  let ?rest = "bnd (each (\<lambda>it. bnd (invoice_AddItem (it\<lparr>ii_InvoiceID := ?n\<rparr>)) (\<lambda>_. ret ())) its) (\<lambda>_. ret ?iv)"
  have fr: "keeps (frame money) ?rest" by (intro frame_rules) (simp add: money_def)
  show "maintains books w (snd (invoice_Create env iv its w))"
  proof (cases "\<exists>i \<in> set (db_invoices (w_db w)). i_InvoiceNumber i = i_InvoiceNumber iv")
    case True
    then have "invoice_Create env iv its w = (Inl (RawErr ''billing: create invoice''), ?w1)"
      by (simp add: invoice_Create_def eff_simps)
    moreover have "books w \<Longrightarrow> books ?w1" using stable_books by (auto simp: stable_def view_def)
    ultimately show ?thesis by (simp add: maintains_def)
  next
    case False
    then have run: "invoice_Create env iv its w = ?rest ?w2"
      by (simp add: invoice_Create_def eff_simps Let_def)
    have "books ?w2" if "books w"
      using that books_new_invoice [of _ _ _ _ ?iv] False assms by (force simp: books_def)
    moreover have m: "maintains books ?w2 (snd (?rest ?w2))" using inv_money [OF fr] unfolding keeps_def by blast
    ultimately have 1: "books w \<Longrightarrow> books (snd (?rest ?w2))" by (simp only: maintains_def)
    have 2: "w_intx (snd (?rest ?w2)) = w_intx w" using m unfolding maintains_def by simp
    have 3: "w_seq w t \<le> w_seq (snd (?rest ?w2)) t" for t
    proof -
      have "w_seq w t \<le> w_seq ?w2 t" by simp
      also have "\<dots> \<le> w_seq (snd (?rest ?w2)) t" using m unfolding maintains_def by blast
      finally show ?thesis .
    qed
    show ?thesis unfolding run maintains_def using 1 2 3 by blast
  qed
qed
lemma inv_NextNumber: "keeps (maintains books) (NextNumber sc)"
  by (intro inv_money frame_rules) (simp add: money_def)

lemma inv_WithinTx_books [inv_rules]: "keeps (maintains books) m \<Longrightarrow> keeps (maintains books) (WithinTx m)"
  by (rule inv_WithinTx [OF stable_books])

lemma inv_from_result: "keeps (maintains books) (from_result r)"
  by (intro inv_money frame_rules)

lemma inv_audit_Log: "keeps (maintains books) (audit_Log a b c e)"
  by (intro inv_money frame_rules) simp

lemma inv_notifyClient: "keeps (maintains books) (notifyClient env c k x)"
  by (intro inv_money frame_rules) simp

lemma inv_settings: "keeps (maintains books) (GetInt k v)" "keeps (maintains books) (GetBool k b)"
  "keeps (maintains books) (clients_GetByID c)" "keeps (maintains books) (invoice_tax x y z)"
  "keeps (maintains books) (val_Struct fds)" "keeps (maintains books) (recurringDiscount env cp am)"
  "keeps (maintains books) (invoice_GetByID iid)" "keeps (maintains books) (invoice_GetItems iid)"
  "keeps (maintains books) (HasOpenRenewalInvoice rt rid)"
  "keeps (maintains books) (service_GetByIDForUpdate sid)" "keeps (maintains books) (domain_GetByIDForUpdate sid)"
  "keeps (maintains books) (service_ListRenewalsDue tm)" "keeps (maintains books) (domain_ListRenewalsDue tm)"
  "keeps (maintains books) (invoice_ListDueForStatus st tm)" "keeps (maintains books) (tx_ListPending gw tm)"
  by (intro inv_money frame_rules)+

lemma inv_notifyInvoiceCreated: "keeps (maintains books) (notifyInvoiceCreated env iv)"
  by (intro inv_money frame_rules) simp

lemmas books_rules = inv_rules inv_NextNumber inv_from_result inv_audit_Log inv_notifyClient inv_settings
  inv_notifyInvoiceCreated

lemma CreateInvoice_books: "keeps (maintains books) (CreateInvoice env inp)"
  unfolding CreateInvoice_def Let_def by (intro books_rules invoice_Create_books) simp

lemma renewal_books: "keeps (maintains books) (generateServiceRenewalInvoice env sid)"
  "keeps (maintains books) (generateDomainRenewalInvoice env did)"
  unfolding generateServiceRenewalInvoice_def generateDomainRenewalInvoice_def serviceRenewalTx_def
    domainRenewalTx_def notify_created_def Let_def
  by (intro books_rules CreateInvoice_books)+

lemma GenerateRenewalInvoices_books: "keeps (maintains books) (GenerateRenewalInvoices env)"
  unfolding GenerateRenewalInvoices_def count_created_def Let_def
  by (intro books_rules renewal_books)

lemma CreateManualInvoice_books: "keeps (maintains books) (CreateManualInvoice env a mi)"
  unfolding CreateManualInvoice_def by (intro books_rules CreateInvoice_books)

lemma Deposit_books: "keeps (maintains books) (Deposit env c a)"
  unfolding Deposit_def by (intro books_rules CreateInvoice_books)

lemma SendReminders_books: "keeps (maintains books) (SendReminders env)"
  by (intro inv_money frame_rules) simp

text \<open>A read of a row and the change of it: what the guard saw is what the write meets.\<close>

lemma read_row_books:
  assumes "\<And>iv w r w'. books w \<Longrightarrow> row i_ID iid (db_invoices (w_db w)) = Some iv \<Longrightarrow> f iv w = (r, w') \<Longrightarrow> books w'"
    and "keeps (frame (\<lambda>_. ())) (bnd (invoice_GetByIDForUpdate iid) f)"
  shows "keeps (maintains books) (bnd (invoice_GetByIDForUpdate iid) f)"
proof (rule keepsI)
  fix w :: world
  let ?m = "bnd (invoice_GetByIDForUpdate iid) f"
  have "books (snd (?m w))" if "books w"
  proof (cases "row i_ID iid (db_invoices (w_db w))")
    case None
    then show ?thesis using that by (simp add: eff_simps)
  next
    case (Some iv)
    then show ?thesis using assms(1) [OF that Some] by (simp add: eff_simps) (metis prod.collapse)
  qed
  moreover have "frame (\<lambda>_. ()) w (snd (?m w))" using assms(2) by (simp add: keeps_def)
  ultimately show "maintains books w (snd (?m w))" by (simp add: maintains_def frame_def)
qed

lemma no_unit [simp]: "no_logs (\<lambda>_. ())" "no_invoicing (\<lambda>_. ())" "no_credit (\<lambda>_. ())"
  by (simp_all add: no_logs_def no_invoicing_def no_credit_def)

lemma UpdateStatus_books:
  assumes "books w" and "\<And>iv. row i_ID iid (db_invoices (w_db w)) = Some iv \<Longrightarrow> i_Status iv \<noteq> InvoicePaid"
    and "st \<noteq> InvoicePaid" and "invoice_UpdateStatus iid st pt w = (r, w')"
  shows "books w'"
  using invoice_exec_books [OF assms(1) _ _ _ assms(4) [unfolded invoice_UpdateStatus_def]] assms(2,3) by simp

lemma Update_books:
  assumes "books w" and "row i_ID (i_ID iv) (db_invoices (w_db w)) = Some iv0" and "i_Status iv0 \<noteq> InvoicePaid"
    and "i_Status iv \<noteq> InvoicePaid" and "invoice_Update iv w = (r, w')"
  shows "books w'"
  using invoice_exec_books [OF assms(1) _ _ _ assms(5) [unfolded invoice_Update_def]] assms(2-4) by simp

lemma cancel_books:
  assumes "books w" and "row i_ID iid (db_invoices (w_db w)) = Some iv"
    and "bnd (from_result (TransitionInvoice (i_Status iv) InvoiceCancelled)) (\<lambda>nxt.
       bnd (invoice_UpdateStatus (i_ID iv) nxt None) (\<lambda>_. ret (iv\<lparr>i_Status := nxt\<rparr>))) w = (r, w')"
  shows "books w'"
proof (cases "InvoiceCanTransition (i_Status iv) InvoiceCancelled")
  case False
  then show ?thesis using assms by (simp add: TransitionInvoice_def eff_simps)
next
  case True
  then have st: "i_Status iv \<noteq> InvoicePaid" by (auto simp: InvoiceCanTransition_def canTransition_def)
  obtain r1 where "invoice_UpdateStatus (i_ID iv) InvoiceCancelled None w = (r1, w')"
    using assms(3) True by (auto simp: TransitionInvoice_def eff_simps bnd_def split: prod.splits sum.splits)
  then show ?thesis
    by (rule UpdateStatus_books [OF assms(1), rotated 2]) (use st assms(2) row_Some_key [OF assms(2)] in auto)
qed

lemma CancelInvoice_books: "keeps (maintains books) (CancelInvoice a iid)"
  unfolding CancelInvoice_def
  by (intro books_rules read_row_books, erule (2) cancel_books) (intro frame_rules; simp)

lemma update_books:
  assumes "books w" and "row i_ID iid (db_invoices (w_db w)) = Some iv" and "i_ID iv' = i_ID iv"
    and "i_Status iv \<noteq> InvoicePaid" and "i_Status iv' \<noteq> InvoicePaid"
    and "bnd (invoice_Update iv') g w = (r, w')" and "\<And>x. keeps (maintains books) (g x)"
  shows "books w'"
  using assms(6)
proof (cases rule: bnd_cases)
  case (err e)
  then show ?thesis using Update_books [OF assms(1) _ assms(4,5)] assms(2,3) row_Some_key [OF assms(2)] by auto
next
  case (ok x w1)
  then have "books w1" using Update_books [OF assms(1) _ assms(4,5)] assms(2,3) row_Some_key [OF assms(2)] by auto
  then show ?thesis using ok assms(7) maintainsD by blast
qed

lemma updateTx_books: "keeps (maintains books) (updateTx iid dd notes)"
  unfolding updateTx_def Let_def
proof (rule read_row_books)
  fix iv w r w'
  assume h: "books w" "row i_ID iid (db_invoices (w_db w)) = Some iv"
    and run: "bnd (guard (i_Status iv \<in> {InvoiceDraft, InvoiceUnpaid, InvoiceOverdue})
       (AppErr CodeConflict (''cannot edit a '' @ invoice_status_str (i_Status iv) @ '' invoice'') [])) (\<lambda>_.
     bnd (case dd of None \<Rightarrow> ret (i_DueDate iv)
          | Some s \<Rightarrow> (case parseDate s of None \<Rightarrow> fail invalid_due_date | Some t \<Rightarrow> ret t)) (\<lambda>due.
     bnd (invoice_Update (iv\<lparr>i_DueDate := due, i_Notes := (case notes of None \<Rightarrow> i_Notes iv | Some n \<Rightarrow> n)\<rparr>)) (\<lambda>_.
     ret (iv\<lparr>i_DueDate := due, i_Notes := (case notes of None \<Rightarrow> i_Notes iv | Some n \<Rightarrow> n)\<rparr>)))) w = (r, w')"
  show "books w'"
  proof (cases "i_Status iv \<in> {InvoiceDraft, InvoiceUnpaid, InvoiceOverdue}")
    case True
    then have "i_Status iv \<noteq> InvoicePaid" by auto
    then have upd: "books w'"
      if "bnd (invoice_Update iv') (\<lambda>_. ret x) w = (r, w')" "i_ID iv' = i_ID iv" "i_Status iv' = i_Status iv"
      for iv' and x :: Invoice
      using update_books [OF h _ _ _ that(1)] that(2,3) by (simp add: inv_basic)
    have run': "bnd (case dd of None \<Rightarrow> ret (i_DueDate iv)
          | Some s \<Rightarrow> (case parseDate s of None \<Rightarrow> fail invalid_due_date | Some t \<Rightarrow> ret t)) (\<lambda>due.
     bnd (invoice_Update (iv\<lparr>i_DueDate := due, i_Notes := (case notes of None \<Rightarrow> i_Notes iv | Some n \<Rightarrow> n)\<rparr>)) (\<lambda>_.
     ret (iv\<lparr>i_DueDate := due, i_Notes := (case notes of None \<Rightarrow> i_Notes iv | Some n \<Rightarrow> n)\<rparr>))) w = (r, w')"
      using run True by (simp only: bnd_guard if_True)
    show ?thesis
    proof (cases dd)
      case None
      then show ?thesis using run' by (simp only: option.case bnd_ret) (erule upd; simp)
    next
      case (Some s)
      show ?thesis
      proof (cases "parseDate s")
        case None
        then show ?thesis using run' Some h(1) by (simp add: eff_simps)
      next
        case (Some t)
        then show ?thesis using run' \<open>dd = Some s\<close> by (simp only: option.case bnd_ret) (erule upd; simp)
      qed
    qed
  qed (use run h in \<open>simp add: eff_simps\<close>)
qed (intro frame_rules; simp)

lemma UpdateInvoice_books: "keeps (maintains books) (UpdateInvoice a iid dd notes)"
  unfolding UpdateInvoice_def by (intro books_rules updateTx_books)

lemma lateFeeTx_books: "keeps (maintains books) (lateFeeTx fee iid)"
  unfolding lateFeeTx_def
proof (rule read_row_books)
  fix iv :: Invoice and w r w'
  let ?it = "\<lparr>ii_ID = 0, ii_InvoiceID = i_ID iv, ii_Description = ''Late fee'', ii_Amount = fee,
         ii_Taxed = False, ii_RelatedType = RelatedLateFee, ii_RelatedID = None\<rparr>"
  assume h: "books w" "row i_ID iid (db_invoices (w_db w)) = Some iv"
    and run: "(if i_Status iv \<noteq> InvoiceOverdue then ret False
     else bnd (invoice_AddItem ?it) (\<lambda>_.
       bnd (invoice_Update (iv\<lparr>i_Subtotal := i64 (i_Subtotal iv + fee), i_Total := i64 (i_Total iv + fee)\<rparr>)) (\<lambda>_.
       ret True))) w = (r, w')"
  show "books w'"
  proof (cases "i_Status iv = InvoiceOverdue")
    case True
    have fr: "keeps (frame money) (invoice_AddItem ?it)" by (intro frame_rules) (simp add: money_def)
    obtain x w1 where add: "invoice_AddItem ?it w = (Inr x, w1)"
      by (auto simp: invoice_AddItem_def eff_simps)
    then have "books w1" and "db_invoices (w_db w1) = db_invoices (w_db w)"
      using maintainsD [OF inv_money [OF fr] h(1)] keepsD [OF fr add] by (auto simp: frame_def money_def)
    moreover have "bnd (invoice_Update (iv\<lparr>i_Subtotal := i64 (i_Subtotal iv + fee), i_Total := i64 (i_Total iv + fee)\<rparr>))
        (\<lambda>_. ret True) w1 = (r, w')"
      using run True add by (simp add: bnd_run [of "invoice_AddItem _"])
    ultimately show ?thesis
      using update_books [of w1 iid iv "iv\<lparr>i_Subtotal := i64 (i_Subtotal iv + fee), i_Total := i64 (i_Total iv + fee)\<rparr>"
          "\<lambda>_. ret True" r w'] h(2) True by (simp add: inv_basic)
  qed (use run h in \<open>simp add: eff_simps\<close>)
qed (intro frame_rules; simp)

lemma ApplyLateFees_books: "keeps (maintains books) (ApplyLateFees env)"
  unfolding ApplyLateFees_def lateFeeOne_def by (intro books_rules lateFeeTx_books)

section \<open>The overdue run\<close>

text \<open>The listed rows are not paid, and marking one keeps that of the others.\<close>

definition none_paid :: "Invoice list \<Rightarrow> world \<Rightarrow> bool" where
  "none_paid xs w \<longleftrightarrow> (\<forall>iv \<in> set xs. \<forall>r. row i_ID (i_ID iv) (db_invoices (w_db w)) = Some r \<longrightarrow> i_Status r \<noteq> InvoicePaid)"

lemma view_none_paid: "view money (\<lambda>w. books w \<and> none_paid xs w)"
  using view_books by (auto simp: view_def none_paid_def money_def)

lemma mark_books:
  assumes "iv \<in> set xs" and "st \<noteq> InvoicePaid"
  shows "keeps (maintains (\<lambda>w. books w \<and> none_paid xs w)) (invoice_UpdateStatus (i_ID iv) st pt)"
proof (rule keepsI)
  fix w :: world
  obtain r w' where run: "invoice_UpdateStatus (i_ID iv) st pt w = (r, w')"
    by (cases "invoice_UpdateStatus (i_ID iv) st pt w")
  have "books w'" if "books w" "none_paid xs w"
    using UpdateStatus_books [OF that(1) _ assms(2) run] that(2) assms(1) by (auto simp: none_paid_def)
  moreover have "none_paid xs w'" if "none_paid xs w"
    using that run assms(2)
    by (auto simp: none_paid_def invoice_UpdateStatus_def invoice_exec_run row_upd split: option.splits if_splits)
  moreover have "frame (\<lambda>_. ()) w w'"
    using keepsD [OF frame_invoice_UpdateStatus [of "\<lambda>_. ()"] run] by simp
  ultimately show "maintains (\<lambda>w. books w \<and> none_paid xs w) w (snd (invoice_UpdateStatus (i_ID iv) st pt w))"
    using run by (auto simp: maintains_def frame_def)
qed

lemma markOverdueOne_books:
  assumes "iv \<in> set xs"
  shows "keeps (maintains (\<lambda>w. books w \<and> none_paid xs w)) (markOverdueOne env iv acc)"
proof (cases "TransitionInvoice (i_Status iv) InvoiceOverdue")
  case (Inl e)
  then show ?thesis by (simp add: markOverdueOne_def inv_basic)
next
  case (Inr nxt)
  then have "nxt \<noteq> InvoicePaid" by (auto simp: TransitionInvoice_def split: if_splits)
  then show ?thesis unfolding markOverdueOne_def Inr sum.case
    by (intro inv_rules mark_books [OF assms] maintains_frame [OF view_none_paid] frame_rules) simp_all
qed

lemma MarkOverdue_books: "keeps (maintains books) (MarkOverdue env)"
proof (rule keepsI)
  fix w :: world
  define xs where "xs = sort_key i_DueDate (filter (\<lambda>i. i_Status i = InvoiceUnpaid
     \<and> i_DueDate i \<le> AddDays (dateOnly (e_now env)) (- 1)) (db_invoices (w_db w)))"
  have run: "MarkOverdue env w = foldE (markOverdueOne env) xs (0, []) w"
    by (simp add: MarkOverdue_def listOverdue_def invoice_ListDueForStatus_def on_err_def eff_simps bnd_run xs_def)
  have "none_paid xs w" if "books w"
  proof -
    have eq: "r = iv" if "iv \<in> set xs" "row i_ID (i_ID iv) (db_invoices (w_db w)) = Some r" for iv r
      using that row_distinct [of i_ID "db_invoices (w_db w)" iv] \<open>books w\<close>
      by (simp add: xs_def books_def books_of_def)
    have "i_Status iv = InvoiceUnpaid" if "iv \<in> set xs" for iv using that by (simp add: xs_def)
    with eq show ?thesis unfolding none_paid_def by (metis InvoiceStatus.distinct(11))
  qed
  moreover have "keeps (maintains (\<lambda>w. books w \<and> none_paid xs w)) (foldE (markOverdueOne env) xs (0, []))"
    by (rule keeps_foldE) (simp_all add: markOverdueOne_books)
  then have "maintains (\<lambda>w. books w \<and> none_paid xs w) w (snd (MarkOverdue env w))" unfolding run keeps_def by blast
  ultimately show "maintains books w (snd (MarkOverdue env w))" by (auto simp: maintains_def)
qed

section \<open>Refunds\<close>

lemma each_skip: "(\<forall>x \<in> set xs. \<not> P x) \<Longrightarrow> each (\<lambda>x. if P x then f x else ret ()) xs = ret ()"
  by (induction xs) (simp_all add: bnd_ret)

lemma bnd_ret_id [simp]: "bnd m ret = m"
  by (rule ext) (simp add: bnd_def ret_def split: prod.splits sum.splits)

lemma each_single: "filter P xs = [t] \<Longrightarrow> each (\<lambda>x. if P x then f x else ret ()) xs = f t"
proof (induction xs)
  case (Cons x xs)
  show ?case
  proof (cases "P x")
    case True
    then have "x = t" and "filter P xs = []" using Cons.prems by auto
    then have "each (\<lambda>x. if P x then f x else ret ()) xs = ret ()" by (intro each_skip) (simp add: filter_empty_conv)
    then show ?thesis using True \<open>x = t\<close> by simp
  qed (use Cons in \<open>simp add: bnd_ret\<close>)
qed simp

text \<open>The refund of a paid invoice that returns: the row is refunded and has no success row left.\<close>

lemma refundTx_returns:
  assumes "books w" and "refundTx iid toCredit w = (Inr out, w')"
  obtains iv t w1 where "row i_ID iid (db_invoices (w_db w)) = Some iv" and "i_Status iv = InvoicePaid"
    and "success_for iid (db_transactions (w_db w)) = [t]"
    and "w1 = w\<lparr>w_db := (w_db w)\<lparr>db_invoices := upd i_ID iid (\<lambda>i. i\<lparr>i_Status := InvoiceRefunded, i_PaidAt := i_PaidAt i\<rparr>) (db_invoices (w_db w)),
        db_transactions := upd t_ID (t_ID t) (tx_set (t\<lparr>t_Status := TxRefunded\<rparr>)) (db_transactions (w_db w))\<rparr>\<rparr>"
    and "(refund_credit iv toCredit) w1 = (Inr (), w')"
proof -
  obtain iv where iv: "row i_ID iid (db_invoices (w_db w)) = Some iv"
    using assms(2) by (cases "row i_ID iid (db_invoices (w_db w))") (auto simp: refundTx_def eff_simps)
  have st: "i_Status iv = InvoicePaid"
    using assms(2) iv
    by (cases "i_Status iv") (simp_all add: refundTx_def eff_simps TransitionInvoice_def InvoiceCanTransition_def canTransition_def)
  have id: "i_ID iv = iid" using row_Some_key [OF iv] .
  obtain t where t: "success_for iid (db_transactions (w_db w)) = [t]"
    using assms(1) st id row_Some_in [OF iv] by (fastforce simp: books_def books_of_def invoice_books_def)
  let ?w0 = "w\<lparr>w_db := (w_db w)\<lparr>db_invoices := upd i_ID iid (\<lambda>i. i\<lparr>i_Status := InvoiceRefunded, i_PaidAt := i_PaidAt i\<rparr>) (db_invoices (w_db w))\<rparr>\<rparr>"
  have "filter (\<lambda>t. t_Status t = TxSuccess) (filter (\<lambda>t. t_InvoiceID t = iid) (db_transactions (w_db w))) = [t]"
    using t by (simp add: success_for_def conj_commute)
  note each1 = each_single [OF this, of "\<lambda>t. tx_Update (t\<lparr>t_Status := TxRefunded\<rparr>)"]
  have "bnd (tx_Update (t\<lparr>t_Status := TxRefunded\<rparr>)) (\<lambda>_. bnd (refund_credit iv toCredit) (\<lambda>_. ret (iv\<lparr>i_Status := InvoiceRefunded\<rparr>))) ?w0 = (Inr out, w')"
    using assms(2) iv st id each1
    by (simp add: refundTx_def eff_simps TransitionInvoice_def InvoiceCanTransition_def canTransition_def
        invoice_UpdateStatus_def bnd_invoice_exec tx_ListByInvoice_def split: if_splits)
  then obtain u w1 where u: "tx_Update (t\<lparr>t_Status := TxRefunded\<rparr>) ?w0 = (Inr u, w1)"
    and c: "bnd (refund_credit iv toCredit) (\<lambda>_. ret (iv\<lparr>i_Status := InvoiceRefunded\<rparr>)) w1 = (Inr out, w')" by (rule bnd_InrE)
  from u have w1: "w1 = w\<lparr>w_db := (w_db w)\<lparr>db_invoices := upd i_ID iid (\<lambda>i. i\<lparr>i_Status := InvoiceRefunded, i_PaidAt := i_PaidAt i\<rparr>) (db_invoices (w_db w)),
        db_transactions := upd t_ID (t_ID t) (tx_set (t\<lparr>t_Status := TxRefunded\<rparr>)) (db_transactions (w_db w))\<rparr>\<rparr>"
    by (cases rule: tx_Update_cases) simp_all
  from c obtain v where "refund_credit iv toCredit w1 = (Inr v, w')" by (rule bnd_InrE) (simp add: ret_def)
  then show ?thesis using that [OF iv st t w1] by simp
qed

lemma refund_rows_books:
  assumes "books w" and "row i_ID iid (db_invoices (w_db w)) = Some iv" and "success_for iid (db_transactions (w_db w)) = [t]"
  shows "books_of (upd i_ID iid (\<lambda>i. i\<lparr>i_Status := InvoiceRefunded, i_PaidAt := i_PaidAt i\<rparr>) (db_invoices (w_db w)))
    (upd t_ID (t_ID t) (tx_set (t\<lparr>t_Status := TxRefunded\<rparr>)) (db_transactions (w_db w)))
    (w_seq w TInvoices) (w_seq w TTransactions)"
proof (rule books_change [OF assms(1) [unfolded books_def] assms(2)])
  let ?txs = "db_transactions (w_db w)"
  let ?f = "tx_set (t\<lparr>t_Status := TxRefunded\<rparr>)"
  have ok: "tx_rows_ok (db_invoices (w_db w)) ?txs (w_seq w TTransactions)"
    using assms(1) by (simp add: books_def books_of_def)
  have "t \<in> set (success_for iid ?txs)" using assms(3) by simp
  then have t: "t \<in> set ?txs" "t_InvoiceID t = iid" by (simp_all add: success_for_def)
  show "tx_rows_ok (db_invoices (w_db w)) (upd t_ID (t_ID t) ?f ?txs) (w_seq w TTransactions)"
    using tx_rows_ok_upd [OF ok, of ?f] by simp
  have eq: "x = t" if "x \<in> set ?txs" "t_ID x = t_ID t" for x
    using row_unique [of t_ID ?txs x t] ok that t by (simp add: tx_rows_ok_def)
  show "success_for j (upd t_ID (t_ID t) ?f ?txs) = success_for j ?txs" if "j \<noteq> iid" for j
    by (rule success_for_upd_same) (use that t eq in auto)
  have "success_for iid (upd t_ID (t_ID t) ?f ?txs) = []"
  proof -
    have "\<not> (t_InvoiceID x = iid \<and> t_Status x = TxSuccess)" if x: "x \<in> set (upd t_ID (t_ID t) ?f ?txs)" for x
    proof
      assume s: "t_InvoiceID x = iid \<and> t_Status x = TxSuccess"
      from upd_in [OF x] s have "x \<in> set ?txs" "t_ID x \<noteq> t_ID t" by auto
      then have "x \<in> set (success_for iid ?txs)" using s by (simp add: success_for_def)
      then show False using assms(3) \<open>t_ID x \<noteq> t_ID t\<close> by simp
    qed
    then show ?thesis by (simp add: success_for_def filter_empty_conv)
  qed
  then show "invoice_books (upd t_ID (t_ID t) ?f ?txs) (iv\<lparr>i_Status := InvoiceRefunded, i_PaidAt := i_PaidAt iv\<rparr>)"
    using row_Some_key [OF assms(2)] by (simp add: invoice_books_def)
qed simp_all

lemma RefundInvoice_books:
  assumes "books w" and "\<not> w_intx w" and "RefundInvoice a iid toCredit w = (r, w')"
  shows "books w'"
proof -
  let ?w = "w\<lparr>w_intx := True\<rparr>"
  obtain r1 w1 where tx: "WithinTx (refundTx iid toCredit) w = (r1, w1)" by (cases "WithinTx (refundTx iid toCredit) w")
  have "books w1"
  proof (cases r1)
    case (Inl e)
    have "keeps (frame (\<lambda>_. ())) (WithinTx (refundTx iid toCredit))" unfolding refundTx_def by (intro frame_rules; simp)
    then have "frame (\<lambda>_. ()) w w1" using tx keepsD by metis
    then show ?thesis using WithinTx_rollback [of "refundTx iid toCredit" w e w1] tx Inl assms(1,2) stable_books
      by (auto simp: stable_def view_def frame_def)
  next
    case (Inr out)
    obtain w2 where run: "refundTx iid toCredit ?w = (Inr out, w2)" and w1: "w1 = w2\<lparr>w_intx := False\<rparr>"
      using WithinTx_commit [of "refundTx iid toCredit" w out w1] tx Inr assms(2) by metis
    have b: "books ?w" using assms(1) by (simp add: books_def)
    from b run obtain iv t w3 where h: "row i_ID iid (db_invoices (w_db ?w)) = Some iv"
      "success_for iid (db_transactions (w_db ?w)) = [t]"
      "w3 = ?w\<lparr>w_db := (w_db ?w)\<lparr>db_invoices := upd i_ID iid (\<lambda>i. i\<lparr>i_Status := InvoiceRefunded, i_PaidAt := i_PaidAt i\<rparr>) (db_invoices (w_db ?w)),
        db_transactions := upd t_ID (t_ID t) (tx_set (t\<lparr>t_Status := TxRefunded\<rparr>)) (db_transactions (w_db ?w))\<rparr>\<rparr>"
      "(refund_credit iv toCredit) w3 = (Inr (), w2)"
      by (rule refundTx_returns)
    have "books w3" using refund_rows_books [OF b h(1,2)] h(3) by (simp add: books_def)
    moreover have "keeps (maintains books) (refund_credit iv toCredit)"
      by (intro inv_money frame_rules) simp
    ultimately have "books w2" using h(4) maintainsD by blast
    then show ?thesis using w1 by (simp add: books_def)
  qed
  then show ?thesis
    using assms(3) tx maintainsD [OF inv_audit_Log]
    by (auto simp: RefundInvoice_def on_err_def bnd_run ret_def audit_Log_run split: sum.splits)
qed

section \<open>Payments\<close>

lemma read_then_books:
  assumes "\<And>w r w'. m w = (r, w') \<Longrightarrow> w' = w \<and> (\<forall>x. r = Inr x \<longrightarrow> Q x w)"
    and "\<And>x w r w'. books w \<Longrightarrow> Q x w \<Longrightarrow> f x w = (r, w') \<Longrightarrow> books w'"
    and "keeps (frame (\<lambda>_. ())) (bnd m f)"
  shows "keeps (maintains books) (bnd m f)"
proof (rule keepsI)
  fix w :: world
  obtain r w' where run: "bnd m f w = (r, w')" by (cases "bnd m f w")
  have "books w'" if b: "books w"
    using run
  proof (cases rule: bnd_cases)
    case (err e)
    then show ?thesis using assms(1) b by blast
  next
    case (ok x w1)
    from assms(1) [OF ok(1)] have "w1 = w" "Q x w" by auto
    then show ?thesis using assms(2) [OF b] ok(2) by blast
  qed
  moreover have "frame (\<lambda>_. ()) w w'" using keepsD [OF assms(3) run] .
  ultimately show "maintains books w (snd (bnd m f w))" using run by (simp add: maintains_def frame_def)
qed

lemma find_tx: "tx_GetByMerchantOrderID mo w = (r, w') \<Longrightarrow> w' = w \<and> (\<forall>t. r = Inr t \<longrightarrow> t \<in> set (db_transactions (w_db w)))"
  using find_in [of "\<lambda>t. t_MerchantOrderID t = Some mo" "db_transactions (w_db w)"]
  by (auto simp: tx_GetByMerchantOrderID_run split: option.splits)

lemma get_tx: "tx_GetByID tid w = (r, w') \<Longrightarrow> w' = w \<and> (\<forall>t. r = Inr t \<longrightarrow> t \<in> set (db_transactions (w_db w)))"
  by (auto simp: tx_GetByID_def eff_simps need_def dest: row_Some_in split: option.splits)

lemma no_fx_unit [simp]: "no_snipes (\<lambda>_. ())" "no_fulfilment (\<lambda>_. ())"
  by (simp_all add: no_snipes_def no_fulfilment_def)

lemma tx_closeD:
  "tx_Update t' w = (r, w') \<Longrightarrow> books w \<Longrightarrow> t \<in> set (db_transactions (w_db w)) \<Longrightarrow> t_ID t' = t_ID t \<Longrightarrow>
    t_Status t = TxPending \<Longrightarrow> t_Status t' \<noteq> TxSuccess \<Longrightarrow> books w'"
  by (rule tx_close_books) auto

lemma callback_failed_books:
  assumes "books w" and "t \<in> set (db_transactions (w_db w))" and "callback_failed g p t w = (r, w')"
  shows "books w'"
proof (cases "gw_CheckTransaction g (cb_MerchantOrderID p)")
  case (Inl e)
  then show ?thesis using assms(1,3) by (auto simp: callback_failed_def eff_simps split: if_splits)
next
  case (Inr st)
  then show ?thesis
    using assms(1,3)
    by (auto simp: callback_failed_def eff_simps split: if_splits dest: tx_closeD [OF _ assms(1,2)])
qed

context paid_processor
begin

lemma process_unit: "keeps (frame (\<lambda>_. ())) (process i)"
  using keeps_frame_part [OF process_frame, of "\<lambda>_. ()"] .

lemma ApplyPayment_unit: "keeps (frame (\<lambda>_. ())) (ApplyPayment env process iid tx)"
  by (intro frame_rules process_unit) simp_all

lemma callback_success_books:
  assumes "books w" and "t \<in> set (db_transactions (w_db w))" and "callback_success env process g p t w = (r, w')"
  shows "books w'"
proof (cases "gw_CheckTransaction g (cb_MerchantOrderID p)")
  case (Inl e)
  then show ?thesis using assms(1,3) by (auto simp: callback_success_def eff_simps)
next
  case (Inr st)
  note run = assms(3) [unfolded callback_success_def Inr from_result_simps bnd_ret]
  show ?thesis
  proof (cases "st_StatusCode st = TxStatusSuccess")
    case True
    then show ?thesis using run assms(1) maintainsD [OF ApplyPayment_books] by simp
  next
    case False
    show ?thesis using run False assms(1)
      by (auto simp: eff_simps split: if_splits dest: tx_closeD [OF _ assms(1,2)])
  qed
qed

lemma HandleCallback_books: "keeps (maintains books) (HandleCallback gws env process p)"
proof -
  have "keeps (maintains books) (bnd (tx_GetByMerchantOrderID (cb_MerchantOrderID p)) (\<lambda>t.
     if \<not> gw_VerifyCallbackSignature g p then fail ErrBadSignature
     else if cb_ResultCode p \<noteq> resultCodeSuccess then callback_failed g p t
     else callback_success env process g p t))" for g
  proof (rule read_then_books [where Q = "\<lambda>t w. t \<in> set (db_transactions (w_db w))"])
    fix t w r w'
    assume h: "books w" "t \<in> set (db_transactions (w_db w))" and
      run: "(if \<not> gw_VerifyCallbackSignature g p then fail ErrBadSignature
        else if cb_ResultCode p \<noteq> resultCodeSuccess then callback_failed g p t
        else callback_success env process g p t) w = (r, w')"
    show "books w'"
      using run h callback_failed_books [OF h] callback_success_books [OF h]
      by (auto simp: eff_simps split: if_splits)
  qed (erule find_tx, unfold callback_failed_def callback_success_def, intro frame_rules ApplyPayment_unit, simp_all)
  then have "keeps (maintains books) (callback_body gws env process p)"
    unfolding callback_body_def duitkuGateway_def
    by (cases "gws GatewayDuitku") (simp_all add: bnd_ret bnd_fail inv_basic)
  moreover have "keeps (maintains books) (integration_Log a b c e)" for a b c e
    by (intro inv_money frame_rules) simp
  ultimately show ?thesis unfolding HandleCallback_def by (intro books_rules)
qed

lemma ReconcileOne_books: "keeps (maintains books) (ReconcileOne gws env process tid)"
  unfolding ReconcileOne_def
proof (rule read_then_books [where Q = "\<lambda>t w. t \<in> set (db_transactions (w_db w))"])
  fix t w r w'
  assume h: "books w" "t \<in> set (db_transactions (w_db w))"
    and run: "(if t_Status t \<noteq> TxPending \<or> t_Gateway t \<noteq> GatewayDuitku then ret ()
     else (case t_MerchantOrderID t of None \<Rightarrow> ret () | Some mo \<Rightarrow> reconcile_with gws env process t mo)) w = (r, w')"
  show "books w'"
  proof (cases "t_Status t = TxPending \<and> t_Gateway t = GatewayDuitku \<and> t_MerchantOrderID t \<noteq> None")
    case False
    then show ?thesis using run h(1) by (auto simp: eff_simps split: if_splits)
  next
    case True
    then obtain mo where rw: "reconcile_with gws env process t mo w = (r, w')" using run by auto
    have ap: "books w1" if "ApplyPayment env process i x w = (r1, w1)" for i x r1 w1
      using maintainsD [OF ApplyPayment_books h(1) that] .
    have "books w1" if "tx_Update (t\<lparr>t_Status := TxExpired\<rparr>) w = (r1, w1)" for r1 w1
      using tx_close_books [OF h _ _ _ that] True by simp
    then show ?thesis using rw h(1) ap
      by (auto simp: reconcile_with_def duitkuGateway_def eff_simps from_result_def split: option.splits sum.splits if_splits)
  qed
qed (erule get_tx, unfold reconcile_with_def duitkuGateway_def, intro frame_rules ApplyPayment_unit, simp)

lemma ReconcilePending_books: "keeps (maintains books) (ReconcilePending gws env process)"
  unfolding ReconcilePending_def by (intro books_rules ReconcileOne_books)

lemma ConfirmManualTransaction_books: "keeps (maintains books) (ConfirmManualTransaction env process a tid)"
proof -
  have "keeps (maintains books) (tx_GetByID tid)" by (intro inv_money frame_rules)
  then show ?thesis unfolding ConfirmManualTransaction_def by (intro books_rules ApplyPayment_books)
qed

lemma AddManualPayment_books: "keeps (maintains books) (AddManualPayment env process a iid amt m)"
  unfolding AddManualPayment_def by (intro books_rules ApplyPayment_books)

lemma payWithCredit_books: "keeps (maintains books) (payWithCredit env process a iid)"
proof -
  have "keeps (maintains books) (deduct_due iv i amt)" "keeps (maintains books) (invoice_GetByIDForUpdate i)" for iv amt i
    by (intro inv_money frame_rules; simp)+
  then show ?thesis unfolding payWithCredit_def creditTx_def Let_def by (intro books_rules ApplyPayment_books)
qed

end

text \<open>Opening a payment needs the invoice it is opened for.\<close>

definition knows :: "int \<Rightarrow> world \<Rightarrow> bool" where
  "knows iid w \<longleftrightarrow> books w \<and> iid \<in> i_ID ` set (db_invoices (w_db w))"

lemma view_knows: "view money (knows iid)"
  using view_books by (auto simp: view_def knows_def money_def)

lemma tx_Create_knows:
  assumes "t_InvoiceID t = iid" and "t_Status t \<noteq> TxSuccess"
  shows "keeps (maintains (knows iid)) (tx_Create env t)"
proof (rule keepsI)
  fix w :: world
  obtain r w' where run: "tx_Create env t w = (r, w')" by (cases "tx_Create env t w")
  have "keeps (frame db_invoices) (tx_Create env t)" by (intro frame_rules) simp
  then have "frame db_invoices w w'" using run keepsD by metis
  then show "maintains (knows iid) w (snd (tx_Create env t w))"
    using tx_open_books [OF _ _ assms(2) run] assms(1) run by (auto simp: maintains_def knows_def frame_def)
qed

lemma payWithGateway_knows: "keeps (maintains (knows (i_ID iv))) (payWithGateway gws env a iv gc m)"
proof -
  have fr: "keeps (frame money) x \<Longrightarrow> keeps (maintains (knows (i_ID iv))) x" for x :: "'b act"
    by (rule maintains_frame [OF view_knows])
  note fr' = maintains_frame [OF view_knows]
  have rp: "keeps (maintains (knows (i_ID iv))) (record_pending env a iv gc m mo rem ex res)" for mo rem ex res
    unfolding record_pending_def Let_def
    by (intro inv_rules tx_Create_knows fr' frame_rules) simp_all
  have na: "keeps (frame money) (NextAttempt i)" for i unfolding NextAttempt_def by (intro frame_rules) (simp add: money_def)
  have em: "keeps (frame money) (expiryMinutesFor k)" for k unfolding expiryMinutesFor_def by (intro frame_rules)
  show ?thesis unfolding payWithGateway_def Let_def
    by (intro inv_rules rp fr' [OF na] fr' [OF em] fr' [OF frame_clients_GetByID] fr' [OF frame_users_GetByID] fr' [OF frame_from_result])
qed

lemma owned_row: "getOwnedInvoice c iid w = (r, w') \<Longrightarrow>
    w' = w \<and> (\<forall>iv. r = Inr iv \<longrightarrow> row i_ID iid (db_invoices (w_db w)) = Some iv)"
  by (auto simp: getOwnedInvoice_def eff_simps split: option.splits if_splits)

lemma frame_record_pending [frame_rules]:
  "(\<And>d x. f (d\<lparr>db_transactions := x\<rparr>) = f d) \<Longrightarrow> no_logs f \<Longrightarrow> keeps (frame f) (record_pending env a iv gc m mo rem ex res)"
  unfolding record_pending_def Let_def by (intro frame_rules)

lemma frame_payWithGateway [frame_rules]:
  "(\<And>d x. f (d\<lparr>db_transactions := x\<rparr>) = f d) \<Longrightarrow> (\<And>d x. f (d\<lparr>db_counters := x\<rparr>) = f d) \<Longrightarrow> no_logs f \<Longrightarrow>
    keeps (frame f) (payWithGateway gws env a iv gc m)"
  unfolding payWithGateway_def NextAttempt_def expiryMinutesFor_def Let_def by (intro frame_rules)

lemma frame_getOwnedInvoice [frame_rules]: "keeps (frame f) (getOwnedInvoice c iid)"
  unfolding getOwnedInvoice_def by (intro frame_rules)

context paid_processor
begin

lemma payWithCredit_unit: "keeps (frame (\<lambda>_. ())) (payWithCredit env process a iid)"
  unfolding payWithCredit_def creditTx_def Let_def by (intro frame_rules ApplyPayment_unit) simp_all

lemma PayInvoice_books: "keeps (maintains books) (PayInvoice gws env process a c iid m)"
  unfolding PayInvoice_def Let_def
proof (rule inv_if [OF inv_basic(2)], rule read_then_books [where Q = "\<lambda>iv w. row i_ID iid (db_invoices (w_db w)) = Some iv"])
  fix iv w r w'
  assume h: "books w" "row i_ID iid (db_invoices (w_db w)) = Some iv"
    and run: "(if \<not> invoicePayable (i_Status iv) then fail (Conflict ''invoice is not payable'')
        else if i_Currency iv \<noteq> [] \<and> i_Currency iv \<noteq> ''IDR'' then fail (Conflict ''only IDR invoices are supported'')
        else if TrimSpace m = ''credit'' then payWithCredit env process a (i_ID iv)
        else if TrimSpace m = ManualMethodBankTransfer then payWithGateway gws env a iv GatewayManual (TrimSpace m)
        else payWithGateway gws env a iv GatewayDuitku (TrimSpace m)) w = (r, w')"
  have "knows (i_ID iv) w" using h row_Some_in [OF h(2)] by (simp add: knows_def)
  then have "books w1" if "payWithGateway gws env a iv gc k w = (r1, w1)" for gc k r1 w1
    using maintainsD [OF payWithGateway_knows _ that] by (simp add: knows_def)
  moreover have "books w1" if "payWithCredit env process a (i_ID iv) w = (r1, w1)" for r1 w1
    using maintainsD [OF payWithCredit_books h(1) that] .
  ultimately show "books w'" using run h(1) by (auto simp only: eff_simps prod.inject split: if_splits)
qed (erule owned_row, intro frame_rules payWithCredit_unit, simp_all)

end

end
