(* ===== verification/Invoicing.thy ===== *)
theory Invoicing
  imports Billing
begin

text \<open>
  What \<open>CreateInvoice\<close> reads, checks and writes: the settings as values, the tax of the discounted
  sum, and the rows of a created invoice with its numbered lines.
\<close>

section \<open>A created invoice\<close>

lemma each_step: "f x s = (Inr (), s') \<Longrightarrow> each f (x # xs) s = each f xs s'"
  by (simp add: bnd_def)

fun numbered :: "int \<Rightarrow> int \<Rightarrow> InvoiceItem list \<Rightarrow> InvoiceItem list" where
  "numbered iid k [] = []"
| "numbered iid k (it # its) = it\<lparr>ii_InvoiceID := iid, ii_ID := k + 1\<rparr> # numbered iid (k + 1) its"

lemma bnd_invoice_AddItem [eff_simps]: "bnd (invoice_AddItem it) f w = f (it\<lparr>ii_ID := w_seq w TInvoiceItems + 1\<rparr>)
    (w\<lparr>w_seq := (w_seq w)(TInvoiceItems := w_seq w TInvoiceItems + 1),
       w_db := (w_db w)\<lparr>db_invoice_items := db_invoice_items (w_db w) @ [it\<lparr>ii_ID := w_seq w TInvoiceItems + 1\<rparr>]\<rparr>\<rparr>)"
  by (simp add: invoice_AddItem_def bnd_assoc eff_simps)

lemma add_items_run:
  "each (\<lambda>it. bnd (invoice_AddItem (it\<lparr>ii_InvoiceID := iid\<rparr>)) (\<lambda>_. ret ())) its w =
    (Inr (), w\<lparr>w_seq := (w_seq w)(TInvoiceItems := w_seq w TInvoiceItems + int (length its)),
       w_db := (w_db w)\<lparr>db_invoice_items := db_invoice_items (w_db w) @ numbered iid (w_seq w TInvoiceItems) its\<rparr>\<rparr>)"
proof (induction its arbitrary: w)
  case Nil
  then show ?case by (simp add: ret_def)
next
  case (Cons it its)
  let ?w1 = "w\<lparr>w_seq := (w_seq w)(TInvoiceItems := w_seq w TInvoiceItems + 1), w_db := (w_db w)\<lparr>db_invoice_items :=
      db_invoice_items (w_db w) @ [it\<lparr>ii_InvoiceID := iid, ii_ID := w_seq w TInvoiceItems + 1\<rparr>]\<rparr>\<rparr>"
  have step: "bnd (invoice_AddItem (it\<lparr>ii_InvoiceID := iid\<rparr>)) (\<lambda>_. ret ()) w = (Inr (), ?w1)"
    by (simp add: eff_simps)
  show ?case by (subst each_step [where s' = ?w1]) (rule step, simp only: Cons.IH, simp add: fun_upd_def ac_simps cong: if_cong)
qed

lemma invoice_Create_run: "invoice_Create env iv its w =
   (if \<exists>i \<in> set (db_invoices (w_db w)). i_InvoiceNumber i = i_InvoiceNumber iv
    then (Inl (RawErr ''billing: create invoice''), w\<lparr>w_seq := (w_seq w)(TInvoices := w_seq w TInvoices + 1)\<rparr>)
    else (Inr (iv\<lparr>i_ID := w_seq w TInvoices + 1, i_CreatedAt := e_now env\<rparr>),
      w\<lparr>w_seq := (w_seq w)(TInvoices := w_seq w TInvoices + 1, TInvoiceItems := w_seq w TInvoiceItems + int (length its)),
        w_db := (w_db w)\<lparr>db_invoices := db_invoices (w_db w) @ [iv\<lparr>i_ID := w_seq w TInvoices + 1, i_CreatedAt := e_now env\<rparr>],
          db_invoice_items := db_invoice_items (w_db w) @ numbered (w_seq w TInvoices + 1) (w_seq w TInvoiceItems) its\<rparr>\<rparr>))"
  by (simp add: invoice_Create_def eff_simps Let_def bnd_run [of "each _ _"] add_items_run)

definition next_number :: "string \<Rightarrow> db \<Rightarrow> int" where
  "next_number scope d = (case db_counters d scope of None \<Rightarrow> 1 | Some n \<Rightarrow> n + 1)"

lemma bnd_NextNumber [eff_simps]: "bnd (NextNumber scope) f w = f (next_number scope (w_db w))
    (w\<lparr>w_db := (w_db w)\<lparr>db_counters := (db_counters (w_db w))(scope := Some (next_number scope (w_db w)))\<rparr>\<rparr>)"
  by (simp add: NextNumber_def bnd_assoc eff_simps next_number_def)

lemma GetInt_run: "GetInt key dflt w = (Inr (case db_settings (w_db w) key of None \<Rightarrow> dflt
    | Some j \<Rightarrow> (case json_int j of None \<Rightarrow> dflt | Some n \<Rightarrow> n)), w)"
  by (simp add: GetInt_def settings_get_def eff_simps)

lemma GetBool_run: "GetBool key dflt w = (Inr (case db_settings (w_db w) key of None \<Rightarrow> dflt
    | Some j \<Rightarrow> (case json_bool j of None \<Rightarrow> dflt | Some n \<Rightarrow> n)), w)"
  by (simp add: GetBool_def settings_get_def eff_simps)

definition setting_int :: "db \<Rightarrow> string \<Rightarrow> int \<Rightarrow> int" where
  "setting_int d key dflt = (case db_settings d key of None \<Rightarrow> dflt
    | Some j \<Rightarrow> (case json_int j of None \<Rightarrow> dflt | Some n \<Rightarrow> n))"

definition setting_bool :: "db \<Rightarrow> string \<Rightarrow> bool \<Rightarrow> bool" where
  "setting_bool d key dflt = (case db_settings d key of None \<Rightarrow> dflt
    | Some j \<Rightarrow> (case json_bool j of None \<Rightarrow> dflt | Some n \<Rightarrow> n))"

lemma bnd_on_err_GetInt [eff_simps]: "bnd (on_err g (GetInt key dflt)) f w = f (setting_int (w_db w) key dflt) w"
  by (simp add: bnd_def on_err_def GetInt_run setting_int_def)

lemma bnd_on_err_GetBool [eff_simps]: "bnd (on_err g (GetBool key dflt)) f w = f (setting_bool (w_db w) key dflt) w"
  by (simp add: bnd_def on_err_def GetBool_run setting_bool_def)

definition tax_of :: "db \<Rightarrow> int \<Rightarrow> int \<Rightarrow> int \<Rightarrow> float64 \<times> int \<times> int" where
  "tax_of d subtotal taxedSum discount =
    (let total = i64 (subtotal - discount); rate = setting_int d ''billing.tax_rate'' 11;
         inclusive = setting_bool d ''billing.tax_inclusive'' False in
     if setting_bool d ''billing.tax_enabled'' False \<and> 0 < taxedSum \<and> 0 < rate then
       let taxTotal = tr_Tax (CalcTax (max 0 (i64 (taxedSum - discount))) (float_of_int rate) inclusive)
       in (float_of_int rate, taxTotal, if inclusive then total else i64 (total + taxTotal))
     else (0, 0, total))"

lemma bnd_invoice_tax [eff_simps]: "bnd (invoice_tax s t disc) f w = f (tax_of (w_db w) s t disc) w"
  by (simp add: invoice_tax_def tax_of_def bnd_assoc eff_simps Let_def max_def)

lemma bnd_clients_GetByID [eff_simps]: "bnd (clients_GetByID cid) f w =
    (case live_client cid (w_db w) of None \<Rightarrow> (Inl (NotFound ''client''), w) | Some c \<Rightarrow> f c w)"
  by (simp add: clients_GetByID_def bnd_assoc eff_simps live_client_def split: option.splits)

text \<open>What \<open>CreateInvoice\<close> checks before it writes, and the row it writes.\<close>

definition due_of :: "env \<Rightarrow> CreateInvoiceInput \<Rightarrow> db \<Rightarrow> time" where
  "due_of env inp d = dateOnly (if IsZero (cin_DueDate inp)
     then AddDays (dateOnly (e_now env)) (setting_int d ''billing.invoice_due_days'' 3) else cin_DueDate inp)"

definition new_invoice :: "env \<Rightarrow> CreateInvoiceInput \<Rightarrow> int \<Rightarrow> int \<Rightarrow> db \<Rightarrow> int \<Rightarrow> Invoice" where
  "new_invoice env inp subtotal taxedSum d n =
     (let discount = min (cin_Discount inp) subtotal in
      case tax_of d subtotal taxedSum discount of (taxRate, taxTotal, tot) \<Rightarrow>
       \<lparr>i_ID = n, i_InvoiceNumber = FormatInvoiceNumber (e_now env) (next_number (InvoiceCounterScope (e_now env)) d),
        i_ClientID = cin_ClientID inp, i_Status = InvoiceUnpaid,
        i_Subtotal = subtotal, i_Discount = discount, i_TaxRate = taxRate, i_TaxTotal = taxTotal,
        i_CreditApplied = 0, i_Total = tot, i_Currency = ''IDR'', i_DueDate = due_of env inp d,
        i_PaidAt = None, i_Notes = cin_Notes inp, i_PDFObjectKey = [], i_CreatedAt = e_now env\<rparr>)"

lemma WithinTx_cases:
  assumes "WithinTx m w = (r, w')"
  obtains w1 where "m (w\<lparr>w_intx := True\<rparr>) = (r, w1)"
    and "w' = (if w_intx w then w1 else w1\<lparr>w_db := (case r of Inl _ \<Rightarrow> w_db w | Inr _ \<Rightarrow> w_db w1), w_intx := False\<rparr>)"
proof -
  show ?thesis
  proof (cases "w_intx w")
    case True
    then have e: "w\<lparr>w_intx := True\<rparr> = w" by (cases w) simp
    have "m (w\<lparr>w_intx := True\<rparr>) = (r, w')" unfolding e using assms True by (simp add: WithinTx_def)
    then show ?thesis using that [of w'] True by simp
  next
    case False
    then show ?thesis using assms that by (auto simp: WithinTx_def split: prod.splits sum.splits)
  qed
qed

lemma write_invoice_returns:
  assumes "on_err normalize_err (WithinTx (bnd (NextNumber scope) (\<lambda>n.
     invoice_Create env (iv\<lparr>i_InvoiceNumber := num n\<rparr>) its))) w = (Inr iv', w')"
  shows "iv' = iv\<lparr>i_InvoiceNumber := num (next_number scope (w_db w)), i_ID := w_seq w TInvoices + 1, i_CreatedAt := e_now env\<rparr>"
    and "i_InvoiceNumber iv' \<notin> i_InvoiceNumber ` set (db_invoices (w_db w))"
    and "w' = w\<lparr>w_seq := (w_seq w)(TInvoices := w_seq w TInvoices + 1, TInvoiceItems := w_seq w TInvoiceItems + int (length its)),
       w_db := (w_db w)\<lparr>db_invoices := db_invoices (w_db w) @ [iv'],
         db_invoice_items := db_invoice_items (w_db w) @ numbered (i_ID iv') (w_seq w TInvoiceItems) its,
         db_counters := (db_counters (w_db w))(scope := Some (next_number scope (w_db w)))\<rparr>\<rparr>"
proof -
  have "WithinTx (bnd (NextNumber scope) (\<lambda>n. invoice_Create env (iv\<lparr>i_InvoiceNumber := num n\<rparr>) its)) w = (Inr iv', w')"
    using assms by (auto simp: on_err_def split: prod.splits sum.splits)
  then obtain w1 where w1: "bnd (NextNumber scope) (\<lambda>n. invoice_Create env (iv\<lparr>i_InvoiceNumber := num n\<rparr>) its) (w\<lparr>w_intx := True\<rparr>) = (Inr iv', w1)"
    and w': "w' = (if w_intx w then w1 else w1\<lparr>w_db := w_db w1, w_intx := False\<rparr>)"
    by (rule WithinTx_cases) simp
  note r = w1 [unfolded bnd_NextNumber invoice_Create_run]
  show "iv' = iv\<lparr>i_InvoiceNumber := num (next_number scope (w_db w)), i_ID := w_seq w TInvoices + 1, i_CreatedAt := e_now env\<rparr>"
    and "i_InvoiceNumber iv' \<notin> i_InvoiceNumber ` set (db_invoices (w_db w))"
    using r by (auto split: if_splits)
  show "w' = w\<lparr>w_seq := (w_seq w)(TInvoices := w_seq w TInvoices + 1, TInvoiceItems := w_seq w TInvoiceItems + int (length its)),
       w_db := (w_db w)\<lparr>db_invoices := db_invoices (w_db w) @ [iv'],
         db_invoice_items := db_invoice_items (w_db w) @ numbered (i_ID iv') (w_seq w TInvoiceItems) its,
         db_counters := (db_counters (w_db w))(scope := Some (next_number scope (w_db w)))\<rparr>\<rparr>"
    unfolding w' using r by (cases w) (auto split: if_splits)
qed

lemma CreateInvoice_returns:
  assumes "CreateInvoice env inp w = (Inr iv, w')"
  obtains s t where "0 < cin_ClientID inp" "cin_Items inp \<noteq> []" "0 \<le> cin_Discount inp"
    and "sum_items (cin_Items inp) (0, 0) = Inr (s, t)" and "live_client (cin_ClientID inp) (w_db w) \<noteq> None"
    and "iv = new_invoice env inp s t (w_db w) (w_seq w TInvoices + 1)"
    and "i_InvoiceNumber iv \<notin> i_InvoiceNumber ` set (db_invoices (w_db w))"
    and "w' = w\<lparr>w_seq := (w_seq w)(TInvoices := w_seq w TInvoices + 1, TInvoiceItems := w_seq w TInvoiceItems + int (length (cin_Items inp))),
       w_db := (w_db w)\<lparr>db_invoices := db_invoices (w_db w) @ [iv],
         db_invoice_items := db_invoice_items (w_db w) @ numbered (i_ID iv) (w_seq w TInvoiceItems) (invoice_items_of (cin_Items inp)),
         db_counters := (db_counters (w_db w))(InvoiceCounterScope (e_now env) := Some (next_number (InvoiceCounterScope (e_now env)) (w_db w))),
         db_audit := db_audit (w_db w) @ [(0, ''invoice.create'', ''invoice'', i_ID iv)]\<rparr>\<rparr>"
proof -
  obtain st where st: "sum_items (cin_Items inp) (0, 0) = Inr st"
    using assms by (cases "sum_items (cin_Items inp) (0, 0)") (auto simp: CreateInvoice_def eff_simps split: if_splits)
  obtain s t where [simp]: "st = (s, t)" by (cases st)
  obtain c where c: "live_client (cin_ClientID inp) (w_db w) = Some c"
    using assms st by (cases "live_client (cin_ClientID inp) (w_db w)") (auto simp: CreateInvoice_def eff_simps split: if_splits)
  show ?thesis
  proof -
    let ?wr = "on_err normalize_err (WithinTx (bnd (NextNumber (InvoiceCounterScope (e_now env))) (\<lambda>n. invoice_Create env
       ((new_invoice env inp s t (w_db w) 0)\<lparr>i_CreatedAt := 0, i_InvoiceNumber := FormatInvoiceNumber (e_now env) n\<rparr>) (invoice_items_of (cin_Items inp)))))"
    have "bnd ?wr (\<lambda>iv. bnd (audit_Log 0 ''invoice.create'' ''invoice'' (i_ID iv)) (\<lambda>_. ret iv)) w = (Inr iv, w')"
      using assms st c
      by (auto simp: CreateInvoice_def bnd_assoc eff_simps Let_def new_invoice_def due_of_def min_def split: if_splits prod.splits)
    then obtain w1 where wr: "?wr w = (Inr iv, w1)" and w': "w' = w1\<lparr>w_db := (w_db w1)\<lparr>db_audit :=
        db_audit (w_db w1) @ [(0, ''invoice.create'', ''invoice'', i_ID iv)]\<rparr>\<rparr>"
      by (rule bnd_InrE) (auto simp: eff_simps)
    note r = write_invoice_returns [OF wr]
    have iv: "iv = new_invoice env inp s t (w_db w) (w_seq w TInvoices + 1)"
      using r(1) by (simp add: new_invoice_def Let_def split: prod.splits)
    have g: "0 < cin_ClientID inp" "cin_Items inp \<noteq> []" "0 \<le> cin_Discount inp"
      using assms by (auto simp: CreateInvoice_def eff_simps split: if_splits)
    show ?thesis
      by (rule that [of s t]) (use g st c iv r(2,3) w' in \<open>simp_all add: invoice_items_of_def\<close>)
  qed
qed

lemma i64_add_left: "i64 (i64 x + y) = i64 (x + y)"
proof -
  have "((x + 2 ^ 63) mod 2 ^ 64 + y) mod 2 ^ 64 = (x + 2 ^ 63 + y) mod (2 ^ 64 :: int)" by (rule mod_add_left_eq)
  then show ?thesis unfolding i64_def by (simp add: algebra_simps)
qed

lemma sum_items_sums:
  assumes "sum_items its (a, b) = Inr (s, t)"
  shows "(\<forall>it \<in> set its. 0 \<le> cii_Amount it) \<and> s = sum64 a (map cii_Amount its)
    \<and> t = sum64 b (map cii_Amount (filter cii_Taxed its))"
  using assms by (induction its arbitrary: a b) (auto split: if_splits)

lemma numbered_lines:
  "map ii_Amount (numbered iid k (invoice_items_of its)) = map cii_Amount its"
  "\<forall>x \<in> set (numbered iid k its'). ii_InvoiceID x = iid"
  "length (numbered iid k its') = length its'"
proof -
  show "map ii_Amount (numbered iid k (invoice_items_of its)) = map cii_Amount its"
    unfolding invoice_items_of_def by (induction its arbitrary: k) simp_all
  show "\<forall>x \<in> set (numbered iid k its'). ii_InvoiceID x = iid" "length (numbered iid k its') = length its'"
    by (induction its' arbitrary: k) simp_all
qed

lemma new_invoice_fields:
  "i_ClientID (new_invoice env inp s t d n) = cin_ClientID inp" "i_Status (new_invoice env inp s t d n) = InvoiceUnpaid"
  "i_Subtotal (new_invoice env inp s t d n) = s" "i_Discount (new_invoice env inp s t d n) = min (cin_Discount inp) s"
  "i_CreditApplied (new_invoice env inp s t d n) = 0" "i_PaidAt (new_invoice env inp s t d n) = None"
  "i_ID (new_invoice env inp s t d n) = n"
  "i_Total (new_invoice env inp s t d n) = (if setting_bool d ''billing.tax_inclusive'' False then i64 (s - min (cin_Discount inp) s)
     else i64 (s - min (cin_Discount inp) s + i_TaxTotal (new_invoice env inp s t d n)))"
  by (auto simp: new_invoice_def tax_of_def Let_def i64_add_left split: prod.splits)

lemma CreateInvoice_exact_lemma:
  assumes "CreateInvoice env inp w = (Inr iv, w')" and "sum_list (map cii_Amount (cin_Items inp)) < 2 ^ 63"
  shows "i_Status iv = InvoiceUnpaid \<and> i_ClientID iv = cin_ClientID inp \<and> i_CreditApplied iv = 0
    \<and> i_Subtotal iv = sum_list (map cii_Amount (cin_Items inp)) \<and> i_Discount iv = min (cin_Discount inp) (i_Subtotal iv)
    \<and> 0 \<le> i_Discount iv
    \<and> i_Total iv = (if setting_bool (w_db w) ''billing.tax_inclusive'' False then i_Subtotal iv - i_Discount iv
        else i64 (i_Subtotal iv - i_Discount iv + i_TaxTotal iv))
    \<and> db_invoices (w_db w') = db_invoices (w_db w) @ [iv]
    \<and> i_InvoiceNumber iv \<notin> i_InvoiceNumber ` set (db_invoices (w_db w))
    \<and> (\<exists>lines. db_invoice_items (w_db w') = db_invoice_items (w_db w) @ lines
        \<and> map ii_Amount lines = map cii_Amount (cin_Items inp) \<and> (\<forall>x \<in> set lines. ii_InvoiceID x = i_ID iv))"
proof (rule CreateInvoice_returns [OF assms(1)])
  fix s t
  assume h: "0 \<le> cin_Discount inp" "sum_items (cin_Items inp) (0, 0) = Inr (s, t)"
    "iv = new_invoice env inp s t (w_db w) (w_seq w TInvoices + 1)"
    "i_InvoiceNumber iv \<notin> i_InvoiceNumber ` set (db_invoices (w_db w))"
    "w' = w\<lparr>w_seq := (w_seq w)(TInvoices := w_seq w TInvoices + 1, TInvoiceItems := w_seq w TInvoiceItems + int (length (cin_Items inp))),
       w_db := (w_db w)\<lparr>db_invoices := db_invoices (w_db w) @ [iv],
         db_invoice_items := db_invoice_items (w_db w) @ numbered (i_ID iv) (w_seq w TInvoiceItems) (invoice_items_of (cin_Items inp)),
         db_counters := (db_counters (w_db w))(InvoiceCounterScope (e_now env) := Some (next_number (InvoiceCounterScope (e_now env)) (w_db w))),
         db_audit := db_audit (w_db w) @ [(0, ''invoice.create'', ''invoice'', i_ID iv)]\<rparr>\<rparr>"
  note nn = sum_items_sums [OF h(2)]
  then have s: "s = sum_list (map cii_Amount (cin_Items inp))" using sum64_exact [of 0 "map cii_Amount (cin_Items inp)"] assms(2) by auto
  have "0 \<le> s" unfolding s using nn by (intro sum_list_nonneg) auto
  then have "in_i64 (s - min (cin_Discount inp) s)" using h(1) assms(2) s by (auto simp: in_i64_def min_def)
  then have i: "i64 (s - min (cin_Discount inp) s) = s - min (cin_Discount inp) s" by (rule i64_id)
  have "\<exists>lines. db_invoice_items (w_db w') = db_invoice_items (w_db w) @ lines
      \<and> map ii_Amount lines = map cii_Amount (cin_Items inp) \<and> (\<forall>x \<in> set lines. ii_InvoiceID x = i_ID iv)"
    using h(5) numbered_lines by (intro exI [of _ "numbered (i_ID iv) (w_seq w TInvoiceItems) (invoice_items_of (cin_Items inp))"]) auto
  then show ?thesis using h(1,4,5) s i \<open>0 \<le> s\<close> unfolding h(3) by (simp add: new_invoice_fields)
qed

lemma CreateInvoice_accepts:
  assumes "0 < cin_ClientID inp" and "cin_Items inp \<noteq> []" and "0 \<le> cin_Discount inp"
    and "\<forall>it \<in> set (cin_Items inp). 0 \<le> cii_Amount it" and "live_client (cin_ClientID inp) (w_db w) \<noteq> None"
    and "FormatInvoiceNumber (e_now env) (next_number (InvoiceCounterScope (e_now env)) (w_db w)) \<notin> i_InvoiceNumber ` set (db_invoices (w_db w))"
  shows "\<exists>iv w'. CreateInvoice env inp w = (Inr iv, w')"
proof -
  have "\<exists>s t. sum_items its (a, b) = Inr (s, t)" if "\<forall>it \<in> set its. 0 \<le> cii_Amount it" for its a b
    using that by (induction its arbitrary: a b) auto
  then obtain s t where st: "sum_items (cin_Items inp) (0, 0) = Inr (s, t)" using assms(4) by blast
  obtain c where c: "live_client (cin_ClientID inp) (w_db w) = Some c" using assms(5) by blast
  have fresh: "i_InvoiceNumber i \<noteq> FormatInvoiceNumber (e_now env) (next_number (InvoiceCounterScope (e_now env)) (w_db w))"
    if "i \<in> set (db_invoices (w_db w))" for i using assms(6) that by (metis imageI)
  have wr: "\<exists>iv' w'. bnd (on_err normalize_err (WithinTx (bnd (NextNumber (InvoiceCounterScope (e_now env))) (\<lambda>n.
       invoice_Create env (g n) its)))) (\<lambda>iv. bnd (audit_Log 0 x y (i_ID iv)) (\<lambda>_. ret iv)) w = (Inr iv', w')"
    if "\<And>n. i_InvoiceNumber (g n) = FormatInvoiceNumber (e_now env) n" for g its x y
    using fresh that by (auto simp: bnd_def on_err_def WithinTx_def bnd_NextNumber [unfolded bnd_def] invoice_Create_run audit_Log_run ret_def
        split: prod.splits sum.splits)
  show ?thesis using assms(1-3) st c
    by (simp add: CreateInvoice_def bnd_assoc eff_simps Let_def split: prod.splits) (intro allI impI conjI wr; simp)
qed

end
