(* ===== verification/Orders.thy ===== *)
theory Orders
  imports Checkout Integrity Invoicing
begin

text \<open>
  What checkout and the order lifecycle leave alone, that they keep the books, and that they
  oversell neither stock nor coupons.
\<close>

section \<open>Reads\<close>

text \<open>A computation that only reads leaves the whole state as it was.\<close>

named_theorems read_rules \<open>what only reads\<close>

lemma frame_read: "keeps (=) m \<Longrightarrow> keeps (frame f) m"
  by (simp add: keeps_def frame_def)

lemma read_state: "keeps (=) m \<Longrightarrow> m w = (r, w') \<Longrightarrow> w' = w"
  by (auto dest: keepsD)

lemma read_basic [read_rules]: "keeps (=) (ret x)" "keeps (=) (fail e)" "keeps (=) (guard b e)" "keeps (=) (q_db g)"
  by (simp_all add: keeps_ret keeps_fail keeps_guard q_db_def keeps_reads)

lemma read_compose [read_rules]:
  "keeps (=) m \<Longrightarrow> (\<And>x. keeps (=) (g x)) \<Longrightarrow> keeps (=) (bnd m g)"
  "keeps (=) m \<Longrightarrow> keeps (=) (attempt m)" "keeps (=) m \<Longrightarrow> keeps (=) (on_err h m)"
  "(\<And>x b. keeps (=) (k x b)) \<Longrightarrow> keeps (=) (foldE k xs b)"
  by (simp_all add: keeps_bnd keeps_attempt keeps_on_err keeps_foldE)

lemma read_cases [read_rules]:
  "keeps (=) m \<Longrightarrow> keeps (=) n \<Longrightarrow> keeps (=) (if b then m else n)"
  "keeps (=) m \<Longrightarrow> (\<And>x. keeps (=) (k x)) \<Longrightarrow> keeps (=) (case y of None \<Rightarrow> m | Some x \<Rightarrow> k x)"
  "(\<And>x. keeps (=) (f x)) \<Longrightarrow> (\<And>x. keeps (=) (g x)) \<Longrightarrow> keeps (=) (case z of Inl x \<Rightarrow> f x | Inr x \<Rightarrow> g x)"
  "(\<And>x y. keeps (=) (h x y)) \<Longrightarrow> keeps (=) (case p of (x, y) \<Rightarrow> h x y)"
  by (auto split: option.split sum.split prod.split)

lemma read_shared [read_rules]: "keeps (=) m \<Longrightarrow> keeps (=) (optional m)" "keeps (=) (need e x)" "keeps (=) (from_result r)"
  "keeps (=) (GetInt k v)" "keeps (=) (GetBool k b)" "keeps (=) (GetJSON dec k u)" "keeps (=) (val_Struct fds)"
  "keeps (=) (clients_GetByID cid)" "keeps (=) (users_GetByID uid)" "keeps (=) (product_GetByID pid)"
  unfolding optional_def need_def from_result_def GetInt_def GetBool_def GetJSON_def settings_get_def val_Struct_def
    clients_GetByID_def users_GetByID_def product_GetByID_def Let_def
  by (intro read_rules; assumption?)+

lemma read_catalogue [read_rules]:
  "keeps (=) (GetPricing p c)" "keeps (=) (ListOptionValues i)" "keeps (=) (ListSpecs p)"
  "keeps (=) (GetSpecPricing i c)" "keeps (=) (GetByTLD t)" "keeps (=) (premium_GetByName nm)"
  "keeps (=) (GetByTLDAndLength t n)" "keeps (=) addons_ListActive" "keeps (=) (coupon_GetByCode code)"
  "keeps (=) (CountByClientSince cid tm)" "keeps (=) (InvoiceIDForOrder oid)"
  unfolding GetPricing_def ListOptionValues_def ListSpecs_def GetSpecPricing_def GetByTLD_def premium_GetByName_def
    GetByTLDAndLength_def addons_ListActive_def coupon_GetByCode_def CountByClientSince_def InvoiceIDForOrder_def
  by (intro read_rules)+

lemma read_product_parts [read_rules]:
  "keeps (=) (priceSpec sp q u c)" "keeps (=) (planOption c sel acc)" "keeps (=) (planSpec c reqs sp acc3)"
proof -
  show ps: "keeps (=) (priceSpec sp q u c)" for sp q u unfolding priceSpec_def Let_def by (intro read_rules)
  show "keeps (=) (planOption c sel acc)" unfolding planOption_def by (intro read_rules)
  show "keeps (=) (planSpec c reqs sp acc3)" unfolding planSpec_def Let_def by (intro read_rules ps)
qed

lemma read_planProduct [read_rules]: "keeps (=) (planSpecs p c reqs acc)" "keeps (=) (planProduct it)"
proof -
  show ps: "keeps (=) (planSpecs p c reqs acc)" for p c reqs acc unfolding planSpecs_def by (intro read_rules)
  show "keeps (=) (planProduct it)" unfolding planProduct_def product_line_def Let_def by (intro read_rules ps)
qed

lemma read_domain_parts [read_rules]:
  "keeps (=) (premiumFor nm ext)" "keeps (=) (domainAddonsTotal ks)" "keeps (=) (domain_product pid)"
  "keeps (=) (domain_available ca tr nm)" "keeps (=) (domain_epp env tr code)"
  unfolding premiumFor_def domainAddonsTotal_def domain_product_def domain_available_def domain_epp_def Let_def
  by (intro read_rules)+

lemma read_planDomain [read_rules]: "keeps (=) (planDomain env ca it)"
  unfolding planDomain_def domain_on_sale_def domain_line_def Let_def by (intro read_rules)

lemma read_planItem [read_rules]: "keeps (=) (planItem env ca it)"
  unfolding planItem_def by (cases "item_type_of (oir_ItemType it)") (simp_all add: read_rules)

lemma read_checkout [read_rules]:
  "keeps (=) (buildPlans env ca its)" "keeps (=) (loadCoupon code now)" "keeps (=) (fraudReason cid em now)"
  "keeps (=) (order_tax s disc)" "keeps (=) (checkout_client ck cid ip req)"
  unfolding buildPlans_def planStep_def loadCoupon_def fraudReason_def order_tax_def checkout_client_def Let_def
  by (intro read_rules)+

lemma read_checkout_parts [read_rules]:
  "keeps (=) (checkout_plans env ck client its)" "keeps (=) (checkout_coupon env code plans)"
  unfolding checkout_plans_def checkout_coupon_def by (intro read_rules)+

section \<open>Frames\<close>

lemmas frame_checkout_reads [frame_rules] = read_checkout [THEN frame_read] read_checkout_parts [THEN frame_read]
  read_catalogue [THEN frame_read]

text \<open>What a sale may write beside orders and invoices: stock and coupon usage.\<close>

definition no_shelf :: "(db \<Rightarrow> 'p) \<Rightarrow> bool" where
  "no_shelf f \<longleftrightarrow> (\<forall>d x. f (d\<lparr>db_products := x\<rparr>) = f d) \<and> (\<forall>d x. f (d\<lparr>db_coupons := x\<rparr>) = f d)"

lemma frame_shelf [frame_rules]:
  "no_shelf f \<Longrightarrow> keeps (frame f) (DecrementStock pid)" "no_shelf f \<Longrightarrow> keeps (frame f) (RestoreStock pid)"
  "no_shelf f \<Longrightarrow> keeps (frame f) (IncrementUsage cid)"
  unfolding DecrementStock_def RestoreStock_def IncrementUsage_def set_stock_def
  by (intro frame_rules; simp add: no_shelf_def)+

lemma frame_take [frame_rules]: "no_shelf f \<Longrightarrow> keeps (frame f) (take_stock p)"
  "no_shelf f \<Longrightarrow> keeps (frame f) (use_coupon c)" "no_shelf f \<Longrightarrow> keeps (frame f) (restore_item it)"
  unfolding take_stock_def use_coupon_def restore_item_def by (intro frame_rules; assumption)+

lemma frame_order_Create [frame_rules]: "no_fulfilment f \<Longrightarrow> keeps (frame f) (order_Create env ord its)"
  unfolding order_Create_def order_AddItem_def Let_def by (intro frame_rules; simp add: no_fulfilment_def)

lemma frame_flag_fraud [frame_rules]:
  "no_fulfilment f \<Longrightarrow> no_invoicing f \<Longrightarrow> keeps (frame f) (flag_fraud ord iv)"
  unfolding flag_fraud_def by (intro frame_rules)

lemma frame_orderTx [frame_rules]:
  "no_fulfilment f \<Longrightarrow> no_invoicing f \<Longrightarrow> no_logs f \<Longrightarrow> no_shelf f \<Longrightarrow>
    keeps (frame f) (orderTx env ord plans cp disc due fr)"
  unfolding orderTx_def by (intro frame_rules no_invoicingD)

lemma frame_after_checkout [frame_rules]:
  "(\<And>d x. f (d\<lparr>db_transactions := x\<rparr>) = f d) \<Longrightarrow> no_fulfilment f \<Longrightarrow> no_invoicing f \<Longrightarrow> no_logs f \<Longrightarrow>
    (\<And>i. keeps (frame f) (process i)) \<Longrightarrow> keeps (frame f) (after_checkout env process uid plans fr ord iv)"
  unfolding after_checkout_def by (intro frame_rules)

lemma frame_CreateOrder [frame_rules]:
  "(\<And>d x. f (d\<lparr>db_transactions := x\<rparr>) = f d) \<Longrightarrow> no_fulfilment f \<Longrightarrow> no_invoicing f \<Longrightarrow> no_logs f \<Longrightarrow> no_shelf f \<Longrightarrow>
    (\<And>i. keeps (frame f) (process i)) \<Longrightarrow> keeps (frame f) (CreateOrder ck env process cid ip req)"
  unfolding CreateOrder_def Let_def by (intro frame_rules)

lemma frame_Accept [frame_rules]:
  "no_fulfilment f \<Longrightarrow> no_logs f \<Longrightarrow> keeps (frame f) (Accept env a oid)"
  unfolding Accept_def by (intro frame_rules)

lemma frame_terminalTx [frame_rules]:
  "no_fulfilment f \<Longrightarrow> no_invoicing f \<Longrightarrow> no_shelf f \<Longrightarrow> keeps (frame f) (terminalTx oid st its)"
  unfolding terminalTx_def cancel_order_invoice_def by (intro frame_rules)

lemma frame_setTerminalStatus [frame_rules]:
  "no_fulfilment f \<Longrightarrow> no_invoicing f \<Longrightarrow> no_shelf f \<Longrightarrow> no_logs f \<Longrightarrow> keeps (frame f) (setTerminalStatus a oid st act)"
  unfolding setTerminalStatus_def by (intro frame_rules)

section \<open>Books\<close>

lemma shelf_money [simp]: "no_shelf money" "no_fulfilment money"
  using no_dispatch_money by (simp_all add: no_shelf_def money_def no_dispatch_def)

lemma cancel_order_invoice_books: "keeps (maintains books) (cancel_order_invoice iid)"
proof (rule keepsI)
  fix w :: world
  have "keeps (frame (\<lambda>_. ())) (cancel_order_invoice iid)"
    unfolding cancel_order_invoice_def by (intro frame_rules; simp)
  then have "frame (\<lambda>_. ()) w (snd (cancel_order_invoice iid w))" by (simp add: keeps_def)
  moreover have "books (snd (cancel_order_invoice iid w))" if b: "books w"
  proof (cases "\<exists>iv. row i_ID iid (db_invoices (w_db w)) = Some iv \<and> InvoiceCanTransition (i_Status iv) InvoiceCancelled \<and> iid \<noteq> 0")
    case True
    then obtain iv where iv: "row i_ID iid (db_invoices (w_db w)) = Some iv" "InvoiceCanTransition (i_Status iv) InvoiceCancelled" "iid \<noteq> 0"
      by blast
    then have "cancel_order_invoice iid w = invoice_UpdateStatus iid InvoiceCancelled None w"
      by (simp add: cancel_order_invoice_def bnd_def optional_run invoice_GetByID_run)
    moreover obtain r w' where u: "invoice_UpdateStatus iid InvoiceCancelled None w = (r, w')"
      by (cases "invoice_UpdateStatus iid InvoiceCancelled None w")
    moreover have "books w'" by (rule UpdateStatus_books [OF b _ _ u]) (use iv in auto)
    ultimately show ?thesis by simp
  next
    case False
    then have "snd (cancel_order_invoice iid w) = w"
      by (cases "row i_ID iid (db_invoices (w_db w))")
        (auto simp: cancel_order_invoice_def bnd_def optional_run invoice_GetByID_run ret_def NotFound_def)
    then show ?thesis using b by simp
  qed
  ultimately show "maintains books w (snd (cancel_order_invoice iid w))" by (simp add: maintains_def frame_def)
qed

lemma setTerminalStatus_books: "keeps (maintains books) (setTerminalStatus a oid st act)"
proof -
  have "keeps (maintains books) (order_GetByID oid)" "keeps (maintains books) (order_GetItems oid)"
    "keeps (maintains books) (order_UpdateStatus oid s)" "keeps (maintains books) (InvoiceIDForOrder oid)"
    "keeps (maintains books) (restore_item it)" for s it
    by (intro inv_money frame_rules; simp)+
  then show ?thesis
    unfolding setTerminalStatus_def terminalTx_def by (intro books_rules cancel_order_invoice_books)
qed

text \<open>A created invoice can be cancelled: its row is the one that was returned.\<close>

lemma CreateInvoice_then_books:
  assumes "\<And>iv w r w'. books w \<Longrightarrow> row i_ID (i_ID iv) (db_invoices (w_db w)) = Some iv \<Longrightarrow> i_Status iv \<noteq> InvoicePaid \<Longrightarrow>
      f iv w = (r, w') \<Longrightarrow> books w'"
    and "\<And>iv. keeps (frame (\<lambda>_. ())) (f iv)"
  shows "keeps (maintains books) (bnd (CreateInvoice env inp) f)"
proof (rule keepsI)
  fix w :: world
  obtain r w' where run: "bnd (CreateInvoice env inp) f w = (r, w')" by (cases "bnd (CreateInvoice env inp) f w")
  have fr: "keeps (frame (\<lambda>_. ())) (bnd (CreateInvoice env inp) f)" by (intro frame_rules assms(2); simp)
  have "books w'" if b: "books w"
    using run
  proof (cases rule: bnd_cases)
    case (err e)
    then show ?thesis using maintainsD [OF CreateInvoice_books b] by blast
  next
    case (ok iv w1)
    have b1: "books w1" using maintainsD [OF CreateInvoice_books b ok(1)] .
    from ok(1) have row: "row i_ID (i_ID iv) (db_invoices (w_db w1)) = Some iv \<and> i_Status iv \<noteq> InvoicePaid"
    proof (rule CreateInvoice_returns)
      fix s t
      assume iv: "iv = new_invoice env inp s t (w_db w) (w_seq w TInvoices + 1)"
        and w1: "w1 = w\<lparr>w_seq := (w_seq w)(TInvoices := w_seq w TInvoices + 1, TInvoiceItems := w_seq w TInvoiceItems + int (length (cin_Items inp))),
       w_db := (w_db w)\<lparr>db_invoices := db_invoices (w_db w) @ [iv],
         db_invoice_items := db_invoice_items (w_db w) @ numbered (i_ID iv) (w_seq w TInvoiceItems) (invoice_items_of (cin_Items inp)),
         db_counters := (db_counters (w_db w))(InvoiceCounterScope (e_now env) := Some (next_number (InvoiceCounterScope (e_now env)) (w_db w))),
         db_audit := db_audit (w_db w) @ [(0, ''invoice.create'', ''invoice'', i_ID iv)]\<rparr>\<rparr>"
      have "distinct (map i_ID (db_invoices (w_db w1)))" using b1 by (simp add: books_def books_of_def)
      then have "row i_ID (i_ID iv) (db_invoices (w_db w1)) = Some iv" by (rule row_distinct) (simp add: w1)
      then show ?thesis using iv by (simp add: new_invoice_fields)
    qed
    then show ?thesis using assms(1) [OF b1 _ _ ok(2)] by blast
  qed
  then show "maintains books w (snd (bnd (CreateInvoice env inp) f w))"
    using keepsD [OF fr run] run by (simp add: maintains_def frame_def)
qed

lemma flag_fraud_books:
  assumes "books w" and "row i_ID (i_ID iv) (db_invoices (w_db w)) = Some iv" and "i_Status iv \<noteq> InvoicePaid"
    and "flag_fraud ord iv w = (r, w')"
  shows "books w'"
proof -
  have k: "keeps (frame money) (order_UpdateStatus (o_ID ord) s)" for s by (intro frame_rules; simp)
  from assms(4) [unfolded flag_fraud_def] show ?thesis
  proof (cases rule: bnd_cases)
    case (err e)
    then show ?thesis using assms(1) by (auto simp: TransitionOrder_def eff_simps split: if_splits)
  next
    case (ok s w1)
    then have w1: "w1 = w" by (auto simp: TransitionOrder_def eff_simps split: if_splits)
    from ok(2) show ?thesis
    proof (cases rule: bnd_cases)
      case (err e)
      then show ?thesis using maintainsD [OF inv_money [OF k] assms(1)] w1 by blast
    next
      case (ok u w2)
      have b2: "books w2" using maintainsD [OF inv_money [OF k] assms(1)] ok(1) w1 by blast
      have "db_invoices (w_db w2) = db_invoices (w_db w)"
        using keepsD [OF k ok(1)] w1 by (simp add: frame_def money_def)
      then have row2: "row i_ID (i_ID iv) (db_invoices (w_db w2)) = Some iv" using assms(2) by simp
      show ?thesis
      proof (cases "InvoiceCanTransition (i_Status iv) InvoiceCancelled")
        case True
        then obtain r1 where "invoice_UpdateStatus (i_ID iv) InvoiceCancelled None w2 = (r1, w')"
          using ok(2) by (auto simp: TransitionInvoice_def eff_simps bnd_def ret_def split: prod.splits sum.splits)
        then show ?thesis by (rule UpdateStatus_books [OF b2, rotated 2]) (use row2 assms(3) in auto)
      next
        case False
        then show ?thesis using ok(2) b2 by (auto simp: TransitionInvoice_def eff_simps)
      qed
    qed
  qed
qed

lemma orderTx_books: "keeps (maintains books) (orderTx env ord plans cp disc due fr)"
proof -
  have m: "keeps (maintains books) (order_Create env x its)" "keeps (maintains books) (each take_stock plans)"
    "keeps (maintains books) (use_coupon cp)" for x its
    by (intro inv_money frame_rules; simp)+
  have t: "keeps (frame (\<lambda>_. ())) (if fr then bnd (flag_fraud x iv) (\<lambda>(y, z). ret (y, its, z)) else ret (x, its, iv))" for x iv its
    by (intro frame_rules; simp)
  have b: "books w'" if "books w" "row i_ID (i_ID iv) (db_invoices (w_db w)) = Some iv" "i_Status iv \<noteq> InvoicePaid"
    "(if fr then bnd (flag_fraud x iv) (\<lambda>(y, z). ret (y, its, z)) else ret (x, its, iv)) w = (r, w')" for x iv its w r w'
    using that flag_fraud_books [OF that(1-3)]
    by (auto simp: bnd_def ret_def split: if_splits prod.splits sum.splits)
  show ?thesis unfolding orderTx_def
    by (intro books_rules m CreateInvoice_then_books t, erule (3) b)
qed

context paid_processor
begin

lemma after_checkout_books: "keeps (maintains books) (after_checkout env process uid plans fr ord iv)"
proof -
  have "keeps (maintains books) (ActivateOrder env oid)" for oid by (intro inv_money frame_rules; simp)
  then show ?thesis unfolding after_checkout_def by (intro books_rules ApplyPayment_books)
qed

lemma CreateOrder_books: "keeps (maintains books) (CreateOrder ck env process cid ip req)"
proof -
  have "keeps (maintains books) (checkout_client ck cid ip req)" "keeps (maintains books) (checkout_plans env ck client its)"
    "keeps (maintains books) (checkout_coupon env code plans)" "keeps (maintains books) (fraudReason cid em now)"
    "keeps (maintains books) (order_tax s disc)" for client its code plans em now s disc
    by (intro inv_money frame_rules)+
  then show ?thesis unfolding CreateOrder_def Let_def
    by (intro books_rules orderTx_books after_checkout_books)
qed

end

section \<open>The shelf\<close>

text \<open>
  Stock that is counted is never negative, and a coupon with a limit is never used more often
  than the limit.
\<close>

definition shelf_ok :: "Product list \<Rightarrow> Coupon list \<Rightarrow> bool" where
  "shelf_ok ps cs \<longleftrightarrow> distinct (map p_ID ps) \<and> distinct (map cp_ID cs)
     \<and> (\<forall>p \<in> set ps. p_StockEnabled p \<longrightarrow> 0 \<le> p_StockQty p)
     \<and> (\<forall>c \<in> set cs. cp_MaxUses c = 0 \<or> cp_UsedCount c \<le> cp_MaxUses c)"

definition shelf_inv :: "world \<Rightarrow> bool" where
  "shelf_inv w \<longleftrightarrow> shelf_ok (db_products (w_db w)) (db_coupons (w_db w))"

definition shelf :: "db \<Rightarrow> Product list \<times> Coupon list" where
  "shelf d = (db_products d, db_coupons d)"

lemma view_shelf: "view shelf shelf_inv"
  by (auto simp: view_def shelf_inv_def shelf_def)

lemma no_writes_shelf [simp]: "no_logs shelf" "no_invoicing shelf" "no_fulfilment shelf" "no_snipes shelf" "no_credit shelf"
  by (simp_all add: no_logs_def no_invoicing_def no_fulfilment_def no_snipes_def no_credit_def shelf_def)

lemma shelf_tx [simp]: "shelf (d\<lparr>db_transactions := x\<rparr>) = shelf d" "shelf (d\<lparr>db_counters := y\<rparr>) = shelf d"
  by (simp_all add: shelf_def)

lemma no_dispatch_shelf [simp]: "no_dispatch shelf"
  by (simp add: no_dispatch_def)

lemma keep_shelf: "keeps (frame shelf) m \<Longrightarrow> keeps (maintains shelf_inv) m"
  by (rule maintains_frame [OF view_shelf])

lemma shelf_WithinTx: "keeps (maintains shelf_inv) m \<Longrightarrow> keeps (maintains shelf_inv) (WithinTx m)"
  by (rule inv_WithinTx [OF view_stable [OF view_shelf]])

lemma set_stock_ok:
  assumes "shelf_ok ps cs" and "\<And>p. row p_ID pid ps = Some p \<Longrightarrow> p_StockEnabled p \<Longrightarrow> 0 \<le> g (p_StockQty p)"
  shows "shelf_ok (upd p_ID pid (\<lambda>p. p\<lparr>p_StockQty := g (p_StockQty p)\<rparr>) ps) cs"
proof -
  have "0 \<le> p_StockQty p" if "p \<in> set (upd p_ID pid (\<lambda>p. p\<lparr>p_StockQty := g (p_StockQty p)\<rparr>) ps)" "p_StockEnabled p" for p
    using upd_in [OF that(1)] that(2) assms row_distinct [of p_ID ps] by (auto simp: shelf_ok_def)
  then show ?thesis using assms(1) by (simp add: shelf_ok_def)
qed

lemma use_coupon_ok:
  assumes "shelf_ok ps cs" and "row cp_ID cid cs = Some c" and "cp_MaxUses c = 0 \<or> cp_UsedCount c < cp_MaxUses c"
  shows "shelf_ok ps (upd cp_ID cid (\<lambda>c. c\<lparr>cp_UsedCount := cp_UsedCount c + 1\<rparr>) cs)"
proof -
  have "cp_MaxUses x = 0 \<or> cp_UsedCount x \<le> cp_MaxUses x"
    if "x \<in> set (upd cp_ID cid (\<lambda>c. c\<lparr>cp_UsedCount := cp_UsedCount c + 1\<rparr>) cs)" for x
    using upd_in [OF that] assms row_distinct [of cp_ID cs] by (fastforce simp: shelf_ok_def)
  then show ?thesis using assms(1) by (simp add: shelf_ok_def)
qed

lemma shelf_statements:
  "keeps (maintains shelf_inv) (DecrementStock pid)" "keeps (maintains shelf_inv) (RestoreStock pid)"
  "keeps (maintains shelf_inv) (IncrementUsage cid)"
proof -
  show "keeps (maintains shelf_inv) (DecrementStock pid)"
    by (rule keepsI) (auto simp: DecrementStock_def eff_simps maintains_def shelf_inv_def set_stock_def
        intro!: set_stock_ok split: option.split)
  have up: "0 \<le> p_StockQty p + 1" if "shelf_ok ps cs" "p \<in> set ps" "p_StockEnabled p" for p ps cs
    using that by (fastforce simp: shelf_ok_def)
  show "keeps (maintains shelf_inv) (RestoreStock pid)"
    by (rule keepsI) (auto simp: RestoreStock_def eff_simps maintains_def shelf_inv_def set_stock_def
        intro!: set_stock_ok split: option.split dest: up row_Some_in)
  show "keeps (maintains shelf_inv) (IncrementUsage cid)"
    by (rule keepsI) (auto simp: IncrementUsage_def eff_simps maintains_def shelf_inv_def
        intro!: use_coupon_ok split: option.split)
qed

lemma shelf_lines: "keeps (maintains shelf_inv) (take_stock p)" "keeps (maintains shelf_inv) (use_coupon c)"
  "keeps (maintains shelf_inv) (restore_item it)"
  unfolding take_stock_def use_coupon_def restore_item_def by (intro inv_rules shelf_statements)+

lemma shelf_orderTx: "keeps (maintains shelf_inv) (orderTx env ord plans cp disc due fr)"
proof -
  have "keeps (maintains shelf_inv) (NextNumber sc)" "keeps (maintains shelf_inv) (order_Create env x its)"
    "keeps (maintains shelf_inv) (CreateInvoice env inp)" "keeps (maintains shelf_inv) (flag_fraud x iv)" for sc x its inp iv
    by (intro keep_shelf frame_rules; simp)+
  then show ?thesis unfolding orderTx_def by (intro inv_rules shelf_lines)
qed

lemma shelf_setTerminalStatus: "keeps (maintains shelf_inv) (setTerminalStatus a oid st act)"
proof -
  have "keeps (maintains shelf_inv) (order_GetByID oid)" "keeps (maintains shelf_inv) (order_GetItems oid)"
    "keeps (maintains shelf_inv) (order_UpdateStatus oid s)" "keeps (maintains shelf_inv) (InvoiceIDForOrder oid)"
    "keeps (maintains shelf_inv) (cancel_order_invoice i)" "keeps (maintains shelf_inv) (from_result x)"
    "keeps (maintains shelf_inv) (audit_Log a act ''order'' oid)" for s i and x :: "err + OrderStatus"
    by (intro keep_shelf frame_rules; (unfold cancel_order_invoice_def, intro frame_rules)?; simp)+
  then show ?thesis
    unfolding setTerminalStatus_def terminalTx_def by (intro inv_rules shelf_WithinTx shelf_lines)
qed

lemma shelf_CreateOrder:
  assumes "\<And>i. keeps (frame shelf) (process i)"
  shows "keeps (maintains shelf_inv) (CreateOrder ck env process cid ip req)"
proof -
  have "keeps (maintains shelf_inv) (checkout_client ck cid ip req)" "keeps (maintains shelf_inv) (checkout_plans env ck client its)"
    "keeps (maintains shelf_inv) (checkout_coupon env code plans)" "keeps (maintains shelf_inv) (fraudReason cid em now)"
    "keeps (maintains shelf_inv) (order_tax s disc)" "keeps (maintains shelf_inv) (GetInt k v)"
    "keeps (maintains shelf_inv) (audit_Log x y z n)" "keeps (maintains shelf_inv) (after_checkout env process x plans fr ord iv)"
    for client its code plans em now s disc k v x y z n fr ord iv
    by (intro keep_shelf frame_rules assms; simp)+
  then show ?thesis unfolding CreateOrder_def Let_def by (intro inv_rules shelf_WithinTx shelf_orderTx)
qed

end
