(* ===== verification/Panels.thy ===== *)
theory Panels
  imports Checkout
begin

text \<open>
  Hosting services and their control panels: \<open>backend/internal/modules/provisioning\<close>. The panel
  adapters speak HTTP to external servers, so an adapter is the record \<open>ServerModule\<close> of its
  answers; a call that changes something on a panel is written to \<open>w_panel\<close> before the answer
  is read.
\<close>

section \<open>Statements (repo.go, cancellation\_repo.go)\<close>

definition GetServerByID :: "int \<Rightarrow> Server act" where
  "GetServerByID sid = bnd (q_db (\<lambda>d. row sv_ID sid (db_servers d))) (need (NotFound ''server''))"

definition GetGroupByID :: "int \<Rightarrow> ServerGroup act" where
  "GetGroupByID gid = bnd (q_db (\<lambda>d. row sg_ID gid (db_server_groups d))) (need (NotFound ''server group''))"

text \<open>The accounts that occupy a server.\<close>

definition occupying :: "int \<Rightarrow> db \<Rightarrow> Service list" where
  "occupying sid d = filter (\<lambda>s. s_ServerID s = Some sid
     \<and> s_Status s \<in> {ServicePending, ServiceActive, ServiceSuspended}) (db_services d)"

definition accounts_on :: "db \<Rightarrow> Server \<Rightarrow> int" where
  "accounts_on d s = int (length (occupying (sv_ID s) d))"

definition last_assigned :: "db \<Rightarrow> Server \<Rightarrow> time option" where
  "last_assigned d s = (let ts = map s_CreatedAt (occupying (sv_ID s) d) in if ts = [] then None else Some (Max (set ts)))"

definition has_room :: "int \<Rightarrow> db \<Rightarrow> Server \<Rightarrow> bool" where
  "has_room groupID d s \<longleftrightarrow> sv_GroupID s = Some groupID \<and> sv_Active s
     \<and> (sv_MaxAccounts s = 0 \<or> accounts_on d s < sv_MaxAccounts s)"

text \<open>\<open>ORDER BY last_assigned NULLS FIRST, id\<close> or \<open>ORDER BY count, id\<close> on a list in the order of the ids.\<close>

definition in_turn :: "ServerGroupStrategy \<Rightarrow> db \<Rightarrow> Server list \<Rightarrow> Server list" where
  "in_turn strategy d xs =
     (if strategy = StrategyLeastUsed then sort_key (accounts_on d) xs
      else filter (\<lambda>s. last_assigned d s = None) xs
        @ sort_key (\<lambda>s. the (last_assigned d s)) (filter (\<lambda>s. last_assigned d s \<noteq> None) xs))"

definition PickServer :: "int \<Rightarrow> Server act" where
  "PickServer groupID =
     bnd (GetGroupByID groupID) (\<lambda>g.
     bnd (q_db (\<lambda>d. in_turn (sg_Strategy g) d (filter (has_room groupID d) (db_servers d)))) (\<lambda>xs. case xs of
       [] \<Rightarrow> fail (Conflict ''no active server with available capacity in group'')
     | s # _ \<Rightarrow> ret s))"

definition CountByServerAndPackage :: "int \<Rightarrow> string \<Rightarrow> int \<Rightarrow> int act" where
  "CountByServerAndPackage serverID name excludeServiceID = q_db (\<lambda>d. int (length (filter (\<lambda>s.
     s_ServerID s = Some serverID \<and> pm_PackageName (s_PanelMeta s) \<noteq> [] \<and> pm_PackageName (s_PanelMeta s) = name
     \<and> s_ID s \<noteq> excludeServiceID \<and> s_Status s \<notin> {ServiceTerminated, ServiceCancelled}) (db_services d))))"

definition ListOverdueSuspendable :: "time \<Rightarrow> Service list act" where
  "ListOverdueSuspendable before = q_db (\<lambda>d. filter (\<lambda>s. s_Status s = ServiceActive
     \<and> (\<exists>ii \<in> set (db_invoice_items d). ii_RelatedType ii = RelatedServiceRenewal \<and> ii_RelatedID ii = Some (s_ID s)
        \<and> (\<exists>i \<in> set (db_invoices d). i_ID i = ii_InvoiceID ii \<and> i_Status i = InvoiceOverdue \<and> i_DueDate i \<le> before)))
     (db_services d))"

definition terminatable :: "time \<Rightarrow> time \<Rightarrow> Service \<Rightarrow> bool" where
  "terminatable suspendedBefore dueBefore s \<longleftrightarrow>
     (s_Status s = ServiceSuspended
       \<and> (case pm_SuspendedAt (s_PanelMeta s) of None \<Rightarrow> s_UpdatedAt s | Some t \<Rightarrow> t) \<le> suspendedBefore)
     \<or> (s_Status s \<in> {ServiceActive, ServiceSuspended} \<and> pm_CancelAtPeriodEnd (s_PanelMeta s) \<and> due_by dueBefore (s_NextDueDate s))"

definition ListTerminatable :: "time \<Rightarrow> time \<Rightarrow> Service list act" where
  "ListTerminatable suspendedBefore dueBefore = q_db (\<lambda>d. filter (terminatable suspendedBefore dueBefore) (db_services d))"

text \<open>\<open>service_cancellation_requests_pending_unique_idx\<close>: one pending request per service.\<close>

definition cancellation_Create :: "env \<Rightarrow> CancellationRequest \<Rightarrow> CancellationRequest act" where
  "cancellation_Create env cr =
     bnd (nextval TCancellations) (\<lambda>n.
     bnd (q_db (\<lambda>d. cx_Status cr = CancellationPending \<and> (\<exists>x \<in> set (db_cancellations d).
       cx_ServiceID x = cx_ServiceID cr \<and> cx_Status x = CancellationPending))) (\<lambda>dup.
     bnd (guard (\<not> dup) (Conflict ''a cancellation request is already pending for this service'')) (\<lambda>_.
     let cr' = cr\<lparr>cx_ID := n, cx_RequestedAt := e_now env\<rparr> in
     bnd (x_db (\<lambda>d. d\<lparr>db_cancellations := db_cancellations d @ [cr']\<rparr>)) (\<lambda>_. ret cr'))))"

definition cancellation_GetByID :: "int \<Rightarrow> CancellationRequest act" where
  "cancellation_GetByID rid = bnd (q_db (\<lambda>d. row cx_ID rid (db_cancellations d))) (need (NotFound ''cancellation request''))"

definition GetPendingByService :: "int \<Rightarrow> CancellationRequest option act" where
  "GetPendingByService serviceID = q_db (\<lambda>d. find (\<lambda>x. cx_ServiceID x = serviceID \<and> cx_Status x = CancellationPending) (db_cancellations d))"

text \<open>The callers set a decided status, so the index cannot be violated.\<close>

definition cancellation_Update :: "CancellationRequest \<Rightarrow> unit act" where
  "cancellation_Update cr =
     bnd (q_db (\<lambda>d. row cx_ID (cx_ID cr) (db_cancellations d))) (\<lambda>r. case r of
       None \<Rightarrow> fail (NotFound ''cancellation request'')
     | Some _ \<Rightarrow> x_db (\<lambda>d. d\<lparr>db_cancellations := upd cx_ID (cx_ID cr) (\<lambda>x. x\<lparr>cx_Status := cx_Status cr,
         cx_DecidedAt := cx_DecidedAt cr, cx_DecidedBy := cx_DecidedBy cr\<rparr>) (db_cancellations d)\<rparr>))"

section \<open>Panels\<close>

record ServerModule =
  sm_Create :: "ServerConfig \<Rightarrow> CreateAccountParams \<Rightarrow> err + AccountResult option"
  sm_Suspend :: "ServerConfig \<Rightarrow> string \<Rightarrow> string \<Rightarrow> err option"
  sm_Unsuspend :: "ServerConfig \<Rightarrow> string \<Rightarrow> err option"
  sm_Terminate :: "ServerConfig \<Rightarrow> string \<Rightarrow> err option"
  sm_ChangePackage :: "ServerConfig \<Rightarrow> string \<Rightarrow> string \<Rightarrow> err option"
  sm_ChangePassword :: "ServerConfig \<Rightarrow> string \<Rightarrow> string \<Rightarrow> err option"
  sm_EnsurePackage :: "ServerConfig \<Rightarrow> PackageSpec \<Rightarrow> err option"
  sm_DeletePackage :: "ServerConfig \<Rightarrow> string \<Rightarrow> err option"
  sm_PackageInUse :: "ServerConfig \<Rightarrow> string \<Rightarrow> err + bool"
  sm_AccountInfo :: "ServerConfig \<Rightarrow> string \<Rightarrow> err + AccountInfo"
  sm_SSOURL :: "ServerConfig \<Rightarrow> string \<Rightarrow> err + string"

type_synonym modules = "ServerModuleName \<Rightarrow> ServerModule option"

definition called :: "panel_call \<Rightarrow> unit act" where
  "called c = writes (\<lambda>w. w\<lparr>w_panel := w_panel w @ [c]\<rparr>)"

definition answer :: "err option \<Rightarrow> unit act" where
  "answer r = (case r of None \<Rightarrow> ret () | Some e \<Rightarrow> fail e)"

definition panel_do :: "panel_call \<Rightarrow> err option \<Rightarrow> unit act" where
  "panel_do c r = on_err wrap (bnd (called c) (\<lambda>_. answer r))"

text \<open>The adapter of a module; none for a product without a panel.\<close>

definition moduleFor :: "modules \<Rightarrow> ServerModuleName \<Rightarrow> ServerModule option act" where
  "moduleFor mods name =
     (if name = ModuleNone then ret None
      else case mods name of
        None \<Rightarrow> fail (Internal (RawErr ''provisioning: server module not configured''))
      | Some m \<Rightarrow> ret (Some m))"

definition decrypted :: "env \<Rightarrow> string \<Rightarrow> string act" where
  "decrypted env enc = (if enc = [] then ret [] else on_err Internal (from_result (e_decrypt env enc)))"

definition serverConfig :: "env \<Rightarrow> Server \<Rightarrow> ServerConfig act" where
  "serverConfig env sv =
     bnd (decrypted env (sv_PasswordEnc sv)) (\<lambda>p.
     bnd (decrypted env (sv_APITokenEnc sv)) (\<lambda>t.
     ret \<lparr>sc_ID = sv_ID sv, sc_Name = sv_Name sv, sc_Module = sv_Module sv, sc_Hostname = sv_Hostname sv, sc_Port = sv_Port sv,
       sc_Username = sv_Username sv, sc_Password = p, sc_APIToken = t, sc_UseSSL = sv_UseSSL sv,
       sc_Nameserver1 = sv_Nameserver1 sv, sc_Nameserver2 = sv_Nameserver2 sv\<rparr>))"

definition panelContext :: "env \<Rightarrow> modules \<Rightarrow> Service \<Rightarrow> (ServerModule \<times> ServerConfig) option act" where
  "panelContext env mods svc =
     bnd (on_err wrap (product_GetByID (s_ProductID svc))) (\<lambda>product.
     bnd (moduleFor mods (p_Module product)) (\<lambda>m.
     case m of
       None \<Rightarrow> ret None
     | Some md \<Rightarrow> (case s_ServerID svc of
         None \<Rightarrow> ret None
       | Some sid \<Rightarrow>
           bnd (on_err wrap (GetServerByID sid)) (\<lambda>server.
           bnd (serverConfig env server) (\<lambda>cfg. ret (Some (md, cfg)))))))"

text \<open>The entries of a Go map: a key that is set again keeps one entry.\<close>

definition put :: "string \<Rightarrow> int \<Rightarrow> (string \<times> int) list \<Rightarrow> (string \<times> int) list" where
  "put k v m = filter (\<lambda>e. fst e \<noteq> k) m @ [(k, v)]"

definition add_limit :: "ProductSpec list \<Rightarrow> (string \<times> int) list \<Rightarrow> SpecSelection \<Rightarrow> (string \<times> int) list" where
  "add_limit defs limits cs =
     (let def = find (\<lambda>d. ps_Key d = ss_Key cs) (rev defs);
          pk = (case def of None \<Rightarrow> provision_key_of (ss_ProvisionKey cs) | Some d \<Rightarrow> ps_ProvisionKey d);
          unit = (case def of None \<Rightarrow> spec_unit_of (ss_Unit cs) | Some d \<Rightarrow> ps_Unit d) in
      if \<not> ProvisionKey_Valid pk then limits
      else put (provision_key_str pk) (if ss_Unlimited cs then UnlimitedQty else ToPanelMB (ss_Qty cs) unit) limits)"

definition package_of :: "Product \<Rightarrow> string \<Rightarrow> (string \<times> int) list \<Rightarrow> PackageSpec" where
  "package_of product packagePrefix limits =
     \<lparr>pk_Name = DynamicPackageName packagePrefix limits \<lparr>pt_FeatureList = p_FeatureList product, pt_ShellAccess = p_ShellAccess product,
        pt_CGIAccess = p_CGIAccess product, pt_TemplatePackage = p_TemplatePackage product\<rparr>,
      pk_FeatureList = p_FeatureList product, pk_ShellAccess = p_ShellAccess product, pk_CGIAccess = p_CGIAccess product,
      pk_TemplatePackage = p_TemplatePackage product, pk_Limits = limits\<rparr>"

definition buildPackageSpec :: "Service \<Rightarrow> Product \<Rightarrow> string \<Rightarrow> PackageSpec act" where
  "buildPackageSpec svc product packagePrefix =
     (let chosen = pm_ChosenSpecs (s_PanelMeta svc) in
      bnd (if chosen = [] then ret [] else on_err wrap (ListSpecs (p_ID product))) (\<lambda>defs.
      ret (package_of product packagePrefix (foldl (add_limit defs) [] chosen))))"

definition panelURL :: "ServerModuleName \<Rightarrow> string \<Rightarrow> string" where
  "panelURL m hostname = (case m of
     ModuleCpanel \<Rightarrow> ''https://'' @ hostname @ '':2083''
   | ModuleDirectAdmin \<Rightarrow> ''https://'' @ hostname @ '':2222''
   | ModuleNone \<Rightarrow> [])"

text \<open>A time at the precision of RFC 3339.\<close>

definition at_second :: "time \<Rightarrow> time" where
  "at_second t = t div 1000000000 * 1000000000"

end
