(* ===== verification/Provisioning.thy ===== *)
theory Provisioning
  imports Panels
begin

text \<open>
  The lifecycle of a hosting service: \<open>backend/internal/modules/provisioning/service.go\<close> up to the
  automation runs. What the worker calls for a job, and the runs that enqueue the jobs.
\<close>

section \<open>Creating the account\<close>

text \<open>A server is picked once and stored before the panel is called, so that a retry reuses it.\<close>

definition pin_server :: "env \<Rightarrow> Product \<Rightarrow> Service \<Rightarrow> (Service \<times> int) act" where
  "pin_server env product svc =
     (case s_ServerID svc of
        Some sid \<Rightarrow> ret (svc, sid)
      | None \<Rightarrow> (case p_ServerGroupID product of
          None \<Rightarrow> fail (Conflict ''product has no server group configured'')
        | Some g \<Rightarrow>
            bnd (on_err wrap (PickServer g)) (\<lambda>server.
            let svc = svc\<lparr>s_ServerID := Some (sv_ID server)\<rparr> in
            bnd (on_err wrap (service_Update env svc)) (\<lambda>_. ret (svc, sv_ID server)))))"

definition owner_email :: "Service \<Rightarrow> string act" where
  "owner_email svc =
     bnd (attempt (bnd (clients_GetByID (s_ClientID svc)) (\<lambda>c. users_GetByID (c_UserID c)))) (\<lambda>r.
     ret (case r of Inl _ \<Rightarrow> [] | Inr user \<Rightarrow> u_Email user))"

text \<open>A custom package exists on the panel before the account is put on it.\<close>

definition ensure_package :: "ServerModule \<Rightarrow> ServerConfig \<Rightarrow> Service \<Rightarrow> Product \<Rightarrow> string \<Rightarrow> PackageSpec option act" where
  "ensure_package m cfg svc product packagePrefix =
     (if p_Configurable product then
        bnd (buildPackageSpec svc product packagePrefix) (\<lambda>spec.
        bnd (panel_do (CallEnsurePackage (sc_ID cfg) spec) (sm_EnsurePackage m cfg spec)) (\<lambda>_. ret (Some spec)))
      else ret None)"

text \<open>
  The account, or what is known of it: a CONFLICT with an account of the same domain is an earlier
  attempt's account; any other CONFLICT stores another user name for the next attempt.
\<close>

definition rename_account :: "env \<Rightarrow> Service \<Rightarrow> err \<Rightarrow> 'a act" where
  "rename_account env svc e =
     bnd (on_err wrap (service_Update env (svc\<lparr>s_Username := DisambiguateUsername (s_Username svc) (s_ID svc)\<rparr>))) (\<lambda>_.
     fail (wrap e))"

definition create_account ::
  "env \<Rightarrow> ServerModule \<Rightarrow> ServerConfig \<Rightarrow> Service \<Rightarrow> CreateAccountParams \<Rightarrow> AccountResult option act" where
  "create_account env m cfg svc params =
     bnd (called (CallCreate (sc_ID cfg) params)) (\<lambda>_.
     case sm_Create m cfg params of
       Inr result \<Rightarrow> ret result
     | Inl e \<Rightarrow>
         if err_code (From e) \<noteq> CodeConflict then fail (wrap e)
         else (case sm_AccountInfo m cfg (s_Username svc) of
             Inl _ \<Rightarrow> rename_account env svc e
           | Inr info \<Rightarrow>
               if EqualFold (ai_Domain info) (s_Domain svc)
               then ret (Some \<lparr>ar_Username = ai_Username info, ar_Domain = ai_Domain info, ar_IP = [], ar_Meta = ai_Meta info\<rparr>)
               else rename_account env svc e))"

definition with_package :: "PackageSpec option \<Rightarrow> PanelMeta \<Rightarrow> PanelMeta" where
  "with_package pkg meta = (case pkg of None \<Rightarrow> meta | Some spec \<Rightarrow> meta\<lparr>pm_PackageName := pk_Name spec, pm_Limits := pk_Limits spec\<rparr>)"

definition with_account :: "AccountResult option \<Rightarrow> Service \<Rightarrow> Service" where
  "with_account result svc =
     (case result of None \<Rightarrow> svc
      | Some r \<Rightarrow>
          let meta = s_PanelMeta svc;
              meta = (if ar_IP r \<noteq> [] then meta\<lparr>pm_AccountIP := ar_IP r\<rparr> else meta)
          in svc\<lparr>s_Username := (if ar_Username r \<noteq> [] then ar_Username r else s_Username svc),
                 s_PanelMeta := meta\<lparr>pm_Panel := pm_Panel meta ++ ar_Meta r\<rparr>\<rparr>)"

text \<open>The panel's part of \<open>ProvisionCreate\<close>: the service as it is to be stored and the mail's data.\<close>

definition panel_create ::
  "env \<Rightarrow> ServerModule \<Rightarrow> Product \<Rightarrow> Service \<Rightarrow> (Service \<times> (string \<times> string) list) act" where
  "panel_create env m product svc =
     bnd (pin_server env product svc) (\<lambda>(svc, sid).
     bnd (on_err wrap (GetServerByID sid)) (\<lambda>server.
     bnd (serverConfig env server) (\<lambda>cfg.
     bnd (decrypted env (s_PasswordEnc svc)) (\<lambda>password.
     bnd (owner_email svc) (\<lambda>email.
     bnd (ensure_package m cfg svc product (sv_PackagePrefix server)) (\<lambda>pkg.
     bnd (create_account env m cfg svc \<lparr>ca_Username = s_Username svc, ca_Domain = s_Domain svc, ca_Password = password,
            ca_Package = (case pkg of None \<Rightarrow> p_PackageName product | Some spec \<Rightarrow> pk_Name spec),
            ca_Email = email, ca_IP = sv_IPAddress server\<rparr>) (\<lambda>result.
     let svc = with_account result (svc\<lparr>s_PanelMeta := with_package pkg (s_PanelMeta svc)\<rparr>) in
     ret (svc, [(''Username'', s_Username svc), (''Password'', password),
       (''PanelURL'', panelURL (sv_Module server) (sv_Hostname server))]))))))))"

definition ProvisionCreate :: "env \<Rightarrow> modules \<Rightarrow> int \<Rightarrow> unit act" where
  "ProvisionCreate env mods serviceID =
     bnd (on_err wrap (service_GetByID serviceID)) (\<lambda>svc.
     if s_Status svc \<noteq> ServicePending then ret ()
     else
       bnd (from_result (TransitionService (s_Status svc) ServiceActive)) (\<lambda>_.
       bnd (on_err wrap (product_GetByID (s_ProductID svc))) (\<lambda>product.
       bnd (moduleFor mods (p_Module product)) (\<lambda>m.
       bnd (case m of None \<Rightarrow> ret (svc, [(''Username'', s_Username svc)]) | Some md \<Rightarrow> panel_create env md product svc) (\<lambda>(svc, data).
       let svc = svc\<lparr>s_Status := ServiceActive, s_RegistrationDate := Some (dateOnly (e_now env))\<rparr> in
       bnd (on_err wrap (service_Update env svc)) (\<lambda>_.
       bnd (notifyService env svc (if p_WelcomeEmailTemplate product = [] then ''service_activated'' else p_WelcomeEmailTemplate product)
              ([(''ServiceName'', p_Name product), (''Domain'', s_Domain svc)] @ data)) (\<lambda>_.
       audit_Log 0 ''service.provision_create'' ''service'' (s_ID svc))))))))"

section \<open>Suspension\<close>

definition on_panel :: "(ServerModule \<times> ServerConfig) option \<Rightarrow> (ServerModule \<Rightarrow> ServerConfig \<Rightarrow> unit act) \<Rightarrow> unit act" where
  "on_panel pc f = (case pc of None \<Rightarrow> ret () | Some (m, cfg) \<Rightarrow> f m cfg)"

definition ProvisionSuspend :: "env \<Rightarrow> modules \<Rightarrow> int \<Rightarrow> string \<Rightarrow> unit act" where
  "ProvisionSuspend env mods serviceID reason =
     bnd (on_err wrap (service_GetByID serviceID)) (\<lambda>svc.
     if s_Status svc = ServiceSuspended then ret ()
     else
       bnd (from_result (TransitionService (s_Status svc) ServiceSuspended)) (\<lambda>_.
       bnd (panelContext env mods svc) (\<lambda>pc.
       bnd (on_panel pc (\<lambda>m cfg. panel_do (CallSuspend (sc_ID cfg) (s_Username svc) reason) (sm_Suspend m cfg (s_Username svc) reason))) (\<lambda>_.
       let svc = svc\<lparr>s_Status := ServiceSuspended, s_SuspendReason := reason,
             s_PanelMeta := (s_PanelMeta svc)\<lparr>pm_SuspendedAt := Some (at_second (e_now env))\<rparr>\<rparr> in
       bnd (on_err wrap (service_Update env svc)) (\<lambda>_.
       bnd (notifyService env svc ''service_suspended'' [(''ServiceName'', s_Domain svc), (''Reason'', reason)]) (\<lambda>_.
       audit_Log 0 ''service.suspend'' ''service'' (s_ID svc)))))))"

definition ProvisionUnsuspend :: "env \<Rightarrow> modules \<Rightarrow> int \<Rightarrow> unit act" where
  "ProvisionUnsuspend env mods serviceID =
     bnd (on_err wrap (service_GetByID serviceID)) (\<lambda>svc.
     if s_Status svc = ServiceActive then ret ()
     else
       bnd (from_result (TransitionService (s_Status svc) ServiceActive)) (\<lambda>_.
       bnd (panelContext env mods svc) (\<lambda>pc.
       bnd (on_panel pc (\<lambda>m cfg. panel_do (CallUnsuspend (sc_ID cfg) (s_Username svc)) (sm_Unsuspend m cfg (s_Username svc)))) (\<lambda>_.
       let svc = svc\<lparr>s_Status := ServiceActive, s_SuspendReason := [],
             s_PanelMeta := (s_PanelMeta svc)\<lparr>pm_SuspendedAt := None\<rparr>\<rparr> in
       bnd (on_err wrap (service_Update env svc)) (\<lambda>_.
       bnd (notifyService env svc ''service_unsuspended'' [(''ServiceName'', s_Domain svc)]) (\<lambda>_.
       audit_Log 0 ''service.unsuspend'' ''service'' (s_ID svc)))))))"

section \<open>Termination\<close>

definition resolvePendingCancellation :: "env \<Rightarrow> int \<Rightarrow> unit act" where
  "resolvePendingCancellation env serviceID =
     bnd (attempt (GetPendingByService serviceID)) (\<lambda>r. case r of
       Inr (Some cr) \<Rightarrow> ignore_err (cancellation_Update (cr\<lparr>cx_Status := CancellationAutoProcessed, cx_DecidedAt := Some (e_now env)\<rparr>))
     | _ \<Rightarrow> ret ())"

text \<open>The text of an error; the model does not keep the cause of a wrapped one.\<close>

fun code_str :: "Code \<Rightarrow> string" where
  "code_str CodeValidation = ''VALIDATION''"
| "code_str CodeUnauthorized = ''UNAUTHORIZED''"
| "code_str CodeForbidden = ''FORBIDDEN''"
| "code_str CodeNotFound = ''NOT_FOUND''"
| "code_str CodeConflict = ''CONFLICT''"
| "code_str CodeRateLimited = ''RATE_LIMITED''"
| "code_str CodePaymentRequired = ''PAYMENT_REQUIRED''"
| "code_str CodeExternal = ''EXTERNAL''"
| "code_str CodeInternal = ''INTERNAL''"

fun err_text :: "err \<Rightarrow> string" where
  "err_text (AppErr c m d) = code_str c @ '': '' @ m"
| "err_text (RawErr t) = t"

definition cleanup_alert :: "env \<Rightarrow> int \<Rightarrow> string \<Rightarrow> string \<Rightarrow> unit act" where
  "cleanup_alert env serviceID pkg detail = ignore_err (AlertAdmin env
     (''Package cleanup needs attention: '' @ pkg @ '' (service #'' @ FormatInt serviceID @ '')'') detail)"

text \<open>A package is deleted only when neither the database nor the panel knows another account on it.\<close>

definition cleanupDynamicPackage :: "env \<Rightarrow> Service \<Rightarrow> ServerModule \<Rightarrow> ServerConfig \<Rightarrow> string \<Rightarrow> unit act" where
  "cleanupDynamicPackage env svc m cfg pkg =
     (case s_ServerID svc of
        None \<Rightarrow> ret ()
      | Some sid \<Rightarrow>
          if pkg = [] then ret ()
          else
            bnd (attempt (CountByServerAndPackage sid pkg (s_ID svc))) (\<lambda>r. case r of
              Inl e \<Rightarrow> cleanup_alert env (s_ID svc) pkg (''could not count sibling services for package '' @ GoQuote pkg @ '' on server ''
                @ FormatInt sid @ '': '' @ err_text e @ '' - the package was left in place, delete it manually once confirmed unused'')
            | Inr others \<Rightarrow>
                if others > 0 then ret ()
                else (case sm_PackageInUse m cfg pkg of
                  Inl e \<Rightarrow> cleanup_alert env (s_ID svc) pkg (''panel-side in-use check failed for package '' @ GoQuote pkg @ '': '' @ err_text e
                    @ '' - the package was left in place, delete it manually once confirmed unused'')
                | Inr inUse \<Rightarrow>
                    if inUse then cleanup_alert env (s_ID svc) pkg (''package '' @ GoQuote pkg
                      @ '' is still used by a panel account this app does not track - deletion skipped; review the server for out-of-band accounts'')
                    else
                      bnd (called (CallDeletePackage (sc_ID cfg) pkg)) (\<lambda>_. case sm_DeletePackage m cfg pkg of
                        None \<Rightarrow> ret ()
                      | Some e \<Rightarrow> cleanup_alert env (s_ID svc) pkg (''deleting package '' @ GoQuote pkg @ '' failed: '' @ err_text e
                          @ '' - delete it manually'')))))"

definition cancel_pending :: "env \<Rightarrow> Service \<Rightarrow> unit act" where
  "cancel_pending env svc =
     bnd (from_result (TransitionService (s_Status svc) ServiceCancelled)) (\<lambda>_.
     bnd (on_err wrap (service_Update env (svc\<lparr>s_Status := ServiceCancelled, s_TerminatedAt := Some (e_now env)\<rparr>))) (\<lambda>_.
     bnd (audit_Log 0 ''service.cancel'' ''service'' (s_ID svc)) (\<lambda>_.
     resolvePendingCancellation env (s_ID svc))))"

definition terminate_live :: "env \<Rightarrow> modules \<Rightarrow> Service \<Rightarrow> unit act" where
  "terminate_live env mods svc =
     bnd (from_result (TransitionService (s_Status svc) ServiceTerminated)) (\<lambda>_.
     bnd (panelContext env mods svc) (\<lambda>pc.
     bnd (on_panel pc (\<lambda>m cfg. panel_do (CallTerminate (sc_ID cfg) (s_Username svc)) (sm_Terminate m cfg (s_Username svc)))) (\<lambda>_.
     let svc = svc\<lparr>s_Status := ServiceTerminated, s_TerminatedAt := Some (e_now env)\<rparr> in
     bnd (on_err wrap (service_Update env svc)) (\<lambda>_.
     bnd (on_panel pc (\<lambda>m cfg. cleanupDynamicPackage env svc m cfg (pm_PackageName (s_PanelMeta svc)))) (\<lambda>_.
     bnd (notifyService env svc ''service_terminated'' [(''ServiceName'', s_Domain svc)]) (\<lambda>_.
     bnd (audit_Log 0 ''service.terminate'' ''service'' (s_ID svc)) (\<lambda>_.
     resolvePendingCancellation env (s_ID svc))))))))"

definition ProvisionTerminate :: "env \<Rightarrow> modules \<Rightarrow> int \<Rightarrow> unit act" where
  "ProvisionTerminate env mods serviceID =
     bnd (on_err wrap (service_GetByID serviceID)) (\<lambda>svc. case s_Status svc of
       ServiceTerminated \<Rightarrow> ret ()
     | ServiceCancelled \<Rightarrow> ret ()
     | ServicePending \<Rightarrow> cancel_pending env svc
     | _ \<Rightarrow> terminate_live env mods svc)"

section \<open>Packages and passwords\<close>

text \<open>The package of the current product; \<open>svc\<close> has a server.\<close>

definition change_package :: "env \<Rightarrow> ServerModule \<Rightarrow> ServerConfig \<Rightarrow> Service \<Rightarrow> Product \<Rightarrow> unit act" where
  "change_package env m cfg svc product =
     (let oldPkg = pm_PackageName (s_PanelMeta svc) in
      bnd (if p_Configurable product then
             bnd (on_err wrap (GetServerByID (the (s_ServerID svc)))) (\<lambda>server. ensure_package m cfg svc product (sv_PackagePrefix server))
           else ret None) (\<lambda>pkg.
      let packageName = (case pkg of None \<Rightarrow> p_PackageName product | Some spec \<Rightarrow> pk_Name spec);
          meta = (case pkg of None \<Rightarrow> (s_PanelMeta svc)\<lparr>pm_PackageName := [], pm_Limits := []\<rparr> | Some _ \<Rightarrow> with_package pkg (s_PanelMeta svc));
          svc = svc\<lparr>s_PanelMeta := meta\<rparr> in
      bnd (panel_do (CallChangePackage (sc_ID cfg) (s_Username svc) packageName) (sm_ChangePackage m cfg (s_Username svc) packageName)) (\<lambda>_.
      bnd (on_err wrap (service_Update env svc)) (\<lambda>_.
      if oldPkg \<noteq> [] \<and> oldPkg \<noteq> packageName then cleanupDynamicPackage env svc m cfg oldPkg else ret ()))))"

definition ProvisionChangePackage :: "env \<Rightarrow> modules \<Rightarrow> int \<Rightarrow> unit act" where
  "ProvisionChangePackage env mods serviceID =
     bnd (on_err wrap (service_GetByID serviceID)) (\<lambda>svc.
     bnd (on_err wrap (product_GetByID (s_ProductID svc))) (\<lambda>product.
     bnd (panelContext env mods svc) (\<lambda>pc.
     bnd (on_panel pc (\<lambda>m cfg. change_package env m cfg svc product)) (\<lambda>_.
     audit_Log 0 ''service.change_package'' ''service'' (s_ID svc)))))"

definition validatePasswordStrength :: "string \<Rightarrow> unit act" where
  "validatePasswordStrength password =
     (let details =
        (if length password < 12 then [ferr ''password'' ''must be at least 12 characters'']
         else if \<not> ((\<exists>c \<in> set password. is_lower c) \<and> (\<exists>c \<in> set password. is_upper c) \<and> (\<exists>c \<in> set password. is_digit c))
         then [ferr ''password'' ''must contain lowercase, uppercase and digit characters''] else [])
      in guard (details = []) (Validation ''weak password'' details))"

text \<open>Client 0 is staff or the worker.\<close>

definition getOwned :: "int \<Rightarrow> int \<Rightarrow> Service act" where
  "getOwned clientID serviceID =
     bnd (on_err wrap (service_GetByID serviceID)) (\<lambda>svc.
     if clientID \<noteq> 0 \<and> s_ClientID svc \<noteq> clientID then fail (NotFound ''service'') else ret svc)"

definition has_panel :: "(ServerModule \<times> ServerConfig) option \<Rightarrow> (ServerModule \<times> ServerConfig) act" where
  "has_panel pc = need (Conflict ''service has no control panel'') pc"

definition changePassword :: "env \<Rightarrow> modules \<Rightarrow> int \<Rightarrow> int \<Rightarrow> int \<Rightarrow> string \<Rightarrow> unit act" where
  "changePassword env mods actorUserID clientID serviceID password =
     bnd (validatePasswordStrength password) (\<lambda>_.
     bnd (getOwned clientID serviceID) (\<lambda>svc.
     if s_Status svc \<noteq> ServiceActive then fail (Conflict ''service must be active to change its password'')
     else
       bnd (panelContext env mods svc) (\<lambda>pc.
       bnd (has_panel pc) (\<lambda>(m, cfg).
       bnd (panel_do (CallChangePassword (sc_ID cfg) (s_Username svc) password) (sm_ChangePassword m cfg (s_Username svc) password)) (\<lambda>_.
       bnd (on_err Internal (from_result (e_encrypt env password))) (\<lambda>enc.
       bnd (on_err wrap (service_Update env (svc\<lparr>s_PasswordEnc := enc\<rparr>))) (\<lambda>_.
       audit_Log actorUserID ''service.change_password'' ''service'' (s_ID svc))))))))"

definition SSO :: "env \<Rightarrow> modules \<Rightarrow> int \<Rightarrow> int \<Rightarrow> int \<Rightarrow> string act" where
  "SSO env mods actorUserID clientID serviceID =
     bnd (getOwned clientID serviceID) (\<lambda>svc.
     if s_Status svc \<noteq> ServiceActive then fail (Conflict ''service must be active for panel login'')
     else
       bnd (panelContext env mods svc) (\<lambda>pc.
       bnd (has_panel pc) (\<lambda>(m, cfg).
       bnd (on_err wrap (from_result (sm_SSOURL m cfg (s_Username svc)))) (\<lambda>url.
       bnd (audit_Log actorUserID ''service.sso'' ''service'' (s_ID svc)) (\<lambda>_. ret url)))))"

section \<open>Automation runs\<close>

text \<open>Both runs stop at the first job the queue refuses; the count of a run that stops is not kept.\<close>

definition enqueue_all :: "env \<Rightarrow> (Service \<Rightarrow> job) \<Rightarrow> Service list \<Rightarrow> int act" where
  "enqueue_all env mk xs = foldE (\<lambda>svc n. bnd (on_err wrap (Enqueue env (mk svc))) (\<lambda>_. ret (n + 1))) xs 0"

definition AutoSuspend :: "env \<Rightarrow> int act" where
  "AutoSuspend env =
     bnd (on_err wrap (GetInt ''automation.suspend_after_days'' 7)) (\<lambda>days.
     bnd (on_err wrap (ListOverdueSuspendable (AddDays (dateOnly (e_now env)) (- days)))) (\<lambda>xs.
     enqueue_all env (\<lambda>svc. JobProvisionSuspend (s_ID svc) ''Overdue on payment'') xs))"

definition AutoTerminate :: "env \<Rightarrow> int act" where
  "AutoTerminate env =
     bnd (on_err wrap (GetInt ''automation.terminate_after_days'' 21)) (\<lambda>days.
     bnd (on_err wrap (ListTerminatable (AddDays (e_now env) (- days)) (dateOnly (e_now env)))) (\<lambda>xs.
     enqueue_all env (\<lambda>svc. JobProvisionTerminate (s_ID svc)) xs))"

definition NotifyProvisionFailure :: "env \<Rightarrow> int \<Rightarrow> string \<Rightarrow> string \<Rightarrow> unit act" where
  "NotifyProvisionFailure env serviceID taskType errMsg =
     bnd (attempt (service_GetByID serviceID)) (\<lambda>r.
     on_err wrap (AlertAdmin env (''Provisioning failed: '' @ taskType @ '' (service #'' @ FormatInt serviceID @ '')'')
       (''task='' @ taskType @ '' service_id='' @ FormatInt serviceID
        @ (case r of Inl _ \<Rightarrow> [] | Inr svc \<Rightarrow> '' domain='' @ s_Domain svc @ '' client_id='' @ FormatInt (s_ClientID svc)
            @ '' status='' @ service_status_str (s_Status svc))
        @ '' error='' @ errMsg)))"

end
