(* ===== verification/Upgrades.thy ===== *)
theory Upgrades
  imports Provisioning
begin

text \<open>
  What clients and staff ask of a service: cancellation requests, upgrades and downgrades, and the
  administrator's actions (\<open>backend/internal/modules/provisioning/service.go\<close>, second half).
\<close>

section \<open>Cancellation\<close>

text \<open>\<open>billing/repo.go\<close>: the first page of a client's invoices with a status, newest first.\<close>

definition invoice_ListByClient :: "int \<Rightarrow> InvoiceStatus \<Rightarrow> nat \<Rightarrow> Invoice list act" where
  "invoice_ListByClient clientID status perPage = q_db (\<lambda>d. take perPage (rev
     (filter (\<lambda>i. (clientID = 0 \<or> i_ClientID i = clientID) \<and> i_Status i = status) (db_invoices d))))"

definition renews :: "int \<Rightarrow> InvoiceItem list \<Rightarrow> bool" where
  "renews serviceID items \<longleftrightarrow> (\<exists>it \<in> set items. ii_RelatedType it = RelatedServiceRenewal \<and> ii_RelatedID it = Some serviceID)"

definition cancel_renewal :: "int \<Rightarrow> (int \<Rightarrow> InvoiceItem list) \<Rightarrow> Invoice \<Rightarrow> unit act" where
  "cancel_renewal serviceID itemsByInvoice iv =
     (if renews serviceID (itemsByInvoice (i_ID iv)) then
        bnd (from_result (TransitionInvoice (i_Status iv) InvoiceCancelled)) (\<lambda>_.
        on_err wrap (invoice_UpdateStatus (i_ID iv) InvoiceCancelled None))
      else ret ())"

definition GetItemsByInvoiceIDs :: "int list \<Rightarrow> (int \<Rightarrow> InvoiceItem list) act" where
  "GetItemsByInvoiceIDs ids = q_db (\<lambda>d iid. filter (\<lambda>it. ii_InvoiceID it = iid \<and> iid \<in> set ids) (db_invoice_items d))"

definition cancel_renewals_in :: "Service \<Rightarrow> InvoiceStatus \<Rightarrow> unit act" where
  "cancel_renewals_in svc status =
     bnd (on_err wrap (invoice_ListByClient (s_ClientID svc) status 100)) (\<lambda>invoices.
     bnd (on_err wrap (GetItemsByInvoiceIDs (map i_ID invoices))) (\<lambda>itemsByInvoice.
     each (cancel_renewal (s_ID svc) itemsByInvoice) invoices))"

definition cancelOpenRenewalInvoices :: "Service \<Rightarrow> unit act" where
  "cancelOpenRenewalInvoices svc = each (cancel_renewals_in svc) [InvoiceUnpaid, InvoiceOverdue]"

definition CancelModeImmediate :: string where "CancelModeImmediate = ''immediate''"
definition CancelModeEndOfTerm :: string where "CancelModeEndOfTerm = ''end_of_term''"

definition val_cancel :: "string \<Rightarrow> string \<Rightarrow> (string \<times> string option) list" where
  "val_cancel mode reason =
     [(''mode'', if mode = [] then Some ''is required''
        else tag (mode \<noteq> CancelModeImmediate \<and> mode \<noteq> CancelModeEndOfTerm) ''must be one of: immediate, end_of_term''),
      (''reason'', tag (length reason > 500) ''must be at most 500 characters'')]"

definition CancelService :: "env \<Rightarrow> int \<Rightarrow> int \<Rightarrow> int \<Rightarrow> string \<Rightarrow> string \<Rightarrow> Service act" where
  "CancelService env actorUserID clientID serviceID mode reason =
     bnd (val_Struct (val_cancel mode reason)) (\<lambda>_.
     bnd (getOwned clientID serviceID) (\<lambda>svc.
     if s_Status svc \<noteq> ServiceActive \<and> s_Status svc \<noteq> ServiceSuspended
        \<and> \<not> (s_Status svc = ServicePending \<and> mode = CancelModeImmediate)
     then fail (Conflict ''service cannot be cancelled in its current status'')
     else
       bnd (on_err wrap (GetPendingByService (s_ID svc))) (\<lambda>pending.
       if pending \<noteq> None then fail (Conflict ''a cancellation request is already pending for this service'')
       else
         bnd (if mode = CancelModeImmediate then
                bnd (cancelOpenRenewalInvoices svc) (\<lambda>_. on_err wrap (Enqueue env (JobProvisionTerminate (s_ID svc))))
              else if mode = CancelModeEndOfTerm then ret ()
              else fail (Validation ''invalid cancellation mode'' [ferr ''mode'' ''must be immediate or end_of_term''])) (\<lambda>_.
         bnd (on_err wrap (cancellation_Create env \<lparr>cx_ID = 0, cx_ServiceID = s_ID svc, cx_ClientID = s_ClientID svc, cx_Mode = mode,
                cx_Reason = reason, cx_Status = CancellationPending, cx_RequestedAt = 0, cx_DecidedAt = None, cx_DecidedBy = None\<rparr>)) (\<lambda>cr.
         bnd (audit_Log actorUserID ''service.cancel_request'' ''service'' (s_ID svc)) (\<lambda>_. ret svc))))))"

definition end_of_term_only :: "CancellationRequest \<Rightarrow> unit act" where
  "end_of_term_only cr = guard (cx_Mode cr = CancelModeEndOfTerm)
     (Conflict ''only end_of_term requests can be accepted/rejected - immediate requests process automatically'')"

definition decided :: "env \<Rightarrow> int \<Rightarrow> CancellationRequestStatus \<Rightarrow> CancellationRequest \<Rightarrow> CancellationRequest" where
  "decided env actorUserID st cr = cr\<lparr>cx_Status := st, cx_DecidedAt := Some (e_now env), cx_DecidedBy := Some actorUserID\<rparr>"

definition AcceptCancellationRequest :: "env \<Rightarrow> int \<Rightarrow> int \<Rightarrow> unit act" where
  "AcceptCancellationRequest env actorUserID requestID =
     bnd (on_err wrap (cancellation_GetByID requestID)) (\<lambda>cr.
     bnd (end_of_term_only cr) (\<lambda>_.
     bnd (from_result (TransitionCancellationRequest (cx_Status cr) CancellationAccepted)) (\<lambda>_.
     bnd (on_err wrap (service_GetByID (cx_ServiceID cr))) (\<lambda>svc.
     if s_Status svc \<noteq> ServiceActive \<and> s_Status svc \<noteq> ServiceSuspended
     then fail (Conflict ''service is no longer eligible for cancellation'')
     else
       bnd (on_err wrap (service_Update env (svc\<lparr>s_PanelMeta := (s_PanelMeta svc)\<lparr>pm_CancelAtPeriodEnd := True\<rparr>\<rparr>))) (\<lambda>_.
       bnd (on_err wrap (cancellation_Update (decided env actorUserID CancellationAccepted cr))) (\<lambda>_.
       audit_Log actorUserID ''service.cancel_request_accept'' ''service'' (s_ID svc)))))))"

definition RejectCancellationRequest :: "env \<Rightarrow> int \<Rightarrow> int \<Rightarrow> unit act" where
  "RejectCancellationRequest env actorUserID requestID =
     bnd (on_err wrap (cancellation_GetByID requestID)) (\<lambda>cr.
     bnd (end_of_term_only cr) (\<lambda>_.
     bnd (from_result (TransitionCancellationRequest (cx_Status cr) CancellationRejected)) (\<lambda>_.
     bnd (on_err wrap (cancellation_Update (decided env actorUserID CancellationRejected cr))) (\<lambda>_.
     audit_Log actorUserID ''service.cancel_request_reject'' ''service'' (cx_ServiceID cr)))))"

section \<open>Upgrades\<close>

record UpgradeServiceInput =
  us_ProductID :: int
  us_Cycle :: string
  us_Specs :: "SpecSelectionRequest list"

record UpgradeResult =
  ur_Applied :: bool
  ur_ProratedDiff :: int
  ur_CreditIssued :: int
  ur_Invoice :: "Invoice option"
  ur_Service :: Service

definition val_upgrade :: "UpgradeServiceInput \<Rightarrow> (string \<times> string option) list" where
  "val_upgrade inp =
     [(''product_id'', if us_ProductID inp = 0 then Some ''is required'' else tag (us_ProductID inp < 1) ''must be at least 1''),
      (''cycle'', tag (us_Cycle inp = []) ''is required''),
      (''specs'', tag (length (us_Specs inp) > 20) ''must be at most 20'')]
     @ concat (map (\<lambda>(j, s). [(idx ''specs'' j @ ''.key'', if ssr_Key s = [] then Some ''is required''
           else tag (length (ssr_Key s) > 50) ''must be at most 50 characters''),
         (idx ''specs'' j @ ''.qty'', tag (ssr_Qty s < 0) ''must be at least 0'')]) (enumerate 0 (dived 20 (us_Specs inp))))"

definition upgrade_spec_errors :: "ProductSpec \<Rightarrow> int \<Rightarrow> bool \<Rightarrow> FieldError list" where
  "upgrade_spec_errors sp qty unlimited =
     (let fe = ferr (''specs.'' @ ps_Key sp) in
      if unlimited then (if \<not> ps_AllowUnlimited sp then [fe ''unlimited is not allowed for this spec''] else [])
      else (if qty < ps_MinQty sp then [fe (''must be at least '' @ FormatInt (ps_MinQty sp))] else [])
        @ (if ps_MaxQty sp \<noteq> 0 \<and> qty > ps_MaxQty sp then [fe (''must be at most '' @ FormatInt (ps_MaxQty sp))] else [])
        @ (if ps_StepQty sp > 1 \<and> remi (i64 (qty - ps_MinQty sp)) (ps_StepQty sp) \<noteq> 0
           then [fe (''must be in increments of '' @ FormatInt (ps_StepQty sp))] else []))"

definition spec_amount :: "ProductSpec \<Rightarrow> int \<Rightarrow> bool \<Rightarrow> ProductSpecPricing option \<Rightarrow> int" where
  "spec_amount sp qty unlimited pricing =
     (case pricing of None \<Rightarrow> 0
      | Some p \<Rightarrow> if unlimited then psp_UnlimitedPrice p
          else let chargeable = i64 (qty - ps_IncludedQty sp)
               in i64 ((if chargeable < 0 then 0 else chargeable) * psp_UnitPrice p))"

text \<open>One turn of the loop over the defined specs; the accumulator is \<open>(out, total, errs)\<close>.\<close>

definition upgradeSpec :: "BillingCycle \<Rightarrow> SpecSelectionRequest list \<Rightarrow> ProductSpec \<Rightarrow>
    SpecSelection list \<times> int \<times> FieldError list \<Rightarrow> (SpecSelection list \<times> int \<times> FieldError list) act" where
  "upgradeSpec cycle chosen sp acc = (case acc of (out, tot, errs) \<Rightarrow>
     let (qty, unlimited) = (case chosen_specs chosen (ps_Key sp) of
           None \<Rightarrow> (ps_DefaultQty sp, False) | Some c \<Rightarrow> (ssr_Qty c, ssr_Unlimited c));
         bad = upgrade_spec_errors sp qty unlimited in
     if bad \<noteq> [] then ret (out, tot, errs @ bad)
     else
       bnd (on_err wrap (optional (GetSpecPricing (ps_ID sp) cycle))) (\<lambda>pricing.
       let amount = spec_amount sp qty unlimited pricing in
       ret (out @ [\<lparr>ss_Key = ps_Key sp, ss_ProvisionKey = provision_key_str (ps_ProvisionKey sp), ss_Unit = spec_unit_str (ps_Unit sp),
              ss_Qty = (if unlimited then UnlimitedQty else qty), ss_Unlimited = unlimited, ss_Amount = amount\<rparr>],
            i64 (tot + amount), errs)))"

definition resolveUpgradeSpecs :: "int \<Rightarrow> SpecSelectionRequest list \<Rightarrow> BillingCycle \<Rightarrow> (SpecSelection list \<times> int) act" where
  "resolveUpgradeSpecs productID chosen cycle =
     bnd (on_err wrap (ListSpecs productID)) (\<lambda>defs.
     bnd (foldE (upgradeSpec cycle chosen) defs ([], 0, [])) (\<lambda>(out, tot, errs).
     let errs = errs @ map (\<lambda>k. ferr (''specs.'' @ k) ''unknown spec'')
           (filter (\<lambda>k. k \<notin> ps_Key ` set defs) (remdups (map ssr_Key chosen))) in
     if errs \<noteq> [] then fail (Validation ''invalid spec selections'' errs) else ret (out, tot)))"

text \<open>The snapshot and the new choice, spec by spec; a service without a snapshot never matches.\<close>

definition sameChosenSpecs :: "PanelMeta \<Rightarrow> SpecSelection list \<Rightarrow> bool" where
  "sameChosenSpecs meta specs \<longleftrightarrow>
     (let cur = pm_ChosenSpecs meta; m = map_of (rev (map (\<lambda>c. (ss_Key c, (ss_Qty c, ss_Unlimited c))) cur)) in
      cur \<noteq> [] \<and> length cur = length specs \<and> (\<forall>sp \<in> set specs. m (ss_Key sp) = Some (ss_Qty sp, ss_Unlimited sp)))"

definition upgradeSpecSummary :: "SpecSelection list \<Rightarrow> string" where
  "upgradeSpecSummary specs = (if specs = [] then [] else Join (map spec_part specs) '', '')"

definition incompatible_module :: err where
  "incompatible_module = Validation ''target product must use the same server module'' [ferr ''product_id'' ''incompatible module'']"

text \<open>The specs and their price of the target, and that something changes.\<close>

definition upgrade_target :: "UpgradeServiceInput \<Rightarrow> BillingCycle \<Rightarrow> Service \<Rightarrow> Product \<Rightarrow> (SpecSelection list \<times> int) act" where
  "upgrade_target inp cycle svc target =
     bnd (if p_Configurable target then resolveUpgradeSpecs (p_ID target) (us_Specs inp) cycle
          else if us_Specs inp \<noteq> [] then
            fail (Validation ''target product is not configurable'' [ferr ''specs'' ''product does not accept spec selections''])
          else ret ([], 0)) (\<lambda>(upSpecs, specTotal).
     bnd (if s_ProductID svc = us_ProductID inp \<and> s_BillingCycle svc = cycle then
            (if \<not> p_Configurable target then fail (Validation ''service already uses this product and cycle'' [])
             else if sameChosenSpecs (s_PanelMeta svc) upSpecs then
               fail (Validation ''service already uses this configuration'' [ferr ''specs'' ''chosen specs match the current configuration''])
             else ret ())
          else ret ()) (\<lambda>_.
     bnd (attempt (GetPricing (p_ID target) cycle)) (\<lambda>r. case r of
       Inl _ \<Rightarrow> fail (Validation ''target product is not priced for this cycle'' [ferr ''cycle'' ''no price configured''])
     | Inr pricing \<Rightarrow> ret (upSpecs, i64 (pp_Price pricing + specTotal)))))"

text \<open>An upgrade is invoiced and waits; the invoice and the flag are two statements.\<close>

definition upgrade_description :: "Service \<Rightarrow> Product \<Rightarrow> Product \<Rightarrow> BillingCycle \<Rightarrow> SpecSelection list \<Rightarrow> string" where
  "upgrade_description svc current target cycle upSpecs =
     ''Upgrade '' @ s_Domain svc @ '': '' @ p_Name current @ '' -> '' @ p_Name target @ '' ('' @ cycle_str cycle @ '')''
     @ (let summary = upgradeSpecSummary upSpecs in if summary \<noteq> [] then '' - '' @ summary else [])"

definition upgrade_input :: "Service \<Rightarrow> string \<Rightarrow> int \<Rightarrow> time \<Rightarrow> CreateInvoiceInput" where
  "upgrade_input svc desc diff due = \<lparr>cin_ClientID = s_ClientID svc, cin_Items = [\<lparr>cii_Description = desc, cii_Amount = diff,
     cii_Taxed = True, cii_RelatedType = RelatedServiceUpgrade, cii_RelatedID = s_ID svc\<rparr>], cin_Discount = 0, cin_DueDate = due, cin_Notes = []\<rparr>"

definition request_upgrade ::
  "env \<Rightarrow> int \<Rightarrow> Service \<Rightarrow> Product \<Rightarrow> Product \<Rightarrow> BillingCycle \<Rightarrow> SpecSelection list \<Rightarrow> int \<Rightarrow> int \<Rightarrow> UpgradeResult act" where
  "request_upgrade env actorUserID svc current target cycle upSpecs targetPrice diff =
     bnd (on_err wrap (GetInt ''billing.invoice_due_days'' 3)) (\<lambda>dueDays.
     bnd (on_err wrap (CreateInvoice env (upgrade_input svc (upgrade_description svc current target cycle upSpecs) diff
            (AddDays (e_now env) dueDays)))) (\<lambda>iv.
     let svc = svc\<lparr>s_PendingUpgrade := Some \<lparr>su_ProductID = p_ID target, su_Cycle = cycle, su_RecurringAmount = targetPrice,
           su_InvoiceID = i_ID iv, su_Specs = upSpecs\<rparr>\<rparr> in
     bnd (on_err wrap (service_Update env svc)) (\<lambda>_.
     bnd (audit_Log actorUserID ''service.upgrade_requested'' ''service'' (s_ID svc)) (\<lambda>_.
     ret \<lparr>ur_Applied = False, ur_ProratedDiff = diff, ur_CreditIssued = 0, ur_Invoice = Some iv, ur_Service = svc\<rparr>))))"

definition downgradeTx :: "env \<Rightarrow> Service \<Rightarrow> int \<Rightarrow> unit act" where
  "downgradeTx env svc credit =
     bnd (service_Update env svc) (\<lambda>_.
     if credit > 0 then AddCredit (s_ClientID svc) credit
       (''Downgrade credit for service #'' @ FormatInt (s_ID svc) @ '' ('' @ s_Domain svc @ '')'') 0
     else ret ())"

definition apply_downgrade ::
  "env \<Rightarrow> int \<Rightarrow> Service \<Rightarrow> Product \<Rightarrow> BillingCycle \<Rightarrow> SpecSelection list \<Rightarrow> int \<Rightarrow> int \<Rightarrow> UpgradeResult act" where
  "apply_downgrade env actorUserID svc target cycle upSpecs targetPrice diff =
     (let credit = i64 (- diff);
          svc = svc\<lparr>s_ProductID := p_ID target, s_BillingCycle := cycle, s_RecurringAmount := targetPrice,
            s_PanelMeta := panelMetaWithChosenSpecs (s_PanelMeta svc) upSpecs\<rparr> in
      bnd (on_err wrap (WithinTx (downgradeTx env svc credit))) (\<lambda>_.
      bnd (on_err wrap (Enqueue env (JobProvisionChangePackage (s_ID svc)))) (\<lambda>_.
      bnd (audit_Log actorUserID ''service.downgrade_applied'' ''service'' (s_ID svc)) (\<lambda>_.
      ret \<lparr>ur_Applied = True, ur_ProratedDiff = diff, ur_CreditIssued = credit, ur_Invoice = None, ur_Service = svc\<rparr>))))"

definition upgrade_diff :: "env \<Rightarrow> Service \<Rightarrow> BillingCycle \<Rightarrow> int \<Rightarrow> time \<Rightarrow> int" where
  "upgrade_diff env svc cycle targetPrice until =
     (let unused = Prorate (s_RecurringAmount svc) (s_BillingCycle svc) (e_now env) until;
          charge = Prorate targetPrice cycle (e_now env) until
      in i64 (charge - unused))"

text \<open>What \<open>UpgradeService\<close> does with the caller's service.\<close>

definition upgrade_owned :: "env \<Rightarrow> int \<Rightarrow> UpgradeServiceInput \<Rightarrow> BillingCycle \<Rightarrow> Service \<Rightarrow> UpgradeResult act" where
  "upgrade_owned env actorUserID inp cycle svc =
     (if s_Status svc \<noteq> ServiceActive then fail (Conflict ''only active services can be upgraded'')
      else if s_PendingUpgrade svc \<noteq> None then fail (Conflict ''an upgrade is already pending payment for this service'')
      else
        bnd (on_err wrap (product_GetByID (s_ProductID svc))) (\<lambda>current.
        bnd (on_err wrap (product_GetByID (us_ProductID inp))) (\<lambda>target.
        if p_Module target \<noteq> p_Module current then fail incompatible_module
        else
          bnd (upgrade_target inp cycle svc target) (\<lambda>(upSpecs, targetPrice).
          case s_NextDueDate svc of
            None \<Rightarrow> fail (Conflict ''service has no next_due_date; cannot compute a prorated upgrade'')
          | Some until \<Rightarrow>
              let diff = upgrade_diff env svc cycle targetPrice until in
              if diff > 0 then request_upgrade env actorUserID svc current target cycle upSpecs targetPrice diff
              else apply_downgrade env actorUserID svc target cycle upSpecs targetPrice diff))))"

definition UpgradeService :: "env \<Rightarrow> int \<Rightarrow> int \<Rightarrow> int \<Rightarrow> UpgradeServiceInput \<Rightarrow> UpgradeResult act" where
  "UpgradeService env actorUserID clientID serviceID inp =
     bnd (val_Struct (val_upgrade inp)) (\<lambda>_.
     let cycle = cycle_of (us_Cycle inp) in
     if \<not> BillingCycle_Valid cycle \<or> CycleMonths cycle = 0
     then fail (Validation ''invalid billing cycle'' [ferr ''cycle'' ''must be a recurring billing cycle''])
     else bnd (getOwned clientID serviceID) (upgrade_owned env actorUserID inp cycle))"

section \<open>Staff\<close>

definition action_job :: "int \<Rightarrow> string \<Rightarrow> string \<Rightarrow> job option" where
  "action_job serviceID action reason =
     (if action = ''create'' then Some (JobProvisionCreate serviceID)
      else if action = ''suspend'' then Some (JobProvisionSuspend serviceID reason)
      else if action = ''unsuspend'' then Some (JobProvisionUnsuspend serviceID)
      else if action = ''terminate'' then Some (JobProvisionTerminate serviceID)
      else None)"

definition action_run :: "env \<Rightarrow> modules \<Rightarrow> int \<Rightarrow> string \<Rightarrow> string \<Rightarrow> unit act" where
  "action_run env mods serviceID action reason =
     (if action = ''create'' then ProvisionCreate env mods serviceID
      else if action = ''suspend'' then ProvisionSuspend env mods serviceID reason
      else if action = ''unsuspend'' then ProvisionUnsuspend env mods serviceID
      else if action = ''terminate'' then ProvisionTerminate env mods serviceID
      else fail (Validation ''unknown service action'' []))"

definition AdminAction :: "env \<Rightarrow> modules \<Rightarrow> int \<Rightarrow> int \<Rightarrow> string \<Rightarrow> string \<Rightarrow> bool \<Rightarrow> unit act" where
  "AdminAction env mods actorUserID serviceID action reason async =
     bnd (on_err wrap (service_GetByID serviceID)) (\<lambda>_.
     if async then
       bnd (need (Validation ''unknown service action'' []) (action_job serviceID action reason)) (\<lambda>j.
       bnd (on_err wrap (Enqueue env j)) (\<lambda>_.
       audit_Log actorUserID (''service.enqueue_'' @ action) ''service'' serviceID))
     else
       bnd (action_run env mods serviceID action reason) (\<lambda>_.
       audit_Log actorUserID (''service.admin_'' @ action) ''service'' serviceID))"

definition rebind_product :: "env \<Rightarrow> int \<Rightarrow> Service \<Rightarrow> int option \<Rightarrow> unit act" where
  "rebind_product env actorUserID svc productID =
     (case productID of
        None \<Rightarrow> ret ()
      | Some pid \<Rightarrow>
          if pid = s_ProductID svc then ret ()
          else
            bnd (on_err wrap (product_GetByID (s_ProductID svc))) (\<lambda>current.
            bnd (on_err wrap (product_GetByID pid)) (\<lambda>target.
            if p_Module target \<noteq> p_Module current then fail incompatible_module
            else
              bnd (on_err wrap (service_Update env (svc\<lparr>s_ProductID := p_ID target\<rparr>))) (\<lambda>_.
              audit_Log actorUserID ''service.rebind_product'' ''service'' (s_ID svc)))))"

definition AdminChangePackage :: "env \<Rightarrow> modules \<Rightarrow> int \<Rightarrow> int \<Rightarrow> bool \<Rightarrow> int option \<Rightarrow> unit act" where
  "AdminChangePackage env mods actorUserID serviceID async productID =
     bnd (val_Struct [(''product_id'', case productID of None \<Rightarrow> None | Some p \<Rightarrow> tag (p < 1) ''must be at least 1'')]) (\<lambda>_.
     bnd (on_err wrap (service_GetByID serviceID)) (\<lambda>svc.
     bnd (rebind_product env actorUserID svc productID) (\<lambda>_.
     if async then
       bnd (on_err wrap (Enqueue env (JobProvisionChangePackage serviceID))) (\<lambda>_.
       audit_Log actorUserID ''service.enqueue_change_package'' ''service'' serviceID)
     else ProvisionChangePackage env mods serviceID)))"

record AdminCreateServiceInput =
  ac_ClientID :: int
  ac_ProductID :: int
  ac_ServerID :: "int option"
  ac_Domain :: string
  ac_Username :: string
  ac_Password :: string
  ac_BillingCycle :: string
  ac_RecurringAmount :: int
  ac_NextDueDate :: string
  ac_RegistrationDate :: string
  ac_Notes :: string

definition cycles_message :: string where
  "cycles_message = ''must be one of: one_time, monthly, quarterly, semiannually, annually, biennially''"

definition bad_date :: "string \<Rightarrow> string option" where
  "bad_date s = tag (parseDate s = None) ''failed validation: datetime''"

definition val_create_service :: "AdminCreateServiceInput \<Rightarrow> (string \<times> string option) list" where
  "val_create_service inp =
     [(''client_id'', if ac_ClientID inp = 0 then Some ''is required'' else tag (ac_ClientID inp < 1) ''must be at least 1''),
      (''product_id'', if ac_ProductID inp = 0 then Some ''is required'' else tag (ac_ProductID inp < 1) ''must be at least 1''),
      (''server_id'', case ac_ServerID inp of None \<Rightarrow> None | Some x \<Rightarrow> tag (x < 1) ''must be at least 1''),
      (''domain'', tag (length (ac_Domain inp) > 255) ''must be at most 255 characters''),
      (''username'', tag (length (ac_Username inp) > 64) ''must be at most 64 characters''),
      (''password'', if ac_Password inp = [] then None else if length (ac_Password inp) < 8 then Some ''must be at least 8 characters''
         else tag (length (ac_Password inp) > 64) ''must be at most 64 characters''),
      (''billing_cycle'', if ac_BillingCycle inp = [] then Some ''is required''
         else tag (\<not> BillingCycle_Valid (cycle_of (ac_BillingCycle inp))) cycles_message),
      (''recurring_amount'', tag (ac_RecurringAmount inp < 0) ''must be at least 0''),
      (''next_due_date'', if ac_NextDueDate inp = [] then None else bad_date (ac_NextDueDate inp)),
      (''registration_date'', if ac_RegistrationDate inp = [] then None else bad_date (ac_RegistrationDate inp)),
      (''notes'', tag (length (ac_Notes inp) > 2000) ''must be at most 2000 characters'')]"

definition invalid_service :: "string \<Rightarrow> string \<Rightarrow> err" where
  "invalid_service fld msg = Validation ''invalid service parameters'' [ferr fld msg]"

definition server_fits :: "int option \<Rightarrow> Product \<Rightarrow> unit act" where
  "server_fits serverID product =
     (case serverID of
        None \<Rightarrow> ret ()
      | Some sid \<Rightarrow>
          bnd (on_err wrap (GetServerByID sid)) (\<lambda>server.
          guard (\<not> (p_Module product \<noteq> ModuleNone \<and> sv_Module server \<noteq> p_Module product))
            (invalid_service ''server_id'' (''server module does not match the product'' @ [CHR 0x27] @ ''s module''))))"

text \<open>The row of a service that exists already; a date that was given has passed the validator.\<close>

definition recorded_service :: "env \<Rightarrow> AdminCreateServiceInput \<Rightarrow> string \<Rightarrow> Service" where
  "recorded_service env inp passwordEnc =
     \<lparr>s_ID = 0, s_ClientID = ac_ClientID inp, s_OrderItemID = None, s_ProductID = ac_ProductID inp, s_ServerID = ac_ServerID inp,
      s_Domain = ac_Domain inp, s_Username = ac_Username inp, s_PasswordEnc = passwordEnc, s_Status = ServiceActive,
      s_BillingCycle = cycle_of (ac_BillingCycle inp), s_RecurringAmount = ac_RecurringAmount inp, s_SetupFee = 0,
      s_NextDueDate = (if ac_NextDueDate inp = [] then None else parseDate (ac_NextDueDate inp)),
      s_RegistrationDate = (if ac_RegistrationDate inp = [] then Some (dateOnly (e_now env)) else parseDate (ac_RegistrationDate inp)),
      s_TerminatedAt = None, s_SuspendReason = [], s_PanelMeta = no_meta, s_CouponID = None, s_PendingUpgrade = None,
      s_Notes = ac_Notes inp, s_CreatedAt = 0, s_UpdatedAt = 0\<rparr>"

definition AdminCreateService :: "env \<Rightarrow> int \<Rightarrow> AdminCreateServiceInput \<Rightarrow> Service act" where
  "AdminCreateService env actorUserID inp =
     bnd (val_Struct (val_create_service inp)) (\<lambda>_.
     if cycle_of (ac_BillingCycle inp) \<noteq> CycleOneTime \<and> ac_NextDueDate inp = []
     then fail (invalid_service ''next_due_date'' ''is required for recurring billing cycles'')
     else
       bnd (on_err wrap (clients_GetByID (ac_ClientID inp))) (\<lambda>_.
       bnd (on_err wrap (product_GetByID (ac_ProductID inp))) (\<lambda>product.
       bnd (server_fits (ac_ServerID inp) product) (\<lambda>_.
       bnd (if ac_Password inp = [] then ret [] else on_err Internal (from_result (e_encrypt env (ac_Password inp)))) (\<lambda>passwordEnc.
       bnd (on_err wrap (service_Create env (recorded_service env inp passwordEnc))) (\<lambda>svc.
       bnd (audit_Log actorUserID ''service.admin_create'' ''service'' (s_ID svc)) (\<lambda>_. ret svc)))))))"

record AdminUpdateServiceInput =
  au_Domain :: "string option"
  au_Username :: "string option"
  au_ServerID :: "int option"
  au_BillingCycle :: "string option"
  au_RecurringAmount :: "int option"
  au_NextDueDate :: "string option"
  au_RegistrationDate :: "string option"
  au_TerminatedAt :: "string option"
  au_SuspendReason :: "string option"
  au_Notes :: "string option"

definition when_given :: "('a \<Rightarrow> string option) \<Rightarrow> 'a option \<Rightarrow> string option" where
  "when_given f x = (case x of None \<Rightarrow> None | Some y \<Rightarrow> f y)"

definition sized :: "nat \<Rightarrow> nat \<Rightarrow> string \<Rightarrow> string option" where
  "sized lo hi s = (if length s < lo then Some (''must be at least '' @ FormatInt (int lo) @ '' characters'')
     else tag (length s > hi) (''must be at most '' @ FormatInt (int hi) @ '' characters''))"

definition val_update_service :: "AdminUpdateServiceInput \<Rightarrow> (string \<times> string option) list" where
  "val_update_service inp =
     [(''domain'', when_given (sized 1 255) (au_Domain inp)), (''username'', when_given (sized 1 64) (au_Username inp)),
      (''server_id'', when_given (\<lambda>x. tag (x < 1) ''must be at least 1'') (au_ServerID inp)),
      (''billing_cycle'', when_given (\<lambda>x. tag (\<not> BillingCycle_Valid (cycle_of x)) cycles_message) (au_BillingCycle inp)),
      (''recurring_amount'', when_given (\<lambda>x. tag (x < 0) ''must be at least 0'') (au_RecurringAmount inp)),
      (''next_due_date'', when_given bad_date (au_NextDueDate inp)), (''registration_date'', when_given bad_date (au_RegistrationDate inp)),
      (''terminated_at'', when_given bad_date (au_TerminatedAt inp)),
      (''suspend_reason'', when_given (sized 0 500) (au_SuspendReason inp)), (''notes'', when_given (sized 0 2000) (au_Notes inp))]"

definition given_date :: "string \<Rightarrow> string option \<Rightarrow> time option \<Rightarrow> time option act" where
  "given_date fld inp old =
     (case inp of
        None \<Rightarrow> ret old
      | Some s \<Rightarrow> (case parseDate s of
          None \<Rightarrow> fail (Validation (''invalid '' @ fld) [ferr fld ''must be YYYY-MM-DD''])
        | Some t \<Rightarrow> ret (Some t)))"

definition given :: "'a option \<Rightarrow> 'a \<Rightarrow> 'a" where
  "given x old = (case x of None \<Rightarrow> old | Some y \<Rightarrow> y)"

definition AdminUpdateService :: "env \<Rightarrow> int \<Rightarrow> int \<Rightarrow> AdminUpdateServiceInput \<Rightarrow> Service act" where
  "AdminUpdateService env actorUserID serviceID inp =
     bnd (val_Struct (val_update_service inp)) (\<lambda>_.
     if inp = \<lparr>au_Domain = None, au_Username = None, au_ServerID = None, au_BillingCycle = None, au_RecurringAmount = None,
          au_NextDueDate = None, au_RegistrationDate = None, au_TerminatedAt = None, au_SuspendReason = None, au_Notes = None\<rparr>
     then fail (Validation ''nothing to update'' [])
     else
       bnd (on_err wrap (service_GetByID serviceID)) (\<lambda>svc.
       bnd (case au_ServerID inp of None \<Rightarrow> ret () | Some sid \<Rightarrow> bnd (on_err wrap (GetServerByID sid)) (\<lambda>_. ret ())) (\<lambda>_.
       bnd (given_date ''next_due_date'' (au_NextDueDate inp) (s_NextDueDate svc)) (\<lambda>due.
       bnd (given_date ''registration_date'' (au_RegistrationDate inp) (s_RegistrationDate svc)) (\<lambda>reg.
       bnd (given_date ''terminated_at'' (au_TerminatedAt inp) (s_TerminatedAt svc)) (\<lambda>term.
       let svc = svc\<lparr>s_ServerID := (case au_ServerID inp of None \<Rightarrow> s_ServerID svc | Some x \<Rightarrow> Some x),
             s_Domain := given (au_Domain inp) (s_Domain svc), s_Username := given (au_Username inp) (s_Username svc),
             s_BillingCycle := given (map_option cycle_of (au_BillingCycle inp)) (s_BillingCycle svc),
             s_RecurringAmount := given (au_RecurringAmount inp) (s_RecurringAmount svc), s_NextDueDate := due,
             s_RegistrationDate := reg, s_TerminatedAt := term, s_SuspendReason := given (au_SuspendReason inp) (s_SuspendReason svc),
             s_Notes := given (au_Notes inp) (s_Notes svc)\<rparr> in
       bnd (on_err wrap (service_Update env svc)) (\<lambda>_.
       bnd (audit_Log actorUserID ''service.update'' ''service'' (s_ID svc)) (\<lambda>_. ret svc))))))))"

end
