(* ===== verification/Hosting.thy ===== *)
theory Hosting
  imports Orders Upgrades
begin

text \<open>
  What the operations on hosting services leave alone, that they keep the books, and the
  invariant of services and cancellation requests.
\<close>

section \<open>Reads\<close>

lemma read_hosting [read_rules]:
  "keeps (=) (service_GetByID sid)" "keeps (=) (GetServerByID sid)" "keeps (=) (GetGroupByID gid)"
  "keeps (=) (CountByServerAndPackage sid nm x)" "keeps (=) (ListOverdueSuspendable t)"
  "keeps (=) (ListTerminatable t u)" "keeps (=) (cancellation_GetByID rid)" "keeps (=) (GetPendingByService sid)"
  "keeps (=) (invoice_ListByClient c st n)" "keeps (=) (GetItemsByInvoiceIDs ids)"
  unfolding service_GetByID_def GetServerByID_def GetGroupByID_def CountByServerAndPackage_def ListOverdueSuspendable_def
    ListTerminatable_def cancellation_GetByID_def GetPendingByService_def invoice_ListByClient_def GetItemsByInvoiceIDs_def
  by (intro read_rules)+

lemma read_case_list: "keeps (=) m \<Longrightarrow> (\<And>x xs. keeps (=) (k x xs)) \<Longrightarrow> keeps (=) (case ys of [] \<Rightarrow> m | x # xs \<Rightarrow> k x xs)"
  by (cases ys) auto

lemma read_panels [read_rules]:
  "keeps (=) (PickServer g)" "keeps (=) (moduleFor mods nm)" "keeps (=) (decrypted env enc)" "keeps (=) (getOwned c sid)"
  "keeps (=) (has_panel pc)" "keeps (=) (owner_email svc)" "keeps (=) (buildPackageSpec svc p pfx)"
  "keeps (=) (validatePasswordStrength pw)" "keeps (=) (end_of_term_only cr)" "keeps (=) (given_date fld x y)"
  unfolding PickServer_def moduleFor_def decrypted_def getOwned_def has_panel_def owner_email_def buildPackageSpec_def
    validatePasswordStrength_def end_of_term_only_def given_date_def Let_def
  by (intro read_rules read_case_list)+

lemma read_contexts [read_rules]:
  "keeps (=) (serverConfig env sv)" "keeps (=) (server_fits x p)" "keeps (=) (upgradeSpec c ch sp acc)"
  unfolding serverConfig_def server_fits_def upgradeSpec_def Let_def by (intro read_rules)+

lemma read_upgrades [read_rules]:
  "keeps (=) (panelContext env mods svc)" "keeps (=) (resolveUpgradeSpecs p ch c)"
  unfolding panelContext_def resolveUpgradeSpecs_def Let_def by (intro read_rules)+

lemma read_upgrade_target [read_rules]: "keeps (=) (upgrade_target inp c svc target)"
  unfolding upgrade_target_def by (intro read_rules)

section \<open>Frames\<close>

lemmas frame_hosting_reads [frame_rules] = read_hosting [THEN frame_read] read_panels [THEN frame_read]
  read_contexts [THEN frame_read] read_upgrades [THEN frame_read] read_upgrade_target [THEN frame_read]

lemma frame_panel [frame_rules]: "keeps (frame f) (called c)" "keeps (frame f) (answer r)" "keeps (frame f) (panel_do c r)"
proof -
  show called: "keeps (frame f) (called c)" by (simp add: called_def keeps_writes frame_def)
  show answer: "keeps (frame f) (answer r)" unfolding answer_def by (intro frame_rules)
  show "keeps (frame f) (panel_do c r)" unfolding panel_do_def by (intro frame_rules called answer)
qed

lemma frame_on_panel [frame_rules]: "(\<And>m cfg. keeps (frame f) (g m cfg)) \<Longrightarrow> keeps (frame f) (on_panel pc g)"
  unfolding on_panel_def by (intro frame_rules)

definition no_cancellations :: "(db \<Rightarrow> 'p) \<Rightarrow> bool" where
  "no_cancellations f \<longleftrightarrow> (\<forall>d x. f (d\<lparr>db_cancellations := x\<rparr>) = f d)"

lemma frame_cancellations [frame_rules]:
  "no_cancellations f \<Longrightarrow> keeps (frame f) (cancellation_Create env cr)"
  "no_cancellations f \<Longrightarrow> keeps (frame f) (cancellation_Update cr)"
  unfolding cancellation_Create_def cancellation_Update_def Let_def
  by (intro frame_rules; simp add: no_cancellations_def)+

lemma frame_resolvePendingCancellation [frame_rules]:
  "no_cancellations f \<Longrightarrow> keeps (frame f) (resolvePendingCancellation env sid)"
  unfolding resolvePendingCancellation_def by (intro frame_rules)

lemma frame_create_parts [frame_rules]:
  "no_fulfilment f \<Longrightarrow> keeps (frame f) (pin_server env p svc)" "keeps (frame f) (ensure_package m cfg svc p pfx)"
  "no_fulfilment f \<Longrightarrow> keeps (frame f) (rename_account env svc e)"
  unfolding pin_server_def ensure_package_def rename_account_def Let_def by (intro frame_rules; assumption)+

lemma frame_create_account [frame_rules]: "no_fulfilment f \<Longrightarrow> keeps (frame f) (create_account env m cfg svc ps)"
  unfolding create_account_def by (intro frame_rules)

lemma frame_panel_create [frame_rules]: "no_fulfilment f \<Longrightarrow> keeps (frame f) (panel_create env m p svc)"
  unfolding panel_create_def Let_def by (intro frame_rules)

lemma frame_cleanup [frame_rules]: "no_logs f \<Longrightarrow> keeps (frame f) (cleanup_alert env sid pkg x)"
  "no_logs f \<Longrightarrow> keeps (frame f) (cleanupDynamicPackage env svc m cfg pkg)"
proof -
  show a: "no_logs f \<Longrightarrow> keeps (frame f) (cleanup_alert env sid pkg x)" for sid x
    unfolding cleanup_alert_def by (intro frame_rules)
  show "no_logs f \<Longrightarrow> keeps (frame f) (cleanupDynamicPackage env svc m cfg pkg)"
    unfolding cleanupDynamicPackage_def by (intro frame_rules a)
qed

lemma frame_lifecycle [frame_rules]:
  "no_fulfilment f \<Longrightarrow> no_logs f \<Longrightarrow> keeps (frame f) (ProvisionCreate env mods sid)"
  "no_fulfilment f \<Longrightarrow> no_logs f \<Longrightarrow> keeps (frame f) (ProvisionSuspend env mods sid reason)"
  "no_fulfilment f \<Longrightarrow> no_logs f \<Longrightarrow> keeps (frame f) (ProvisionUnsuspend env mods sid)"
  "no_fulfilment f \<Longrightarrow> no_logs f \<Longrightarrow> keeps (frame f) (change_package env m cfg svc p)"
  unfolding ProvisionCreate_def ProvisionSuspend_def ProvisionUnsuspend_def change_package_def Let_def
  by (intro frame_rules; assumption)+

lemma frame_terminate_parts [frame_rules]:
  "no_fulfilment f \<Longrightarrow> no_logs f \<Longrightarrow> no_cancellations f \<Longrightarrow> keeps (frame f) (cancel_pending env svc)"
  "no_fulfilment f \<Longrightarrow> no_logs f \<Longrightarrow> no_cancellations f \<Longrightarrow> keeps (frame f) (terminate_live env mods svc)"
  unfolding cancel_pending_def terminate_live_def Let_def by (intro frame_rules; assumption)+

lemma frame_ProvisionTerminate [frame_rules]:
  "no_fulfilment f \<Longrightarrow> no_logs f \<Longrightarrow> no_cancellations f \<Longrightarrow> keeps (frame f) (ProvisionTerminate env mods sid)"
proof -
  have "no_fulfilment f \<Longrightarrow> no_logs f \<Longrightarrow> no_cancellations f \<Longrightarrow> keeps (frame f) (case s_Status svc of
       ServiceTerminated \<Rightarrow> ret () | ServiceCancelled \<Rightarrow> ret () | ServicePending \<Rightarrow> cancel_pending env svc | _ \<Rightarrow> terminate_live env mods svc)" for svc
    by (cases "s_Status svc") (simp_all add: frame_rules)
  then show "no_fulfilment f \<Longrightarrow> no_logs f \<Longrightarrow> no_cancellations f \<Longrightarrow> ?thesis"
    unfolding ProvisionTerminate_def by (intro frame_rules)
qed

lemma frame_account_operations [frame_rules]:
  "no_fulfilment f \<Longrightarrow> no_logs f \<Longrightarrow> keeps (frame f) (ProvisionChangePackage env mods sid)"
  "no_fulfilment f \<Longrightarrow> no_logs f \<Longrightarrow> keeps (frame f) (changePassword env mods a c sid pw)"
  "no_logs f \<Longrightarrow> keeps (frame f) (SSO env mods a c sid)" "no_logs f \<Longrightarrow> keeps (frame f) (NotifyProvisionFailure env sid tk msg)"
  "keeps (frame f) (AutoSuspend env)" "keeps (frame f) (AutoTerminate env)"
  unfolding ProvisionChangePackage_def changePassword_def SSO_def NotifyProvisionFailure_def AutoSuspend_def AutoTerminate_def enqueue_all_def
  by (intro frame_rules; assumption)+

lemma frame_cancel_renewals [frame_rules]: "no_invoicing f \<Longrightarrow> keeps (frame f) (cancelOpenRenewalInvoices svc)"
  unfolding cancelOpenRenewalInvoices_def cancel_renewals_in_def cancel_renewal_def by (intro frame_rules)

lemma frame_requests [frame_rules]:
  "no_invoicing f \<Longrightarrow> no_logs f \<Longrightarrow> no_cancellations f \<Longrightarrow> keeps (frame f) (CancelService env a c sid md rs)"
  "no_fulfilment f \<Longrightarrow> no_logs f \<Longrightarrow> no_cancellations f \<Longrightarrow> keeps (frame f) (AcceptCancellationRequest env a rid)"
  "no_logs f \<Longrightarrow> no_cancellations f \<Longrightarrow> keeps (frame f) (RejectCancellationRequest env a rid)"
  unfolding CancelService_def AcceptCancellationRequest_def RejectCancellationRequest_def by (intro frame_rules; assumption)+

lemma frame_upgrade_parts [frame_rules]:
  "no_fulfilment f \<Longrightarrow> no_invoicing f \<Longrightarrow> no_logs f \<Longrightarrow> keeps (frame f) (request_upgrade env a svc cur tg c sp tp df)"
  "no_fulfilment f \<Longrightarrow> no_credit f \<Longrightarrow> no_logs f \<Longrightarrow> keeps (frame f) (apply_downgrade env a svc tg c sp tp df)"
  unfolding request_upgrade_def apply_downgrade_def downgradeTx_def Let_def by (intro frame_rules; assumption?)+

lemma frame_UpgradeService [frame_rules]:
  "no_fulfilment f \<Longrightarrow> no_invoicing f \<Longrightarrow> no_credit f \<Longrightarrow> no_logs f \<Longrightarrow> keeps (frame f) (UpgradeService env a c sid inp)"
  unfolding UpgradeService_def upgrade_owned_def Let_def by (intro frame_rules)

lemma frame_staff_parts [frame_rules]:
  "no_fulfilment f \<Longrightarrow> no_logs f \<Longrightarrow> no_cancellations f \<Longrightarrow> keeps (frame f) (action_run env mods sid act rs)"
  "no_fulfilment f \<Longrightarrow> no_logs f \<Longrightarrow> keeps (frame f) (rebind_product env a svc pid)"
  unfolding action_run_def rebind_product_def by (intro frame_rules; assumption)+

lemma frame_staff [frame_rules]:
  "no_fulfilment f \<Longrightarrow> no_logs f \<Longrightarrow> no_cancellations f \<Longrightarrow> keeps (frame f) (AdminAction env mods a sid act rs async)"
  "no_fulfilment f \<Longrightarrow> no_logs f \<Longrightarrow> keeps (frame f) (AdminChangePackage env mods a sid async pid)"
  "no_fulfilment f \<Longrightarrow> no_logs f \<Longrightarrow> keeps (frame f) (AdminCreateService env a ac)"
  "no_fulfilment f \<Longrightarrow> no_logs f \<Longrightarrow> keeps (frame f) (AdminUpdateService env a sid au)"
  unfolding AdminAction_def AdminChangePackage_def AdminCreateService_def AdminUpdateService_def Let_def
  by (intro frame_rules; assumption)+

end
