(* ===== verification/Tenancy.thy ===== *)
theory Tenancy
  imports Hosting
begin

text \<open>
  The operations on hosting services keep the books, and what every operation of the program
  keeps of a service: the owner, the state machine of its status, the time of its suspension, and
  at most one pending cancellation request (\<open>hosts\<close>). A computation that has read a service
  and writes it back is followed with \<open>holding\<close>.
\<close>

section \<open>The books\<close>

text \<open>None of these invoices has been paid.\<close>

definition open_books :: "int set \<Rightarrow> world \<Rightarrow> bool" where
  "open_books ids w \<longleftrightarrow> books w \<and> (\<forall>i \<in> set (db_invoices (w_db w)). i_ID i \<in> ids \<longrightarrow> i_Status i \<noteq> InvoicePaid)"

lemma cancel_renewal_books:
  assumes "i_ID iv \<in> ids"
  shows "keeps (maintains (open_books ids)) (cancel_renewal sid g iv)"
proof (rule keepsI)
  fix w :: world
  have "keeps (frame (\<lambda>_. ())) (cancel_renewal sid g iv)"
    unfolding cancel_renewal_def by (intro frame_rules; simp)
  then have fr: "frame (\<lambda>_. ()) w (snd (cancel_renewal sid g iv w))" by (simp add: keeps_def)
  have "open_books ids (snd (cancel_renewal sid g iv w))" if ob: "open_books ids w"
  proof -
    obtain r w' where u: "invoice_UpdateStatus (i_ID iv) InvoiceCancelled None w = (r, w')" by fastforce
    have "books w'"
      by (rule UpdateStatus_books [OF _ _ _ u]) (use ob assms in \<open>auto simp: open_books_def dest: row_Some_key dest!: bspec [OF _ row_Some_in]\<close>)
    moreover have "i_Status i \<noteq> InvoicePaid" if "i \<in> set (db_invoices (w_db w'))" "i_ID i \<in> ids" for i
      using u ob that
      by (auto simp: invoice_UpdateStatus_def invoice_exec_def eff_simps open_books_def split: option.splits dest!: upd_in)
    ultimately have "open_books ids w'" by (simp add: open_books_def)
    then show ?thesis
      using ob u by (auto simp: cancel_renewal_def TransitionInvoice_def on_err_def bnd_def ret_def fail_def from_result_def split: sum.splits)
  qed
  then show "maintains (open_books ids) w (snd (cancel_renewal sid g iv w))" using fr by (simp add: maintains_def frame_def)
qed

lemma cancel_renewals_in_books:
  assumes "st \<noteq> InvoicePaid"
  shows "keeps (maintains books) (cancel_renewals_in svc st)"
proof (rule keepsI)
  fix w :: world
  define ivs where "ivs = take 100 (rev (filter (\<lambda>i. (s_ClientID svc = 0 \<or> i_ClientID i = s_ClientID svc) \<and> i_Status i = st) (db_invoices (w_db w))))"
  obtain g where run: "cancel_renewals_in svc st w = each (cancel_renewal (s_ID svc) g) ivs w"
    unfolding cancel_renewals_in_def invoice_ListByClient_def GetItemsByInvoiceIDs_def ivs_def
    by (simp add: on_err_def bnd_def q_db_def reads_def)
  have k: "keeps (maintains (open_books (i_ID ` set ivs))) (each (cancel_renewal (s_ID svc) g) ivs)"
    by (rule keeps_each) (auto intro: cancel_renewal_books)
  have sub: "set ivs \<subseteq> {i \<in> set (db_invoices (w_db w)). i_Status i = st}"
    unfolding ivs_def using set_take_subset by fastforce
  have "open_books (i_ID ` set ivs) w" if b: "books w"
  proof -
    have d: "distinct (map i_ID (db_invoices (w_db w)))" using b by (simp add: books_def books_of_def)
    have "i_Status i = st" if "i \<in> set (db_invoices (w_db w))" "i_ID i \<in> i_ID ` set ivs" for i
      using that sub d by (auto simp: distinct_map dest: inj_onD)
    then show ?thesis using b assms by (auto simp: open_books_def)
  qed
  then show "maintains books w (snd (cancel_renewals_in svc st w))"
    using k unfolding run keeps_def maintains_def open_books_def by blast
qed

lemma CancelService_books: "keeps (maintains books) (CancelService env a c sid md rs)"
proof -
  have m: "keeps (maintains books) (cancelOpenRenewalInvoices svc)" for svc
    unfolding cancelOpenRenewalInvoices_def by (rule keeps_each) (auto intro: cancel_renewals_in_books)
  have "keeps (maintains books) (getOwned c sid)" "keeps (maintains books) (GetPendingByService x)"
    "keeps (maintains books) (cancellation_Create env cr)" "keeps (maintains books) (Enqueue env j)" for x cr j
    by (intro inv_money frame_rules; simp add: no_cancellations_def money_def)+
  then show ?thesis unfolding CancelService_def by (intro books_rules m)
qed

lemma UpgradeService_books: "keeps (maintains books) (UpgradeService env a c sid inp)"
proof -
  have "keeps (maintains books) (getOwned c sid)" "keeps (maintains books) (product_GetByID p)"
    "keeps (maintains books) (upgrade_target inp cy svc tg)"
    "keeps (maintains books) (apply_downgrade env a svc tg cy sp tp df)" "keeps (maintains books) (service_Update env svc)"
    for p cy svc tg sp tp df
    by (intro inv_money frame_rules; simp)+
  then show ?thesis unfolding UpgradeService_def upgrade_owned_def request_upgrade_def Let_def by (intro books_rules CreateInvoice_books)
qed

section \<open>Services\<close>

definition hosting :: "db \<Rightarrow> Service list \<times> CancellationRequest list" where
  "hosting d = (db_services d, db_cancellations d)"

lemma no_hosting [simp]: "no_logs hosting" "no_invoicing hosting" "no_snipes hosting" "no_shelf hosting" "no_credit hosting"
  by (simp_all add: no_shelf_def no_logs_def no_invoicing_def no_snipes_def no_credit_def hosting_def)

lemma hosting_other [simp]: "hosting (d\<lparr>db_transactions := x\<rparr>) = hosting d" "hosting (d\<lparr>db_counters := y\<rparr>) = hosting d"
  "hosting (d\<lparr>db_domains := z\<rparr>) = hosting d" "hosting (d\<lparr>db_orders := u\<rparr>) = hosting d" "hosting (d\<lparr>db_order_items := v\<rparr>) = hosting d"
  by (simp_all add: hosting_def)

text \<open>The time of the suspension is on the row exactly while a live service is suspended.\<close>

definition service_ok :: "Service \<Rightarrow> bool" where
  "service_ok s \<longleftrightarrow> (s_Status s \<in> {ServicePending, ServiceActive} \<longrightarrow> pm_SuspendedAt (s_PanelMeta s) = None)
     \<and> (s_Status s = ServiceSuspended \<longrightarrow> pm_SuspendedAt (s_PanelMeta s) \<noteq> None)"

definition pending_requests :: "CancellationRequest list \<Rightarrow> int list" where
  "pending_requests xs = map cx_ServiceID (filter (\<lambda>x. cx_Status x = CancellationPending) xs)"

definition hosting_inv :: "world \<Rightarrow> bool" where
  "hosting_inv w \<longleftrightarrow>
     distinct (map s_ID (db_services (w_db w))) \<and> (\<forall>s \<in> set (db_services (w_db w)). service_ok s \<and> s_ID s \<le> w_seq w TServices)
     \<and> distinct (map cx_ID (db_cancellations (w_db w))) \<and> (\<forall>x \<in> set (db_cancellations (w_db w)). cx_ID x \<le> w_seq w TCancellations)
     \<and> distinct (pending_requests (db_cancellations (w_db w)))"

text \<open>What may become of a service: the owner stays, and the status moves along the state machine.\<close>

definition service_move :: "Service \<Rightarrow> Service \<Rightarrow> bool" where
  "service_move s s' \<longleftrightarrow> s_ID s' = s_ID s \<and> s_ClientID s' = s_ClientID s \<and> ServiceCanTransition\<^sup>*\<^sup>* (s_Status s) (s_Status s')"

definition services_move :: "world \<Rightarrow> world \<Rightarrow> bool" where
  "services_move w w' \<longleftrightarrow> (\<forall>s \<in> set (db_services (w_db w)). \<exists>s' \<in> set (db_services (w_db w')). service_move s s')"

definition hosts :: "world \<Rightarrow> world \<Rightarrow> bool" where
  "hosts w w' \<longleftrightarrow> w_intx w' = w_intx w \<and> (\<forall>t. w_seq w t \<le> w_seq w' t)
     \<and> (hosting_inv w \<longrightarrow> hosting_inv w' \<and> services_move w w')"

lemma service_move_refl [simp]: "service_move s s"
  by (simp add: service_move_def)

lemma service_move_trans: "service_move s s' \<Longrightarrow> service_move s' s'' \<Longrightarrow> service_move s s''"
  by (auto simp: service_move_def)

lemma services_move_trans: "services_move w w' \<Longrightarrow> services_move w' w'' \<Longrightarrow> services_move w w''"
  unfolding services_move_def by (meson service_move_trans)

lemma services_move_same: "db_services (w_db w') = db_services (w_db w) \<Longrightarrow> services_move w w'"
  unfolding services_move_def by (metis service_move_refl)

lemma services_move_more: "set (db_services (w_db w)) \<subseteq> set (db_services (w_db w')) \<Longrightarrow> services_move w w'"
  unfolding services_move_def using service_move_refl by blast

lemma hosting_inv_frame: "hosting_inv w \<Longrightarrow> hosting (w_db w') = hosting (w_db w) \<Longrightarrow> \<forall>t. w_seq w t \<le> w_seq w' t \<Longrightarrow> hosting_inv w'"
  unfolding hosting_inv_def hosting_def by (auto intro: order_trans)

interpretation hosts: kept hosts hosting
proof
  show "reflp hosts" by (auto simp: reflp_def hosts_def intro: services_move_same)
  show "transp hosts" by (auto simp: transp_def hosts_def intro: order_trans services_move_trans)
  show "hosts w w'" if "frame hosting w w'" for w w'
    using that by (auto simp: hosts_def frame_def hosting_def intro: services_move_same hosting_inv_frame)
  have same: "hosting_inv w \<Longrightarrow> w_db w' = w_db w \<Longrightarrow> \<forall>t. w_seq w t \<le> w_seq w' t \<Longrightarrow> hosting_inv w'" for w w'
    by (rule hosting_inv_frame) auto
  show "hosts w (w'\<lparr>w_intx := False\<rparr>)" if "\<not> w_intx w" "hosts (w\<lparr>w_intx := True\<rparr>) w'" for w w'
    using that same [of w "w\<lparr>w_intx := True\<rparr>"] same [of w' "w'\<lparr>w_intx := False\<rparr>"] by (auto simp: hosts_def services_move_def)
  show "hosts w (w'\<lparr>w_db := w_db w, w_intx := False\<rparr>)" if "\<not> w_intx w" "hosts (w\<lparr>w_intx := True\<rparr>) w'" for w w'
    using that same [of w "w'\<lparr>w_db := w_db w, w_intx := False\<rparr>"] by (auto simp: hosts_def intro: services_move_same)
qed

text \<open>A computation that holds a service it has read, while the row is as it was read.\<close>

definition current :: "Service \<Rightarrow> world \<Rightarrow> bool" where
  "current svc w \<longleftrightarrow> service_ok svc \<and> (\<exists>s0. row s_ID (s_ID svc) (db_services (w_db w)) = Some s0
     \<and> s_ClientID s0 = s_ClientID svc \<and> s_Status s0 = s_Status svc)"

definition holding :: "Service \<Rightarrow> world \<Rightarrow> world \<Rightarrow> bool" where
  "holding svc w w' \<longleftrightarrow> w_intx w' = w_intx w \<and> (\<forall>t. w_seq w t \<le> w_seq w' t)
     \<and> (hosting_inv w \<and> current svc w \<longrightarrow> hosting_inv w' \<and> services_move w w')"

named_theorems hold_rules \<open>what an operation does with a service it has read\<close>

lemma hold_hosts: "keeps hosts m \<Longrightarrow> keeps (holding svc) m"
  by (auto simp: keeps_def holding_def hosts_def)

lemma hold_read [hold_rules]: "(\<And>svc. keeps (holding svc) (g svc)) \<Longrightarrow> keeps hosts (bnd (on_err h (service_GetByID sid)) g)"
proof (rule keepsI)
  fix w assume g: "\<And>svc. keeps (holding svc) (g svc)"
  show "hosts w (snd (bnd (on_err h (service_GetByID sid)) g w))"
  proof (cases "row s_ID sid (db_services (w_db w))")
    case None
    then show ?thesis by (simp add: bnd_def on_err_def service_run hosts_def services_move_same)
  next
    case (Some svc)
    then have "hosting_inv w \<Longrightarrow> current svc w"
      by (auto simp: current_def hosting_inv_def dest: row_Some_in row_Some_key)
    then show ?thesis using g [of svc] Some
      by (auto simp: bnd_def on_err_def service_run hosts_def keeps_def holding_def)
  qed
qed

lemma hold_frame: "keeps (frame hosting) m \<Longrightarrow> (\<And>x. keeps (holding svc) (g x)) \<Longrightarrow> keeps (holding svc) (bnd m g)"
proof (rule keepsI)
  fix w assume m: "keeps (frame hosting) m" and g: "\<And>x. keeps (holding svc) (g x)"
  obtain r w' where run: "m w = (r, w')" by (cases "m w")
  have fr: "frame hosting w w'" using keepsD [OF m run] .
  then have same: "hosting_inv w \<Longrightarrow> hosting_inv w'" "current svc w \<Longrightarrow> current svc w'" "services_move w w'"
    by (auto simp: frame_def current_def hosting_def intro: hosting_inv_frame services_move_same)
  show "holding svc w (snd (bnd m g w))"
  proof (cases r)
    case (Inl e)
    then show ?thesis using run fr same by (auto simp: bnd_def holding_def frame_def)
  next
    case (Inr x)
    have "holding svc w' (snd (g x w'))" using g by (simp add: keeps_def)
    then show ?thesis using run fr same Inr
      by (auto simp: bnd_def holding_def frame_def services_move_def hosting_def intro: order_trans)
  qed
qed

lemma hold_transition [hold_rules]:
  "(ServiceCanTransition st to \<Longrightarrow> keeps (holding svc) (g to)) \<Longrightarrow> keeps (holding svc) (bnd (from_result (TransitionService st to)) g)"
  by (auto simp: TransitionService_def keeps_def bnd_def holding_def services_move_same eff_simps)

lemma hold_cases [hold_rules]:
  "(b \<Longrightarrow> keeps (holding svc) m) \<Longrightarrow> (\<not> b \<Longrightarrow> keeps (holding svc) n) \<Longrightarrow> keeps (holding svc) (if b then m else n)"
  "keeps (holding svc) m \<Longrightarrow> (\<And>x. keeps (holding svc) (k x)) \<Longrightarrow> keeps (holding svc) (case y of None \<Rightarrow> m | Some x \<Rightarrow> k x)"
  "(\<And>x. keeps (holding svc) (g x)) \<Longrightarrow> (\<And>x. keeps (holding svc) (h x)) \<Longrightarrow> keeps (holding svc) (case z of Inl x \<Rightarrow> g x | Inr x \<Rightarrow> h x)"
  "(\<And>x y. keeps (holding svc) (l x y)) \<Longrightarrow> keeps (holding svc) (case p of (x, y) \<Rightarrow> l x y)"
  by (auto split: option.split sum.split prod.split)

lemma hold_done [hold_rules]: "keeps (holding svc) (ret x)" "keeps (holding svc) (fail e)"
  by (intro hold_hosts hosts.of_rules)+


text \<open>What may be written over a service that was read.\<close>

definition may_become :: "Service \<Rightarrow> Service \<Rightarrow> bool" where
  "may_become svc s \<longleftrightarrow> service_move svc s \<and> (service_ok svc \<longrightarrow> service_ok s)"

lemma service_ok_stamps [simp]: "service_ok (s\<lparr>s_CreatedAt := x, s_UpdatedAt := y\<rparr>) = service_ok s"
  by (simp add: service_ok_def)

lemma service_Update_hosts:
  assumes inv: "hosting_inv w" and cur: "current svc w" and ok: "may_become svc s"
    and run: "service_Update env s w = (r, w')"
  shows "hosting_inv w'" and "services_move w w'" and "current s w'"
proof -
  obtain s0 where s0: "row s_ID (s_ID s) (db_services (w_db w)) = Some s0" "s_ClientID s0 = s_ClientID svc" "s_Status s0 = s_Status svc"
    using cur ok by (auto simp: current_def may_become_def service_move_def)
  let ?f = "\<lambda>old. s\<lparr>s_CreatedAt := s_CreatedAt old, s_UpdatedAt := e_now env\<rparr>"
  have w': "w' = w\<lparr>w_db := (w_db w)\<lparr>db_services := upd s_ID (s_ID s) ?f (db_services (w_db w))\<rparr>\<rparr>"
    using run s0 by (auto simp: service_Update_def eff_simps)
  have sok: "service_ok s" using cur ok by (simp add: current_def may_become_def)
  have ids: "map s_ID (upd s_ID (s_ID s) ?f (db_services (w_db w))) = map s_ID (db_services (w_db w))"
    by (auto simp: upd_def)
  have rows: "service_ok x \<and> s_ID x \<le> w_seq w TServices" if "x \<in> set (upd s_ID (s_ID s) ?f (db_services (w_db w)))" for x
    using upd_in [OF that] inv sok row_Some_in [OF s0(1)] row_Some_key [OF s0(1)] by (auto simp: hosting_inv_def)
  show "hosting_inv w'"
    using inv rows ids unfolding w' hosting_inv_def by simp
  have mv: "service_move s0 (?f s0)"
    using ok s0 row_Some_key [OF s0(1)] by (auto simp: may_become_def service_move_def)
  have one: "s0 = x" if "x \<in> set (db_services (w_db w))" "s_ID x = s_ID s" for x
    using inv that row_distinct [of s_ID "db_services (w_db w)" x] s0(1) by (simp add: hosting_inv_def)
  have "\<exists>s' \<in> set (upd s_ID (s_ID s) ?f (db_services (w_db w))). service_move x s'" if "x \<in> set (db_services (w_db w))" for x
  proof (cases "s_ID x = s_ID s")
    case True
    then show ?thesis using mv one [OF that True] that by (auto simp: upd_def intro!: image_eqI)
  next
    case False
    then show ?thesis using that by (auto simp: upd_def intro!: bexI [of _ x])
  qed
  then show "services_move w w'" by (simp add: w' services_move_def)
  show "current s w'" using sok s0 ok by (simp add: current_def w' row_upd_to may_become_def service_move_def)
qed

lemma service_Update_grows: "service_Update env s w = (r, w') \<Longrightarrow> w_intx w' = w_intx w \<and> (\<forall>t. w_seq w t \<le> w_seq w' t)"
  by (auto simp: service_Update_def eff_simps split: option.splits)

lemma hold_Update: "may_become svc s \<Longrightarrow> keeps (holding svc) (service_Update env s)"
  by (rule keepsI) (metis holding_def prod.collapse service_Update_hosts(1,2) service_Update_grows)

lemma hold_update_hold:
  assumes "may_become svc s" and g: "\<And>x. keeps (holding s) (g x)"
  shows "keeps (holding svc) (bnd (on_err h (service_Update env s)) g)"
proof (rule keepsI)
  fix w :: world
  obtain r w1 where u: "service_Update env s w = (r, w1)" by (cases "service_Update env s w")
  note gr = service_Update_grows [OF u] and up = service_Update_hosts [OF _ _ assms(1) u]
  show "holding svc w (snd (bnd (on_err h (service_Update env s)) g w))"
  proof (cases r)
    case (Inl e)
    then show ?thesis using u gr up by (auto simp: bnd_def on_err_def holding_def)
  next
    case (Inr x)
    have "holding s w1 (snd (g x w1))" using g by (simp add: keeps_def)
    then show ?thesis using u gr up Inr
      by (auto simp: bnd_def on_err_def holding_def intro: order_trans services_move_trans)
  qed
qed

lemma hold_update: "may_become svc s \<Longrightarrow> (\<And>x. keeps hosts (g x)) \<Longrightarrow> keeps (holding svc) (bnd (on_err h (service_Update env s)) g)"
  by (rule hold_update_hold) (auto intro: hold_hosts)

lemma hold_then: "keeps (holding svc) m \<Longrightarrow> (\<And>x. keeps hosts (g x)) \<Longrightarrow> keeps (holding svc) (bnd m g)"
proof (rule keepsI)
  fix w assume m: "keeps (holding svc) m" and g: "\<And>x. keeps hosts (g x)"
  obtain r w1 where u: "m w = (r, w1)" by (cases "m w")
  have h: "holding svc w w1" using keepsD [OF m u] .
  show "holding svc w (snd (bnd m g w))"
  proof (cases r)
    case (Inl e)
    then show ?thesis using u h by (auto simp: bnd_def)
  next
    case (Inr x)
    have "hosts w1 (snd (g x w1))" using g by (simp add: keeps_def)
    then show ?thesis using u h Inr
      by (auto simp: bnd_def hosts_def holding_def intro: order_trans services_move_trans)
  qed
qed

interpretation holding: transactional "holding svc" for svc
proof
  have same: "hosting_inv w \<Longrightarrow> w_db w' = w_db w \<Longrightarrow> \<forall>t. w_seq w t \<le> w_seq w' t \<Longrightarrow> hosting_inv w'" for w w'
    by (rule hosting_inv_frame) auto
  fix w w' :: world
  assume h: "\<not> w_intx w" "holding svc (w\<lparr>w_intx := True\<rparr>) w'"
  then have f: "\<forall>t. w_seq w t \<le> w_seq w' t" by (simp add: holding_def)
  show "holding svc w (w'\<lparr>w_intx := False\<rparr>)"
    using h same [of w "w\<lparr>w_intx := True\<rparr>"] same [of w' "w'\<lparr>w_intx := False\<rparr>"]
    by (auto simp: holding_def services_move_def current_def)
  show "holding svc w (w'\<lparr>w_db := w_db w, w_intx := False\<rparr>)"
    using h f same [of w "w'\<lparr>w_db := w_db w, w_intx := False\<rparr>"] by (auto simp: holding_def intro: services_move_same)
qed

text \<open>A new row is of a new service.\<close>

lemma service_Create_run: "service_Create env s w = (let n = w_seq w TServices + 1; s' = s\<lparr>s_ID := n, s_CreatedAt := e_now env, s_UpdatedAt := e_now env\<rparr>
    in (Inr s', w\<lparr>w_seq := (w_seq w)(TServices := n), w_db := (w_db w)\<lparr>db_services := db_services (w_db w) @ [s']\<rparr>\<rparr>))"
  by (simp add: service_Create_def Let_def eff_simps)

lemma service_Create_hosts:
  assumes "service_ok s"
  shows "keeps hosts (service_Create env s)"
proof (rule keepsI)
  fix w
  have "s_ID x < w_seq w TServices + 1" if "hosting_inv w" "x \<in> set (db_services (w_db w))" for x
    using that by (force simp: hosting_inv_def)
  then have "hosting_inv w \<Longrightarrow> hosting_inv (snd (service_Create env s w))"
    using assms by (force simp: service_Create_run Let_def hosting_inv_def service_ok_def)
  then show "hosts w (snd (service_Create env s w))"
    using services_move_more [of w "snd (service_Create env s w)"] by (auto simp: service_Create_run Let_def hosts_def)
qed

text \<open>The index on pending requests.\<close>

lemma cancellation_Create_hosts: "keeps hosts (cancellation_Create env cr)"
proof (rule keepsI)
  fix w
  have "hosting_inv (snd (cancellation_Create env cr w))" if "hosting_inv w"
    using that
    by (fastforce simp: cancellation_Create_def Let_def nextval_def bnd_def guard_def eff_simps hosting_inv_def pending_requests_def)
  then show "hosts w (snd (cancellation_Create env cr w))"
    by (auto simp: cancellation_Create_def Let_def nextval_def bnd_def guard_def eff_simps hosts_def intro!: services_move_same)
qed

lemma pending_Cons: "pending_requests (x # xs) = (if cx_Status x = CancellationPending then cx_ServiceID x # pending_requests xs else pending_requests xs)"
  by (simp add: pending_requests_def)

lemma upd_Cons: "upd key i g (x # xs) = (if key x = i then g x else x) # upd key i g xs"
  by (simp add: upd_def)

lemma decide_pending: "distinct (pending_requests xs) \<Longrightarrow> st \<noteq> CancellationPending \<Longrightarrow>
   distinct (pending_requests (upd cx_ID rid (\<lambda>x. x\<lparr>cx_Status := st, cx_DecidedAt := t, cx_DecidedBy := b\<rparr>) xs))"
proof (induction xs)
  case (Cons x xs)
  have "set (pending_requests (upd cx_ID rid (\<lambda>x. x\<lparr>cx_Status := st, cx_DecidedAt := t, cx_DecidedBy := b\<rparr>) xs)) \<subseteq> set (pending_requests xs)"
    using Cons.prems(2) by (auto simp: pending_requests_def upd_def split: if_splits)
  then show ?case using Cons by (auto simp: pending_Cons upd_Cons split: if_splits)
qed (simp add: pending_requests_def upd_def)

lemma cancellation_Update_hosts: "cx_Status cr \<noteq> CancellationPending \<Longrightarrow> keeps hosts (cancellation_Update cr)"
proof (rule keepsI)
  fix w assume "cx_Status cr \<noteq> CancellationPending"
  then have "hosting_inv (snd (cancellation_Update cr w))" if "hosting_inv w"
    using that by (auto simp: cancellation_Update_def eff_simps hosting_inv_def decide_pending split: option.split dest!: upd_in)
  then show "hosts w (snd (cancellation_Update cr w))"
    by (auto simp: cancellation_Update_def eff_simps hosts_def intro!: services_move_same split: option.splits)
qed


section \<open>Every operation\<close>

lemma moves_once [intro]: "ServiceCanTransition a b \<Longrightarrow> ServiceCanTransition\<^sup>*\<^sup>* a b"
  by (rule r_into_rtranclp)

lemmas become_defs = may_become_def service_move_def service_ok_def

lemma hosts_frames:
  "keeps (frame hosting) (order_UpdateStatus oid os)" "keeps (frame hosting) (UpdateItemBackRefs i x y)"
  "keeps (frame hosting) (domain_Create dm)" "keeps (frame hosting) (order_Create env ord its)"
  unfolding order_UpdateStatus_def UpdateItemBackRefs_def domain_Create_def order_Create_def order_AddItem_def Let_def
  by (intro frame_rules; simp)+

lemma hosts_flag: "keeps (frame hosting) (flag_fraud ord iv)"
  unfolding flag_fraud_def by (intro hosts_frames frame_rules; simp)

lemma hosts_sales:
  "keeps (frame hosting) (orderTx env ord plans cp disc due fr)" "keeps (frame hosting) (setTerminalStatus a oid st act)"
  unfolding orderTx_def setTerminalStatus_def terminalTx_def cancel_order_invoice_def
  by (intro hosts_frames hosts_flag frame_rules; simp)+

lemma hosts_activateItem: "keeps hosts (activateItem env ord cp today item al)"
proof -
  have p: "keeps hosts (activateProductItem env ord item cp today)"
  proof -
    have "keeps hosts rand_password" "keeps hosts (product_GetByID pid)" "keeps hosts (UpdateItemBackRefs i x y)" "keeps hosts (Enqueue env j)"
      for pid i x y j by (intro hosts.of_frame hosts_frames frame_rules)+
    then show ?thesis unfolding activateProductItem_def Let_def
      by (intro hosts.of_rules service_Create_hosts; simp add: service_ok_def)
  qed
  have "keeps hosts (activateDomainItem env ord item)"
    unfolding activateDomainItem_def Let_def by (intro hosts.of_frame hosts_frames frame_rules)
  with p show ?thesis unfolding activateItem_def by (cases "oi_ItemType item") (simp_all add: hosts.of_rules)
qed

lemma hosts_ActivateOrder: "keeps hosts (ActivateOrder env oid)"
proof -
  have "keeps hosts (order_GetByID oid)" "keeps hosts (clients_GetByID c)" "keeps hosts (order_GetItems oid)" "keeps hosts (coupon_GetByID c)"
    "keeps hosts (order_UpdateStatus oid st)" "keeps hosts (AlertAdmin env sb ms)" "keeps hosts (SendTemplate env u k x)"
    for c st sb ms u k x by (intro hosts.of_frame hosts_frames frame_rules; simp)+
  then show ?thesis unfolding ActivateOrder_def by (intro hosts.of_rules hosts_activateItem)
qed

lemma hosts_renewals: "keeps hosts (RenewService env sid)" "keeps hosts (ApplyUpgrade env sid)"
proof -
  have rest: "keeps hosts (renewal_effects env svc nxt)" "keeps hosts (Enqueue env j)" "keeps hosts (audit_Log a b c e)" for svc nxt j a b c e
    by (intro hosts.of_frame frame_rules; simp)+
  show "keeps hosts (RenewService env sid)" unfolding RenewService_def Let_def
    by (intro hold_read hold_update rest) (simp add: become_defs)
  show "keeps hosts (ApplyUpgrade env sid)" unfolding ApplyUpgrade_def
    by (intro hold_read hold_cases hold_done hold_then keeps_on_err holding.of_WithinTx hold_Update hosts.of_rules rest)
      (simp add: become_defs panelMetaWithChosenSpecs_def)
qed

lemma hosts_dispatchItem: "keeps hosts (dispatchItem env iv it acc)"
proof -
  have "keeps hosts (OrderIDForOrderItem oid)" "keeps hosts (RenewDomainAfterPayment env did)" "keeps hosts (notifyClient env c k x)"
    "keeps hosts (Enqueue env j)" "keeps hosts (AddCredit c b rs i)" "keeps hosts (ActivateSnipeAfterPayment env did)"
    "keeps hosts (AlertAdmin env sb ms)" "keeps hosts (audit_Log x1 x2 x3 x4)"
    for oid did c k x j b rs i sb ms x1 x2 x3 x4
    by (intro hosts.of_frame frame_rules; simp)+
  then show ?thesis
  unfolding dispatchItem_def Let_def
  by (cases "ii_RelatedType it"; simp only: InvoiceItemRelatedType.case;
      (intro hosts.of_rules hosts_renewals hosts_ActivateOrder)?)
qed

lemma hosts_ProcessPaid: "keeps hosts (ProcessPaid env iid)"
proof -
  have "keeps hosts (invoice_GetByID iid)" "keeps hosts (invoice_GetItems iid)" "keeps hosts (notifyClient env c k x)" "keeps hosts (audit_Log x1 x2 x3 x4)"
    "keeps hosts (AlertAdmin env sb ms)" "keeps hosts (Enqueue env j)"
    for c k x x1 x2 x3 x4 sb ms j by (intro hosts.of_frame frame_rules; simp)+
  then show ?thesis unfolding ProcessPaid_def by (intro hosts.of_rules hosts_dispatchItem)
qed


subsection \<open>Provisioning\<close>

lemma hold_create_account: "(\<And>r. keeps (holding svc) (g r)) \<Longrightarrow> keeps (holding svc) (bnd (create_account env m cfg svc ps) g)"
proof -
  assume g: "\<And>r. keeps (holding svc) (g r)"
  have rn: "keeps (holding svc) (bnd (rename_account env svc e) h)" for e and h :: "'b \<Rightarrow> 'c act"
    unfolding rename_account_def bnd_assoc bnd_fail
    by (intro hold_update hosts.of_rules) (simp add: become_defs)
  have "keeps (frame hosting) (called c)" for c by (intro frame_rules)
  then show ?thesis
    unfolding create_account_def bnd_assoc
    by (rule hold_frame) (auto simp: g rn hold_done bnd_ret bnd_fail split: sum.split)
qed

lemma hold_pin:
  assumes "\<And>x sid. keeps (holding (svc\<lparr>s_ServerID := x\<rparr>)) (g (svc\<lparr>s_ServerID := x\<rparr>, sid))"
  shows "keeps (holding svc) (bnd (pin_server env p svc) g)"
proof -
  have same: "keeps (holding svc) (g (svc, sid))" if "s_ServerID svc = Some sid" for sid
    using assms [of "s_ServerID svc" sid] by simp
  have pick: "keeps (frame hosting) (on_err wrap (PickServer gid))" for gid by (intro frame_rules)
  show ?thesis
    unfolding pin_server_def Let_def
    by (auto split: option.split simp: bnd_assoc bnd_ret bnd_fail same hold_done become_defs
        intro!: hold_frame [OF pick] hold_update_hold assms)
qed

lemma with_account_fields [simp]: "s_ID (with_account r s) = s_ID s" "s_ClientID (with_account r s) = s_ClientID s"
  "s_Status (with_account r s) = s_Status s" "pm_SuspendedAt (s_PanelMeta (with_account r s)) = pm_SuspendedAt (s_PanelMeta s)"
  by (simp_all add: with_account_def Let_def split: option.split)

lemma with_package_suspended [simp]: "pm_SuspendedAt (with_package r m) = pm_SuspendedAt m"
  by (simp add: with_package_def split: option.split)

lemma hosts_effects:
  "keeps hosts (notifyService env s k x)" "keeps hosts (audit_Log a b c e)" "keeps hosts (Enqueue env j)"
  "keeps hosts (cleanupDynamicPackage env s m cfg pkg)" "keeps hosts (on_panel pc (\<lambda>m cfg. cleanupDynamicPackage env s m cfg pkg))"
  "keeps hosts (GetPendingByService sid)"
  by (intro hosts.of_frame frame_rules; simp)+

lemma hosts_resolve: "keeps hosts (resolvePendingCancellation env sid)"
proof -
  show ?thesis unfolding resolvePendingCancellation_def
    by (intro hosts.of_rules hosts_effects)
      (simp add: cancellation_Update_hosts hosts.of_rules split: sum.split option.split)
qed

lemma hosts_ProvisionCreate: "keeps hosts (ProvisionCreate env mods sid)"
proof -
  have fr: "keeps (frame hosting) (on_err wrap (product_GetByID pid))" "keeps (frame hosting) (moduleFor mods nm)"
    "keeps (frame hosting) (on_err wrap (GetServerByID x))" "keeps (frame hosting) (serverConfig env sv)"
    "keeps (frame hosting) (decrypted env pw)" "keeps (frame hosting) (owner_email s)" "keeps (frame hosting) (ensure_package m cfg s p pfx)"
    for pid nm x sv pw s m cfg p pfx by (intro frame_rules)+
  have pc: "keeps (holding svc) (bnd (panel_create env m p svc) g)"
    if "\<And>s d x. may_become (svc\<lparr>s_ServerID := x\<rparr>) s \<Longrightarrow> s_Status s = s_Status svc \<Longrightarrow> keeps (holding (svc\<lparr>s_ServerID := x\<rparr>)) (g (s, d))"
    for svc m p and g :: "Service \<times> (string \<times> string) list \<Rightarrow> unit act"
    unfolding panel_create_def Let_def bnd_assoc
    apply (rule hold_pin)
    apply (simp only: case_prod_conv bnd_assoc bnd_ret)
    apply (intro hold_frame [OF fr(3)] hold_frame [OF fr(4)] hold_frame [OF fr(5)] hold_frame [OF fr(6)] hold_frame [OF fr(7)] hold_create_account)
    apply (rule that)
     apply (simp_all add: become_defs)
    done
  have "keeps (holding svc) (bnd (on_err wrap (service_Update env (s\<lparr>s_Status := ServiceActive, s_RegistrationDate := t\<rparr>))) (\<lambda>_. bnd (notifyService env z k d) (\<lambda>_. audit_Log a b c e)))"
    if "may_become svc s" "s_Status s = s_Status svc" "ServiceCanTransition (s_Status svc) ServiceActive" "s_Status svc = ServicePending" for svc s t z k d a b c e
    using that by (intro hold_update hosts.of_rules hosts_effects) (auto simp: become_defs)
  note fin = this
  show ?thesis unfolding ProvisionCreate_def Let_def
    apply (intro hold_read hold_cases(1) hold_done hold_transition hold_frame [OF fr(1)] hold_frame [OF fr(2)])
    apply (split option.split, intro conjI allI impI)
     apply (simp only: bnd_ret case_prod_conv, rule fin; simp add: may_become_def)
    apply (rule pc, simp only: case_prod_conv, rule fin; simp)
    done
qed

lemma hosts_suspension: "keeps hosts (ProvisionSuspend env mods sid reason)" "keeps hosts (ProvisionUnsuspend env mods sid)"
proof -
  have fr: "keeps (frame hosting) (panelContext env mods svc)" "keeps (frame hosting) (on_panel pc (\<lambda>m cfg. panel_do (c m cfg) (r m cfg)))"
    for svc pc c r by (intro frame_rules)+
  show "keeps hosts (ProvisionSuspend env mods sid reason)" "keeps hosts (ProvisionUnsuspend env mods sid)"
    unfolding ProvisionSuspend_def ProvisionUnsuspend_def Let_def
    by (intro hold_read hold_cases hold_done hold_transition hold_frame [OF fr(1)] hold_frame [OF fr(2)] hold_update hosts.of_rules hosts_effects;
        auto simp: become_defs)+
qed

lemma hosts_ProvisionTerminate: "keeps hosts (ProvisionTerminate env mods sid)"
proof -
  have fr: "keeps (frame hosting) (panelContext env mods svc)" "keeps (frame hosting) (on_panel pc (\<lambda>m cfg. panel_do (c m cfg) (r m cfg)))"
    for svc pc c r by (intro frame_rules)+
  have "keeps (holding svc) (cancel_pending env svc)" "keeps (holding svc) (terminate_live env mods svc)" for svc
    unfolding cancel_pending_def terminate_live_def Let_def
    by (intro hold_read hold_cases hold_done hold_transition hold_frame [OF fr(1)] hold_frame [OF fr(2)] hold_update hosts.of_rules
        hosts_effects hosts_resolve; auto simp: become_defs)+
  then show ?thesis unfolding ProvisionTerminate_def
    by (intro hold_read) (simp add: hold_done split: ServiceStatus.split)
qed


lemma hosts_change_package: "keeps hosts (ProvisionChangePackage env mods sid)"
proof -
  have fr: "keeps (frame hosting) (on_err wrap (product_GetByID pid))" "keeps (frame hosting) (panelContext env mods svc)"
    "keeps (frame hosting) (panel_do c r)" "keeps (frame hosting) (on_err wrap (GetServerByID x))" "keeps (frame hosting) (ensure_package m cfg svc p pfx)"
    for pid svc c r x m cfg p pfx by (intro frame_rules)+
  have pk: "keeps (frame hosting) (if b then bnd (on_err wrap (GetServerByID x)) (\<lambda>server. ensure_package m cfg svc p (sv_PackagePrefix server)) else ret None)"
    for b x m cfg svc p by (intro frame_rules)
  have cp: "keeps (holding svc) (change_package env m cfg svc p)" for svc m cfg p
    unfolding change_package_def Let_def
    by (intro hold_frame [OF pk] hold_frame [OF fr(3)] hold_update hosts.of_rules hosts_effects)
      (simp add: become_defs split: option.split)
  show ?thesis unfolding ProvisionChangePackage_def on_panel_def
    by (intro hold_read hold_frame [OF fr(1)] hold_frame [OF fr(2)] hold_then hold_cases hold_done cp hosts_effects)
qed

lemma hold_getOwned:
  assumes "\<And>svc. keeps (holding svc) (g svc)"
  shows "keeps hosts (bnd (getOwned c sid) g)"
  unfolding getOwned_def bnd_assoc
proof (rule hold_read)
  fix svc
  show "keeps (holding svc) (bnd (if c \<noteq> 0 \<and> s_ClientID svc \<noteq> c then fail (NotFound ''service'') else ret svc) g)"
    by (simp add: assms bnd_ret bnd_fail hold_done)
qed

lemma hosts_changePassword: "keeps hosts (changePassword env mods a c sid pw)"
proof -
  have v: "keeps hosts (validatePasswordStrength pw)" by (intro hosts.of_frame frame_rules)
  have fr: "keeps (frame hosting) (panelContext env mods svc)" "keeps (frame hosting) (has_panel pc)" "keeps (frame hosting) (panel_do d r)"
    "keeps (frame hosting) (on_err Internal (from_result x))" for svc pc d r and x :: "err + string" by (intro frame_rules)+
  show ?thesis unfolding changePassword_def
    by (rule hosts.of_bnd [OF v], rule hold_getOwned)
      (intro hold_cases hold_done hold_frame [OF fr(1)] hold_frame [OF fr(2)] hold_frame [OF fr(3)] hold_frame [OF fr(4)] hold_update hosts_effects;
       simp add: become_defs)
qed

lemma hosts_requests:
  "keeps hosts (CancelService env a c sid md rs)" "keeps hosts (AcceptCancellationRequest env a rid)"
  "keeps hosts (RejectCancellationRequest env a rid)"
proof -
  have fr: "keeps hosts (getOwned c sid)" "keeps hosts (cancelOpenRenewalInvoices svc)" "keeps hosts (val_Struct fs)"
    "keeps hosts (cancellation_GetByID rid)" "keeps hosts (end_of_term_only cr)" for svc fs cr
    by (intro hosts.of_frame frame_rules; simp)+
  show "keeps hosts (CancelService env a c sid md rs)" unfolding CancelService_def
    by (intro hosts.of_rules fr hosts_effects cancellation_Create_hosts)
  have d: "keeps hosts (cancellation_Update (decided env a CancellationAccepted cr))"
    "keeps hosts (cancellation_Update (decided env a CancellationRejected cr))" for cr
    by (rule cancellation_Update_hosts, simp add: decided_def)+
  show "keeps hosts (RejectCancellationRequest env a rid)" unfolding RejectCancellationRequest_def
    by (intro hosts.of_rules fr hosts_effects d)
  have s: "keeps hosts (bnd (on_err wrap (service_GetByID x)) (\<lambda>svc.
     if s_Status svc \<noteq> ServiceActive \<and> s_Status svc \<noteq> ServiceSuspended
     then fail (Conflict ''service is no longer eligible for cancellation'')
     else
       bnd (on_err wrap (service_Update env (svc\<lparr>s_PanelMeta := (s_PanelMeta svc)\<lparr>pm_CancelAtPeriodEnd := True\<rparr>\<rparr>))) (\<lambda>_.
       bnd (on_err wrap (cancellation_Update (decided env a CancellationAccepted cr))) (\<lambda>_.
       audit_Log a ''service.cancel_request_accept'' ''service'' (s_ID svc)))))" for x cr
    by (intro hold_read hold_cases hold_done hold_update hosts.of_rules d hosts_effects) (simp add: become_defs)
  show "keeps hosts (AcceptCancellationRequest env a rid)" unfolding AcceptCancellationRequest_def
    by (intro s hosts.of_rules fr)
qed

lemma hosts_UpgradeService: "keeps hosts (UpgradeService env a c sid inp)"
proof -
  have v: "keeps hosts (val_Struct fs)" for fs by (intro hosts.of_frame frame_rules)
  have fr: "keeps (frame hosting) (on_err wrap (product_GetByID pid))" "keeps (frame hosting) (upgrade_target inp cy svc tg)"
    "keeps (frame hosting) (on_err wrap (GetInt k n))" "keeps (frame hosting) (on_err wrap (CreateInvoice env cin))"
    for pid cy svc tg k n cin by (intro frame_rules; simp)+
  have cr: "keeps hosts (AddCredit cl n rs i)" for cl n rs i by (intro hosts.of_frame frame_rules; simp)
  have up: "keeps (holding svc) (request_upgrade env a svc cur tg cy sp tp df)" for svc cur tg cy sp tp df
    unfolding request_upgrade_def Let_def
    by (intro hold_frame [OF fr(3)] hold_frame [OF fr(4)] hold_update hosts.of_rules hosts_effects) (simp add: become_defs)
  have down: "keeps (holding svc) (apply_downgrade env a svc tg cy sp tp df)" for svc tg cy sp tp df
    unfolding apply_downgrade_def downgradeTx_def Let_def
    by (intro hold_then keeps_on_err holding.of_WithinTx hold_Update hosts.of_rules hosts_effects cr)
      (simp add: become_defs panelMetaWithChosenSpecs_def)
  show ?thesis unfolding UpgradeService_def upgrade_owned_def Let_def
    by (intro hosts.of_bnd hosts.of_cases(1) v hosts.of_basic hold_getOwned hold_cases hold_done hold_frame [OF fr(1)] hold_frame [OF fr(2)] up down)
qed

lemma hosts_staff:
  "keeps hosts (AdminAction env mods a sid act rs async)" "keeps hosts (AdminChangePackage env mods a sid async pid)"
  "keeps hosts (AdminCreateService env a ac)" "keeps hosts (AdminUpdateService env a sid au)"
proof -
  have v: "keeps hosts (val_Struct fs)" "keeps hosts (service_GetByID sid)" "keeps hosts (clients_GetByID c)" "keeps hosts (product_GetByID p)"
    "keeps hosts (server_fits x pr)" for fs c p x pr by (intro hosts.of_frame frame_rules)+
  have fr: "keeps (frame hosting) (on_err wrap (product_GetByID p))" "keeps (frame hosting) (given_date fld x y)"
    "keeps (frame hosting) (case z of None \<Rightarrow> ret () | Some i \<Rightarrow> bnd (on_err wrap (GetServerByID i)) (\<lambda>_. ret ()))" for p fld x y z
    by (intro frame_rules)+
  show "keeps hosts (AdminAction env mods a sid act rs async)" unfolding AdminAction_def action_run_def
    by (intro hosts.of_rules v hosts_effects hosts_ProvisionCreate hosts_suspension hosts_ProvisionTerminate)
  have rb: "keeps (holding svc) (rebind_product env a svc pid)" for svc unfolding rebind_product_def
    by (intro hold_cases hold_done hold_frame [OF fr(1)] hold_update hosts_effects) (simp add: become_defs)
  show "keeps hosts (AdminChangePackage env mods a sid async pid)" unfolding AdminChangePackage_def
    by (intro hosts.of_bnd v hold_read hold_then rb hosts.of_cases hosts.of_wraps hosts_effects hosts_change_package)
  show "keeps hosts (AdminCreateService env a ac)" unfolding AdminCreateService_def
    by (intro hosts.of_rules v hosts_effects service_Create_hosts) (simp add: recorded_service_def service_ok_def)
  show "keeps hosts (AdminUpdateService env a sid au)" unfolding AdminUpdateService_def Let_def
    by (intro hosts.of_bnd hosts.of_cases hosts.of_basic v hold_read hold_frame [OF fr(3)] hold_frame [OF fr(2)] hold_update hosts_effects)
      (simp add: become_defs)
qed

end
