(* ===== verification/Reach.thy ===== *)
theory Reach
  imports Tenancy
begin

text \<open>
  The credit ledger under every operation, and the program as a transition system: a step is one
  call of one operation of billing, payments, credit, orders, hosting, renewal or sniping, and
  every state reached from a fresh installation keeps the books, the ledger, the shelf and the
  services.
\<close>

section \<open>The ledger under every operation\<close>

definition accounts :: "db \<Rightarrow> Client list \<times> CreditLedgerEntry list" where
  "accounts d = (db_clients d, db_ledger d)"

lemma view_ledger: "view accounts ledger_inv"
  by (auto simp: view_def ledger_inv_def ledger_ok_def accounts_def)

lemma no_accounts [simp]: "no_logs accounts" "no_invoicing accounts" "no_snipes accounts" "no_fulfilment accounts"
  "no_shelf accounts"
  by (simp_all add: no_shelf_def no_logs_def no_invoicing_def no_snipes_def no_fulfilment_def accounts_def)

lemma accounts_tx [simp]: "accounts (d\<lparr>db_transactions := x\<rparr>) = accounts d" "accounts (d\<lparr>db_counters := y\<rparr>) = accounts d"
  by (simp_all add: accounts_def)

lemma led: "keeps (frame accounts) m \<Longrightarrow> keeps (maintains ledger_inv) m"
  by (rule maintains_frame [OF view_ledger])

lemma led_WithinTx: "keeps (maintains ledger_inv) m \<Longrightarrow> keeps (maintains ledger_inv) (WithinTx m)"
  by (rule inv_WithinTx [OF view_stable [OF view_ledger]])

lemma led_AdjustCredit: "keeps (maintains ledger_inv) (AdjustCredit c a rs rel)"
proof (rule keepsI)
  fix w :: world
  obtain r w' where run: "AdjustCredit c a rs rel w = (r, w')" by (cases "AdjustCredit c a rs rel w")
  have "ledger_inv w'" if "ledger_inv w"
    using that run
    by (auto simp: AdjustCredit_run ledger_inv_def split: option.splits if_splits intro!: book_credit_ledger_ok)
  moreover have "frame (\<lambda>_. ()) w w'" using keepsD [OF frame_AdjustCredit [of "\<lambda>_. ()"] run] by simp
  ultimately show "maintains ledger_inv w (snd (AdjustCredit c a rs rel w))"
    using run by (simp add: maintains_def frame_def)
qed

lemma led_applyCredit: "keeps (maintains ledger_inv) (applyCredit c a rs i)"
  unfolding applyCredit_def Let_def by (intro inv_rules led_WithinTx led_AdjustCredit)

lemma led_credit: "keeps (maintains ledger_inv) (AddCredit c a rs i)" "keeps (maintains ledger_inv) (DeductCredit c a rs i)"
  unfolding AddCredit_def DeductCredit_def by (intro inv_rules led_applyCredit)+

lemma led_base: "keeps (maintains ledger_inv) (audit_Log a b c e)" "keeps (maintains ledger_inv) (from_result r)"
  "keeps (maintains ledger_inv) (val_Struct fds)" "keeps (maintains ledger_inv) (snipe_Activate sid t)"
  "keeps (maintains ledger_inv) (snipe_Finish sf)" "keeps (maintains ledger_inv) (snipe_RecordRefund sid am t)"
  "keeps (maintains ledger_inv) (snipe_MarkRefunded sid t)" "keeps (maintains ledger_inv) (snipe_AddEvent sid k m)"
  "keeps (maintains ledger_inv) (sendToClient env s k x)" "keeps (maintains ledger_inv) (notifyEnded env s to am)"
  "keeps (maintains ledger_inv) (snipe_GetByID sid)" "keeps (maintains ledger_inv) (AlertAdmin env sb ms)"
  by (intro led frame_rules; simp)+

lemma led_AdminAdjustCredit: "keeps (maintains ledger_inv) (AdminAdjustCredit actor c a rs)"
  unfolding AdminAdjustCredit_def by (intro inv_rules led_applyCredit led_base)

lemma led_snipe: "keeps (maintains ledger_inv) (ActivateSnipeAfterPayment env sid)"
  "keeps (maintains ledger_inv) (snipe_finish env s to opts)"
  unfolding ActivateSnipeAfterPayment_def refundLatePayment_def snipe_finish_def finishTx_def snipe_refund_def finish_effects_def Let_def
  by (intro inv_rules led_AdjustCredit led_WithinTx led_base)+

lemma led_dispatch: "keeps (maintains ledger_inv) (OrderIDForOrderItem oid)" "keeps (maintains ledger_inv) (ActivateOrder env oid)"
  "keeps (maintains ledger_inv) (RenewService env sid)" "keeps (maintains ledger_inv) (ApplyUpgrade env sid)"
  "keeps (maintains ledger_inv) (RenewDomainAfterPayment env did)" "keeps (maintains ledger_inv) (notifyClient env c k x)"
  "keeps (maintains ledger_inv) (Enqueue env j)" "keeps (maintains ledger_inv) (invoice_GetByID iid)"
  "keeps (maintains ledger_inv) (invoice_GetItems iid)" "keeps (maintains ledger_inv) (tx_Create env t)"
  "keeps (maintains ledger_inv) (tx_Update t)" "keeps (maintains ledger_inv) (invoice_UpdateStatus iid st pt)"
  by (intro led frame_rules; simp)+

lemma led_dispatchItem: "keeps (maintains ledger_inv) (dispatchItem env iv it acc)"
  unfolding dispatchItem_def Let_def
  by (cases "ii_RelatedType it"; simp only: InvoiceItemRelatedType.case;
      (intro inv_rules led_credit led_snipe led_dispatch)?)

lemma led_ProcessPaid: "keeps (maintains ledger_inv) (ProcessPaid env iid)"
  unfolding ProcessPaid_def by (intro inv_rules led_dispatchItem led_dispatch)

lemma led_RefundInvoice: "keeps (maintains ledger_inv) (RefundInvoice a iid tc)"
  unfolding RefundInvoice_def refundTx_def refund_credit_def invoice_GetByIDForUpdate_def tx_ListByInvoice_def
  by (intro inv_rules led_WithinTx led_base led_dispatch led_credit)

text \<open>
  What a relation needs so that every payment keeps it: it does not look at invoices, transactions
  and logs, and credit and the processor keep it.
\<close>

locale paid_relation = kept R f for R :: "world \<Rightarrow> world \<Rightarrow> bool" and f :: "db \<Rightarrow> 'p" +
  fixes process :: "int \<Rightarrow> unit act"
  assumes f_logs: "no_logs f" and f_invoicing: "no_invoicing f" and f_transactions: "f (d\<lparr>db_transactions := x\<rparr>) = f d"
    and R_credit: "keeps R (AdjustCredit c a rs rel)" and R_process: "keeps R (process i)"
begin

lemma of_deduct: "keeps R (DeductCredit c a rs i)"
  unfolding DeductCredit_def applyCredit_def Let_def by (intro of_rules R_credit)

lemma f_counters: "f (d\<lparr>db_counters := y\<rparr>) = f d"
  using f_invoicing by (simp add: no_invoicing_def)

lemma of_statements: "keeps R (audit_Log x1 x2 x3 x4)" "keeps R (val_Struct fds)" "keeps R (notifyClient env c k y)"
  "keeps R (Enqueue env j)" "keeps R (invoice_GetByID iid)" "keeps R (invoice_GetItems iid)" "keeps R (tx_Create env t)" "keeps R (tx_Update t)"
  "keeps R (invoice_UpdateStatus iid st pt)" "keeps R (AlertAdmin env sb ms)" "keeps R (existing_tx mo)"
  "keeps R (getOwnedInvoice c iid)" "keeps R (payWithGateway gws env a iv gc gk)" "keeps R (tx_GetByMerchantOrderID om)"
  "keeps R (tx_GetByID tid)" "keeps R (integration_Log l1 l2 l3 l4)" "keeps R (tx_ListPending gw t')"
  by (intro of_frame frame_rules f_logs f_invoicing f_transactions f_counters)+

lemma of_ApplyPayment: "keeps R (ApplyPayment env process iid tx)"
  unfolding ApplyPayment_def applyTx_def upsert_success_def invoice_GetByIDForUpdate_def Let_def
  by (intro of_rules of_statements R_process)

lemma of_payWithCredit: "keeps R (payWithCredit env process a iid)"
  unfolding payWithCredit_def creditTx_def deduct_due_def invoice_GetByIDForUpdate_def Let_def
  by (intro of_rules of_statements of_deduct of_ApplyPayment)

lemma of_ReconcileOne: "keeps R (ReconcileOne gws env process tid)"
  unfolding ReconcileOne_def reconcile_with_def duitkuGateway_def
  by (intro of_rules of_statements of_ApplyPayment)

lemma of_payments:
  "keeps R (PayInvoice gws env process a c iid m)" "keeps R (HandleCallback gws env process p)"
  "keeps R (ConfirmManualTransaction env process a tid)" "keeps R (AddManualPayment env process a iid amt m)"
  "keeps R (ReconcilePending gws env process)"
  unfolding PayInvoice_def HandleCallback_def callback_body_def duitkuGateway_def callback_failed_def callback_success_def
    ConfirmManualTransaction_def AddManualPayment_def ReconcilePending_def Let_def
  by (intro of_rules of_statements of_ApplyPayment of_payWithCredit of_ReconcileOne)+

end

text \<open>And so that every sale keeps it.\<close>

locale sale_relation = paid_relation +
  assumes R_activation: "keeps R (ActivateOrder env oid)" and R_orderTx: "keeps R (orderTx env ord plans cp disc due fr)"
begin

lemma of_CreateOrder: "keeps R (CreateOrder ck env process cid ip req)"
proof -
  have reads: "keeps R (checkout_client ck cid ip req)" "keeps R (checkout_plans env ck client its)"
    "keeps R (checkout_coupon env code plans)" "keeps R (fraudReason cid em now)"
    "keeps R (order_tax s disc)" "keeps R (GetInt k v)"
    for client its code plans em now s disc k v
    by (intro of_frame frame_rules)+
  have "keeps R (after_checkout env process uid plans fr ord iv)" for uid plans fr ord iv
    unfolding after_checkout_def by (intro of_rules of_statements of_ApplyPayment R_activation)
  with reads show ?thesis unfolding CreateOrder_def Let_def by (intro of_rules of_statements R_orderTx)
qed

end

interpretation paid: sale_relation "maintains ledger_inv" accounts "ProcessPaid env" for env
proof (intro sale_relation.intro paid_relation.intro kept_maintains view_ledger)
  show "paid_relation_axioms (maintains ledger_inv) accounts (ProcessPaid env)"
    by unfold_locales (simp_all add: led_AdjustCredit led_ProcessPaid)
  show "sale_relation_axioms (maintains ledger_inv)"
    by unfold_locales (intro led frame_rules; simp)+
qed

interpretation hosted: sale_relation hosts hosting "ProcessPaid env" for env
proof
  show "keeps hosts (AdjustCredit c a rs rel)" for c a rs rel by (intro hosts.of_frame frame_rules; simp)
  show "keeps hosts (orderTx env ord plans cp disc due fr)" for env ord plans cp disc due fr by (rule hosts.of_frame [OF hosts_sales(1)])
qed (simp_all add: hosts_ProcessPaid hosts_ActivateOrder)

section \<open>The program as a transition system\<close>

text \<open>
  One step is one call of one operation, with any clock, configuration and gateway answers and
  any arguments, on the state outside a transaction, whether it returns or fails.
\<close>

inductive step :: "world \<Rightarrow> world \<Rightarrow> bool" where
  create_invoice: "step w (snd (CreateInvoice env inp w))"
| create_manual: "step w (snd (CreateManualInvoice env actor mi w))"
| deposit: "step w (snd (Deposit env clientID amount w))"
| renewals: "step w (snd (GenerateRenewalInvoices env w))"
| overdue: "step w (snd (MarkOverdue env w))"
| reminders: "step w (snd (SendReminders env w))"
| late_fees: "step w (snd (ApplyLateFees env w))"
| cancel: "step w (snd (CancelInvoice actor invoiceID w))"
| refund: "step w (snd (RefundInvoice actor invoiceID toCredit w))"
| update: "step w (snd (UpdateInvoice actor invoiceID dueDate notes w))"
| pay: "step w (snd (PayInvoice gws env (ProcessPaid env) actor clientID invoiceID mthd w))"
| apply_payment: "step w (snd (ApplyPayment env (ProcessPaid env) invoiceID tx w))"
| webhook: "step w (snd (HandleCallback gws env (ProcessPaid env) p w))"
| reconcile: "step w (snd (ReconcilePending gws env (ProcessPaid env) w))"
| reconcile_one: "step w (snd (ReconcileOne gws env (ProcessPaid env) transactionID w))"
| confirm: "step w (snd (ConfirmManualTransaction env (ProcessPaid env) actor transactionID w))"
| manual_payment: "step w (snd (AddManualPayment env (ProcessPaid env) actor invoiceID amount mthd w))"
| adjust_credit: "step w (snd (AdminAdjustCredit actor clientID delta reason w))"
| activate_order: "step w (snd (ActivateOrder env orderID w))"
| create_order: "step w (snd (CreateOrder ck env (ProcessPaid env) clientID ip req w))"
| accept_order: "step w (snd (Accept env actor orderID w))"
| cancel_order: "step w (snd (orders_Cancel actor orderID w))"
| fraud_order: "step w (snd (MarkFraud actor orderID w))"
| renew_service: "step w (snd (RenewService env serviceID w))"
| apply_upgrade: "step w (snd (ApplyUpgrade env serviceID w))"
| finish_snipe: "step w (snd (snipe_finish env s to opts w))"
| provision_create: "step w (snd (ProvisionCreate env mods serviceID w))"
| provision_suspend: "step w (snd (ProvisionSuspend env mods serviceID reason w))"
| provision_unsuspend: "step w (snd (ProvisionUnsuspend env mods serviceID w))"
| provision_terminate: "step w (snd (ProvisionTerminate env mods serviceID w))"
| provision_package: "step w (snd (ProvisionChangePackage env mods serviceID w))"
| provision_failure: "step w (snd (NotifyProvisionFailure env serviceID taskType errMsg w))"
| change_password: "step w (snd (changePassword env mods actor clientID serviceID password w))"
| panel_login: "step w (snd (SSO env mods actor clientID serviceID w))"
| auto_suspend: "step w (snd (AutoSuspend env w))"
| auto_terminate: "step w (snd (AutoTerminate env w))"
| cancel_service: "step w (snd (CancelService env actor clientID serviceID mode reason w))"
| accept_cancellation: "step w (snd (AcceptCancellationRequest env actor requestID w))"
| reject_cancellation: "step w (snd (RejectCancellationRequest env actor requestID w))"
| upgrade_service: "step w (snd (UpgradeService env actor clientID serviceID upg w))"
| admin_action: "step w (snd (AdminAction env mods actor serviceID action reason async w))"
| admin_package: "step w (snd (AdminChangePackage env mods actor serviceID async productID w))"
| admin_create_service: "step w (snd (AdminCreateService env actor acs w))"
| admin_update_service: "step w (snd (AdminUpdateService env actor serviceID aus w))"

definition sound :: "world \<Rightarrow> bool" where
  "sound w \<longleftrightarrow> books w \<and> ledger_inv w \<and> \<not> w_intx w"

text \<open>An installation before its first invoice: no money has moved.\<close>

definition fresh_world :: "world \<Rightarrow> bool" where
  "fresh_world w \<longleftrightarrow> db_invoices (w_db w) = [] \<and> db_transactions (w_db w) = [] \<and> db_ledger (w_db w) = []
     \<and> distinct (map c_ID (db_clients (w_db w))) \<and> (\<forall>c \<in> set (db_clients (w_db w)). c_CreditBalance c = 0)
     \<and> shelf_inv w \<and> hosting_inv w \<and> \<not> w_intx w"

inductive reachable :: "world \<Rightarrow> bool" where
  start: "fresh_world w \<Longrightarrow> reachable w"
| move: "reachable w \<Longrightarrow> step w w' \<Longrightarrow> reachable w'"

lemma sound_keeps:
  assumes "keeps (maintains books) m" and "keeps (maintains ledger_inv) m" and "sound w"
  shows "sound (snd (m w))"
  using assms unfolding keeps_def maintains_def sound_def by blast

lemma sound_frame_pair: "keeps (frame money) m \<Longrightarrow> keeps (frame accounts) m \<Longrightarrow> sound w \<Longrightarrow> sound (snd (m w))"
  by (rule sound_keeps [OF inv_money led])

lemma fresh_sound: "fresh_world w \<Longrightarrow> sound w"
  by (simp add: fresh_world_def sound_def books_def books_of_def tx_rows_ok_def ledger_inv_def ledger_ok_def
      credits_of_def in_i64_def)

lemma no_money [simp]: "no_fulfilment money" "no_snipes money"
  using no_dispatch_money by (rule no_dispatchD)+

lemma no_cancellations_money [simp]: "no_cancellations money" "no_cancellations accounts" "no_cancellations shelf"
  by (simp_all add: no_cancellations_def money_def accounts_def shelf_def)

lemma led_UpgradeService: "keeps (maintains ledger_inv) (UpgradeService env a c sid inp)"
proof -
  have "keeps (maintains ledger_inv) (getOwned c sid)" "keeps (maintains ledger_inv) (product_GetByID p)"
    "keeps (maintains ledger_inv) (upgrade_target inp cy svc tg)" "keeps (maintains ledger_inv) (service_Update env svc)"
    "keeps (maintains ledger_inv) (request_upgrade env a svc cur tg cy sp tp df)"
    for p cy svc tg sp tp df cur
    by (intro led frame_rules; simp)+
  then show ?thesis unfolding UpgradeService_def upgrade_owned_def apply_downgrade_def downgradeTx_def Let_def
    by (intro paid.of_rules led_base led_dispatch led_credit)
qed

lemma step_sound: "step w w' \<Longrightarrow> sound w \<Longrightarrow> sound w'"
proof (induction rule: step.induct)
  case (refund w actor invoiceID toCredit)
  have "books (snd (RefundInvoice actor invoiceID toCredit w))"
    using RefundInvoice_books [of w actor invoiceID toCredit] refund
    by (cases "RefundInvoice actor invoiceID toCredit w") (auto simp: sound_def)
  moreover have "maintains ledger_inv w (snd (RefundInvoice actor invoiceID toCredit w))"
    using led_RefundInvoice by (simp add: keeps_def)
  ultimately show ?case using refund by (simp add: sound_def maintains_def)
next
  case (create_invoice w env inp)
  then show ?case by (rule sound_keeps [OF CreateInvoice_books led, rotated]) (intro frame_rules; simp)
next
  case (cancel_order w actor orderID)
  then show ?case unfolding orders_Cancel_def
    by (rule sound_keeps [OF setTerminalStatus_books led, rotated]) (intro frame_rules; simp)
next
  case (fraud_order w actor orderID)
  then show ?case unfolding MarkFraud_def
    by (rule sound_keeps [OF setTerminalStatus_books led, rotated]) (intro frame_rules; simp)
next
  case (create_manual w env actor mi)
  then show ?case by (rule sound_keeps [OF CreateManualInvoice_books led, rotated]) (intro frame_rules; simp)
next
  case (deposit w env clientID amount)
  then show ?case by (rule sound_keeps [OF Deposit_books led, rotated]) (intro frame_rules; simp)
next
  case (renewals w env)
  then show ?case by (rule sound_keeps [OF GenerateRenewalInvoices_books led, rotated]) (intro frame_rules; simp)
next
  case (overdue w env)
  then show ?case by (rule sound_keeps [OF MarkOverdue_books led, rotated]) (intro frame_rules; simp)
next
  case (late_fees w env)
  then show ?case by (rule sound_keeps [OF ApplyLateFees_books led, rotated]) (intro frame_rules; simp)
next
  case (cancel w actor invoiceID)
  then show ?case by (rule sound_keeps [OF CancelInvoice_books led, rotated]) (intro frame_rules; simp)
next
  case (update w actor invoiceID dueDate nts)
  then show ?case by (rule sound_keeps [OF UpdateInvoice_books led, rotated]) (intro frame_rules; simp)
next
  case (finish_snipe w env s to opts)
  then show ?case by (rule sound_keeps [OF inv_money led_snipe(2), rotated]) (intro frame_rules; simp)
next
  case (cancel_service w env actor clientID serviceID mode reason)
  then show ?case by (rule sound_keeps [OF CancelService_books led, rotated]) (intro frame_rules; simp)
next
  case (upgrade_service w env actor clientID serviceID upg)
  then show ?case by (rule sound_keeps [OF UpgradeService_books led_UpgradeService])
next
  case (adjust_credit w actor clientID delta reason)
  then show ?case by (rule sound_keeps [OF inv_money led_AdminAdjustCredit, rotated])
      (unfold AdminAdjustCredit_def, intro frame_rules; simp)
qed (blast intro: sound_keeps processor.PayInvoice_books processor.ApplyPayment_books processor.HandleCallback_books
    processor.ReconcilePending_books processor.ReconcileOne_books processor.ConfirmManualTransaction_books
    processor.AddManualPayment_books processor.CreateOrder_books paid.of_CreateOrder paid.of_payments paid.of_ApplyPayment paid.of_ReconcileOne
   | (rule sound_frame_pair; (assumption | (intro frame_rules; simp))))+

lemma reachable_sound: "reachable w \<Longrightarrow> sound w"
  by (induction rule: reachable.induct) (auto intro: fresh_sound step_sound)

text \<open>Only checkout and the end of an order write the shelf.\<close>

lemma frame_AdminAdjustCredit [frame_rules]:
  "no_credit f \<Longrightarrow> no_logs f \<Longrightarrow> keeps (frame f) (AdminAdjustCredit actor cid delta reason)"
  unfolding AdminAdjustCredit_def by (intro frame_rules)

lemma shelf_ProcessPaid: "keeps (frame shelf) (ProcessPaid env i)"
  by (intro frame_rules; simp)

text \<open>What a payment may write beside what the processor writes.\<close>

definition no_payment :: "(db \<Rightarrow> 'p) \<Rightarrow> bool" where
  "no_payment f \<longleftrightarrow> no_invoicing f \<and> no_credit f \<and> no_logs f \<and> (\<forall>d x. f (d\<lparr>db_transactions := x\<rparr>) = f d)"

lemma no_paymentD: "no_payment f \<Longrightarrow> no_invoicing f" "no_payment f \<Longrightarrow> no_credit f" "no_payment f \<Longrightarrow> no_logs f"
  "no_payment f \<Longrightarrow> f (d\<lparr>db_transactions := x\<rparr>) = f d" "no_payment f \<Longrightarrow> f (d\<lparr>db_counters := y\<rparr>) = f d"
  by (simp_all add: no_payment_def no_invoicing_def)

lemma frame_RefundInvoice [frame_rules]: "no_payment f \<Longrightarrow> keeps (frame f) (RefundInvoice a iid tc)"
  unfolding RefundInvoice_def refundTx_def by (intro frame_rules; erule no_paymentD)

lemma frame_payments [frame_rules]:
  assumes "no_payment f" and "\<And>i. keeps (frame f) (process i)"
  shows "keeps (frame f) (payWithCredit env process a iid)" "keeps (frame f) (PayInvoice gws env process a c iid m)"
    "keeps (frame f) (HandleCallback gws env process p)" "keeps (frame f) (ReconcileOne gws env process tid)"
    "keeps (frame f) (ReconcilePending gws env process)" "keeps (frame f) (ConfirmManualTransaction env process a tid)"
    "keeps (frame f) (AddManualPayment env process a iid amt m)"
proof -
  note d = no_paymentD [OF assms(1)]
  show pc: "keeps (frame f) (payWithCredit env process a iid)" for a iid
    unfolding payWithCredit_def creditTx_def Let_def by (intro frame_rules d assms(2))
  show "keeps (frame f) (PayInvoice gws env process a c iid m)"
    unfolding PayInvoice_def Let_def by (intro frame_rules pc d)
  show "keeps (frame f) (HandleCallback gws env process p)"
    unfolding HandleCallback_def callback_body_def duitkuGateway_def callback_failed_def callback_success_def
    by (intro frame_rules d assms(2))
  show ro: "keeps (frame f) (ReconcileOne gws env process tid)" for tid
    unfolding ReconcileOne_def reconcile_with_def duitkuGateway_def by (intro frame_rules d assms(2))
  show "keeps (frame f) (ReconcilePending gws env process)" unfolding ReconcilePending_def by (intro frame_rules ro)
  show "keeps (frame f) (ConfirmManualTransaction env process a tid)"
    unfolding ConfirmManualTransaction_def by (intro frame_rules d assms(2))
  show "keeps (frame f) (AddManualPayment env process a iid amt m)"
    unfolding AddManualPayment_def by (intro frame_rules d assms(2))
qed

lemma no_payment_shelf [simp]: "no_payment shelf"
  by (simp add: no_payment_def)

lemma shelf_operations:
  "keeps (frame shelf) (CreateInvoice env inp)" "keeps (frame shelf) (CreateManualInvoice env actor mi)"
  "keeps (frame shelf) (Deposit env clientID amount)" "keeps (frame shelf) (GenerateRenewalInvoices env)"
  "keeps (frame shelf) (MarkOverdue env)" "keeps (frame shelf) (SendReminders env)" "keeps (frame shelf) (ApplyLateFees env)"
  "keeps (frame shelf) (CancelInvoice actor invoiceID)" "keeps (frame shelf) (RefundInvoice actor invoiceID toCredit)"
  "keeps (frame shelf) (UpdateInvoice actor invoiceID dueDate nts)" "keeps (frame shelf) (AdminAdjustCredit actor clientID delta reason)"
  "keeps (frame shelf) (ActivateOrder env orderID)" "keeps (frame shelf) (RenewService env serviceID)"
  "keeps (frame shelf) (ApplyUpgrade env serviceID)" "keeps (frame shelf) (snipe_finish env s to opts)"
  "keeps (frame shelf) (Accept env actor orderID)"
  by (intro frame_rules; simp)+

lemma shelf_hosting:
  "keeps (frame shelf) (ProvisionCreate env mods serviceID)" "keeps (frame shelf) (ProvisionSuspend env mods serviceID reason)"
  "keeps (frame shelf) (ProvisionUnsuspend env mods serviceID)" "keeps (frame shelf) (ProvisionTerminate env mods serviceID)"
  "keeps (frame shelf) (ProvisionChangePackage env mods serviceID)" "keeps (frame shelf) (NotifyProvisionFailure env serviceID tk msg)"
  "keeps (frame shelf) (changePassword env mods actor clientID serviceID password)" "keeps (frame shelf) (SSO env mods actor clientID serviceID)"
  "keeps (frame shelf) (AutoSuspend env)" "keeps (frame shelf) (AutoTerminate env)"
  "keeps (frame shelf) (CancelService env actor clientID serviceID mode reason)"
  "keeps (frame shelf) (AcceptCancellationRequest env actor requestID)" "keeps (frame shelf) (RejectCancellationRequest env actor requestID)"
  "keeps (frame shelf) (UpgradeService env actor clientID serviceID upg)"
  "keeps (frame shelf) (AdminAction env mods actor serviceID action reason async)"
  "keeps (frame shelf) (AdminChangePackage env mods actor serviceID async productID)"
  "keeps (frame shelf) (AdminCreateService env actor acs)" "keeps (frame shelf) (AdminUpdateService env actor serviceID aus)"
  by (intro frame_rules; simp)+

lemma shelf_payments:
  "keeps (frame shelf) (PayInvoice gws env (ProcessPaid env) actor clientID invoiceID mthd)"
  "keeps (frame shelf) (ApplyPayment env (ProcessPaid env) invoiceID tx)"
  "keeps (frame shelf) (HandleCallback gws env (ProcessPaid env) p)"
  "keeps (frame shelf) (ReconcilePending gws env (ProcessPaid env))"
  "keeps (frame shelf) (ReconcileOne gws env (ProcessPaid env) transactionID)"
  "keeps (frame shelf) (ConfirmManualTransaction env (ProcessPaid env) actor transactionID)"
  "keeps (frame shelf) (AddManualPayment env (ProcessPaid env) actor invoiceID amount mthd)"
  by (intro frame_rules shelf_ProcessPaid; simp)+

lemma step_shelf: "step w w' \<Longrightarrow> shelf_inv w \<Longrightarrow> shelf_inv w'"
proof -
  have k: "shelf_inv w \<Longrightarrow> shelf_inv (snd (m w))" if "keeps (maintains shelf_inv) m" for m :: "'a act" and w
    using that by (simp add: keeps_def maintains_def)
  show "step w w' \<Longrightarrow> shelf_inv w \<Longrightarrow> shelf_inv w'"
    by (induction rule: step.induct; erule k [rotated])
      (unfold orders_Cancel_def MarkFraud_def, (rule shelf_CreateOrder shelf_ProcessPaid shelf_setTerminalStatus
       keep_shelf shelf_operations shelf_payments shelf_hosting)+)
qed

lemma reachable_shelf_inv: "reachable w \<Longrightarrow> shelf_inv w"
  by (induction rule: reachable.induct) (auto intro: step_shelf simp: fresh_world_def)

text \<open>Every step moves every service along its state machine.\<close>

lemma hosts_operations:
  "keeps hosts (CreateInvoice env inp)" "keeps hosts (CreateManualInvoice env actor mi)"
  "keeps hosts (Deposit env clientID amount)" "keeps hosts (GenerateRenewalInvoices env)"
  "keeps hosts (MarkOverdue env)" "keeps hosts (SendReminders env)" "keeps hosts (ApplyLateFees env)"
  "keeps hosts (CancelInvoice actor invoiceID)" "keeps hosts (RefundInvoice actor invoiceID toCredit)"
  "keeps hosts (UpdateInvoice actor invoiceID dueDate nts)" "keeps hosts (AdminAdjustCredit actor clientID delta reason)"
  "keeps hosts (snipe_finish env s to opts)" "keeps hosts (NotifyProvisionFailure env serviceID tk msg)"
  "keeps hosts (SSO env mods actor clientID serviceID)" "keeps hosts (AutoSuspend env)" "keeps hosts (AutoTerminate env)"
  by (intro hosts.of_frame frame_rules; simp add: no_payment_def)+

lemma hosts_Accept: "keeps hosts (Accept env actor orderID)"
proof -
  have "keeps hosts (order_GetByID orderID)" "keeps hosts (audit_Log x1 x2 x3 x4)" for x1 x2 x3 x4
    by (intro hosts.of_frame frame_rules; simp)+
  then show ?thesis unfolding Accept_def by (intro hosts.of_rules hosts_ActivateOrder)
qed

lemma step_hosts: "step w w' \<Longrightarrow> hosts w w'"
proof -
  have k: "keeps hosts m \<Longrightarrow> hosts w (snd (m w))" for m :: "'a act" and w by (simp add: keeps_def)
  show "step w w' \<Longrightarrow> hosts w w'"
    by (induction rule: step.induct; rule k)
      (unfold orders_Cancel_def MarkFraud_def, (rule hosts_operations hosts_Accept hosts_ActivateOrder hosts_renewals
        hosts.of_frame [OF hosts_sales(2)] hosted.of_CreateOrder hosted.of_payments hosted.of_ApplyPayment hosted.of_ReconcileOne
        hosts_ProvisionCreate hosts_suspension hosts_ProvisionTerminate hosts_change_package hosts_changePassword
        hosts_requests hosts_UpgradeService hosts_staff)+)
qed

lemma reachable_hosting_inv: "reachable w \<Longrightarrow> hosting_inv w"
  by (induction rule: reachable.induct) (auto dest: step_hosts simp: fresh_world_def hosts_def)

lemma reachable_moves: "reachable w \<Longrightarrow> step\<^sup>*\<^sup>* w w' \<Longrightarrow> services_move w w'"
proof -
  assume "step\<^sup>*\<^sup>* w w'"
  then show "reachable w \<Longrightarrow> services_move w w'"
  proof (induction rule: converse_rtranclp_induct)
    case base
    then show ?case by (simp add: services_move_same)
  next
    case (step w w1)
    then have "reachable w1" by (blast intro: reachable.move)
    then show ?case using step reachable_hosting_inv step_hosts [OF step(1)] by (auto simp: hosts_def intro: services_move_trans)
  qed
qed

lemma reachable_steps: "reachable w \<Longrightarrow> step\<^sup>*\<^sup>* w w' \<Longrightarrow> reachable w'"
  by (erule rtranclp_induct [of step]) (auto intro: reachable.move)

lemma terminal_service:
  assumes "ServiceCanTransition\<^sup>*\<^sup>* a b" and "a \<in> {ServiceTerminated, ServiceCancelled}"
  shows "b = a"
  using assms by (induction rule: rtranclp_induct) (auto simp: ServiceCanTransition_def canTransition_def)

end
