(* ===== verification/Settlement.thy ===== *)
theory Settlement
  imports Reach
begin

text \<open>
  What a caller of the payments service can rely on, outcome by outcome: the no-ops and refusals
  of \<open>ApplyPayment\<close>, that an honest payment is accepted, the abstract settlement it refines,
  payment with credit, and what the webhook may change.
\<close>

section \<open>Calls from outside a transaction\<close>

lemma ApplyPayment_run: "\<not> w_intx w \<Longrightarrow> ApplyPayment env process iid tx w =
    (case applyTx env process iid tx (w\<lparr>w_intx := True\<rparr>) of
       (Inl e, w') \<Rightarrow> (Inl e, w'\<lparr>w_db := w_db w, w_intx := False\<rparr>)
     | (Inr x, w') \<Rightarrow> (Inr x, w'\<lparr>w_intx := False\<rparr>))"
  by (simp add: ApplyPayment_def WithinTx_def split: prod.splits sum.splits)

lemma intx_same: "\<not> w_intx w \<Longrightarrow> w\<lparr>w_intx := False\<rparr> = w"
  by (cases w) simp

lemma books_intx [simp]: "books (w\<lparr>w_intx := b\<rparr>) = books w"
  by (simp add: books_def)

lemma ApplyPayment_settled_noop:
  assumes "\<not> w_intx w" and "row i_ID iid (db_invoices (w_db w)) = Some iv"
    and "i_Status iv = InvoicePaid \<or> i_Status iv = InvoiceRefunded"
  shows "ApplyPayment env process iid tx w = (Inr (), w)"
  using assms by (auto simp: ApplyPayment_run applyTx_def eff_simps intx_same)

lemma ApplyPayment_closed_noop:
  assumes "\<not> w_intx w" and "row i_ID iid (db_invoices (w_db w)) = Some iv"
    and "i_Status iv = InvoiceDraft \<or> i_Status iv = InvoiceCancelled"
  shows "\<exists>m. ApplyPayment env process iid tx w = (Inl (Conflict m), w)"
  using assms by (auto simp: ApplyPayment_run applyTx_def eff_simps intx_same TransitionInvoice_def)

lemma ApplyPayment_short_noop:
  assumes "\<not> w_intx w" and "row i_ID iid (db_invoices (w_db w)) = Some iv" and "invoicePayable (i_Status iv)"
    and "at_Amount tx < i64 (i_Total iv - i_CreditApplied iv)"
  shows "ApplyPayment env process iid tx w =
    (Inl (short_payment iv (at_Amount tx) (i64 (i_Total iv - i_CreditApplied iv))), w)"
  using assms by (auto simp: ApplyPayment_run applyTx_def eff_simps intx_same TransitionInvoice_def invoicePayable_def Let_def)

text \<open>A settlement without a merchant order id cannot be refused by the transactions table.\<close>

lemma upsert_new_returns:
  assumes "success_for iid (db_transactions (w_db w)) = []" and "at_MerchantOrderID tx = []"
  shows "\<exists>w1. upsert_success env iid tx paidAt raw None w = (Inr (), w1)"
proof -
  let ?t = "success_tx iid tx paidAt raw"
  have "\<not> tx_violates (db_transactions (w_db w)) (?t\<lparr>t_ID := n, t_Raw := r, t_CreatedAt := c\<rparr>)" for n r c
    using assms by (auto simp: tx_violates_def success_tx_def success_for_def filter_empty_conv)
  then show ?thesis by (simp add: upsert_success_def tx_Create_def bnd_assoc eff_simps Let_def)
qed

lemma applyTx_accepts:
  assumes "books w" and "row i_ID iid (db_invoices (w_db w)) = Some iv" and "invoicePayable (i_Status iv)"
    and "i64 (i_Total iv - i_CreditApplied iv) \<le> at_Amount tx" and "at_MerchantOrderID tx = []"
  obtains w1 where "settled_in iid (at_Amount tx) w w1"
    and "applyTx env process iid tx w = process iid (marked_paid iid (paid_time env tx) w1)"
proof -
  let ?raw = "if at_Raw tx = [] then ''{}'' else at_Raw tx"
  have np: "i_Status iv \<noteq> InvoicePaid" using assms(3) by (auto simp: invoicePayable_def)
  obtain w1 where up: "upsert_success env iid tx (paid_time env tx) ?raw None w = (Inr (), w1)"
    using upsert_new_returns [of iid w tx env] unpaid_no_success [OF assms(1,2) np] assms(5) by auto
  then have s: "settled_in iid (at_Amount tx) w w1" using upsert_success_ok [OF assms(1,2) np, of None] by force
  then have "row i_ID iid (db_invoices (w_db w1)) = Some iv" using assms(2) by (auto simp: settled_in_def)
  then have "applyTx env process iid tx w = process iid (marked_paid iid (paid_time env tx) w1)"
    using up assms(2-5) UpdateStatus_paid_run [of iid w1 iv "paid_time env tx" process]
    by (auto simp: applyTx_def eff_simps TransitionInvoice_def invoicePayable_def Let_def bnd_run [of "existing_tx _"]
        existing_tx_run paid_time_def bnd_run [of "upsert_success _ _ _ _ _ _"])
  with s show ?thesis by (rule that)
qed

section \<open>The abstract settlement\<close>

text \<open>
  An invoice as its payer sees it: the status and the amounts of its success transactions. A
  settlement turns a payable invoice into a paid one with the one amount, and nothing else.
\<close>

type_synonym settlements = "int \<Rightarrow> (InvoiceStatus \<times> int list) option"

definition settlement_of :: "world \<Rightarrow> settlements" where
  "settlement_of w iid = map_option (\<lambda>iv. (i_Status iv, map t_Amount (success_for iid (db_transactions (w_db w)))))
     (row i_ID iid (db_invoices (w_db w)))"

definition spec_pay :: "int \<Rightarrow> int \<Rightarrow> settlements \<Rightarrow> settlements" where
  "spec_pay iid amount a = (case a iid of
     Some (st, ps) \<Rightarrow> if invoicePayable st then a(iid := Some (InvoicePaid, [amount])) else a
   | None \<Rightarrow> a)"

context paid_processor
begin

lemma ApplyPayment_refines:
  assumes "books w" and "\<not> w_intx w" and "ApplyPayment env process iid tx w = (r, w')"
  shows "settlement_of w' = (if r = Inr () then spec_pay iid (at_Amount tx) (settlement_of w) else settlement_of w)"
proof (cases r)
  case (Inl e)
  then have "w_db w' = w_db w" using assms(2,3) WithinTx_rollback unfolding ApplyPayment_def by blast
  then show ?thesis using Inl by (simp add: settlement_of_def fun_eq_iff)
next
  case (Inr u)
  show ?thesis
  proof (cases "row i_ID iid (db_invoices (w_db w))")
    case None
    then show ?thesis using assms(2,3) Inr by (simp add: ApplyPayment_run applyTx_def eff_simps)
  next
    case (Some iv)
    show ?thesis
    proof (cases "invoicePayable (i_Status iv)")
      case True
      note p = ApplyPayment_paid [OF assms(1,2) Some True, of env tx w']
      have "settlement_of w' j = spec_pay iid (at_Amount tx) (settlement_of w) j" for j
        using p(2,3) p(4) [of j] assms(3) Inr Some True by (cases "j = iid") (auto simp: settlement_of_def spec_pay_def)
      then show ?thesis using Inr by auto
    next
      case False
      then have "i_Status iv \<in> {InvoicePaid, InvoiceRefunded, InvoiceDraft, InvoiceCancelled}"
        by (cases "i_Status iv") (auto simp: invoicePayable_def)
      then have "w' = w"
        using ApplyPayment_settled_noop [OF assms(2) Some] ApplyPayment_closed_noop [OF assms(2) Some, of env process tx]
          assms(3) Inr by (auto simp: prod_eq_iff)
      then show ?thesis using Inr Some False by (simp add: settlement_of_def spec_pay_def)
    qed
  qed
qed

end

section \<open>Paying with credit\<close>

definition invoice_lines :: "int \<Rightarrow> world \<Rightarrow> InvoiceItem list" where
  "invoice_lines iid w = filter (\<lambda>it. ii_InvoiceID it = iid) (db_invoice_items (w_db w))"

text \<open>An invoice with neither a deposit nor a snipe line moves no credit when it is processed.\<close>

lemma dispatch_no_credit:
  assumes "ii_RelatedType it \<noteq> RelatedDeposit" and "ii_RelatedType it \<noteq> RelatedDomainSnipe"
  shows "keeps (frame accounts) (dispatchItem env iv it acc)"
  using assms unfolding dispatchItem_def Let_def
  by (cases "ii_RelatedType it"; simp only: InvoiceItemRelatedType.case simp_thms; (intro frame_rules; simp)?)

lemma ProcessPaid_no_credit:
  assumes "\<forall>it \<in> set (invoice_lines iid w). ii_RelatedType it \<noteq> RelatedDeposit \<and> ii_RelatedType it \<noteq> RelatedDomainSnipe"
    and "ProcessPaid env iid w = (r, w')"
  shows "accounts (w_db w') = accounts (w_db w)"
proof (cases "row i_ID iid (db_invoices (w_db w))")
  case None
  then show ?thesis using assms(2) by (simp add: ProcessPaid_def eff_simps)
next
  case (Some iv)
  let ?m = "bnd (foldE (dispatchItem env iv) (invoice_lines iid w) []) (\<lambda>_.
       bnd (notifyClient env (i_ClientID iv) ''payment_received'' [(''InvoiceNumber'', i_InvoiceNumber iv),
         (''Amount'', FormatIDR (i_Total iv)), (''InvoiceURL'', invoiceURL env (i_ID iv))]) (\<lambda>_.
       ignore_err (Enqueue env (JobInvoiceGeneratePDF (i_ID iv)))))"
  have "keeps (frame accounts) (foldE (dispatchItem env iv) (invoice_lines iid w) [])"
    by (rule keeps_foldE) (use assms(1) dispatch_no_credit in auto)
  then have "keeps (frame accounts) ?m" by (rule frame_bnd) (intro frame_rules, simp)
  moreover have "ProcessPaid env iid w = (if i_Status iv \<noteq> InvoicePaid
      then (Inl (AppErr CodeConflict (''invoice '' @ i_InvoiceNumber iv @ '' is not paid'') []), w) else ?m w)"
    using Some by (simp add: ProcessPaid_def invoice_lines_def eff_simps)
  ultimately show ?thesis using assms(2) keepsD [of "frame accounts" ?m w r w']
    by (auto simp: frame_def split: if_splits)
qed

section \<open>Deposits\<close>

definition deposit_sum :: "InvoiceItem list \<Rightarrow> int" where
  "deposit_sum its = sum_list (map ii_Amount (filter (\<lambda>it. ii_RelatedType it = RelatedDeposit) its))"

text \<open>A line that asks for nothing but credit: a manual line, a late fee, a positive deposit.\<close>

definition credit_line :: "InvoiceItem \<Rightarrow> bool" where
  "credit_line it \<longleftrightarrow> ii_RelatedType it = RelatedManual \<or> ii_RelatedType it = RelatedLateFee
     \<or> (ii_RelatedType it = RelatedDeposit \<and> 0 < ii_Amount it)"

definition credited :: "int \<Rightarrow> int \<Rightarrow> world \<Rightarrow> world \<Rightarrow> bool" where
  "credited c a w w' \<longleftrightarrow> balance w' c = map_option (\<lambda>b. b + a) (balance w c) \<and> (\<forall>c'. c' \<noteq> c \<longrightarrow> balance w' c' = balance w c')"

lemma AddCredit_returns:
  assumes "balance w c = Some b" and "0 \<le> b" and "0 < a" and "b + a < 2 ^ 63"
  shows "\<exists>w'. AddCredit c a r i w = (Inr (), w') \<and> credited c a w w'"
proof -
  obtain cl where cl: "live_client c (w_db w) = Some cl" "c_CreditBalance cl = b"
    using assms(1) by (auto simp: balance_def balance_of_def)
  then obtain w' where w': "AddCredit c a r i w = (Inr (), w')"
    using applyCredit_succeeds [OF cl(1), of a r i] assms by (auto simp: AddCredit_run in_i64_def)
  then show ?thesis using ledger.add_ok [OF w'] assms(1) by (auto simp: credited_def)
qed

lemma deposit_sum_nonneg: "\<forall>it \<in> set its. credit_line it \<Longrightarrow> 0 \<le> deposit_sum its"
  unfolding deposit_sum_def by (rule sum_list_nonneg) (auto simp: credit_line_def)

lemma dispatch_deposits:
  assumes "\<forall>it \<in> set its. credit_line it" and "balance w (i_ClientID iv) = Some b" and "0 \<le> b"
    and "b + deposit_sum its < 2 ^ 63"
  shows "\<exists>w'. foldE (dispatchItem env iv) its acc w = (Inr acc, w') \<and> credited (i_ClientID iv) (deposit_sum its) w w'"
  using assms
proof (induction its arbitrary: w b)
  case Nil
  then show ?case by (simp add: ret_def credited_def deposit_sum_def)
next
  case (Cons it its)
  show ?case
  proof (cases "ii_RelatedType it = RelatedDeposit")
    case False
    then have "dispatchItem env iv it acc = ret acc" "deposit_sum (it # its) = deposit_sum its"
      using Cons.prems(1) by (auto simp: dispatchItem_def credit_line_def Let_def deposit_sum_def)
    then show ?thesis using Cons by (simp add: eff_simps)
  next
    case True
    then have a: "0 < ii_Amount it" and ds: "deposit_sum (it # its) = ii_Amount it + deposit_sum its"
      using Cons.prems(1) by (auto simp: credit_line_def deposit_sum_def)
    have "b + ii_Amount it < 2 ^ 63" using Cons.prems(1,4) ds deposit_sum_nonneg [of its] by simp
    then obtain w1 where w1: "AddCredit (i_ClientID iv) (ii_Amount it) (''Deposit '' @ i_InvoiceNumber iv) (i_ID iv) w = (Inr (), w1)"
        "credited (i_ClientID iv) (ii_Amount it) w w1"
      using AddCredit_returns [OF Cons.prems(2,3) a] by blast
    have "foldE (dispatchItem env iv) (it # its) acc w = foldE (dispatchItem env iv) its acc w1"
      using True w1(1) by (simp add: dispatchItem_def Let_def bnd_assoc bnd_Inr eff_simps)
    moreover have "balance w1 (i_ClientID iv) = Some (b + ii_Amount it)" using w1(2) Cons.prems(2) by (simp add: credited_def)
    ultimately show ?thesis
      using Cons.IH [of w1 "b + ii_Amount it"] Cons.prems(1,2,3,4) a ds w1(2) by (auto simp: credited_def)
  qed
qed

lemma balance_accounts: "accounts (w_db w') = accounts (w_db w) \<Longrightarrow> balance w' c = balance w c"
  by (simp add: balance_def balance_of_def live_client_def accounts_def)

lemma ProcessPaid_deposits:
  assumes "row i_ID iid (db_invoices (w_db w)) = Some iv" and "i_Status iv = InvoicePaid"
    and "\<forall>it \<in> set (invoice_lines iid w). credit_line it" and "balance w (i_ClientID iv) = Some b" and "0 \<le> b"
    and "b + deposit_sum (invoice_lines iid w) < 2 ^ 63"
  shows "\<exists>w'. ProcessPaid env iid w = (Inr (), w') \<and> credited (i_ClientID iv) (deposit_sum (invoice_lines iid w)) w w'"
proof -
  let ?tl = "bnd (notifyClient env (i_ClientID iv) ''payment_received'' [(''InvoiceNumber'', i_InvoiceNumber iv),
         (''Amount'', FormatIDR (i_Total iv)), (''InvoiceURL'', invoiceURL env (i_ID iv))]) (\<lambda>_.
       ignore_err (Enqueue env (JobInvoiceGeneratePDF (i_ID iv))))"
  obtain w1 where w1: "foldE (dispatchItem env iv) (invoice_lines iid w) [] w = (Inr [], w1)"
    "credited (i_ClientID iv) (deposit_sum (invoice_lines iid w)) w w1"
    using dispatch_deposits [OF assms(3-6)] by blast
  have run: "ProcessPaid env iid w = ?tl w1"
    using assms(1,2) w1(1) by (simp add: ProcessPaid_def eff_simps invoice_lines_def bnd_Inr)
  obtain w2 where tl: "?tl w1 = (Inr (), w2)" by (simp add: notifyClient_def eff_simps)
  have "keeps (frame accounts) ?tl" by (intro frame_rules; simp)
  from keepsD [OF this tl] have "accounts (w_db w2) = accounts (w_db w1)" by (simp add: frame_def)
  then have "credited (i_ClientID iv) (deposit_sum (invoice_lines iid w)) w w2"
    using w1(2) balance_accounts [of w2 w1] by (simp add: credited_def)
  then show ?thesis using run tl by simp
qed

lemma settled_reads:
  assumes "settled_in iid a w w1" and "row i_ID iid (db_invoices (w_db w)) = Some iv"
  shows "invoice_lines iid (marked_paid iid t w1) = invoice_lines iid w"
    and "accounts (w_db (marked_paid iid t w1)) = accounts (w_db w)"
    and "row i_ID iid (db_invoices (w_db (marked_paid iid t w1))) = Some (pay t iv)"
  using assms by (auto simp: invoice_lines_def marked_paid_def settled_in_def accounts_def row_upd)

lemma pay_client [simp]: "i_ClientID (pay t iv) = i_ClientID iv"
  by (simp add: pay_def)

lemma applyTx_deposits:
  assumes "books w" and "ledger_inv w" and "row i_ID iid (db_invoices (w_db w)) = Some iv"
    and "invoicePayable (i_Status iv)" and "i64 (i_Total iv - i_CreditApplied iv) \<le> at_Amount tx" and "at_MerchantOrderID tx = []"
    and "\<forall>it \<in> set (invoice_lines iid w). credit_line it" and "balance w (i_ClientID iv) = Some b"
    and "b + deposit_sum (invoice_lines iid w) < 2 ^ 63"
  shows "\<exists>w'. applyTx env (ProcessPaid env) iid tx w = (Inr (), w')
    \<and> credited (i_ClientID iv) (deposit_sum (invoice_lines iid w)) w w'"
proof -
  obtain w1 where s: "settled_in iid (at_Amount tx) w w1"
    and run: "applyTx env (ProcessPaid env) iid tx w = ProcessPaid env iid (marked_paid iid (paid_time env tx) w1)"
    using applyTx_accepts [OF assms(1,3-6)] by metis
  note r = settled_reads [OF s assms(3), of "paid_time env tx"]
  have "0 \<le> b" using balance_bound assms(2,8) by (simp add: ledger_inv_def balance_def)
  then show ?thesis
    using ProcessPaid_deposits [OF r(3), of b env] run assms(7-9) r(1) balance_accounts [OF r(2)] by (simp add: credited_def)
qed

lemma ApplyPayment_deposits:
  assumes "books w" and "ledger_inv w" and "\<not> w_intx w" and "row i_ID iid (db_invoices (w_db w)) = Some iv"
    and "invoicePayable (i_Status iv)" and "i64 (i_Total iv - i_CreditApplied iv) \<le> at_Amount tx" and "at_MerchantOrderID tx = []"
    and "\<forall>it \<in> set (invoice_lines iid w). credit_line it" and "balance w (i_ClientID iv) = Some b"
    and "b + deposit_sum (invoice_lines iid w) < 2 ^ 63"
  shows "\<exists>w'. ApplyPayment env (ProcessPaid env) iid tx w = (Inr (), w')
    \<and> credited (i_ClientID iv) (deposit_sum (invoice_lines iid w)) w w'"
  using applyTx_deposits [of "w\<lparr>w_intx := True\<rparr>" iid iv tx b env] assms
  by (auto simp: ApplyPayment_run credited_def balance_def ledger_inv_def invoice_lines_def)

section \<open>Payments with credit that return\<close>

lemma deduct_due_frames: "keeps (frame (\<lambda>d. (money d, db_invoice_items d))) (deduct_due iv iid a)"
  by (intro frame_rules) (simp add: no_credit_def money_def)

text \<open>The steps of a payment with credit that returns.\<close>

lemma payWithCredit_returns:
  assumes "books w" and "\<not> w_intx w" and "payWithCredit env process actor iid w = (Inr out, w')"
  obtains iv w1 w2 where "row i_ID iid (db_invoices (w_db w)) = Some iv" and "invoicePayable (i_Status iv)"
    and "\<forall>it \<in> set (invoice_lines iid w). ii_RelatedType it \<noteq> RelatedDeposit"
    and "deduct_due iv iid (i64 (i_Total iv - i_CreditApplied iv)) (w\<lparr>w_intx := True\<rparr>) = (Inr (), w1)"
    and "w_intx w1"
    and "applyTx env process iid (credit_ApplyTx env (i64 (i_Total iv - i_CreditApplied iv))) w1 = (Inr (), w2)"
    and "w_db w' = (w_db w2)\<lparr>db_audit := db_audit (w_db w2) @ [(actor, ''payment.credit'', ''invoice'', iid)]\<rparr>"
    and "out = paid_instruction (i64 (i_Total iv - i_CreditApplied iv))"
proof -
  let ?w = "w\<lparr>w_intx := True\<rparr>"
  obtain w3 where run: "creditTx env process actor iid ?w = (Inr out, w3)" and w': "w' = w3\<lparr>w_intx := False\<rparr>"
    using WithinTx_commit [OF assms(3) [unfolded payWithCredit_def] assms(2)] by metis
  obtain iv where iv: "row i_ID iid (db_invoices (w_db w)) = Some iv"
    using run by (cases "row i_ID iid (db_invoices (w_db w))") (auto simp: creditTx_def eff_simps)
  let ?due = "i64 (i_Total iv - i_CreditApplied iv)"
  let ?ded = "deduct_due iv iid ?due"
  let ?rest = "\<lambda>_. bnd (ApplyPayment env process iid (credit_ApplyTx env ?due)) (\<lambda>_.
     bnd (audit_Log actor ''payment.credit'' ''invoice'' iid) (\<lambda>_. ret (paid_instruction ?due)))"
  have st: "invoicePayable (i_Status iv)" and dep: "\<forall>it \<in> set (invoice_lines iid w). ii_RelatedType it \<noteq> RelatedDeposit"
    and seq: "bnd ?ded ?rest ?w = (Inr out, w3)"
    using run iv by (auto simp: creditTx_def eff_simps Let_def invoice_lines_def split: if_splits)
  from seq obtain u w1 where ded: "?ded ?w = (Inr u, w1)" and tl: "?rest u w1 = (Inr out, w3)" by (rule bnd_InrE)
  have intx: "w_intx w1"
  proof -
    have "keeps (frame (\<lambda>_. ())) ?ded" by (intro frame_rules) simp
    from keepsD [OF this ded] show ?thesis by (simp add: frame_def)
  qed
  from tl obtain v w2 where ap: "ApplyPayment env process iid (credit_ApplyTx env ?due) w1 = (Inr v, w2)"
    and last: "bnd (audit_Log actor ''payment.credit'' ''invoice'' iid) (\<lambda>_. ret (paid_instruction ?due)) w2 = (Inr out, w3)"
    by (rule bnd_InrE)
  show ?thesis
    by (rule that [OF iv st dep _ intx])
      (use ded ap last w' intx in \<open>auto simp: ApplyPayment_def WithinTx_nested eff_simps\<close>)
qed

lemma credit_amount [simp]: "at_Amount (credit_ApplyTx env a) = a"
  by (simp add: credit_ApplyTx_def)

lemma paid_time_credit [simp]: "paid_time env (credit_ApplyTx env a) = e_now env"
  by (simp add: paid_time_def credit_ApplyTx_def)

lemma payWithCredit_exact_lemma:
  assumes "books w" and "ledger_inv w" and "\<not> w_intx w"
    and "\<forall>it \<in> set (invoice_lines iid w). ii_RelatedType it \<noteq> RelatedDomainSnipe"
    and "payWithCredit env (ProcessPaid env) actor iid w = (Inr out, w')"
  shows "\<exists>iv b. row i_ID iid (db_invoices (w_db w)) = Some iv \<and> pi_Amount out = i64 (i_Total iv - i_CreditApplied iv)
    \<and> row i_ID iid (db_invoices (w_db w')) = Some (pay (e_now env) iv)
    \<and> (\<exists>t. success_for iid (db_transactions (w_db w')) = [t] \<and> t_Amount t = pi_Amount out)
    \<and> (0 < pi_Amount out \<longrightarrow> balance w (i_ClientID iv) = Some b \<and> pi_Amount out \<le> b
        \<and> balance w' (i_ClientID iv) = Some (b - pi_Amount out))
    \<and> (pi_Amount out \<le> 0 \<longrightarrow> balance w' (i_ClientID iv) = balance w (i_ClientID iv))
    \<and> (\<forall>c. c \<noteq> i_ClientID iv \<longrightarrow> balance w' c = balance w c)"
proof -
  let ?w = "w\<lparr>w_intx := True\<rparr>"
  obtain iv w1 w2 where iv: "row i_ID iid (db_invoices (w_db w)) = Some iv" and st: "invoicePayable (i_Status iv)"
    and dep: "\<forall>it \<in> set (invoice_lines iid w). ii_RelatedType it \<noteq> RelatedDeposit"
    and ded: "deduct_due iv iid (i64 (i_Total iv - i_CreditApplied iv)) ?w = (Inr (), w1)"
    and ap: "applyTx env (ProcessPaid env) iid (credit_ApplyTx env (i64 (i_Total iv - i_CreditApplied iv))) w1 = (Inr (), w2)"
    and w': "w_db w' = (w_db w2)\<lparr>db_audit := db_audit (w_db w2) @ [(actor, ''payment.credit'', ''invoice'', iid)]\<rparr>"
    and out: "out = paid_instruction (i64 (i_Total iv - i_CreditApplied iv))"
    using payWithCredit_returns [OF assms(1,3,5)] by metis
  let ?due = "i64 (i_Total iv - i_CreditApplied iv)"
  have due: "pi_Amount out = ?due" using out by (simp add: paid_instruction_def)
  have fr: "frame (\<lambda>d. (money d, db_invoice_items d)) ?w w1"
    by (rule keepsD [OF deduct_due_frames ded])
  then have same: "money (w_db w1) = money (w_db w)" "db_invoice_items (w_db w1) = db_invoice_items (w_db w)"
    and seqs: "\<forall>t. w_seq w t \<le> w_seq w1 t" by (simp_all add: frame_def)
  have b1: "books w1" using assms(1) view_books same seqs by (auto simp: view_def)
  have iv1: "row i_ID iid (db_invoices (w_db w1)) = Some iv" using iv same by (simp add: money_def)
  obtain w3 where p: "settled_in iid ?due w1 w3" "ProcessPaid env iid (marked_paid iid (e_now env) w3) = (Inr (), w2)"
    "money (w_db w2) = money (w_db (marked_paid iid (e_now env) w3))"
  proof (rule processor.applyTx_paid [OF b1 iv1 st ap])
    fix w3 assume "settled_in iid (at_Amount (credit_ApplyTx env ?due)) w1 w3"
      "ProcessPaid env iid (marked_paid iid (paid_time env (credit_ApplyTx env ?due)) w3) = (Inr (), w2)"
      "money (w_db w2) = money (w_db (marked_paid iid (paid_time env (credit_ApplyTx env ?due)) w3))"
    then show thesis using that [of w3] by simp
  qed
  have lines: "invoice_lines iid (marked_paid iid (e_now env) w3) = invoice_lines iid w"
    and acc3: "accounts (w_db (marked_paid iid (e_now env) w3)) = accounts (w_db w1)"
    using p(1) same by (auto simp: invoice_lines_def marked_paid_def settled_in_def accounts_def)
  have "accounts (w_db w2) = accounts (w_db (marked_paid iid (e_now env) w3))"
    using ProcessPaid_no_credit [OF _ p(2)] lines dep assms(4) by simp
  then have acc: "accounts (w_db w') = accounts (w_db w1)" using w' acc3 by (simp add: accounts_def)
  then have bal: "balance w' c = balance w1 c" for c
    by (simp add: balance_def balance_of_def live_client_def accounts_def)
  note tables = processor.settled_tables [OF iv1 p(1,3)]
  have "balance w1 c = balance w c" if "?due \<le> 0" for c
    using ded that by (auto simp: deduct_due_def ret_def balance_def)
  moreover have "(\<exists>b. balance w (i_ClientID iv) = Some b \<and> ?due \<le> b \<and> balance w1 (i_ClientID iv) = Some (b - ?due))
      \<and> (\<forall>c. c \<noteq> i_ClientID iv \<longrightarrow> balance w1 c = balance w c)" if "0 < ?due"
    using ledger.deduct_ok [of ?w ?due "i_ClientID iv" "''Payment for invoice '' @ i_InvoiceNumber iv" iid w1] ded that assms(2)
    by (simp add: deduct_due_def ledger_inv_def balance_def)
  ultimately show ?thesis
    using iv due tables(1,2) w' bal by (cases "0 < ?due") (auto simp: not_less)
qed

lemma payWithCredit_accepts_lemma:
  assumes "books w" and "ledger_inv w" and "\<not> w_intx w" and "row i_ID iid (db_invoices (w_db w)) = Some iv"
    and "invoicePayable (i_Status iv)" and "balance w (i_ClientID iv) = Some b" and "i64 (i_Total iv - i_CreditApplied iv) \<le> b"
    and lines: "\<forall>it \<in> set (invoice_lines iid w). ii_RelatedType it = RelatedManual \<or> ii_RelatedType it = RelatedLateFee"
  shows "\<exists>w'. payWithCredit env (ProcessPaid env) actor iid w = (Inr (paid_instruction (i64 (i_Total iv - i_CreditApplied iv))), w')"
proof -
  let ?w = "w\<lparr>w_intx := True\<rparr>"
  let ?due = "i64 (i_Total iv - i_CreditApplied iv)"
  have li: "ledger_inv ?w" "balance ?w (i_ClientID iv) = Some b" using assms(2,6) by (simp_all add: ledger_inv_def balance_def)
  obtain w1 where ded: "deduct_due iv iid ?due ?w = (Inr (), w1)"
    using ledger.deduct_total [OF li(1) _ li(2), of ?due] assms(7) by (force simp: deduct_due_def ret_def)
  have fr: "frame (\<lambda>d. (money d, db_invoice_items d)) ?w w1" by (rule keepsD [OF deduct_due_frames ded])
  then have same: "money (w_db w1) = money (w_db w)" "invoice_lines iid w1 = invoice_lines iid w" "w_intx w1"
    and seqs: "\<forall>t. w_seq w t \<le> w_seq w1 t" by (simp_all add: frame_def invoice_lines_def)
  have b1: "books w1" using assms(1) view_books same seqs by (auto simp: view_def)
  have iv1: "row i_ID iid (db_invoices (w_db w1)) = Some iv" using assms(4) same by (simp add: money_def)
  have l1: "ledger_inv w1 \<and> (\<exists>b1. balance w1 (i_ClientID iv) = Some b1)"
    using ded li ledger.deduct_inv [OF li(1)] ledger.deduct_ok [OF li(1), of ?due]
    by (cases "0 < ?due") (fastforce simp: deduct_due_def ret_def)+
  then obtain b1 where bal: "balance w1 (i_ClientID iv) = Some b1" by blast
  have z: "deposit_sum (invoice_lines iid w1) = 0"
    unfolding deposit_sum_def same(2) by (subst filter_False) (use lines in auto)
  have "b1 < 2 ^ 63" using balance_bound l1 bal by (auto simp: ledger_inv_def balance_def in_i64_def)
  then obtain w2 where ap: "applyTx env (ProcessPaid env) iid (credit_ApplyTx env ?due) w1 = (Inr (), w2)"
    using applyTx_deposits [OF b1 _ iv1 assms(5), of "credit_ApplyTx env ?due" b1 env] l1 bal z lines same(2)
    by (auto simp: credit_line_def credit_ApplyTx_def)
  have "\<not> (\<exists>it \<in> set (invoice_lines iid w). ii_RelatedType it = RelatedDeposit)" using lines by auto
  then have "\<exists>w3. creditTx env (ProcessPaid env) actor iid ?w = (Inr (paid_instruction ?due), w3)"
    using assms(4,5) ded ap same(3)
    by (simp add: creditTx_def eff_simps Let_def invoice_lines_def bnd_Inr [of "deduct_due _ _ _"] ApplyPayment_def WithinTx_nested
        bnd_Inr [of "WithinTx _"])
  then show ?thesis using assms(3) by (auto simp: payWithCredit_def WithinTx_def)
qed

lemma payWithCredit_refused_lemma:
  assumes "books w" and "ledger_inv w" and "\<not> w_intx w" and "row i_ID iid (db_invoices (w_db w)) = Some iv"
    and "balance w (i_ClientID iv) = Some b" and "b < i64 (i_Total iv - i_CreditApplied iv)"
  shows "\<exists>e w'. payWithCredit env process actor iid w = (Inl e, w') \<and> w_db w' = w_db w"
proof -
  obtain r w' where run: "payWithCredit env process actor iid w = (r, w')" by (cases "payWithCredit env process actor iid w")
  have "\<exists>e. r = Inl e"
  proof (rule ccontr)
    assume "\<nexists>e. r = Inl e"
    then obtain out where out: "r = Inr out" by (cases r) auto
    obtain iv' w1 where iv': "row i_ID iid (db_invoices (w_db w)) = Some iv'"
      and ded: "deduct_due iv' iid (i64 (i_Total iv' - i_CreditApplied iv')) (w\<lparr>w_intx := True\<rparr>) = (Inr (), w1)"
      using payWithCredit_returns [OF assms(1,3) run [unfolded out]] by metis
    have "0 \<le> b" using balance_bound assms(2,5) by (simp add: ledger_inv_def balance_def)
    then have "0 < i64 (i_Total iv - i_CreditApplied iv)" using assms(6) by simp
    moreover have "iv' = iv" using iv' assms(4) by simp
    ultimately show False
      using ledger.deduct_ok [of "w\<lparr>w_intx := True\<rparr>" "i64 (i_Total iv - i_CreditApplied iv)"] ded assms(2,5,6)
      by (simp add: deduct_due_def ledger_inv_def balance_def) fastforce
  qed
  then show ?thesis using run WithinTx_rollback assms(3) unfolding payWithCredit_def by blast
qed

section \<open>What the webhook may change\<close>

definition gateway_confirms :: "gateways \<Rightarrow> CallbackPayload \<Rightarrow> bool" where
  "gateway_confirms gws p \<longleftrightarrow> (case gws GatewayDuitku of None \<Rightarrow> False
     | Some g \<Rightarrow> gw_VerifyCallbackSignature g p \<and> cb_ResultCode p = resultCodeSuccess
         \<and> (case gw_CheckTransaction g (cb_MerchantOrderID p) of Inl _ \<Rightarrow> False | Inr st \<Rightarrow> st_StatusCode st = TxStatusSuccess))"

text \<open>Nothing that a payer or a payee would notice: settlements, balances and the ledger.\<close>

definition unmoved :: "world \<Rightarrow> world \<Rightarrow> bool" where
  "unmoved w w' \<longleftrightarrow> settlement_of w' = settlement_of w \<and> accounts (w_db w') = accounts (w_db w)"

lemma unmoved_refl [simp]: "unmoved w w"
  by (simp add: unmoved_def)

lemma unmoved_close:
  assumes "tx_Update t' w = (r, w')" and "books w" and "t \<in> set (db_transactions (w_db w))" and "t_ID t' = t_ID t"
    and "t_Status t = TxPending" and "t_Status t' \<noteq> TxSuccess"
  shows "unmoved w w'"
proof -
  have "t_Status t \<noteq> TxSuccess" using assms(5) by simp
  note c = tx_close_rows [OF assms(2,3) this assms(4,6,1)]
  show ?thesis using c(1,3) by (simp add: unmoved_def settlement_of_def accounts_def frame_def fun_eq_iff)
qed

lemma callback_unmoved:
  assumes "books w" and "\<not> gateway_confirms gws p" and "callback_body gws env process p w = (r, w')"
  shows "unmoved w w'"
proof (cases "gws GatewayDuitku")
  case None
  then show ?thesis using assms(3) by (simp add: callback_body_def duitkuGateway_def eff_simps)
next
  case (Some g)
  show ?thesis
  proof (cases "find (\<lambda>t. t_MerchantOrderID t = Some (cb_MerchantOrderID p)) (db_transactions (w_db w))")
    case None
    then show ?thesis using assms(3) Some by (simp add: callback_body_def duitkuGateway_def eff_simps)
  next
    case (Some t)
    then have t: "t \<in> set (db_transactions (w_db w))" using find_in by (metis option.distinct(1) option.inject)
    note close = unmoved_close [OF _ assms(1) t]
    have run: "(if \<not> gw_VerifyCallbackSignature g p then fail ErrBadSignature
        else if cb_ResultCode p \<noteq> resultCodeSuccess then callback_failed g p t
        else callback_success env process g p t) w = (r, w')"
      using assms(3) Some \<open>gws GatewayDuitku = Some g\<close> by (simp add: callback_body_def duitkuGateway_def eff_simps)
    show ?thesis
    proof (cases "gw_CheckTransaction g (cb_MerchantOrderID p)")
      case (Inl e)
      then show ?thesis using run
        by (auto simp: callback_failed_def callback_success_def eff_simps split: if_splits)
    next
      case (Inr st)
      then show ?thesis using run assms(2) \<open>gws GatewayDuitku = Some g\<close>
        by (auto simp: callback_failed_def callback_success_def eff_simps gateway_confirms_def split: if_splits dest: close)
    qed
  qed
qed

lemma HandleCallback_unmoved:
  assumes "books w" and "\<not> gateway_confirms gws p" and "HandleCallback gws env process p w = (r, w')"
  shows "unmoved w w'"
proof -
  obtain r1 w1 where body: "callback_body gws env process p w = (r1, w1)" by (cases "callback_body gws env process p w")
  have "w' = w1\<lparr>w_db := (w_db w1)\<lparr>db_integration := db_integration (w_db w1) @ [(''duitku'', ''/api/v1/webhooks/duitku'',
      webhookLogStatus r1, case r1 of Inr _ \<Rightarrow> True | Inl _ \<Rightarrow> False)]\<rparr>\<rparr>"
    using assms(3) body
    by (cases r1) (auto simp: HandleCallback_def attempt_def bnd_def integration_Log_def x_db_def writes_def eff_simps)
  then show ?thesis using callback_unmoved [OF assms(1,2) body]
    by (simp add: unmoved_def settlement_of_def accounts_def fun_eq_iff)
qed

section \<open>Refunds\<close>

lemma RefundInvoice_run: "RefundInvoice actor iid toCredit w = (case WithinTx (refundTx iid toCredit) w of
    (Inl e, w') \<Rightarrow> (Inl (normalize_err e), w')
  | (Inr out, w') \<Rightarrow> (Inr out, w'\<lparr>w_db := (w_db w')\<lparr>db_audit := db_audit (w_db w') @ [(actor, ''invoice.refund'', ''invoice'', iid)]\<rparr>\<rparr>))"
  by (simp add: RefundInvoice_def on_err_def bnd_run audit_Log_run ret_def split: prod.splits sum.splits)

lemma RefundInvoice_refused:
  assumes "\<not> w_intx w" and "row i_ID iid (db_invoices (w_db w)) = Some iv" and "i_Status iv \<noteq> InvoicePaid"
  shows "\<exists>m. RefundInvoice actor iid toCredit w = (Inl (Conflict m), w)"
proof -
  have "\<not> InvoiceCanTransition (i_Status iv) InvoiceRefunded" using assms(3) by (cases "i_Status iv") auto
  then obtain m where "refundTx iid toCredit (w\<lparr>w_intx := True\<rparr>) = (Inl (Conflict m), w\<lparr>w_intx := True\<rparr>)"
    using assms(2) by (auto simp: refundTx_def TransitionInvoice_def eff_simps)
  then have "WithinTx (refundTx iid toCredit) w = (Inl (Conflict m), w)"
    using assms(1) by (cases w) (simp add: WithinTx_def)
  then have "RefundInvoice actor iid toCredit w = (Inl (normalize_err (Conflict m)), w)"
    by (simp add: RefundInvoice_def on_err_def bnd_run)
  then show ?thesis by (simp add: normalize_err_def Conflict_def)
qed

lemma RefundInvoice_returns:
  assumes "books w" and "\<not> w_intx w" and "RefundInvoice actor iid toCredit w = (Inr out, w')"
  obtains iv t w1 w2 where "row i_ID iid (db_invoices (w_db w)) = Some iv" and "i_Status iv = InvoicePaid"
    and "row i_ID iid (db_invoices (w_db w')) = Some (iv\<lparr>i_Status := InvoiceRefunded\<rparr>)"
    and "success_for iid (db_transactions (w_db w')) = []"
    and "accounts (w_db w1) = accounts (w_db w)" and "refund_credit iv toCredit w1 = (Inr (), w2)"
    and "accounts (w_db w') = accounts (w_db w2)"
proof -
  let ?w = "w\<lparr>w_intx := True\<rparr>"
  obtain w3 where tx: "WithinTx (refundTx iid toCredit) w = (Inr out, w3)"
    and w': "w' = w3\<lparr>w_db := (w_db w3)\<lparr>db_audit := db_audit (w_db w3) @ [(actor, ''invoice.refund'', ''invoice'', iid)]\<rparr>\<rparr>"
    using assms(3) by (auto simp: RefundInvoice_def on_err_def bnd_run audit_Log_run ret_def split: prod.splits sum.splits)
  obtain w2 where run: "refundTx iid toCredit ?w = (Inr out, w2)" and w3: "w3 = w2\<lparr>w_intx := False\<rparr>"
    using WithinTx_commit [OF tx assms(2)] by metis
  have b: "books ?w" using assms(1) by simp
  from b run obtain iv t w1 where h: "row i_ID iid (db_invoices (w_db ?w)) = Some iv" "i_Status iv = InvoicePaid"
      "success_for iid (db_transactions (w_db ?w)) = [t]"
      "w1 = ?w\<lparr>w_db := (w_db ?w)\<lparr>db_invoices := upd i_ID iid (\<lambda>i. i\<lparr>i_Status := InvoiceRefunded, i_PaidAt := i_PaidAt i\<rparr>) (db_invoices (w_db ?w)),
        db_transactions := upd t_ID (t_ID t) (tx_set (t\<lparr>t_Status := TxRefunded\<rparr>)) (db_transactions (w_db ?w))\<rparr>\<rparr>"
      "refund_credit iv toCredit w1 = (Inr (), w2)"
    by (rule refundTx_returns)
  have fr: "keeps (frame money) (refund_credit iv toCredit)" by (intro frame_rules) simp
  have m: "money (w_db w2) = money (w_db w1)" using keepsD [OF fr h(5)] by (simp add: frame_def)
  have r: "row i_ID iid (db_invoices (w_db w')) = Some (iv\<lparr>i_Status := InvoiceRefunded\<rparr>)"
    using m h(1,4) w' w3 by (simp add: money_def row_upd)
  have b2: "books w2" using maintainsD [OF inv_money [OF fr] _ h(5)] refund_rows_books [OF b h(1,3)] h(4) by (simp add: books_def)
  then have "success_for iid (db_transactions (w_db w2)) = []"
    using unpaid_no_success [OF b2, of iid "iv\<lparr>i_Status := InvoiceRefunded\<rparr>"] r w' w3 by simp
  then have s: "success_for iid (db_transactions (w_db w')) = []" using w' w3 by simp
  show ?thesis
    by (rule that [of iv w1 w2]) (use h r s w' w3 in \<open>simp_all add: accounts_def\<close>)
qed
end
