(* ===== verification/Runs.thy ===== *)
theory Runs
  imports Settlement
begin

text \<open>
  The operations that create and age invoices, run by run: that a
  renewal period is invoiced once, that a late fee is added once, and what happens to an invoice
  that is paid while the overdue run is under way.
\<close>

section \<open>One invoice for one renewal\<close>

lemma bnd_service_ForUpdate [eff_simps]: "bnd (service_GetByIDForUpdate sid) f w =
    (case row s_ID sid (db_services (w_db w)) of None \<Rightarrow> (Inl (NotFound ''service''), w) | Some s \<Rightarrow> f s w)"
  by (simp add: service_GetByIDForUpdate_def bnd_run service_run split: option.splits)

lemma bnd_HasOpen [eff_simps]: "bnd (HasOpenRenewalInvoice rt rid) f w = f (\<exists>ii \<in> set (db_invoice_items (w_db w)). \<exists>i \<in> set (db_invoices (w_db w)).
     i_ID i = ii_InvoiceID ii \<and> ii_RelatedType ii = rt \<and> ii_RelatedID ii = Some rid
     \<and> (i_Status i = InvoiceUnpaid \<or> i_Status i = InvoiceOverdue)) w"
  by (simp add: HasOpenRenewalInvoice_def eff_simps)

definition renewal_input :: "Service \<Rightarrow> time \<Rightarrow> int \<Rightarrow> CreateInvoiceInput" where
  "renewal_input svc due discount = \<lparr>cin_ClientID = s_ClientID svc,
     cin_Items = [\<lparr>cii_Description = ''Renewal: '' @ (if s_Domain svc = [] then ''Service #'' @ FormatInt (s_ID svc) else s_Domain svc)
         @ '' ('' @ cycle_str (s_BillingCycle svc) @ '') - due '' @ fmt_date due,
       cii_Amount = s_RecurringAmount svc, cii_Taxed = True, cii_RelatedType = RelatedServiceRenewal, cii_RelatedID = s_ID svc\<rparr>],
     cin_Discount = discount, cin_DueDate = due, cin_Notes = []\<rparr>"

definition renewal_discount :: "env \<Rightarrow> Service \<Rightarrow> db \<Rightarrow> int" where
  "renewal_discount env svc d = (case s_CouponID svc of None \<Rightarrow> 0 | Some cid \<Rightarrow>
     (case row cp_ID cid (db_coupons d) of None \<Rightarrow> 0 | Some c \<Rightarrow>
       if cid = 0 \<or> s_RecurringAmount svc \<le> 0 \<or> \<not> cp_Active c \<or> \<not> cp_Recurring c
         \<or> (case cp_ExpiresAt c of None \<Rightarrow> False | Some t \<Rightarrow> t < e_now env) then 0
       else max 0 (min (s_RecurringAmount svc) (case cp_Type c of
         CouponPercentage \<Rightarrow> quo (i64 (s_RecurringAmount svc * cp_Value c)) 100 | CouponFixed \<Rightarrow> cp_Value c))))"

lemma bnd_recurringDiscount: "bnd (recurringDiscount env (s_CouponID svc) (s_RecurringAmount svc)) f w =
    f (renewal_discount env svc (w_db w)) w"
  by (simp add: recurringDiscount_def renewal_discount_def bnd_assoc coupon_GetByID_def eff_simps Let_def max_def min_def not_less
      split: option.splits CouponType.splits)

lemma serviceRenewalTx_returns:
  assumes "serviceRenewalTx env sid w = (Inr (Some iv, m), w')"
  obtains svc due where "row s_ID sid (db_services (w_db w)) = Some svc" and "s_NextDueDate svc = Some due" and "s_Status svc = ServiceActive"
    and "0 < s_RecurringAmount svc" and "\<not> panelMetaCancelAtPeriodEnd (s_PanelMeta svc)"
    and "CreateInvoice env (renewal_input svc due (renewal_discount env svc (w_db w))) w = (Inr iv, w')"
proof -
  obtain svc where svc: "row s_ID sid (db_services (w_db w)) = Some svc"
    using assms by (cases "row s_ID sid (db_services (w_db w))") (auto simp: serviceRenewalTx_def eff_simps)
  obtain due where due: "s_NextDueDate svc = Some due"
    using assms svc by (cases "s_NextDueDate svc") (auto simp: serviceRenewalTx_def eff_simps)
  have "CreateInvoice env (renewal_input svc due (renewal_discount env svc (w_db w))) w = (Inr iv, w')
      \<and> s_Status svc = ServiceActive \<and> 0 < s_RecurringAmount svc \<and> \<not> panelMetaCancelAtPeriodEnd (s_PanelMeta svc)"
    using assms svc due
    by (auto simp: serviceRenewalTx_def eff_simps bnd_recurringDiscount Let_def renewal_input_def bnd_run [of "CreateInvoice _ _"]
        ret_def split: if_splits prod.splits sum.splits)
  then show ?thesis using that svc due by blast
qed

lemma serviceRenewalTx_creates:
  assumes "row s_ID sid (db_services (w_db w)) = Some svc" and "s_NextDueDate svc = Some due" and "s_Status svc = ServiceActive"
    and "0 < s_RecurringAmount svc" and "\<not> panelMetaCancelAtPeriodEnd (s_PanelMeta svc)" and "db_invoices (w_db w) = []"
    and "CreateInvoice env (renewal_input svc due (renewal_discount env svc (w_db w))) w = (Inr iv, w')"
  shows "serviceRenewalTx env sid w = (Inr (Some iv, []), w')"
  using assms by (simp add: serviceRenewalTx_def eff_simps bnd_recurringDiscount Let_def renewal_input_def bnd_run [of "CreateInvoice _ _"])

lemma bnd_WithinTx: "bnd (WithinTx m) f w = (if w_intx w then bnd m f w else case m (w\<lparr>w_intx := True\<rparr>) of
    (Inl e, w') \<Rightarrow> (Inl e, w'\<lparr>w_db := w_db w, w_intx := False\<rparr>) | (Inr x, w') \<Rightarrow> f x (w'\<lparr>w_intx := False\<rparr>))"
  by (simp add: bnd_def WithinTx_def split: prod.splits sum.splits)

text \<open>The tables an invoice run reads; a notification leaves them alone.\<close>

definition billing_tables :: "db \<Rightarrow> Service list \<times> Domain list \<times> Invoice list \<times> InvoiceItem list" where
  "billing_tables d = (db_services d, db_domains d, db_invoices d, db_invoice_items d)"

lemma no_logs_billing_tables [simp]: "no_logs billing_tables"
  by (simp add: no_logs_def billing_tables_def)

lemma generateService_returns:
  assumes "generateServiceRenewalInvoice env sid w = (Inr (Some iv, m), w')"
  obtains svc due w1 where "row s_ID sid (db_services (w_db w)) = Some svc" and "s_NextDueDate svc = Some due"
    and "s_Status svc = ServiceActive" and "0 < s_RecurringAmount svc" and "\<not> panelMetaCancelAtPeriodEnd (s_PanelMeta svc)"
    and "CreateInvoice env (renewal_input svc due (renewal_discount env svc (w_db w))) (w\<lparr>w_intx := True\<rparr>) = (Inr iv, w1)"
    and "billing_tables (w_db w') = billing_tables (w_db w1)" and "w_intx w' = w_intx w"
proof -
  obtain w2 where tx: "WithinTx (serviceRenewalTx env sid) w = (Inr (Some iv, m), w2)"
    and nt: "notify_created env (Some iv, m) w2 = (Inr (Some iv, m), w')"
    using assms unfolding generateServiceRenewalInvoice_def
    by (rule bnd_InrE) (auto simp: notify_created_def bnd_def ret_def split: option.splits prod.splits sum.splits)
  have "keeps (frame billing_tables) (notify_created env (Some iv, m))"
    unfolding notify_created_def by (simp, intro frame_rules, simp)
  from keepsD [OF this nt] have fr: "billing_tables (w_db w') = billing_tables (w_db w2)" "w_intx w' = w_intx w2"
    by (simp_all add: frame_def)
  obtain w1 where w1: "serviceRenewalTx env sid (w\<lparr>w_intx := True\<rparr>) = (Inr (Some iv, m), w1)"
    and w2: "w2 = (if w_intx w then w1 else w1\<lparr>w_db := w_db w1, w_intx := False\<rparr>)"
    using WithinTx_cases [OF tx] by (metis sum.case(2))
  have "keeps (frame (\<lambda>_. ())) (serviceRenewalTx env sid)" by (intro frame_rules; simp)
  from keepsD [OF this w1] have "w_intx w1" by (simp add: frame_def)
  from w1 show ?thesis
  proof (rule serviceRenewalTx_returns)
    fix svc due
    assume "row s_ID sid (db_services (w_db (w\<lparr>w_intx := True\<rparr>))) = Some svc" "s_NextDueDate svc = Some due" "s_Status svc = ServiceActive"
      "0 < s_RecurringAmount svc" "\<not> panelMetaCancelAtPeriodEnd (s_PanelMeta svc)"
      "CreateInvoice env (renewal_input svc due (renewal_discount env svc (w_db (w\<lparr>w_intx := True\<rparr>)))) (w\<lparr>w_intx := True\<rparr>) = (Inr iv, w1)"
    then show ?thesis using that [of svc due w1] fr w2 \<open>w_intx w1\<close> by (simp split: if_splits)
  qed
qed

lemma renewal_once:
  assumes "generateServiceRenewalInvoice env sid w = (Inr (Some iv, m), w')" and "\<not> w_intx w" and "sid \<noteq> 0"
  shows "generateServiceRenewalInvoice env2 sid w' = (Inr (None, skipAlreadyInvoiced), w')"
proof (rule generateService_returns [OF assms(1)])
  fix svc due w1
  assume h: "row s_ID sid (db_services (w_db w)) = Some svc" "s_NextDueDate svc = Some due"
    "s_Status svc = ServiceActive" "0 < s_RecurringAmount svc" "\<not> panelMetaCancelAtPeriodEnd (s_PanelMeta svc)"
    "CreateInvoice env (renewal_input svc due (renewal_discount env svc (w_db w))) (w\<lparr>w_intx := True\<rparr>) = (Inr iv, w1)"
    "billing_tables (w_db w') = billing_tables (w_db w1)" "w_intx w' = w_intx w"
  have id: "s_ID svc = sid" using h(1) by (rule row_Some_key)
  from h(6) have new: "db_services (w_db w1) = db_services (w_db w) \<and> iv \<in> set (db_invoices (w_db w1)) \<and> i_Status iv = InvoiceUnpaid
      \<and> (\<exists>it \<in> set (db_invoice_items (w_db w1)). ii_InvoiceID it = i_ID iv \<and> ii_RelatedType it = RelatedServiceRenewal \<and> ii_RelatedID it = Some sid)"
    by (rule CreateInvoice_returns) (use assms(3) id in \<open>auto simp: renewal_input_def invoice_items_of_def new_invoice_fields\<close>)
  then obtain it where it: "it \<in> set (db_invoice_items (w_db w'))" "ii_InvoiceID it = i_ID iv" "ii_RelatedType it = RelatedServiceRenewal"
    "ii_RelatedID it = Some sid" "iv \<in> set (db_invoices (w_db w'))" using h(7) by (auto simp: billing_tables_def)
  have "\<exists>ii \<in> set (db_invoice_items (w_db w')). \<exists>i \<in> set (db_invoices (w_db w')).
     i_ID i = ii_InvoiceID ii \<and> ii_RelatedType ii = RelatedServiceRenewal \<and> ii_RelatedID ii = Some sid
     \<and> (i_Status i = InvoiceUnpaid \<or> i_Status i = InvoiceOverdue)"
    using it new by (intro bexI [of _ it] bexI [of _ iv]) auto
  moreover have "row s_ID sid (db_services (w_db w')) = Some svc" using h(1,7) new by (simp add: billing_tables_def)
  ultimately have "serviceRenewalTx env2 sid (w'\<lparr>w_intx := True\<rparr>) = (Inr (None, skipAlreadyInvoiced), w'\<lparr>w_intx := True\<rparr>)"
    using h(2-5) id by (simp add: serviceRenewalTx_def eff_simps)
  then have "WithinTx (serviceRenewalTx env2 sid) w' = (Inr (None, skipAlreadyInvoiced), w')"
    using h(8) assms(2) by (cases w') (simp add: WithinTx_def)
  then show ?thesis by (simp add: generateServiceRenewalInvoice_def bnd_run notify_created_def ret_def)
qed

section \<open>An invoice paid during the overdue run\<close>

lemma overdue_race_lemma:
  assumes "books w" and "\<not> w_intx w" and "row i_ID iid (db_invoices (w_db w)) = Some iv" and "i_Status iv = InvoiceUnpaid"
    and "ApplyPayment env (ProcessPaid env) iid tx w = (Inr (), w1)" and "markOverdueOne env2 iv acc w1 = (r, w2)"
  shows "\<exists>iv2. row i_ID iid (db_invoices (w_db w2)) = Some iv2 \<and> i_Status iv2 = InvoiceOverdue \<and> i_PaidAt iv2 \<noteq> None
    \<and> (\<exists>t. success_for iid (db_transactions (w_db w2)) = [t] \<and> t_Amount t = at_Amount tx)" and "\<not> books w2"
proof -
  have pay: "invoicePayable (i_Status iv)" using assms(4) by (simp add: invoicePayable_def)
  note p = processor.ApplyPayment_paid [OF assms(1,2,3) pay assms(5)]
  have id: "i_ID iv = iid" using assms(3) by (rule row_Some_key)
  let ?f = "\<lambda>i. i\<lparr>i_Status := InvoiceOverdue, i_PaidAt := i_PaidAt i\<rparr>"
  let ?w = "w1\<lparr>w_db := (w_db w1)\<lparr>db_invoices := upd i_ID iid ?f (db_invoices (w_db w1))\<rparr>\<rparr>"
  let ?n = "bnd (notifyClient env2 (i_ClientID iv) ''invoice_overdue'' (overdue_data env2 iv (i_Total iv))) (\<lambda>_. ret (fst acc + 1, snd acc))"
  have "attempt (invoice_UpdateStatus iid InvoiceOverdue None) w1 = (Inr (Inr ()), ?w)"
    using p(2) by (simp add: attempt_def invoice_UpdateStatus_def invoice_exec_def eff_simps)
  then have run: "?n ?w = (r, w2)"
    using assms(4,6) id by (simp add: markOverdueOne_def TransitionInvoice_def bnd_run [of "attempt _"])
  have "keeps (frame money) ?n" by (intro frame_rules; simp)
  from keepsD [OF this run] have m: "money (w_db w2) = money (w_db ?w)" by (simp add: frame_def)
  have a: "row i_ID iid (db_invoices (w_db w2)) = Some (?f (pay_fix))" if "pay_fix = (pay (paid_time env tx) iv)" for pay_fix
    using m p(2) that by (simp add: money_def row_upd)
  show *: "\<exists>iv2. row i_ID iid (db_invoices (w_db w2)) = Some iv2 \<and> i_Status iv2 = InvoiceOverdue \<and> i_PaidAt iv2 \<noteq> None
    \<and> (\<exists>t. success_for iid (db_transactions (w_db w2)) = [t] \<and> t_Amount t = at_Amount tx)"
    using a m p(3) by (auto simp: money_def)
  then show "\<not> books w2" using unpaid_no_success by fastforce
qed

section \<open>Late fees\<close>

definition has_late_fee :: "int \<Rightarrow> db \<Rightarrow> bool" where
  "has_late_fee iid d \<longleftrightarrow> (\<exists>it \<in> set (db_invoice_items d). ii_InvoiceID it = iid \<and> ii_RelatedType it = RelatedLateFee)"

lemma lateFeeOne_skip: "has_late_fee (i_ID iv) (w_db w) \<Longrightarrow> lateFeeOne env fee iv acc w = (Inr acc, w)"
  by (auto simp: lateFeeOne_def has_late_fee_def eff_simps)

definition fee_line :: "int \<Rightarrow> int \<Rightarrow> int \<Rightarrow> InvoiceItem" where
  "fee_line n iid fee = \<lparr>ii_ID = n, ii_InvoiceID = iid, ii_Description = ''Late fee'', ii_Amount = fee,
     ii_Taxed = False, ii_RelatedType = RelatedLateFee, ii_RelatedID = None\<rparr>"

definition charge :: "int \<Rightarrow> Invoice \<Rightarrow> Invoice" where
  "charge fee i = i\<lparr>i_Subtotal := i64 (i_Subtotal i + fee), i_Total := i64 (i_Total i + fee)\<rparr>"

lemma lateFeeTx_run:
  assumes "row i_ID iid (db_invoices (w_db w)) = Some iv" and "i_Status iv = InvoiceOverdue" and "distinct (map i_ID (db_invoices (w_db w)))"
  shows "lateFeeTx fee iid w = (Inr True, w\<lparr>w_seq := (w_seq w)(TInvoiceItems := w_seq w TInvoiceItems + 1),
    w_db := (w_db w)\<lparr>db_invoice_items := db_invoice_items (w_db w) @ [fee_line (w_seq w TInvoiceItems + 1) iid fee],
      db_invoices := upd i_ID iid (charge fee) (db_invoices (w_db w))\<rparr>\<rparr>)"
proof -
  have id: "i_ID iv = iid" using assms(1) by (rule row_Some_key)
  have "upd i_ID iid (\<lambda>i. i\<lparr>i_Status := InvoiceOverdue, i_Subtotal := i64 (i_Subtotal iv + fee), i_Discount := i_Discount iv,
      i_TaxRate := i_TaxRate iv, i_TaxTotal := i_TaxTotal iv, i_CreditApplied := i_CreditApplied iv, i_Total := i64 (i_Total iv + fee),
      i_DueDate := i_DueDate iv, i_PaidAt := i_PaidAt iv, i_Notes := i_Notes iv, i_PDFObjectKey := i_PDFObjectKey iv\<rparr>) (db_invoices (w_db w))
    = upd i_ID iid (charge fee) (db_invoices (w_db w))"
    unfolding upd_def
  proof (rule map_cong [OF refl])
    fix x assume "x \<in> set (db_invoices (w_db w))"
    then have "i_ID x = iid \<Longrightarrow> x = iv" using row_distinct [OF assms(3)] assms(1) by fastforce
    then show "(if i_ID x = iid then x\<lparr>i_Status := InvoiceOverdue, i_Subtotal := i64 (i_Subtotal iv + fee), i_Discount := i_Discount iv,
      i_TaxRate := i_TaxRate iv, i_TaxTotal := i_TaxTotal iv, i_CreditApplied := i_CreditApplied iv, i_Total := i64 (i_Total iv + fee),
      i_DueDate := i_DueDate iv, i_PaidAt := i_PaidAt iv, i_Notes := i_Notes iv, i_PDFObjectKey := i_PDFObjectKey iv\<rparr> else x)
      = (if i_ID x = iid then charge fee x else x)"
      using assms(2) by (cases iv) (auto simp: charge_def)
  qed
  then show ?thesis using assms(1,2) id
    by (simp add: lateFeeTx_def eff_simps bnd_invoice_AddItem invoice_Update_def bnd_invoice_exec fee_line_def)
qed

definition invoicing :: "db \<Rightarrow> Invoice list \<times> InvoiceItem list" where
  "invoicing d = (db_invoices d, db_invoice_items d)"

lemma no_logs_invoicing [simp]: "no_logs invoicing"
  by (simp add: no_logs_def invoicing_def)

lemma charge_keys [simp]: "i_ID (charge fee i) = i_ID i" "i_Status (charge fee i) = i_Status i" "i_DueDate (charge fee i) = i_DueDate i"
  by (simp_all add: charge_def)

lemma has_late_fee_invoicing: "invoicing d' = invoicing d \<Longrightarrow> has_late_fee j d' = has_late_fee j d"
  by (simp add: has_late_fee_def invoicing_def)

lemma lateFeeOne_charges:
  assumes "row i_ID (i_ID iv) (db_invoices (w_db w)) = Some iv'" and "i_Status iv' = InvoiceOverdue"
    and "distinct (map i_ID (db_invoices (w_db w)))" and "\<not> w_intx w" and "\<not> has_late_fee (i_ID iv) (w_db w)"
  shows "\<exists>w' n. lateFeeOne env fee iv acc w = (Inr (fst acc + 1, snd acc), w') \<and> \<not> w_intx w'
    \<and> invoicing (w_db w') = (upd i_ID (i_ID iv) (charge fee) (db_invoices (w_db w)), db_invoice_items (w_db w) @ [fee_line n (i_ID iv) fee])"
proof -
  let ?w = "w\<lparr>w_seq := (w_seq w)(TInvoiceItems := w_seq w TInvoiceItems + 1),
    w_db := (w_db w)\<lparr>db_invoice_items := db_invoice_items (w_db w) @ [fee_line (w_seq w TInvoiceItems + 1) (i_ID iv) fee],
      db_invoices := upd i_ID (i_ID iv) (charge fee) (db_invoices (w_db w))\<rparr>, w_intx := False\<rparr>"
  let ?n = "bnd (notifyClient env (i_ClientID iv) ''invoice_overdue'' (overdue_data env iv (i64 (i_Total iv + fee)))) (\<lambda>_.
             ret (fst acc + 1, snd acc))"
  have "WithinTx (lateFeeTx fee (i_ID iv)) w = (Inr True, ?w)"
    using lateFeeTx_run [of "i_ID iv" "w\<lparr>w_intx := True\<rparr>" iv' fee] assms by (simp add: WithinTx_def)
  then have run: "lateFeeOne env fee iv acc w = ?n ?w"
    using assms(5) by (auto simp: lateFeeOne_def has_late_fee_def eff_simps)
  obtain r w' where n: "?n ?w = (r, w')" by (cases "?n ?w")
  have "r = Inr (fst acc + 1, snd acc)" using n by (auto simp: notifyClient_def eff_simps)
  moreover have "keeps (frame invoicing) ?n" by (intro frame_rules; simp)
  from keepsD [OF this n] have "invoicing (w_db w') = invoicing (w_db ?w)" "\<not> w_intx w'" by (simp_all add: frame_def)
  ultimately show ?thesis using run n by (auto simp: invoicing_def)
qed

definition charge_ids :: "int \<Rightarrow> int set \<Rightarrow> db \<Rightarrow> Invoice list" where
  "charge_ids fee S d = map (\<lambda>i. if i_ID i \<in> S \<and> \<not> has_late_fee (i_ID i) d then charge fee i else i) (db_invoices d)"

lemma lateFee_fold:
  assumes "distinct (map i_ID xs)" and "distinct (map i_ID (db_invoices (w_db w)))" and "\<not> w_intx w"
    and "\<And>x. x \<in> set xs \<Longrightarrow> \<exists>x'. row i_ID (i_ID x) (db_invoices (w_db w)) = Some x' \<and> i_Status x' = InvoiceOverdue"
  shows "\<exists>w'. foldE (lateFeeOne env fee) xs acc w =
      (Inr (fst acc + int (length (filter (\<lambda>x. \<not> has_late_fee (i_ID x) (w_db w)) xs)), snd acc), w') \<and> \<not> w_intx w'
    \<and> db_invoices (w_db w') = charge_ids fee (i_ID ` set xs) (w_db w)
    \<and> (\<forall>j. has_late_fee j (w_db w') \<longleftrightarrow> has_late_fee j (w_db w) \<or> j \<in> i_ID ` set xs)"
  using assms
proof (induction xs arbitrary: w acc)
  case Nil
  then show ?case by (cases acc) (simp add: ret_def charge_ids_def)
next
  case (Cons x xs)
  obtain x' where x': "row i_ID (i_ID x) (db_invoices (w_db w)) = Some x'" "i_Status x' = InvoiceOverdue" using Cons.prems(4) by force
  have new: "i_ID x \<notin> i_ID ` set xs" using Cons.prems(1) by simp
  show ?case
  proof (cases "has_late_fee (i_ID x) (w_db w)")
    case True
    then have one: "lateFeeOne env fee x acc w = (Inr acc, w)" by (rule lateFeeOne_skip)
    have "charge_ids fee (i_ID ` set (x # xs)) (w_db w) = charge_ids fee (i_ID ` set xs) (w_db w)"
      using True by (auto simp: charge_ids_def)
    then show ?thesis using Cons.IH [of w acc] Cons.prems True by (auto simp: bnd_run [of "lateFeeOne _ _ _ _"] one)
  next
    case False
    then obtain w1 n where one: "lateFeeOne env fee x acc w = (Inr (fst acc + 1, snd acc), w1)" and n: "\<not> w_intx w1"
      and t: "db_invoices (w_db w1) = upd i_ID (i_ID x) (charge fee) (db_invoices (w_db w))"
        "db_invoice_items (w_db w1) = db_invoice_items (w_db w) @ [fee_line n (i_ID x) fee]"
      using lateFeeOne_charges [OF x' Cons.prems(2,3), of env fee acc] by (auto simp: invoicing_def)
    have fee: "has_late_fee j (w_db w1) \<longleftrightarrow> has_late_fee j (w_db w) \<or> j = i_ID x" for j
      using t(2) by (auto simp: has_late_fee_def fee_line_def)
    have rows: "\<exists>z'. row i_ID (i_ID z) (db_invoices (w_db w1)) = Some z' \<and> i_Status z' = InvoiceOverdue" if "z \<in> set xs" for z
      using Cons.prems(4) [of z] that new t(1) by (auto simp: row_upd)
    have ids: "distinct (map i_ID (db_invoices (w_db w1)))" using Cons.prems(2) t(1) by simp
    have eq: "charge_ids fee (i_ID ` set xs) (w_db w1) = charge_ids fee (i_ID ` set (x # xs)) (w_db w)"
      using fee new False by (auto simp: charge_ids_def t(1) upd_def)
    have flt: "filter (\<lambda>x. \<not> has_late_fee (i_ID x) (w_db w1)) xs = filter (\<lambda>x. \<not> has_late_fee (i_ID x) (w_db w)) xs"
      using fee new by (intro filter_cong) (auto simp: image_iff)
    have "foldE (lateFeeOne env fee) (x # xs) acc w = foldE (lateFeeOne env fee) xs (fst acc + 1, snd acc) w1"
      by (simp add: bnd_run [of "lateFeeOne _ _ _ _"] one)
    then show ?thesis
      using Cons.IH [OF _ ids n rows, of "(fst acc + 1, snd acc)"] Cons.prems(1) False fee eq flt by (auto simp: ac_simps)
  qed
qed

definition late :: "env \<Rightarrow> Invoice \<Rightarrow> bool" where
  "late env i \<longleftrightarrow> i_Status i = InvoiceOverdue \<and> i_DueDate i \<le> dateOnly (e_now env)"

lemma bnd_on_err_q_db: "bnd (on_err g (q_db f)) h w = h (f (w_db w)) w"
  by (simp add: bnd_def on_err_def q_db_run)

lemma ApplyLateFees_run:
  assumes "setting_bool (w_db w) ''billing.late_fee_enabled'' False" and "setting_int (w_db w) ''billing.late_fee_amount'' 0 = fee" and "0 < fee"
  shows "ApplyLateFees env w = foldE (lateFeeOne env fee) (sort_key i_DueDate (filter (late env) (db_invoices (w_db w)))) (0, []) w"
  using assms by (simp add: ApplyLateFees_def eff_simps bnd_on_err_q_db invoice_ListDueForStatus_def late_def [abs_def])

lemma ApplyLateFees_exact_lemma:
  assumes "distinct (map i_ID (db_invoices (w_db w)))" and "\<not> w_intx w" and "setting_bool (w_db w) ''billing.late_fee_enabled'' False"
    and "setting_int (w_db w) ''billing.late_fee_amount'' 0 = fee" and "0 < fee"
  shows "\<exists>n w'. ApplyLateFees env w = (Inr (n, []), w') \<and> \<not> w_intx w'
    \<and> db_invoices (w_db w') = map (\<lambda>i. if late env i \<and> \<not> has_late_fee (i_ID i) (w_db w) then charge fee i else i) (db_invoices (w_db w))
    \<and> (\<forall>i \<in> set (db_invoices (w_db w')). late env i \<longrightarrow> has_late_fee (i_ID i) (w_db w'))"
proof -
  let ?xs = "sort_key i_DueDate (filter (late env) (db_invoices (w_db w)))"
  have d: "distinct (map i_ID ?xs)"
  proof -
    have "distinct (map i_ID (filter (late env) (db_invoices (w_db w))))" using assms(1) by (rule distinct_map_filter)
    then show ?thesis by (simp add: distinct_map)
  qed
  have rows: "\<exists>x'. row i_ID (i_ID x) (db_invoices (w_db w)) = Some x' \<and> i_Status x' = InvoiceOverdue" if "x \<in> set ?xs" for x
    using that row_distinct [OF assms(1), of x] by (auto simp: late_def)
  have mem: "i_ID i \<in> i_ID ` set ?xs \<longleftrightarrow> late env i" if "i \<in> set (db_invoices (w_db w))" for i
    using that assms(1) by (auto simp: distinct_map dest: inj_onD)
  obtain n w' where w': "foldE (lateFeeOne env fee) ?xs (0, []) w = (Inr (n, []), w')" "\<not> w_intx w'"
    "db_invoices (w_db w') = charge_ids fee (i_ID ` set ?xs) (w_db w)"
    "\<forall>j. has_late_fee j (w_db w') \<longleftrightarrow> has_late_fee j (w_db w) \<or> j \<in> i_ID ` set ?xs"
    using lateFee_fold [OF d assms(1,2) rows, of env fee "(0, [])"] by auto
  have inv: "db_invoices (w_db w') = map (\<lambda>i. if late env i \<and> \<not> has_late_fee (i_ID i) (w_db w) then charge fee i else i) (db_invoices (w_db w))"
    unfolding w'(3) charge_ids_def using mem by (intro map_cong) auto
  have lt: "late env (charge fee i) = late env i" for i by (simp add: late_def)
  have "\<forall>i \<in> set (db_invoices (w_db w')). late env i \<longrightarrow> has_late_fee (i_ID i) (w_db w')"
    unfolding inv using w'(4) mem lt by auto
  then show ?thesis using ApplyLateFees_run [OF assms(3-5), of env] w' inv by auto
qed

lemma lateFee_fold_skip:
  "\<forall>x \<in> set xs. has_late_fee (i_ID x) (w_db w) \<Longrightarrow> foldE (lateFeeOne env fee) xs acc w = (Inr acc, w)"
  by (induction xs) (simp_all add: ret_def bnd_run [of "lateFeeOne _ _ _ _"] lateFeeOne_skip)

lemma ApplyLateFees_again:
  assumes "\<forall>i \<in> set (db_invoices (w_db w)). late env i \<longrightarrow> has_late_fee (i_ID i) (w_db w)"
  shows "ApplyLateFees env w = (Inr (0, []), w)"
proof (cases "setting_bool (w_db w) ''billing.late_fee_enabled'' False \<and> 0 < setting_int (w_db w) ''billing.late_fee_amount'' 0")
  case True
  have "\<forall>x \<in> set (sort_key i_DueDate (filter (late env) (db_invoices (w_db w)))). has_late_fee (i_ID x) (w_db w)" using assms by auto
  then show ?thesis using True by (simp add: ApplyLateFees_run [OF _ refl] lateFee_fold_skip)
next
  case False
  then show ?thesis by (auto simp: ApplyLateFees_def eff_simps)
qed

end
