(* ===== verification/Repeats.thy ===== *)
theory Repeats
  imports Runs
begin

text \<open>
  What fulfilment does when it is asked again: activating an order and ending a domain hunt are
  idempotent, renewing a service is not, and a recurring coupon is taken off at activation and
  again at every renewal.
\<close>

section \<open>A coupon is taken twice\<close>

lemma bnd_rand_password: "bnd (on_err g rand_password) f w = (case GeneratePassword 16 (w_entropy w) of
    (Inl e, x) \<Rightarrow> (Inl (g e), w\<lparr>w_entropy := x\<rparr>) | (Inr p, x) \<Rightarrow> f p (w\<lparr>w_entropy := x\<rparr>))"
  by (simp add: bnd_def on_err_def rand_password_def split: prod.splits sum.splits)

lemma on_err_simps: "on_err g (fail e) = fail (g e)" "on_err g (ret x) = ret x"
  by (simp_all add: on_err_def ret_def fail_def)

lemma bnd_service_Create: "bnd (service_Create env s) f w =
    (let s' = s\<lparr>s_ID := w_seq w TServices + 1, s_CreatedAt := e_now env, s_UpdatedAt := e_now env\<rparr>
     in f s' (w\<lparr>w_seq := (w_seq w)(TServices := w_seq w TServices + 1), w_db := (w_db w)\<lparr>db_services := db_services (w_db w) @ [s']\<rparr>\<rparr>))"
  by (simp add: service_Create_def Let_def bnd_assoc eff_simps)

lemma activate_tail_services:
  assumes "bnd (UpdateItemBackRefs i s x) (\<lambda>_. if p then ret [] else if q then ret m else bnd (Enqueue env j) (\<lambda>_. ret [])) w = (r, w')"
  shows "db_services (w_db w') = db_services (w_db w)"
proof -
  have "keeps (frame db_services) (bnd (UpdateItemBackRefs i s x) (\<lambda>_. if p then ret [] else if q then ret m else bnd (Enqueue env j) (\<lambda>_. ret [])))"
    unfolding UpdateItemBackRefs_def by (intro frame_rules) simp
  from keepsD [OF this assms] show ?thesis by (simp add: frame_def)
qed

lemma activate_recurring:
  assumes "activateProductItem env order item (Some c) today w = (Inr msg, w')" and "cp_Recurring c"
    and "oi_ProductID item = Some pid" and "couponAppliesToProduct c pid"
  shows "\<exists>svc. db_services (w_db w') = db_services (w_db w) @ [svc] \<and> s_CouponID svc = Some (cp_ID c)
    \<and> s_RecurringAmount svc = recurringWithCoupon c (oi_UnitPrice item)"
proof -
  obtain p where p: "find (\<lambda>p. p_ID p = pid \<and> p_DeletedAt p = None) (db_products (w_db w)) = Some p"
    using assms(1,3) by (cases "find (\<lambda>p. p_ID p = pid \<and> p_DeletedAt p = None) (db_products (w_db w))")
      (auto simp: activateProductItem_def product_GetByID_def bnd_assoc eff_simps)
  then have pid: "p_ID p = pid" by (auto simp: find_Some_iff)
  obtain r g where g: "GeneratePassword 16 (w_entropy w) = (r, g)" by (cases "GeneratePassword 16 (w_entropy w)")
  note run = activateProductItem_def product_GetByID_def bnd_assoc eff_simps Let_def bnd_rand_password on_err_simps bnd_service_Create
  obtain pw where pw: "r = Inr pw" using assms(1,3) p g by (cases r) (auto simp: run)
  obtain enc where enc: "e_encrypt env pw = Inr enc" using assms(1,3) p g pw by (cases "e_encrypt env pw") (auto simp: run)
  show ?thesis using assms p pid g pw enc by (auto simp: run dest!: activate_tail_services)
qed

lemma recurringDiscount_coupon:
  assumes "row cp_ID cid (db_coupons (w_db w)) = Some c" and "cid \<noteq> 0" and "0 < amount" and "cp_Active c" and "cp_Recurring c"
    and "\<forall>t. cp_ExpiresAt c = Some t \<longrightarrow> e_now env \<le> t"
  shows "recurringDiscount env (Some cid) amount w = (Inr (max 0 (min amount (case cp_Type c of
      CouponPercentage \<Rightarrow> quo (i64 (amount * cp_Value c)) 100 | CouponFixed \<Rightarrow> cp_Value c))), w)"
  using assms by (auto simp: recurringDiscount_def coupon_GetByID_def bnd_assoc eff_simps Let_def max_def min_def not_less
      split: option.splits CouponType.splits)

section \<open>Activation and renewal, called again\<close>

lemma bnd_order_GetByID: "bnd (order_GetByID oid) f w = (case row o_ID oid (db_orders (w_db w)) of
    None \<Rightarrow> (Inl (NotFound ''order''), w) | Some x \<Rightarrow> f x w)"
  by (simp add: order_GetByID_def bnd_assoc eff_simps split: option.splits)

lemma ActivateOrder_active:
  assumes "row o_ID oid (db_orders (w_db w)) = Some x" and "o_Status x = OrderActive"
  shows "ActivateOrder env oid w = (Inr (), w)"
  using assms by (simp add: ActivateOrder_def bnd_order_GetByID eff_simps)

definition order_row :: "int \<Rightarrow> db \<Rightarrow> Order option" where
  "order_row oid d = row o_ID oid (db_orders d)"

lemma no_logs_order_row [simp]: "no_logs (order_row oid)"
  by (simp add: no_logs_def order_row_def)

lemma order_UpdateStatus_row:
  assumes "order_UpdateStatus oid st w = (Inr (), w')"
  shows "\<exists>x. order_row oid (w_db w') = Some x \<and> o_Status x = st"
  using assms by (auto simp: order_UpdateStatus_def order_row_def eff_simps row_upd split: option.splits)

lemma ActivateOrder_becomes_active:
  assumes "ActivateOrder env oid w = (Inr (), w')"
  shows "\<exists>x. order_row oid (w_db w') = Some x \<and> o_Status x = OrderActive"
proof -
  obtain ord where ord: "row o_ID oid (db_orders (w_db w)) = Some ord"
    using assms by (cases "row o_ID oid (db_orders (w_db w))") (auto simp: ActivateOrder_def bnd_order_GetByID)
  show ?thesis
  proof (cases "o_Status ord = OrderActive")
    case True
    then show ?thesis using assms ActivateOrder_active [OF ord] ord by (auto simp: order_row_def)
  next
    case False
    define tl where "tl = (\<lambda>client alerts. bnd (each (\<lambda>msg. ignore_err (AlertAdmin env ''Manual provisioning required'' msg)) alerts) (\<lambda>_.
       ignore_err (SendTemplate env (c_UserID client) ''order_activated''
         [(''OrderNumber'', o_OrderNumber ord), (''Name'', FullName client)])))"
    let ?tx = "\<lambda>items coupon. bnd (foldE (activateItem env ord coupon (dateOnly (e_now env))) items []) (\<lambda>alerts.
         bnd (from_result (TransitionOrder (o_Status ord) OrderActive)) (\<lambda>newStatus.
         bnd (order_UpdateStatus oid newStatus) (\<lambda>_. ret alerts)))"
    have pending: "o_Status ord = OrderPending" using assms ord False by (auto simp: ActivateOrder_def bnd_order_GetByID eff_simps split: if_splits)
    from assms ord pending have "bnd (clients_GetByID (o_ClientID ord)) (\<lambda>client.
       bnd (order_GetItems oid) (\<lambda>items.
       bnd (case o_CouponID ord of None \<Rightarrow> ret None | Some cid \<Rightarrow> optional (coupon_GetByID cid)) (\<lambda>coupon.
       bnd (WithinTx (?tx items coupon)) (tl client)))) w = (Inr (), w')" by (simp add: ActivateOrder_def bnd_order_GetByID tl_def)
    then obtain client items coupon wa alerts wb where tx: "WithinTx (?tx items coupon) wa = (Inr alerts, wb)" and tl: "tl client alerts wb = (Inr (), w')"
      by (elim bnd_InrE) blast
    obtain wc where wc: "?tx items coupon (wa\<lparr>w_intx := True\<rparr>) = (Inr alerts, wc)" and db: "w_db wb = w_db wc"
      by (rule WithinTx_cases [OF tx]) (use that in \<open>auto split: if_splits\<close>)
    from wc obtain wd where "order_UpdateStatus oid OrderActive wd = (Inr (), wc)"
      by (elim bnd_InrE) (auto simp: TransitionOrder_def pending eff_simps)
    then obtain x where x: "order_row oid (w_db wc) = Some x" "o_Status x = OrderActive" using order_UpdateStatus_row by blast
    have "keeps (frame (order_row oid)) (tl client alerts)" unfolding tl_def by (intro frame_rules; simp)
    from keepsD [OF this tl] have "order_row oid (w_db w') = order_row oid (w_db wc)" using db by (simp add: frame_def)
    then show ?thesis using x by auto
  qed
qed

lemma ActivateOrder_twice: "ActivateOrder env oid w = (Inr (), w') \<Longrightarrow> ActivateOrder env2 oid w' = (Inr (), w')"
  using ActivateOrder_becomes_active ActivateOrder_active by (metis order_row_def)

lemma RenewService_returns:
  assumes "service_row sid (w_db w) = Some s" and "\<And>j. e_enqueue_err env j = None"
  shows "\<exists>w'. RenewService env sid w = (Inr (), w')"
proof -
  have "s_ID s = sid" using assms(1) row_Some_key by (fastforce simp: service_row_def)
  then show ?thesis using assms
    by (simp add: RenewService_def renewal_effects_def bnd_def on_err_def service_run service_row_def Let_def
        service_Update_def notifyService_def Enqueue_def eff_simps)
qed

section \<open>A hunt is ended once\<close>

definition snipe_status :: "int \<Rightarrow> db \<Rightarrow> SnipeStatus option" where
  "snipe_status sid d = map_option sn_Status (row sn_ID sid (db_snipes d))"

lemma snipe_status_frames [simp]: "no_logs (snipe_status sid)" "no_credit (snipe_status sid)"
  by (simp_all add: no_logs_def no_credit_def snipe_status_def)

lemma frame_snipe_status:
  "keeps (frame (snipe_status sid)) (snipe_MarkRefunded i t)" "keeps (frame (snipe_status sid)) (snipe_AddEvent i k m)"
  unfolding snipe_MarkRefunded_def snipe_AddEvent_def
  by (intro frame_rules; simp add: snipe_status_def row_upd option.map_comp comp_def)+

lemma snipe_cas_run: "snipe_cas sid ok f w = (case row sn_ID sid (db_snipes (w_db w)) of
    None \<Rightarrow> (Inr False, w)
  | Some s \<Rightarrow> if ok s then (Inr True, w\<lparr>w_db := (w_db w)\<lparr>db_snipes := upd sn_ID sid f (db_snipes (w_db w))\<rparr>\<rparr>) else (Inr False, w))"
  by (simp add: snipe_cas_def eff_simps split: option.splits)

definition paid_back :: "int \<Rightarrow> int \<Rightarrow> world \<Rightarrow> world \<Rightarrow> bool" where
  "paid_back c refund w w' \<longleftrightarrow> (\<forall>x. balance w' x = (if x = c \<and> 0 < refund then map_option (\<lambda>b. b + refund) (balance w x) else balance w x))"

lemma snipe_refund_balance:
  assumes "snipe_refund s refund now w = (Inr sk, w')"
  shows "paid_back (sn_ClientID s) refund w w'"
proof (cases "0 < refund")
  case False
  then show ?thesis using assms by (simp add: snipe_refund_def ret_def paid_back_def)
next
  case True
  obtain r w1 where adj: "AdjustCredit (sn_ClientID s) refund (''Domain snipe refund: '' @ sn_DomainName s) (sn_InvoiceID s) w = (r, w1)"
    by (cases "AdjustCredit (sn_ClientID s) refund (''Domain snipe refund: '' @ sn_DomainName s) (sn_InvoiceID s) w")
  have acc: "accounts (w_db w') = accounts (w_db w1)"
    using assms True adj by (cases r) (auto simp: snipe_refund_def eff_simps snipe_MarkRefunded_def accounts_def split: if_splits)
  have "balance w1 x = (if x = sn_ClientID s then map_option (\<lambda>b. b + refund) (balance w x) else balance w x)" for x
  proof (cases "live_client (sn_ClientID s) (w_db w)")
    case None
    then show ?thesis using adj by (auto simp: AdjustCredit_run balance_def balance_of_def)
  next
    case (Some c)
    show ?thesis
    proof (cases r)
      case (Inr b)
      then show ?thesis using adj Some by (auto simp: AdjustCredit_run balance_def book_credit_balance split: if_splits) (simp add: balance_of_def)
    next
      case (Inl e)
      then have "err_code e \<noteq> CodeNotFound" using adj Some by (auto simp: AdjustCredit_run Conflict_def split: if_splits)
      then show ?thesis using assms True adj Inl by (simp add: snipe_refund_def eff_simps)
    qed
  qed
  then show ?thesis using True balance_accounts [OF acc] by (simp add: paid_back_def)
qed

lemma finishTx_ends:
  assumes "finishTx s to opts refund now w = (Inr (True, sk), w')"
  shows "snipe_status (sn_ID s) (w_db w') = Some to" and "snipe_status (sn_ID s) (w_db w) = Some (sn_Status s)"
    and "paid_back (sn_ClientID s) refund w w'"
proof -
  let ?ev = "snipe_AddEvent (sn_ID s) (snipe_status_str to) (truncate_msg (trailMessage to (fo_Reason opts) refund) 500)"
  from assms obtain ok w3 where fin: "snipe_Finish \<lparr>sf_ID = sn_ID s, sf_From = sn_Status s, sf_To = to, sf_Owner = fo_Owner opts,
          sf_RequireIdle = fo_RequireIdle opts, sf_Now = now, sf_RefundAmount = refund,
          sf_LastError = fo_Reason opts, sf_Attempts = fo_Attempts opts\<rparr> w = (Inr ok, w3)"
    and "(if \<not> ok then ret (False, False) else bnd (snipe_refund s refund now) (\<lambda>skipped. bnd ?ev (\<lambda>_. ret (True, skipped)))) w3 = (Inr (True, sk), w')"
    unfolding finishTx_def by (rule bnd_InrE)
  then have ok: "ok" and rest: "bnd (snipe_refund s refund now) (\<lambda>skipped. bnd ?ev (\<lambda>_. ret (True, skipped))) w3 = (Inr (True, sk), w')"
    by (auto simp: ret_def split: if_splits)
  from rest obtain sk' w4 where re: "snipe_refund s refund now w3 = (Inr sk', w4)" and ev: "bnd ?ev (\<lambda>_. ret (True, sk')) w4 = (Inr (True, sk), w')"
    by (rule bnd_InrE)
  have f3: "snipe_status (sn_ID s) (w_db w3) = Some to \<and> snipe_status (sn_ID s) (w_db w) = Some (sn_Status s) \<and> accounts (w_db w3) = accounts (w_db w)"
    using fin ok by (auto simp: snipe_Finish_def snipe_cas_run snipe_status_def row_upd accounts_def split: option.splits if_splits)
  have "keeps (frame (snipe_status (sn_ID s))) (snipe_refund s refund now)"
    unfolding snipe_refund_def by (intro frame_rules frame_snipe_status; simp)
  from keepsD [OF this re] have s4: "snipe_status (sn_ID s) (w_db w4) = snipe_status (sn_ID s) (w_db w3)" by (simp add: frame_def)
  have e2: "snipe_status (sn_ID s) (w_db w') = snipe_status (sn_ID s) (w_db w4) \<and> accounts (w_db w') = accounts (w_db w4)"
    using ev by (auto simp: snipe_AddEvent_def eff_simps snipe_status_def accounts_def)
  show "snipe_status (sn_ID s) (w_db w') = Some to" "snipe_status (sn_ID s) (w_db w) = Some (sn_Status s)" using s4 e2 f3 by simp_all
  have "balance w3 = balance w" by (rule ext, rule balance_accounts) (use f3 in simp)
  moreover have "balance w' = balance w4" by (rule ext, rule balance_accounts) (use e2 in simp)
  ultimately show "paid_back (sn_ClientID s) refund w w'" using snipe_refund_balance [OF re] by (simp add: paid_back_def)
qed

lemma snipe_finish_ends:
  assumes "snipe_finish env s to opts w = (Inr True, w')"
  shows "snipe_status (sn_ID s) (w_db w') = Some to" and "SnipeCanTransition (sn_Status s) to"
    and "snipe_status (sn_ID s) (w_db w) = Some (sn_Status s)"
    and "paid_back (sn_ClientID s) (refundFor s to (fo_RefundFee opts)) w w'"
proof -
  let ?refund = "refundFor s to (fo_RefundFee opts)"
  let ?tx = "finishTx s to opts ?refund (e_now env)" and ?eff = "finish_effects env s to opts ?refund"
  show tr: "SnipeCanTransition (sn_Status s) to"
    using assms by (cases "SnipeCanTransition (sn_Status s) to") (simp_all add: snipe_finish_def TransitionSnipe_def eff_simps)
  have "bnd (WithinTx ?tx) (\<lambda>(applied, sk). if \<not> applied then ret False else bnd (?eff sk) (\<lambda>_. ret True)) w = (Inr True, w')"
    using assms tr by (simp add: snipe_finish_def TransitionSnipe_def eff_simps Let_def)
  then obtain p w1 where tx: "WithinTx ?tx w = (Inr p, w1)"
    and rest: "(case p of (applied, sk) \<Rightarrow> if \<not> applied then ret False else bnd (?eff sk) (\<lambda>_. ret True)) w1 = (Inr True, w')"
    by (rule bnd_InrE)
  obtain sk where p: "p = (True, sk)" and "bnd (?eff sk) (\<lambda>_. ret True) w1 = (Inr True, w')"
    using rest by (auto simp: ret_def split: prod.splits if_splits)
  then obtain u where eff: "?eff sk w1 = (Inr u, w')" by (auto simp: ret_def elim: bnd_InrE)
  obtain w2 where w2: "?tx (w\<lparr>w_intx := True\<rparr>) = (Inr (True, sk), w2)" and db: "w_db w1 = w_db w2"
    by (rule WithinTx_cases [OF tx]) (use that p in \<open>auto split: if_splits\<close>)
  note e = finishTx_ends [OF w2]
  have fr: "keeps (frame (snipe_status (sn_ID s))) (?eff sk)" "keeps (frame accounts) (?eff sk)"
    unfolding finish_effects_def by (intro frame_rules; simp)+
  have t: "snipe_status (sn_ID s) (w_db w') = snipe_status (sn_ID s) (w_db w1)" "accounts (w_db w') = accounts (w_db w1)"
    using keepsD [OF fr(1) eff] keepsD [OF fr(2) eff] by (simp_all add: frame_def)
  show "snipe_status (sn_ID s) (w_db w') = Some to" "snipe_status (sn_ID s) (w_db w) = Some (sn_Status s)" using t(1) e(1,2) db by simp_all
  have "balance w' = balance w2" by (rule ext, rule balance_accounts) (use t(2) db in simp)
  moreover have "balance (w\<lparr>w_intx := True\<rparr>) = balance w" by (simp add: balance_def fun_eq_iff)
  ultimately show "paid_back (sn_ClientID s) ?refund w w'" using e(3) by (simp add: paid_back_def)
qed

lemma snipe_finish_again:
  assumes "snipe_status (sn_ID s) (w_db w) = Some to" and "to \<noteq> sn_Status s" and "\<not> w_intx w"
  shows "fst (snipe_finish env s to2 opts w) \<noteq> Inr True \<and> snd (snipe_finish env s to2 opts w) = w"
proof -
  have "finishTx s to2 opts refund now (w\<lparr>w_intx := True\<rparr>) = (Inr (False, False), w\<lparr>w_intx := True\<rparr>)" for refund now
    using assms(1,2) by (auto simp: finishTx_def snipe_Finish_def bnd_run [of "snipe_cas _ _ _"] snipe_cas_run snipe_status_def ret_def split: option.splits)
  then have no: "WithinTx (finishTx s to2 opts refund now) w = (Inr (False, False), w)" for refund now
    using assms(3) intx_same [OF assms(3)] by (simp add: WithinTx_def)
  show ?thesis
    by (cases "SnipeCanTransition (sn_Status s) to2")
      (simp_all add: snipe_finish_def TransitionSnipe_def eff_simps Let_def bnd_run [of "WithinTx _"] no)
qed

lemma snipe_finish_once:
  assumes "snipe_finish env s to opts w = (Inr True, w')" and "\<not> w_intx w"
  shows "snd (snipe_finish env2 s to2 opts2 w') = w'"
proof -
  have "keeps (frame (\<lambda>_. ())) (snipe_finish env s to opts)" by (intro frame_rules) (simp_all add: no_snipes_def no_logs_def no_credit_def)
  from keepsD [OF this assms(1)] have "\<not> w_intx w'" using assms(2) by (simp add: frame_def)
  moreover have "to \<noteq> sn_Status s"
    using snipe_finish_ends(2) [OF assms(1)] by (cases "sn_Status s") (auto simp: SnipeCanTransition_def canTransition_def)
  ultimately show ?thesis using snipe_finish_again snipe_finish_ends(1) [OF assms(1)] by blast
qed

end
