(* ===== verification/Sales.thy ===== *)
theory Sales
  imports Repeats
begin

text \<open>
  Checkout as a whole: what a returned order, its lines and its invoice hold, what it takes from
  the shelf, what a fraud rule holds back, and what the end of an order gives back.
\<close>

section \<open>All or nothing\<close>

text \<open>
  A computation is atomic when a failure outside a transaction leaves the database as it was:
  reads, then one transaction, then nothing that can fail.
\<close>

definition atomic :: "'a act \<Rightarrow> bool" where
  "atomic m \<longleftrightarrow> (\<forall>w e w'. \<not> w_intx w \<longrightarrow> m w = (Inl e, w') \<longrightarrow> w_db w' = w_db w)"

definition never_fails :: "'a act \<Rightarrow> bool" where
  "never_fails m \<longleftrightarrow> (\<forall>w. \<exists>x w'. m w = (Inr x, w'))"

lemma never_failsE:
  assumes "never_fails m"
  obtains x w' where "m w = (Inr x, w')"
  using assms unfolding never_fails_def by meson

named_theorems atomic_rules \<open>what changes nothing when it fails\<close>
named_theorems total_rules \<open>what does not fail\<close>

lemma total_basic [total_rules]: "never_fails (ret x)" "never_fails (ignore_err m)" "never_fails (audit_Log a b c i)"
  by (simp_all add: never_fails_def ret_run ignore_err_run audit_Log_run)

lemma total_attempt [total_rules]: "never_fails (attempt m)"
  by (simp add: never_fails_def attempt_def split: prod.split)

lemma total_compose [total_rules]:
  "never_fails m \<Longrightarrow> (\<And>x. never_fails (f x)) \<Longrightarrow> never_fails (bnd m f)"
  "never_fails m \<Longrightarrow> never_fails n \<Longrightarrow> never_fails (if b then m else n)"
  "(\<And>x. never_fails (g x)) \<Longrightarrow> (\<And>x. never_fails (h x)) \<Longrightarrow> never_fails (case z of Inl x \<Rightarrow> g x | Inr x \<Rightarrow> h x)"
  "(\<And>x y. never_fails (k x y)) \<Longrightarrow> never_fails (case p of (x, y) \<Rightarrow> k x y)"
proof -
  assume m: "never_fails m" and f: "\<And>x. never_fails (f x)"
  show "never_fails (bnd m f)" unfolding never_fails_def
  proof
    fix w
    obtain x w1 where "m w = (Inr x, w1)" by (rule never_failsE [OF m])
    moreover obtain y w2 where "f x w1 = (Inr y, w2)" by (rule never_failsE [OF f])
    ultimately show "\<exists>x w'. bnd m f w = (Inr x, w')" by (simp add: bnd_Inr)
  qed
qed (auto split: sum.split prod.split)

lemma total_each [total_rules]: "(\<And>x. never_fails (f x)) \<Longrightarrow> never_fails (each f xs)"
  by (induction xs) (simp_all add: total_rules)

lemma atomic_read [atomic_rules]: "keeps (=) m \<Longrightarrow> (\<And>x. atomic (f x)) \<Longrightarrow> atomic (bnd m f)"
  unfolding atomic_def by (blast elim: bnd_cases dest: read_state)

lemma atomic_tx [atomic_rules]: "(\<And>x. never_fails (f x)) \<Longrightarrow> atomic (bnd (WithinTx m) f)"
  unfolding atomic_def
proof (intro allI impI)
  fix w e w'
  assume f: "\<And>x. never_fails (f x)" and w: "\<not> w_intx w" and run: "bnd (WithinTx m) f w = (Inl e, w')"
  from run show "w_db w' = w_db w"
  proof (cases rule: bnd_cases)
    case (err e')
    then show ?thesis using WithinTx_rollback w by blast
  next
    case (ok x v)
    obtain y v2 where "f x v = (Inr y, v2)" by (rule never_failsE [OF f])
    then show ?thesis using ok by simp
  qed
qed

lemma atomic_basic [atomic_rules]: "atomic (ret x)" "atomic (fail e)"
  by (simp_all add: atomic_def ret_def fail_def)

lemma atomic_cases [atomic_rules]: "atomic m \<Longrightarrow> atomic n \<Longrightarrow> atomic (if b then m else n)"
  "(\<And>x y. atomic (k x y)) \<Longrightarrow> atomic (case p of (x, y) \<Rightarrow> k x y)"
  by (auto split: prod.split)

section \<open>What a plan refers to\<close>

definition plan_ok :: "db \<Rightarrow> itemPlan \<Rightarrow> bool" where
  "plan_ok d p \<longleftrightarrow> (\<forall>pr. ip_product p = Some pr \<longrightarrow> pr \<in> set (db_products d) \<and> p_DeletedAt pr = None
      \<and> (ip_itemType p = ItemProduct \<longleftrightarrow> p_Type pr \<noteq> ProductDomain))
    \<and> (ip_itemType p = ItemProduct \<longrightarrow> ip_product p \<noteq> None)"

lemma product_lookup: "optional (product_GetByID pid) w =
    (Inr (find (\<lambda>p. p_ID p = pid \<and> p_DeletedAt p = None) (db_products (w_db w))), w)"
  by (cases "find (\<lambda>p. p_ID p = pid \<and> p_DeletedAt p = None) (db_products (w_db w))")
    (simp_all add: product_GetByID_def optional_run eff_simps)

lemma pricing_lookup: "optional (GetPricing pid c) w = (Inr (find (\<lambda>p. pp_ProductID p = pid \<and> pp_Cycle p = c
     \<and> pp_Currency p = ''IDR'') (db_product_pricing (w_db w))), w)"
  by (cases "find (\<lambda>p. pp_ProductID p = pid \<and> pp_Cycle p = c \<and> pp_Currency p = ''IDR'') (db_product_pricing (w_db w))")
    (simp_all add: GetPricing_def optional_run eff_simps)

lemma find_SomeD: "find P xs = Some x \<Longrightarrow> x \<in> set xs \<and> P x"
  by (induction xs) (auto split: if_splits)

lemma product_line_product:
  assumes "product_line it pr errs pricing cyc w = (Inr (Inr plan), w')"
  shows "ip_product plan = Some pr \<and> ip_itemType plan = ItemProduct"
  using assms unfolding product_line_def
  by (auto elim!: bnd_InrE simp: ret_def product_plan_def Let_def split: prod.splits if_splits)

lemma planProduct_ok:
  assumes "planProduct it w = (Inr (Inr plan), w')"
  shows "plan_ok (w_db w) plan"
proof -
  obtain pr where pr: "find (\<lambda>p. p_ID p = oir_ProductID it \<and> p_DeletedAt p = None) (db_products (w_db w)) = Some pr"
    using assms by (cases "find (\<lambda>p. p_ID p = oir_ProductID it \<and> p_DeletedAt p = None) (db_products (w_db w))")
      (auto simp: planProduct_def eff_simps product_lookup split: if_splits)
  have "p_Type pr \<noteq> ProductDomain \<and> ip_product plan = Some pr \<and> ip_itemType plan = ItemProduct"
    using assms pr unfolding planProduct_def
    by (auto simp: eff_simps product_lookup pricing_lookup Let_def split: if_splits option.splits dest: product_line_product)
  then show ?thesis using find_SomeD [OF pr] by (auto simp: plan_ok_def)
qed

lemma domain_line_product:
  assumes "domain_line env ca it tr name years u v pr w = (Inr (Inr plan), w')"
  shows "ip_product plan = pr \<and> ip_itemType plan \<noteq> ItemProduct"
  using assms unfolding domain_line_def
  by (auto elim!: bnd_InrE simp: ret_def domain_plan_def split: if_splits prod.splits)

lemma domain_product_ok:
  assumes "domain_product pid w = (Inr (Inr (Some pr)), w')"
  shows "pr \<in> set (db_products (w_db w)) \<and> p_DeletedAt pr = None \<and> p_Type pr = ProductDomain"
  using assms find_SomeD [of _ "db_products (w_db w)"]
  by (auto simp: domain_product_def bnd_run [of "optional _"] product_lookup ret_def split: if_splits option.splits)

lemma domain_on_sale_ok:
  assumes "domain_on_sale env ca it tr name years tld w = (Inr (Inr plan), w')"
  shows "plan_ok (w_db w) plan"
proof -
  from assms obtain prem w1 where p: "premiumFor name (domainExtensionOf name) w = (Inr prem, w1)"
    and k: "(case domain_price tr years tld prem of Inl e \<Rightarrow> ret (Inl [e])
     | Inr (unit, renewPerYear) \<Rightarrow> bnd (domain_product (oir_ProductID it)) (\<lambda>p. case p of
           Inl e \<Rightarrow> ret (Inl [e])
         | Inr product \<Rightarrow> domain_line env ca it tr name years unit renewPerYear product)) w1 = (Inr (Inr plan), w')"
    unfolding domain_on_sale_def by (auto elim: bnd_InrE)
  have "w1 = w" using read_state [OF read_domain_parts(1) p] .
  with k obtain u v pr w2 where "domain_product (oir_ProductID it) w = (Inr (Inr pr), w2)"
    and "domain_line env ca it tr name years u v pr w2 = (Inr (Inr plan), w')"
    by (auto elim!: bnd_InrE simp: ret_def split: sum.splits)
  then show ?thesis using domain_line_product domain_product_ok by (fastforce simp: plan_ok_def)
qed

lemma planDomain_ok:
  assumes "planDomain env ca it w = (Inr (Inr plan), w')"
  shows "plan_ok (w_db w) plan"
proof -
  from assms obtain name years tld found w1 where f: "optional (GetByTLD (domainExtensionOf name)) w = (Inr found, w1)"
    and s: "domain_on_sale env ca it (item_type_of (oir_ItemType it) = ItemDomainTransfer) name years tld w1 = (Inr (Inr plan), w')"
    unfolding planDomain_def Let_def by (auto elim!: bnd_InrE simp: ret_def split: if_splits option.splits)
  have "w1 = w" using read_state [OF read_shared(1) [OF read_catalogue(5)] f] .
  then show ?thesis using domain_on_sale_ok [OF s] by simp
qed

lemma planItem_ok: "planItem env ca it w = (Inr (Inr plan), w') \<Longrightarrow> plan_ok (w_db w) plan"
  unfolding planItem_def
  by (cases "item_type_of (oir_ItemType it)") (auto simp: ret_def dest: planProduct_ok planDomain_ok)

lemma planSteps_ok:
  assumes "foldE (planStep env ca) xs acc w = (Inr (plans, details), w')" and "\<forall>p \<in> set (fst acc). plan_ok (w_db w) p"
  shows "\<forall>p \<in> set plans. plan_ok (w_db w) p"
  using assms
proof (induction xs arbitrary: acc w)
  case (Cons x xs)
  from Cons.prems(1) obtain acc1 w1 where s: "planStep env ca x acc w = (Inr acc1, w1)"
    and f: "foldE (planStep env ca) xs acc1 w1 = (Inr (plans, details), w')" by (auto elim: bnd_InrE)
  from s obtain r w2 where r: "planItem env ca (snd x) w = (Inr r, w2)"
    and a: "acc1 = (case r of Inl errs \<Rightarrow> (fst acc, snd acc @ map (item_field (fst x)) errs) | Inr plan \<Rightarrow> (fst acc @ [plan], snd acc))" "w1 = w2"
    unfolding planStep_def by (auto elim!: bnd_InrE simp: ret_def)
  have "w2 = w" using read_state [OF read_planItem r] .
  moreover have "\<forall>p \<in> set (fst acc1). plan_ok (w_db w) p"
    using a r Cons.prems(2) by (auto split: sum.splits dest: planItem_ok)
  ultimately show ?case using Cons.IH f a(2) by blast
qed (simp add: ret_def)

lemma checkout_plans_ok:
  assumes "checkout_plans env ck client its w = (Inr plans, w')"
  shows "\<forall>p \<in> set plans. plan_ok (w_db w) p"
  using assms planSteps_ok [of env "ck_CheckAvailability ck" "enumerate 0 its" "([], [])" w plans]
  by (auto simp: checkout_plans_def buildPlans_def ret_def fail_def elim!: bnd_InrE split: if_splits prod.splits)

section \<open>Taking and giving back stock\<close>

text \<open>The number of lines of a cart that take one unit of a product.\<close>

definition takes :: "int \<Rightarrow> itemPlan \<Rightarrow> bool" where
  "takes pid p \<longleftrightarrow> (case ip_product p of None \<Rightarrow> False | Some pr \<Rightarrow> p_StockEnabled pr \<and> p_ID pr = pid)"

definition shift_stock :: "(int \<Rightarrow> int) \<Rightarrow> db \<Rightarrow> db" where
  "shift_stock k d = d\<lparr>db_products := map (\<lambda>p. p\<lparr>p_StockQty := p_StockQty p + k (p_ID p)\<rparr>) (db_products d)\<rparr>"

lemma shift_stock_0 [simp]: "shift_stock (\<lambda>_. 0) d = d"
  by (simp add: shift_stock_def)

lemma shift_stock_add: "shift_stock k (shift_stock j d) = shift_stock (\<lambda>i. j i + k i) d"
  by (simp add: shift_stock_def add.assoc)

lemma shift_stock_cong: "(\<And>i. k i = j i) \<Longrightarrow> shift_stock k d = shift_stock j d"
  by (simp add: shift_stock_def)

lemma set_stock_shift: "set_stock pid (\<lambda>q. q + n) d = shift_stock (\<lambda>i. if i = pid then n else 0) d"
  by (simp add: set_stock_def shift_stock_def upd_def)

lemma shift_row: "row p_ID pid (db_products (shift_stock k d)) =
    map_option (\<lambda>p. p\<lparr>p_StockQty := p_StockQty p + k pid\<rparr>) (row p_ID pid (db_products d))"
proof -
  have "row p_ID pid (map (\<lambda>p. p\<lparr>p_StockQty := p_StockQty p + k (p_ID p)\<rparr>) ps) =
      map_option (\<lambda>p. p\<lparr>p_StockQty := p_StockQty p + k pid\<rparr>) (row p_ID pid ps)" for ps
    by (induction ps) (auto simp: row_Cons)
  then show ?thesis by (simp add: shift_stock_def)
qed

definition counted :: "int \<Rightarrow> db \<Rightarrow> bool" where
  "counted pid d \<longleftrightarrow> (\<exists>p. row p_ID pid (db_products d) = Some p \<and> p_StockEnabled p)"

lemma counted_shift [simp]: "counted pid (shift_stock k d) = counted pid d"
  by (auto simp: counted_def shift_row)

lemma DecrementStock_returns:
  assumes "DecrementStock pid w = (Inr u, w')" and "counted pid (w_db w)"
  shows "w' = w\<lparr>w_db := shift_stock (\<lambda>i. if i = pid then - 1 else 0) (w_db w)\<rparr>"
  using assms set_stock_shift [of pid "- 1"]
  by (auto simp: DecrementStock_def eff_simps counted_def split: if_splits)

lemma RestoreStock_returns:
  assumes "RestoreStock pid w = (Inr u, w')"
  shows "w' = w\<lparr>w_db := shift_stock (\<lambda>i. if i = pid \<and> counted pid (w_db w) then 1 else 0) (w_db w)\<rparr>"
  using assms set_stock_shift [of pid 1]
  by (cases "counted pid (w_db w)")
    (auto simp: RestoreStock_def eff_simps counted_def split: if_splits option.splits)

lemma take_stock_returns:
  assumes "each take_stock plans w = (Inr u, w')"
    and "\<forall>p \<in> set plans. \<forall>pr. ip_product p = Some pr \<longrightarrow> p_StockEnabled pr \<longrightarrow> counted (p_ID pr) (w_db w)"
  shows "w' = w\<lparr>w_db := shift_stock (\<lambda>i. - int (length (filter (takes i) plans))) (w_db w)\<rparr>"
  using assms
proof (induction plans arbitrary: w)
  case Nil
  then show ?case by (simp add: ret_def)
next
  case (Cons p plans)
  from Cons.prems(1) obtain x w1 where t: "take_stock p w = (Inr x, w1)" and e: "each take_stock plans w1 = (Inr u, w')"
    by (auto elim: bnd_InrE)
  have w1: "w1 = w\<lparr>w_db := shift_stock (\<lambda>i. if takes i p then - 1 else 0) (w_db w)\<rparr>"
  proof (cases "\<exists>pr. ip_product p = Some pr \<and> p_StockEnabled pr")
    case True
    then obtain pr where pr: "ip_product p = Some pr" "p_StockEnabled pr" by blast
    then have "(\<lambda>i. if takes i p then - 1 else 0) = (\<lambda>i. if i = p_ID pr then - 1 else (0 :: int))"
      by (auto simp: takes_def)
    moreover have "DecrementStock (p_ID pr) w = (Inr x, w1)" using t pr by (simp add: take_stock_def)
    ultimately show ?thesis using DecrementStock_returns [of "p_ID pr" w x w1] Cons.prems(2) pr by simp
  next
    case False
    then have "(\<lambda>i. if takes i p then - 1 else 0) = (\<lambda>_. 0 :: int)" by (auto simp: takes_def split: option.splits)
    then show ?thesis using t False by (auto simp: take_stock_def ret_def split: option.splits)
  qed
  have "w' = w1\<lparr>w_db := shift_stock (\<lambda>i. - int (length (filter (takes i) plans))) (w_db w1)\<rparr>"
    by (rule Cons.IH [OF e]) (use Cons.prems(2) w1 in auto)
  then show ?case unfolding w1 by (simp add: shift_stock_add, intro arg_cong [where f = "\<lambda>d. w\<lparr>w_db := d\<rparr>"] shift_stock_cong) simp
qed

definition returns_unit :: "int \<Rightarrow> OrderItem \<Rightarrow> bool" where
  "returns_unit pid it \<longleftrightarrow> oi_ItemType it = ItemProduct \<and> oi_ProductID it = Some pid"

lemma restore_returns:
  assumes "each restore_item items w = (Inr u, w')"
  shows "w' = w\<lparr>w_db := shift_stock (\<lambda>i. if counted i (w_db w) then int (length (filter (returns_unit i) items)) else 0) (w_db w)\<rparr>"
  using assms
proof (induction items arbitrary: w)
  case Nil
  then show ?case by (simp add: ret_def cong: if_cong)
next
  case (Cons it items)
  from Cons.prems obtain x w1 where t: "restore_item it w = (Inr x, w1)" and e: "each restore_item items w1 = (Inr u, w')"
    by (auto elim: bnd_InrE)
  have w1: "w1 = w\<lparr>w_db := shift_stock (\<lambda>i. if returns_unit i it \<and> counted i (w_db w) then 1 else 0) (w_db w)\<rparr>"
  proof (cases "oi_ItemType it = ItemProduct \<and> oi_ProductID it \<noteq> None")
    case True
    then obtain pid where pid: "oi_ItemType it = ItemProduct" "oi_ProductID it = Some pid" by blast
    then have "(\<lambda>i. if returns_unit i it \<and> counted i (w_db w) then 1 else 0) = (\<lambda>i. if i = pid \<and> counted pid (w_db w) then 1 else (0 :: int))"
      by (auto simp: returns_unit_def)
    then show ?thesis using RestoreStock_returns [of pid w x w1] t pid by (simp add: restore_item_def)
  next
    case False
    then have "(\<lambda>i. if returns_unit i it \<and> counted i (w_db w) then 1 else 0) = (\<lambda>_. 0 :: int)" by (auto simp: returns_unit_def)
    then show ?thesis using t False by (auto simp: restore_item_def ret_def split: option.splits if_splits)
  qed
  have "w' = w1\<lparr>w_db := shift_stock (\<lambda>i. if counted i (w_db w1) then int (length (filter (returns_unit i) items)) else 0) (w_db w1)\<rparr>"
    by (rule Cons.IH [OF e])
  then show ?case unfolding w1 by (simp add: shift_stock_add, intro arg_cong [where f = "\<lambda>d. w\<lparr>w_db := d\<rparr>"] shift_stock_cong) simp
qed

section \<open>A returned checkout\<close>

fun order_lines :: "int \<Rightarrow> int \<Rightarrow> OrderItem list \<Rightarrow> OrderItem list" where
  "order_lines n k [] = []"
| "order_lines n k (it # its) = it\<lparr>oi_OrderID := n, oi_ID := k + 1\<rparr> # order_lines n (k + 1) its"

lemma bnd_order_AddItem: "bnd (order_AddItem it) f w = f (it\<lparr>oi_ID := w_seq w TOrderItems + 1\<rparr>)
    (w\<lparr>w_seq := (w_seq w)(TOrderItems := w_seq w TOrderItems + 1),
       w_db := (w_db w)\<lparr>db_order_items := db_order_items (w_db w) @ [it\<lparr>oi_ID := w_seq w TOrderItems + 1\<rparr>]\<rparr>\<rparr>)"
  by (simp add: order_AddItem_def bnd_assoc eff_simps)

lemma add_order_lines_run:
  "foldE (\<lambda>it acc. bnd (order_AddItem (it\<lparr>oi_OrderID := n\<rparr>)) (\<lambda>x. ret (acc @ [x]))) its acc w =
    (Inr (acc @ order_lines n (w_seq w TOrderItems) its),
     w\<lparr>w_seq := (w_seq w)(TOrderItems := w_seq w TOrderItems + int (length its)),
       w_db := (w_db w)\<lparr>db_order_items := db_order_items (w_db w) @ order_lines n (w_seq w TOrderItems) its\<rparr>\<rparr>)"
proof (induction its arbitrary: acc w)
  case Nil
  then show ?case by (simp add: ret_def)
next
  case (Cons it its)
  have "foldE (\<lambda>it acc. bnd (order_AddItem (it\<lparr>oi_OrderID := n\<rparr>)) (\<lambda>x. ret (acc @ [x]))) (it # its) acc w =
    foldE (\<lambda>it acc. bnd (order_AddItem (it\<lparr>oi_OrderID := n\<rparr>)) (\<lambda>x. ret (acc @ [x]))) its
      (acc @ [it\<lparr>oi_OrderID := n, oi_ID := w_seq w TOrderItems + 1\<rparr>])
      (w\<lparr>w_seq := (w_seq w)(TOrderItems := w_seq w TOrderItems + 1), w_db := (w_db w)\<lparr>db_order_items :=
        db_order_items (w_db w) @ [it\<lparr>oi_OrderID := n, oi_ID := w_seq w TOrderItems + 1\<rparr>]\<rparr>\<rparr>)"
    by (simp add: bnd_assoc bnd_order_AddItem bnd_ret)
  then show ?case by (simp add: Cons.IH fun_upd_def ac_simps cong: if_cong)
qed

lemma order_Create_returns:
  assumes "order_Create env ord its w = (Inr (ord', its'), w')"
  shows "ord' = ord\<lparr>o_ID := w_seq w TOrders + 1, o_CreatedAt := e_now env\<rparr>"
    and "its' = order_lines (w_seq w TOrders + 1) (w_seq w TOrderItems) its"
    and "w' = w\<lparr>w_seq := (w_seq w)(TOrders := w_seq w TOrders + 1, TOrderItems := w_seq w TOrderItems + int (length its)),
       w_db := (w_db w)\<lparr>db_orders := db_orders (w_db w) @ [ord'], db_order_items := db_order_items (w_db w) @ its'\<rparr>\<rparr>"
proof -
  note r = assms [unfolded order_Create_def Let_def, simplified bnd_nextval bnd_q_db bnd_guard bnd_x_db
      bnd_run [of "foldE _ _ _"] add_order_lines_run, simplified ret_def]
  show 1: "ord' = ord\<lparr>o_ID := w_seq w TOrders + 1, o_CreatedAt := e_now env\<rparr>"
    and 2: "its' = order_lines (w_seq w TOrders + 1) (w_seq w TOrderItems) its"
    using r by (auto split: if_splits)
  show "w' = w\<lparr>w_seq := (w_seq w)(TOrders := w_seq w TOrders + 1, TOrderItems := w_seq w TOrderItems + int (length its)),
       w_db := (w_db w)\<lparr>db_orders := db_orders (w_db w) @ [ord'], db_order_items := db_order_items (w_db w) @ its'\<rparr>\<rparr>"
    unfolding 1 2 using r by (auto split: if_splits)
qed

lemma flag_fraud_returns:
  assumes "flag_fraud ord iv w = (Inr (ord', iv'), w')"
  shows "ord' = ord\<lparr>o_Status := OrderFraud\<rparr>" and "iv' = iv\<lparr>i_Status := InvoiceCancelled\<rparr>"
    and "w' = w\<lparr>w_db := (w_db w)\<lparr>db_orders := upd o_ID (o_ID ord) (\<lambda>x. x\<lparr>o_Status := OrderFraud\<rparr>) (db_orders (w_db w)),
        db_invoices := upd i_ID (i_ID iv) (\<lambda>i. i\<lparr>i_Status := InvoiceCancelled, i_PaidAt := i_PaidAt i\<rparr>) (db_invoices (w_db w))\<rparr>\<rparr>"
  using assms
  by (auto simp: flag_fraud_def TransitionOrder_def TransitionInvoice_def eff_simps order_UpdateStatus_def bnd_assoc
      invoice_UpdateStatus_def bnd_invoice_exec split: if_splits option.splits)

definition order_invoice_input :: "Order \<Rightarrow> OrderItem list \<Rightarrow> int \<Rightarrow> time \<Rightarrow> CreateInvoiceInput" where
  "order_invoice_input ord items discount due = \<lparr>cin_ClientID = o_ClientID ord, cin_Items = map order_invoice_item items,
     cin_Discount = discount, cin_DueDate = due, cin_Notes = ''Order '' @ o_OrderNumber ord\<rparr>"

lemma orderTx_returns:
  assumes "orderTx env ord plans coupon disc due fr w = (Inr (ord', items, iv), w')"
  obtains ord0 iv0 u wa wb wc wd where
    "wa = w\<lparr>w_db := (w_db w)\<lparr>db_counters := (db_counters (w_db w))(OrderCounterScope (e_now env) := Some (next_number (OrderCounterScope (e_now env)) (w_db w)))\<rparr>\<rparr>"
    and "order_Create env (ord\<lparr>o_OrderNumber := FormatOrderNumber (e_now env) (next_number (OrderCounterScope (e_now env)) (w_db w))\<rparr>)
      (map order_item_of plans) wa = (Inr (ord0, items), wb)"
    and "(if fr then ret () else bnd (each take_stock plans) (\<lambda>_. use_coupon coupon)) wb = (Inr u, wc)"
    and "CreateInvoice env (order_invoice_input ord0 items disc due) wc = (Inr iv0, wd)"
    and "if fr then flag_fraud ord0 iv0 wd = (Inr (ord', iv), w') else ord' = ord0 \<and> iv = iv0 \<and> w' = wd"
proof -
  define tk where "tk = (if fr then ret () else bnd (each take_stock plans) (\<lambda>_. use_coupon coupon))"
  define en where "en x its i = (if fr then bnd (flag_fraud x i) (\<lambda>(x, i). ret (x, its, i)) else ret (x, its, i))" for x and its :: "OrderItem list" and i
  have "if fr then flag_fraud x i v = (Inr (ord', iv), w') \<and> its = items else ord' = x \<and> iv = i \<and> w' = v \<and> its = items"
    if "en x its i v = (Inr (ord', items, iv), w')" for x its i v
    using that by (auto simp: en_def ret_def elim!: bnd_InrE split: if_splits)
  then show ?thesis using assms that
    unfolding orderTx_def bnd_NextNumber order_invoice_input_def en_def [symmetric] tk_def [symmetric]
    by (auto elim!: bnd_InrE [of "order_Create _ _ _"] bnd_InrE [of tk] bnd_InrE [of "CreateInvoice _ _"]) metis
qed

text \<open>The state in which the work after the transaction starts.\<close>

definition logged :: "int \<Rightarrow> int \<Rightarrow> world \<Rightarrow> world" where
  "logged uid oid w = w\<lparr>w_db := (w_db w)\<lparr>db_audit := db_audit (w_db w) @ [(uid, ''order.create'', ''order'', oid)]\<rparr>\<rparr>"

lemma read_bndE:
  assumes "bnd m f w = (Inr y, w')" and "keeps (=) m"
  obtains x where "m w = (Inr x, w)" and "f x w = (Inr y, w')"
  using assms by (auto elim!: bnd_InrE dest: read_state)

lemma CreateOrder_returns:
  assumes "CreateOrder ck env process cid ip req w = (Inr resp, w')"
  obtains client email plans coupon discount reason tt tot ord items iv w1 ord2 iv2 where
    "checkout_plans env ck client (cor_Items req) w = (Inr plans, w)"
    and "checkout_coupon env (cor_CouponCode req) plans w = (Inr (coupon, discount), w)"
    and "fraudReason cid email (e_now env) w = (Inr reason, w)"
    and "order_tax (plans_subtotal plans) discount w = (Inr (tt, tot), w)"
    and "WithinTx (orderTx env (new_order cid (plans_subtotal plans) discount tt tot coupon ip (cor_Notes req)) plans coupon discount
       (AddDays (e_now env) (setting_int (w_db w) ''billing.invoice_due_days'' 3)) (reason \<noteq> [])) w = (Inr (ord, items, iv), w1)"
    and "after_checkout env process (c_UserID client) plans (reason \<noteq> []) ord iv (logged (c_UserID client) (o_ID ord) w1)
       = (Inr (ord2, iv2), w')"
    and "resp = \<lparr>cr_Order = ord2, cr_Items = items, cr_Invoice = iv2\<rparr>"
proof -
  note reads = read_bndE [OF _ read_checkout(5)] read_bndE [OF _ read_checkout_parts(1)] read_bndE [OF _ read_checkout_parts(2)]
    read_bndE [OF _ read_checkout(3)] read_bndE [OF _ read_checkout(4)]
  show ?thesis using assms unfolding CreateOrder_def Let_def
    by (auto elim!: reads bnd_InrE [of "WithinTx _"] bnd_InrE [of "after_checkout _ _ _ _ _ _ _"]
        simp: eff_simps logged_def [symmetric]) (rule that, assumption+)
qed

section \<open>The order and its invoice agree\<close>

text \<open>The tax rate is absent or an integer, so that billing and orders read the same rate.\<close>

definition integer_rate :: "db \<Rightarrow> bool" where
  "integer_rate d \<longleftrightarrow> (case db_settings d ''billing.tax_rate'' of None \<Rightarrow> True | Some (JInt n) \<Rightarrow> in_i64 n | Some _ \<Rightarrow> False)"

lemma float_of_int_sign: "float_of_int n \<le> 0 \<longleftrightarrow> n \<le> 0"
proof -
  have "\<bar>float_of_int n - of_int n\<bar> \<le> ueps * \<bar>of_int n\<bar>" using fl_err [of "of_int n"] by (simp add: float_of_int_def)
  moreover have "ueps * \<bar>of_int n\<bar> \<le> \<bar>of_int n\<bar> / 2" using mult_right_mono [of ueps "1 / 2" "\<bar>of_int n\<bar>"] by (simp add: ueps_def)
  ultimately have "\<bar>float_of_int n - of_int n\<bar> \<le> \<bar>of_int n\<bar> / 2" by linarith
  moreover have "n = 0 \<or> 1 \<le> (of_int n :: rat) \<or> (of_int n :: rat) \<le> - 1" by linarith
  ultimately show ?thesis by (auto simp: abs_if split: if_splits)
qed

lemma order_tax_run:
  assumes "integer_rate (w_db w)"
  shows "order_tax s disc w = (Inr (let net = i64 (s - disc) in
    if setting_bool (w_db w) ''billing.tax_enabled'' False then
      let res = CalcTax net (float_of_int (setting_int (w_db w) ''billing.tax_rate'' 11)) (setting_bool (w_db w) ''billing.tax_inclusive'' False)
      in (tr_Tax res, tr_Gross res)
    else (0, net)), w)"
proof -
  have "float_of_int 11 = 11" using float_of_int_exact [of 11] by simp
  then have "on_err Internal (GetJSON dec_float ''billing.tax_rate'' 11) w = (Inr (float_of_int (setting_int (w_db w) ''billing.tax_rate'' 11)), w)"
    using assms by (auto simp: on_err_def GetJSON_def settings_get_def bnd_q_db integer_rate_def setting_int_def dec_float_def
        json_int_def ret_def split: option.splits json.splits)
  then show ?thesis by (simp add: order_tax_def eff_simps Let_def bnd_run [of "on_err Internal (GetJSON _ _ _)"])
qed

lemma tax_agrees:
  assumes "0 \<le> disc" and "disc \<le> s" and "s < 2 ^ 63" and "tax_of d s s disc = (rate, tt, tot)"
  shows "(tt, tot) = (let net = i64 (s - disc) in
    if setting_bool d ''billing.tax_enabled'' False then
      let res = CalcTax net (float_of_int (setting_int d ''billing.tax_rate'' 11)) (setting_bool d ''billing.tax_inclusive'' False)
      in (tr_Tax res, tr_Gross res)
    else (0, net))"
proof -
  have i: "i64 (s - disc) = s - disc" using assms by (intro i64_id) (simp add: in_i64_def)
  show ?thesis
  proof (cases "0 < s")
    case False
    then have "s = 0" "disc = 0" using assms by auto
    then show ?thesis using assms(4) i by (auto simp: tax_of_def CalcTax_def Let_def split: if_splits)
  next
    case True
    then show ?thesis using assms i float_of_int_sign [of "setting_int d ''billing.tax_rate'' 11"]
      by (auto simp: tax_of_def CalcTax_def Let_def max_def not_less split: if_splits)
  qed
qed

lemma order_lines_map: "map f (order_lines n k its) = map f its" if "\<And>it a b. f (it\<lparr>oi_OrderID := a, oi_ID := b\<rparr>) = f it"
  using that by (induction its arbitrary: k) simp_all

lemma order_amounts: "map cii_Amount (map order_invoice_item (order_lines n k (map order_item_of plans))) =
    map (\<lambda>p. i64 (ip_unit p + ip_setup p)) plans"
  using order_lines_map [of "\<lambda>it. i64 (oi_UnitPrice it + oi_SetupFee it)" n k "map order_item_of plans"]
  by (simp add: order_invoice_item_def order_item_of_def comp_def)

lemma order_taxed: "filter cii_Taxed (map order_invoice_item items) = map order_invoice_item items"
  by (simp add: filter_map comp_def order_invoice_item_def)

lemma sum64_range: "in_i64 acc \<Longrightarrow> in_i64 (sum64 acc xs)"
  by (induction xs arbitrary: acc) simp_all

lemma take_settings: "keeps (frame db_settings) (if fr then ret () else bnd (each take_stock plans) (\<lambda>_. use_coupon coupon))"
  by (intro frame_rules; simp add: no_shelf_def)

lemma orderTx_order:
  assumes "orderTx env (new_order cid s disc tt tot coupon ip nts) plans coupon disc due fr w = (Inr (ord, items, iv), w')"
  shows "o_Subtotal ord = s \<and> o_Discount ord = disc"
  using assms
proof (rule orderTx_returns)
  fix ord0 iv0 u wa wb wc wd
  assume oc: "order_Create env ((new_order cid s disc tt tot coupon ip nts)\<lparr>o_OrderNumber := FormatOrderNumber (e_now env)
      (next_number (OrderCounterScope (e_now env)) (w_db w))\<rparr>) (map order_item_of plans) wa = (Inr (ord0, items), wb)"
    and en: "if fr then flag_fraud ord0 iv0 wd = (Inr (ord, iv), w') else ord = ord0 \<and> iv = iv0 \<and> w' = wd"
  have "o_Subtotal ord = o_Subtotal ord0 \<and> o_Discount ord = o_Discount ord0"
    using en flag_fraud_returns(1) by (cases fr) fastforce+
  then show ?thesis using order_Create_returns(1) [OF oc] by (simp add: new_order_def)
qed

text \<open>The invoice that the transaction of a checkout creates.\<close>

lemma orderTx_invoice:
  assumes "orderTx env (new_order cid s disc tt tot coupon ip nts) plans coupon disc due fr w = (Inr (ord, items, iv), w')"
    and "s = plans_subtotal plans" and "disc \<le> s" and "integer_rate (w_db w)" and "order_tax s disc w = (Inr (tt, tot), w)"
  shows "o_Subtotal ord = s \<and> o_Discount ord = disc \<and> i_Subtotal iv = s \<and> i_Discount iv = disc \<and> i_TaxTotal iv = o_TaxTotal ord \<and> i_Total iv = o_Total ord
    \<and> i_ClientID iv = o_ClientID ord"
  using assms(1)
proof (rule orderTx_returns)
  fix ord0 iv0 u wa wb wc wd
  assume wa: "wa = w\<lparr>w_db := (w_db w)\<lparr>db_counters := (db_counters (w_db w))(OrderCounterScope (e_now env) \<mapsto> next_number (OrderCounterScope (e_now env)) (w_db w))\<rparr>\<rparr>"
    and oc: "order_Create env ((new_order cid s disc tt tot coupon ip nts)\<lparr>o_OrderNumber := FormatOrderNumber (e_now env)
      (next_number (OrderCounterScope (e_now env)) (w_db w))\<rparr>) (map order_item_of plans) wa = (Inr (ord0, items), wb)"
    and tk: "(if fr then ret () else bnd (each take_stock plans) (\<lambda>_. use_coupon coupon)) wb = (Inr u, wc)"
    and ci: "CreateInvoice env (order_invoice_input ord0 items disc due) wc = (Inr iv0, wd)"
    and en: "if fr then flag_fraud ord0 iv0 wd = (Inr (ord, iv), w') else ord = ord0 \<and> iv = iv0 \<and> w' = wd"
  note oc' = order_Create_returns [OF oc]
  have set: "db_settings (w_db wc) = db_settings (w_db w)"
    using keepsD [OF take_settings tk] oc'(3) wa by (simp add: frame_def)
  have fields: "o_Subtotal ord = o_Subtotal ord0 \<and> o_Discount ord = o_Discount ord0 \<and> o_TaxTotal ord = o_TaxTotal ord0 \<and> o_Total ord = o_Total ord0
     \<and> o_ClientID ord = o_ClientID ord0 \<and> i_Subtotal iv = i_Subtotal iv0 \<and> i_Discount iv = i_Discount iv0
     \<and> i_TaxTotal iv = i_TaxTotal iv0 \<and> i_Total iv = i_Total iv0 \<and> i_ClientID iv = i_ClientID iv0"
    using en flag_fraud_returns by (cases fr) fastforce+
  show ?thesis
  proof (rule CreateInvoice_returns [OF ci])
    fix s' t'
    assume d0: "0 \<le> cin_Discount (order_invoice_input ord0 items disc due)"
      and sum: "sum_items (cin_Items (order_invoice_input ord0 items disc due)) (0, 0) = Inr (s', t')"
      and iv0: "iv0 = new_invoice env (order_invoice_input ord0 items disc due) s' t' (w_db wc) (w_seq wc TInvoices + 1)"
    have st: "s' = s" "t' = s"
      using sum_items_sums [OF sum] order_amounts [of "w_seq wa TOrders + 1" "w_seq wa TOrderItems" plans] assms(2) oc'(2)
      by (simp_all add: order_invoice_input_def order_taxed plans_subtotal_def)
    have lt: "s < 2 ^ 63" using assms(2) sum64_range [of 0 "map (\<lambda>p. i64 (ip_unit p + ip_setup p)) plans"] by (simp add: plans_subtotal_def in_i64_def)
    obtain r2 tt2 tot2 where tx: "tax_of (w_db wc) s s disc = (r2, tt2, tot2)" by (cases "tax_of (w_db wc) s s disc")
    have disc: "0 \<le> disc" "min disc s = disc" using d0 assms(3) by (simp_all add: order_invoice_input_def)
    have "tax_of (w_db w) s s disc = (r2, tt2, tot2)" using tx set by (simp add: tax_of_def setting_int_def setting_bool_def)
    from tax_agrees [OF disc(1) assms(3) lt this] assms(5) order_tax_run [OF assms(4), of s disc]
    have "tt2 = tt" "tot2 = tot" by auto
    then show ?thesis using fields iv0 st tx disc oc'(1)
      by (simp add: new_invoice_def order_invoice_input_def new_order_def)
  qed
qed

lemma after_checkout_amounts:
  assumes "after_checkout env process uid plans fr ord iv w = (Inr (ord', iv'), w')"
  shows "(ord' = ord \<or> ord' = ord\<lparr>o_Status := OrderActive\<rparr>) \<and> (iv' = iv \<or> iv' = iv\<lparr>i_Status := InvoicePaid, i_PaidAt := Some (e_now env)\<rparr>)"
  using assms by (auto simp: after_checkout_def eff_simps split: if_splits prod.splits sum.splits)

lemma CreateOrder_totals_lemma:
  assumes "CreateOrder ck env process cid ip req w = (Inr resp, w')" and "integer_rate (w_db w)"
    and "o_Discount (cr_Order resp) \<le> o_Subtotal (cr_Order resp)"
  shows "i_Subtotal (cr_Invoice resp) = o_Subtotal (cr_Order resp) \<and> i_Discount (cr_Invoice resp) = o_Discount (cr_Order resp)
    \<and> i_TaxTotal (cr_Invoice resp) = o_TaxTotal (cr_Order resp) \<and> i_Total (cr_Invoice resp) = o_Total (cr_Order resp)
    \<and> i_ClientID (cr_Invoice resp) = o_ClientID (cr_Order resp)"
  using assms(1)
proof (rule CreateOrder_returns)
  fix client email plans coupon discount reason tt tot ord items iv w1 ord2 iv2
  assume tax: "order_tax (plans_subtotal plans) discount w = (Inr (tt, tot), w)"
    and tx: "WithinTx (orderTx env (new_order cid (plans_subtotal plans) discount tt tot coupon ip (cor_Notes req)) plans coupon discount
       (AddDays (e_now env) (setting_int (w_db w) ''billing.invoice_due_days'' 3)) (reason \<noteq> [])) w = (Inr (ord, items, iv), w1)"
    and ac: "after_checkout env process (c_UserID client) plans (reason \<noteq> []) ord iv (logged (c_UserID client) (o_ID ord) w1) = (Inr (ord2, iv2), w')"
    and resp: "resp = \<lparr>cr_Order = ord2, cr_Items = items, cr_Invoice = iv2\<rparr>"
  note am = after_checkout_amounts [OF ac]
  from tx obtain w0 where run: "orderTx env (new_order cid (plans_subtotal plans) discount tt tot coupon ip (cor_Notes req)) plans coupon discount
       (AddDays (e_now env) (setting_int (w_db w) ''billing.invoice_due_days'' 3)) (reason \<noteq> []) (w\<lparr>w_intx := True\<rparr>) = (Inr (ord, items, iv), w0)"
    by (rule WithinTx_cases)
  have tax': "order_tax (plans_subtotal plans) discount (w\<lparr>w_intx := True\<rparr>) = (Inr (tt, tot), w\<lparr>w_intx := True\<rparr>)"
    using tax order_tax_run [OF assms(2)] order_tax_run [of "w\<lparr>w_intx := True\<rparr>"] assms(2) by (simp add: Let_def cong: if_cong)
  have same: "o_Subtotal ord = plans_subtotal plans \<and> o_Discount ord = discount" by (rule orderTx_order [OF run])
  then have "discount \<le> plans_subtotal plans" using am assms(3) resp by auto
  from orderTx_invoice [OF run refl this _ tax'] assms(2) show ?thesis using am resp by auto
qed

section \<open>A fraud rule fires\<close>

text \<open>Everything of value: the shelf, what was delivered, credit, payments.\<close>

definition assets :: "db \<Rightarrow> (Product list \<times> Coupon list) \<times> Service list \<times> Domain list \<times> Client list \<times> CreditLedgerEntry list \<times> Transaction list" where
  "assets d = (shelf d, db_services d, db_domains d, db_clients d, db_ledger d, db_transactions d)"

lemma orderTx_fraud:
  assumes "orderTx env ord0 plans coupon disc due True w = (Inr (ord, items, iv), w')"
  shows "o_Status ord = OrderFraud \<and> i_Status iv = InvoiceCancelled \<and> ord \<in> set (db_orders (w_db w')) \<and> iv \<in> set (db_invoices (w_db w'))
    \<and> assets (w_db w') = assets (w_db w) \<and> w_queue w' = w_queue w"
  using assms
proof (rule orderTx_returns)
  fix ord1 iv0 u wa wb wc wd
  assume wa: "wa = w\<lparr>w_db := (w_db w)\<lparr>db_counters := (db_counters (w_db w))(OrderCounterScope (e_now env) \<mapsto> next_number (OrderCounterScope (e_now env)) (w_db w))\<rparr>\<rparr>"
    and oc: "order_Create env (ord0\<lparr>o_OrderNumber := FormatOrderNumber (e_now env)
      (next_number (OrderCounterScope (e_now env)) (w_db w))\<rparr>) (map order_item_of plans) wa = (Inr (ord1, items), wb)"
    and tk: "(if True then ret () else bnd (each take_stock plans) (\<lambda>_. use_coupon coupon)) wb = (Inr u, wc)"
    and ci: "CreateInvoice env (order_invoice_input ord1 items disc due) wc = (Inr iv0, wd)"
    and en: "if True then flag_fraud ord1 iv0 wd = (Inr (ord, iv), w') else ord = ord1 \<and> iv = iv0 \<and> w' = wd"
  note oc' = order_Create_returns [OF oc]
  have ff: "flag_fraud ord1 iv0 wd = (Inr (ord, iv), w')" using en by simp
  note ff' = flag_fraud_returns [OF ff]
  have wc: "wc = wb" using tk by (simp add: ret_def)
  show ?thesis
  proof (rule CreateInvoice_returns [OF ci])
    fix s t
    assume "wd = wc\<lparr>w_seq := (w_seq wc)(TInvoices := w_seq wc TInvoices + 1,
          TInvoiceItems := w_seq wc TInvoiceItems + int (length (cin_Items (order_invoice_input ord1 items disc due)))),
       w_db := (w_db wc)\<lparr>db_invoices := db_invoices (w_db wc) @ [iv0],
         db_invoice_items := db_invoice_items (w_db wc) @ numbered (i_ID iv0) (w_seq wc TInvoiceItems) (invoice_items_of (cin_Items (order_invoice_input ord1 items disc due))),
         db_counters := (db_counters (w_db wc))(InvoiceCounterScope (e_now env) := Some (next_number (InvoiceCounterScope (e_now env)) (w_db wc))),
         db_audit := db_audit (w_db wc) @ [(0, ''invoice.create'', ''invoice'', i_ID iv0)]\<rparr>\<rparr>"
    then show ?thesis using ff' wc oc'(3) wa by (auto simp: assets_def shelf_def upd_def)
  qed
qed

lemma after_checkout_clean:
  assumes "after_checkout env process uid plans False ord iv w = (Inr (ord', iv'), w')"
  shows "o_Status ord' = OrderFraud \<longrightarrow> o_Status ord = OrderFraud"
  using after_checkout_amounts [OF assms] by auto

lemma orderTx_clean:
  assumes "orderTx env ord0 plans coupon disc due False w = (Inr (ord, items, iv), w')"
  shows "o_Status ord = o_Status ord0"
  using assms by (rule orderTx_returns) (auto dest: order_Create_returns(1))

lemma CreateOrder_fraud_lemma:
  assumes "CreateOrder ck env process cid ip req w = (Inr resp, w')" and "o_Status (cr_Order resp) = OrderFraud"
  shows "i_Status (cr_Invoice resp) = InvoiceCancelled \<and> cr_Order resp \<in> set (db_orders (w_db w'))
    \<and> cr_Invoice resp \<in> set (db_invoices (w_db w')) \<and> assets (w_db w') = assets (w_db w) \<and> w_queue w' = w_queue w"
  using assms(1)
proof (rule CreateOrder_returns)
  fix client email plans coupon discount reason tt tot ord items iv w1 ord2 iv2
  assume tx: "WithinTx (orderTx env (new_order cid (plans_subtotal plans) discount tt tot coupon ip (cor_Notes req)) plans coupon discount
       (AddDays (e_now env) (setting_int (w_db w) ''billing.invoice_due_days'' 3)) (reason \<noteq> [])) w = (Inr (ord, items, iv), w1)"
    and ac: "after_checkout env process (c_UserID client) plans (reason \<noteq> []) ord iv (logged (c_UserID client) (o_ID ord) w1) = (Inr (ord2, iv2), w')"
    and resp: "resp = \<lparr>cr_Order = ord2, cr_Items = items, cr_Invoice = iv2\<rparr>"
  from tx obtain w0 where run: "orderTx env (new_order cid (plans_subtotal plans) discount tt tot coupon ip (cor_Notes req)) plans coupon discount
       (AddDays (e_now env) (setting_int (w_db w) ''billing.invoice_due_days'' 3)) (reason \<noteq> []) (w\<lparr>w_intx := True\<rparr>) = (Inr (ord, items, iv), w0)"
    and w1: "w1 = (if w_intx w then w0 else w0\<lparr>w_db := w_db w0, w_intx := False\<rparr>)"
    by (rule WithinTx_cases) simp
  show ?thesis
  proof (cases "reason = []")
    case True
    then have "o_Status ord = OrderPending" using orderTx_clean [of env _ plans coupon discount] run by (fastforce simp: new_order_def)
    then show ?thesis using after_checkout_clean ac True assms(2) resp by fastforce
  next
    case False
    then have "ord2 = ord \<and> iv2 = iv \<and> assets (w_db w') = assets (w_db w1) \<and> w_queue w' = w_queue w1
       \<and> db_orders (w_db w') = db_orders (w_db w1) \<and> db_invoices (w_db w') = db_invoices (w_db w1)"
      using ac by (auto simp: after_checkout_def eff_simps logged_def assets_def shelf_def)
    then show ?thesis using orderTx_fraud [of env _ plans coupon discount] run False resp w1 by (fastforce split: if_splits)
  qed
qed

section \<open>What a cancelled order gives back\<close>

lemma ActivateOrder_fails:
  assumes "ActivateOrder env oid w = (Inl e, w')" and "\<not> w_intx w"
  shows "w_db w' = w_db w"
proof -
  have "keeps (=) (order_GetByID oid)" "keeps (=) (order_GetItems oid)" "keeps (=) (coupon_GetByID cid)" for cid
    unfolding order_GetByID_def order_GetItems_def coupon_GetByID_def by (intro read_rules)+
  then have "atomic (ActivateOrder env oid)" unfolding ActivateOrder_def
    by (intro atomic_rules read_rules total_rules)
  then show ?thesis using assms unfolding atomic_def by blast
qed

lemma total_after_checkout: "never_fails (after_checkout env process uid plans fr ord iv)"
  unfolding after_checkout_def by (intro total_rules)

lemma CreateOrder_atomic_lemma: "atomic (CreateOrder ck env process cid ip req)"
  unfolding CreateOrder_def Let_def by (intro atomic_rules read_rules total_rules total_after_checkout)

lemma after_checkout_open:
  assumes "after_checkout env process uid plans fr ord iv w = (Inr (ord', iv'), w')" and "0 < i_Total iv'"
    and "o_Status ord' = OrderPending" and "\<not> w_intx w"
  shows "ord' = ord \<and> db_products (w_db w') = db_products (w_db w) \<and> db_order_items (w_db w') = db_order_items (w_db w)"
proof -
  have t: "0 < i_Total iv" using after_checkout_amounts [OF assms(1)] assms(2) by auto
  obtain r v where v: "ActivateOrder env (o_ID ord) w = (r, v)" by (cases "ActivateOrder env (o_ID ord) w")
  show ?thesis
  proof (cases r)
    case (Inl e)
    then have "w_db v = w_db w" using ActivateOrder_fails v assms(4) by blast
    then show ?thesis using assms(1) t v Inl by (auto simp: after_checkout_def eff_simps split: if_splits)
  next
    case (Inr x)
    then show ?thesis using assms(1,3) t v by (auto simp: after_checkout_def eff_simps split: if_splits)
  qed
qed

lemma order_lines_id: "it \<in> set (order_lines n k its) \<Longrightarrow> oi_OrderID it = n"
  by (induction its arbitrary: k) auto

lemma order_lines_count:
  assumes "\<And>it a b. P (it\<lparr>oi_OrderID := a, oi_ID := b\<rparr>) = P it"
  shows "length (filter P (order_lines n k its)) = length (filter P its)"
  using assms by (induction its arbitrary: k) simp_all

lemma orderTx_takes:
  assumes "orderTx env ord0 plans coupon disc due False w = (Inr (ord, items, iv), w')"
    and "\<forall>p \<in> set plans. plan_ok (w_db w) p" and "distinct (map p_ID (db_products (w_db w)))"
  shows "db_products (w_db w') = db_products (shift_stock (\<lambda>i. - int (length (filter (takes i) plans))) (w_db w))"
    and "db_order_items (w_db w') = db_order_items (w_db w) @ items" and "o_ID ord = w_seq w TOrders + 1"
    and "\<exists>k. items = order_lines (o_ID ord) k (map order_item_of plans)"
proof -
  from assms(1) obtain ord1 iv0 u wa wb wc wd where
    wa: "wa = w\<lparr>w_db := (w_db w)\<lparr>db_counters := (db_counters (w_db w))(OrderCounterScope (e_now env) \<mapsto> next_number (OrderCounterScope (e_now env)) (w_db w))\<rparr>\<rparr>"
    and oc: "order_Create env (ord0\<lparr>o_OrderNumber := FormatOrderNumber (e_now env)
      (next_number (OrderCounterScope (e_now env)) (w_db w))\<rparr>) (map order_item_of plans) wa = (Inr (ord1, items), wb)"
    and tk: "bnd (each take_stock plans) (\<lambda>_. use_coupon coupon) wb = (Inr u, wc)"
    and ci: "CreateInvoice env (order_invoice_input ord1 items disc due) wc = (Inr iv0, wd)"
    and en: "ord = ord1 \<and> iv = iv0 \<and> w' = wd"
    by (rule orderTx_returns) auto
  note oc' = order_Create_returns [OF oc]
  from tk obtain x wx where e: "each take_stock plans wb = (Inr x, wx)" and cu: "use_coupon coupon wx = (Inr u, wc)" by (rule bnd_InrE)
  have wb: "db_products (w_db wb) = db_products (w_db w)" using oc'(3) wa by simp
  have "counted (p_ID pr) (w_db wb)" if "p \<in> set plans" "ip_product p = Some pr" "p_StockEnabled pr" for p pr
  proof -
    have "pr \<in> set (db_products (w_db w))" using assms(2) that by (auto simp: plan_ok_def)
    from row_distinct [OF assms(3) this] show ?thesis using that(3) wb by (auto simp: counted_def)
  qed
  then have wx: "wx = wb\<lparr>w_db := shift_stock (\<lambda>i. - int (length (filter (takes i) plans))) (w_db wb)\<rparr>"
    by (intro take_stock_returns [OF e]) blast
  have f: "keeps (frame (\<lambda>d. (db_products d, db_order_items d))) (use_coupon coupon)"
    unfolding use_coupon_def IncrementUsage_def by (intro frame_rules) simp
  have g: "keeps (frame (\<lambda>d. (db_products d, db_order_items d))) (CreateInvoice env (order_invoice_input ord1 items disc due))"
    by (intro frame_rules) (simp_all add: no_invoicing_def no_logs_def)
  have same: "db_products (w_db w') = db_products (w_db wx) \<and> db_order_items (w_db w') = db_order_items (w_db wx)"
    using keepsD [OF f cu] keepsD [OF g ci] en by (simp add: frame_def)
  show "db_products (w_db w') = db_products (shift_stock (\<lambda>i. - int (length (filter (takes i) plans))) (w_db w))"
    "db_order_items (w_db w') = db_order_items (w_db w) @ items"
    using same wx wb oc'(3) wa by (simp_all add: shift_stock_def)
  show "o_ID ord = w_seq w TOrders + 1" "\<exists>k. items = order_lines (o_ID ord) k (map order_item_of plans)"
    using oc'(1,2) en wa by auto
qed

lemma orders_Cancel_returns:
  assumes "orders_Cancel a oid w = (Inr out, w')"
  shows "db_products (w_db w') = db_products (shift_stock (\<lambda>i. if counted i (w_db w)
     then int (length (filter (returns_unit i) (filter (\<lambda>it. oi_OrderID it = oid) (db_order_items (w_db w))))) else 0) (w_db w))"
proof -
  let ?its = "filter (\<lambda>it. oi_OrderID it = oid) (db_order_items (w_db w))"
  from assms obtain st v where tx: "WithinTx (terminalTx oid st ?its) w = (Inr (), v)" and w': "db_products (w_db w') = db_products (w_db v)"
    unfolding orders_Cancel_def setTerminalStatus_def
    by (auto simp: order_GetByID_def order_GetItems_def bnd_assoc eff_simps TransitionOrder_def elim!: bnd_InrE [of "WithinTx _"]
        split: option.splits if_splits)
  from tx obtain v0 where run: "terminalTx oid st ?its (w\<lparr>w_intx := True\<rparr>) = (Inr (), v0)" and v: "db_products (w_db v) = db_products (w_db v0)"
    by (rule WithinTx_cases) (auto split: if_splits)
  define hd3 where "hd3 = bnd (order_UpdateStatus oid st) (\<lambda>_. bnd (InvoiceIDForOrder oid) cancel_order_invoice)"
  have "bnd hd3 (\<lambda>_. each restore_item ?its) (w\<lparr>w_intx := True\<rparr>) = (Inr (), v0)"
    using run by (simp add: terminalTx_def hd3_def bnd_assoc)
  then obtain x v1 where h: "hd3 (w\<lparr>w_intx := True\<rparr>) = (Inr x, v1)" and r: "each restore_item ?its v1 = (Inr (), v0)" by (rule bnd_InrE)
  have "keeps (frame db_products) hd3"
    unfolding hd3_def cancel_order_invoice_def by (intro frame_rules; simp add: no_fulfilment_def no_invoicing_def)
  from keepsD [OF this h] have p: "db_products (w_db v1) = db_products (w_db w)" by (simp add: frame_def)
  then have "counted i (w_db v1) = counted i (w_db w)" for i by (simp add: counted_def)
  then show ?thesis using restore_returns [OF r] w' v p by (simp add: shift_stock_def)
qed

text \<open>The lines of a cart that took a unit and do not give it back.\<close>

definition lost_unit :: "int \<Rightarrow> OrderItem \<Rightarrow> bool" where
  "lost_unit pid it \<longleftrightarrow> oi_ItemType it \<noteq> ItemProduct \<and> oi_ProductID it = Some pid"

lemma units_balance:
  assumes "\<forall>p \<in> set plans. plan_ok d p" and "distinct (map p_ID (db_products d))" and "pr \<in> set (db_products d)"
  shows "- int (length (filter (takes (p_ID pr)) plans))
      + (if counted (p_ID pr) d then int (length (filter (returns_unit (p_ID pr)) (map order_item_of plans))) else 0)
    = - (if p_StockEnabled pr then int (length (filter (lost_unit (p_ID pr)) (map order_item_of plans))) else 0)"
proof -
  have row: "row p_ID (p_ID pr) (db_products d) = Some pr" using row_distinct [OF assms(2,3)] .
  have eq: "x = pr" if "x \<in> set (db_products d)" "p_ID x = p_ID pr" for x
    using row_distinct [OF assms(2) that(1)] row that(2) by (metis option.inject)
  have c: "counted (p_ID pr) d = p_StockEnabled pr" using row by (simp add: counted_def)
  have "- int (length (filter (takes (p_ID pr)) ps))
      + (if p_StockEnabled pr then int (length (filter (returns_unit (p_ID pr)) (map order_item_of ps))) else 0)
    = - (if p_StockEnabled pr then int (length (filter (lost_unit (p_ID pr)) (map order_item_of ps))) else 0)"
    if "set ps \<subseteq> set plans" for ps
    using that
  proof (induction ps)
    case (Cons p ps)
    have "plan_ok d p" using Cons.prems assms(1) by auto
    then have "takes (p_ID pr) p \<longleftrightarrow> p_StockEnabled pr \<and> (returns_unit (p_ID pr) (order_item_of p) \<or> lost_unit (p_ID pr) (order_item_of p))"
      using eq by (auto simp: takes_def returns_unit_def lost_unit_def order_item_of_def plan_ok_def split: option.splits)
    moreover have "\<not> (returns_unit i it \<and> lost_unit i it)" for i it by (simp add: returns_unit_def lost_unit_def)
    ultimately show ?case using Cons by (auto split: if_splits)
  qed simp
  then show ?thesis using c by simp
qed

text \<open>What an unpaid checkout took from the shelf and wrote as lines.\<close>

lemma CreateOrder_open:
  assumes "CreateOrder ck env process cid ip req w = (Inr resp, w')" and "\<not> w_intx w"
    and "distinct (map p_ID (db_products (w_db w)))" and "o_Status (cr_Order resp) = OrderPending" and "0 < i_Total (cr_Invoice resp)"
  obtains plans k where "\<forall>p \<in> set plans. plan_ok (w_db w) p"
    and "db_products (w_db w') = db_products (shift_stock (\<lambda>i. - int (length (filter (takes i) plans))) (w_db w))"
    and "db_order_items (w_db w') = db_order_items (w_db w) @ cr_Items resp" and "o_ID (cr_Order resp) = w_seq w TOrders + 1"
    and "cr_Items resp = order_lines (o_ID (cr_Order resp)) k (map order_item_of plans)"
  using assms(1)
proof (rule CreateOrder_returns)
  fix client email plans coupon discount reason tt tot ord items iv w1 ord2 iv2
  assume pl: "checkout_plans env ck client (cor_Items req) w = (Inr plans, w)"
    and tx: "WithinTx (orderTx env (new_order cid (plans_subtotal plans) discount tt tot coupon ip (cor_Notes req)) plans coupon discount
       (AddDays (e_now env) (setting_int (w_db w) ''billing.invoice_due_days'' 3)) (reason \<noteq> [])) w = (Inr (ord, items, iv), w1)"
    and ac: "after_checkout env process (c_UserID client) plans (reason \<noteq> []) ord iv (logged (c_UserID client) (o_ID ord) w1) = (Inr (ord2, iv2), w')"
    and resp: "resp = \<lparr>cr_Order = ord2, cr_Items = items, cr_Invoice = iv2\<rparr>"
  from tx obtain w0 where run: "orderTx env (new_order cid (plans_subtotal plans) discount tt tot coupon ip (cor_Notes req)) plans coupon discount
       (AddDays (e_now env) (setting_int (w_db w) ''billing.invoice_due_days'' 3)) (reason \<noteq> []) (w\<lparr>w_intx := True\<rparr>) = (Inr (ord, items, iv), w0)"
    and w1: "w1 = w0\<lparr>w_db := w_db w0, w_intx := False\<rparr>"
    by (rule WithinTx_cases) (use assms(2) in simp)
  have op: "ord2 = ord \<and> db_products (w_db w') = db_products (w_db w1) \<and> db_order_items (w_db w') = db_order_items (w_db w1)"
    using after_checkout_open [OF ac] assms(4,5) resp w1 by (simp add: logged_def)
  have clean: "reason = []"
  proof (rule ccontr)
    assume "reason \<noteq> []"
    then have "o_Status ord = OrderFraud" using run orderTx_fraud [of env _ plans coupon discount] by fastforce
    then show False using op assms(4) resp by simp
  qed
  have ok: "\<forall>p \<in> set plans. plan_ok (w_db w) p" by (rule checkout_plans_ok [OF pl])
  have run': "orderTx env (new_order cid (plans_subtotal plans) discount tt tot coupon ip (cor_Notes req)) plans coupon discount
       (AddDays (e_now env) (setting_int (w_db w) ''billing.invoice_due_days'' 3)) False (w\<lparr>w_intx := True\<rparr>) = (Inr (ord, items, iv), w0)"
    using run clean by simp
  note t = orderTx_takes [OF run', simplified, OF ok assms(3)]
  from t(4) obtain k where "items = order_lines (o_ID ord) k (map order_item_of plans)" ..
  then show thesis using that [OF ok, of k] op t(1-3) w1 resp by simp
qed

lemma checkout_cancel_lemma:
  assumes "CreateOrder ck env process cid ip req w = (Inr resp, w1)" and "\<not> w_intx w"
    and "distinct (map p_ID (db_products (w_db w)))" and "\<forall>it \<in> set (db_order_items (w_db w)). oi_OrderID it \<le> w_seq w TOrders"
    and "o_Status (cr_Order resp) = OrderPending" and "0 < i_Total (cr_Invoice resp)"
    and "orders_Cancel a (o_ID (cr_Order resp)) w1 = (Inr out, w2)"
  shows "db_products (w_db w2) = map (\<lambda>p. p\<lparr>p_StockQty := p_StockQty p
     - (if p_StockEnabled p then int (length (filter (lost_unit (p_ID p)) (cr_Items resp))) else 0)\<rparr>) (db_products (w_db w))"
  using assms(1-3,5,6)
proof (rule CreateOrder_open)
  fix plans k
  let ?d = "w_db w" and ?oid = "o_ID (cr_Order resp)" and ?its = "map order_item_of plans"
  assume ok: "\<forall>p \<in> set plans. plan_ok ?d p"
    and pr: "db_products (w_db w1) = db_products (shift_stock (\<lambda>i. - int (length (filter (takes i) plans))) ?d)"
    and it: "db_order_items (w_db w1) = db_order_items ?d @ cr_Items resp" and oid: "?oid = w_seq w TOrders + 1"
    and ls: "cr_Items resp = order_lines ?oid k ?its"
  have "filter (\<lambda>it. oi_OrderID it = ?oid) (db_order_items ?d) = []" using assms(4) oid by (auto simp: filter_empty_conv)
  moreover have "filter (\<lambda>it. oi_OrderID it = ?oid) (cr_Items resp) = cr_Items resp"
    using order_lines_id ls by (metis (mono_tags, lifting) filter_True)
  ultimately have own: "filter (\<lambda>it. oi_OrderID it = ?oid) (db_order_items (w_db w1)) = cr_Items resp" using it by simp
  have ret: "length (filter (returns_unit i) (cr_Items resp)) = length (filter (returns_unit i) ?its)"
    and lost: "length (filter (lost_unit i) (cr_Items resp)) = length (filter (lost_unit i) ?its)" for i
    unfolding ls by (rule order_lines_count, simp add: returns_unit_def lost_unit_def)+
  have cnt: "counted i (w_db w1) = counted i ?d" for i
    using pr counted_shift [of i "\<lambda>i. - int (length (filter (takes i) plans))" ?d] by (simp add: counted_def)
  have bal: "p_StockQty p + - int (length (filter (takes (p_ID p)) plans))
      + (if counted (p_ID p) ?d then int (length (filter (returns_unit (p_ID p)) ?its)) else 0)
    = p_StockQty p - (if p_StockEnabled p then int (length (filter (lost_unit (p_ID p)) ?its)) else 0)" if "p \<in> set (db_products ?d)" for p
    using units_balance [OF ok assms(3) that] by linarith
  have e: "db_products (w_db w2) = map (\<lambda>p. p\<lparr>p_StockQty := p_StockQty p + - int (length (filter (takes (p_ID p)) plans))
      + (if counted (p_ID p) ?d then int (length (filter (returns_unit (p_ID p)) ?its)) else 0)\<rparr>) (db_products ?d)"
    using orders_Cancel_returns [OF assms(7), unfolded own ret cnt] pr by (simp add: shift_stock_def comp_def)
  show ?thesis unfolding e lost by (rule map_cong [OF refl]) (simp only: bal)
qed

end
