(* ===== verification/Upkeep.thy ===== *)
theory Upkeep
  imports Sales
begin

text \<open>
  What a provisioning job leaves behind: the status it was to reach, whatever the panel answered
  on the way, so that a job delivered again does nothing; and what it may do to a shared package.
\<close>

section \<open>What holds where a computation returns\<close>

definition ends :: "(world \<Rightarrow> bool) \<Rightarrow> 'a act \<Rightarrow> bool" where
  "ends Q m \<longleftrightarrow> (\<forall>w x w'. m w = (Inr x, w') \<longrightarrow> Q w')"

lemma ends_fail: "ends Q (fail e)"
  by (simp add: ends_def fail_def)

lemma ends_bnd: "(\<And>x. ends Q (g x)) \<Longrightarrow> ends Q (bnd m g)"
  by (auto simp: ends_def elim!: bnd_InrE)

lemma ends_bnd_post: "(\<And>w x w'. m w = (Inr x, w') \<Longrightarrow> P x) \<Longrightarrow> (\<And>x. P x \<Longrightarrow> ends Q (g x)) \<Longrightarrow> ends Q (bnd m g)"
  by (auto simp: ends_def elim!: bnd_InrE) blast

lemma ends_if: "(b \<Longrightarrow> ends Q m) \<Longrightarrow> (\<not> b \<Longrightarrow> ends Q n) \<Longrightarrow> ends Q (if b then m else n)"
  by simp

text \<open>The service has one of these statuses.\<close>

definition status_in :: "int \<Rightarrow> ServiceStatus set \<Rightarrow> world \<Rightarrow> bool" where
  "status_in sid sts w \<longleftrightarrow> (\<exists>s. row s_ID sid (db_services (w_db w)) = Some s \<and> s_Status s \<in> sts)"

lemma ends_update:
  assumes "s_ID s = sid" and "s_Status s \<in> sts" and "\<And>y. keeps (frame db_services) (g y)"
  shows "ends (status_in sid sts) (bnd (on_err h (service_Update env s)) g)"
  unfolding ends_def
proof (intro allI impI)
  fix w x w'
  assume run: "bnd (on_err h (service_Update env s)) g w = (Inr x, w')"
  obtain old where old: "row s_ID sid (db_services (w_db w)) = Some old"
    using run assms(1) by (cases "row s_ID sid (db_services (w_db w))") (auto simp: bnd_def on_err_def service_Update_def eff_simps)
  define w1 where "w1 = w\<lparr>w_db := (w_db w)\<lparr>db_services := upd s_ID sid
    (\<lambda>old. s\<lparr>s_CreatedAt := s_CreatedAt old, s_UpdatedAt := e_now env\<rparr>) (db_services (w_db w))\<rparr>\<rparr>"
  have "g () w1 = (Inr x, w')"
    using run old assms(1) by (auto simp: bnd_def on_err_def service_Update_def eff_simps w1_def)
  then have "db_services (w_db w') = db_services (w_db w1)" using keepsD [OF assms(3)] by (fastforce simp: frame_def)
  then show "status_in sid sts w'" using old assms(1,2) by (simp add: status_in_def w1_def row_upd_to)
qed

lemma no_services [simp]: "no_logs db_services" "no_cancellations db_services"
  by (simp_all add: no_logs_def no_cancellations_def)

lemma service_readE:
  assumes "bnd (on_err h (service_GetByID sid)) g w = (Inr x, w')"
  obtains svc where "row s_ID sid (db_services (w_db w)) = Some svc" and "s_ID svc = sid" and "g svc w = (Inr x, w')"
  using assms by (auto simp: bnd_def on_err_def service_run split: option.splits dest: row_Some_key)

lemma ends_after_read:
  assumes "bnd (on_err h (service_GetByID sid)) (\<lambda>svc. if P (s_Status svc) then ret () else g svc) w = (Inr x, w')"
    and "\<And>st. P st \<Longrightarrow> st \<in> sts" and "\<And>svc. s_ID svc = sid \<Longrightarrow> ends (status_in sid sts) (g svc)"
  shows "status_in sid sts w'"
  using assms(1)
proof (rule service_readE)
  fix svc assume h: "row s_ID sid (db_services (w_db w)) = Some svc" "s_ID svc = sid" "(if P (s_Status svc) then ret () else g svc) w = (Inr x, w')"
  show ?thesis
  proof (cases "P (s_Status svc)")
    case True
    then show ?thesis using h assms(2) by (auto simp: status_in_def ret_def)
  next
    case False
    then have "g svc w = (Inr x, w')" using h(3) by simp
    then show ?thesis using assms(3) [OF h(2)] by (simp add: ends_def)
  qed
qed

section \<open>The jobs\<close>

lemma panel_create_id: "panel_create env m p svc w = (Inr (s, d), w') \<Longrightarrow> s_ID s = s_ID svc"
  unfolding panel_create_def pin_server_def Let_def
  by (auto elim!: bnd_InrE simp: ret_def fail_def split: option.splits if_splits)

lemma ProvisionCreate_ends:
  assumes "ProvisionCreate env mods sid w = (Inr x, w')"
  shows "status_in sid (- {ServicePending}) w'"
proof (rule ends_after_read [OF assms [unfolded ProvisionCreate_def]], goal_cases)
  case (2 svc)
  have eff: "keeps (frame db_services) (bnd (notifyService env s k d) (\<lambda>_. audit_Log a b c e))" for s k d a b c e
    by (intro frame_rules; simp)
  show ?case unfolding Let_def case_prod_unfold
  proof (rule ends_bnd, rule ends_bnd, rule ends_bnd, rule ends_bnd_post [where P = "\<lambda>y. s_ID (fst y) = sid"])
    show "s_ID (fst y) = sid"
      if "(case m of None \<Rightarrow> ret (svc, [(''Username'', s_Username svc)]) | Some md \<Rightarrow> panel_create env md product svc) v = (Inr y, v')" for m product v y v'
      using that 2 by (cases y) (auto simp: ret_def dest: panel_create_id split: option.splits)
  qed (rule ends_update; simp add: eff)
qed auto

lemma suspension_ends:
  "ProvisionSuspend env mods sid reason w = (Inr x, w') \<Longrightarrow> status_in sid {ServiceSuspended} w'"
  "ProvisionUnsuspend env mods sid w = (Inr x, w') \<Longrightarrow> status_in sid {ServiceActive} w'"
proof -
  have eff: "keeps (frame db_services) (bnd (notifyService env s k d) (\<lambda>_. audit_Log a b c e))" for s k d a b c e
    by (intro frame_rules; simp)
  show "ProvisionSuspend env mods sid reason w = (Inr x, w') \<Longrightarrow> status_in sid {ServiceSuspended} w'"
    unfolding ProvisionSuspend_def Let_def by (erule ends_after_read; (rule ends_update ends_bnd eff | simp)+)
  show "ProvisionUnsuspend env mods sid w = (Inr x, w') \<Longrightarrow> status_in sid {ServiceActive} w'"
    unfolding ProvisionUnsuspend_def Let_def by (erule ends_after_read; (rule ends_update ends_bnd eff | simp)+)
qed

lemma ProvisionTerminate_ends:
  assumes "ProvisionTerminate env mods sid w = (Inr x, w')"
  shows "status_in sid {ServiceTerminated, ServiceCancelled} w'"
proof -
  have eff: "keeps (frame db_services) (bnd (audit_Log a b c e) (\<lambda>_. resolvePendingCancellation env i))"
    "keeps (frame db_services) (bnd (on_panel pc (\<lambda>m cfg. cleanupDynamicPackage env s m cfg pkg)) (\<lambda>_. bnd (notifyService env s k d) (\<lambda>_.
       bnd (audit_Log a b c e) (\<lambda>_. resolvePendingCancellation env i))))" for a b c e i pc s pkg k d
    by (intro frame_rules; simp)+
  from assms obtain svc where svc: "row s_ID sid (db_services (w_db w)) = Some svc" "s_ID svc = sid"
    "(case s_Status svc of ServiceTerminated \<Rightarrow> ret () | ServiceCancelled \<Rightarrow> ret () | ServicePending \<Rightarrow> cancel_pending env svc
       | _ \<Rightarrow> terminate_live env mods svc) w = (Inr x, w')"
    unfolding ProvisionTerminate_def by (rule service_readE)
  have "ends (status_in sid {ServiceTerminated, ServiceCancelled}) (cancel_pending env svc)"
    "ends (status_in sid {ServiceTerminated, ServiceCancelled}) (terminate_live env mods svc)"
    unfolding cancel_pending_def terminate_live_def Let_def
    by (rule ends_bnd, rule ends_update, simp_all add: svc(2) eff)
      (rule ends_bnd, rule ends_bnd, rule ends_bnd, rule ends_update, simp_all add: svc(2) eff)
  then show ?thesis using svc by (cases "s_Status svc") (auto simp: ends_def status_in_def ret_def)
qed

text \<open>A job whose service already has the status returns at once.\<close>

lemma jobs_again:
  "status_in sid (- {ServicePending}) w \<Longrightarrow> ProvisionCreate env mods sid w = (Inr (), w)"
  "status_in sid {ServiceSuspended} w \<Longrightarrow> ProvisionSuspend env mods sid reason w = (Inr (), w)"
  "status_in sid {ServiceActive} w \<Longrightarrow> ProvisionUnsuspend env mods sid w = (Inr (), w)"
  "status_in sid {ServiceTerminated, ServiceCancelled} w \<Longrightarrow> ProvisionTerminate env mods sid w = (Inr (), w)"
  unfolding ProvisionCreate_def ProvisionSuspend_def ProvisionUnsuspend_def ProvisionTerminate_def
  by (auto simp: status_in_def bnd_def on_err_def service_run ret_def)


section \<open>Shared packages\<close>

text \<open>Nothing is asked of a panel.\<close>

definition quiet :: "world \<Rightarrow> world \<Rightarrow> bool" where
  "quiet w w' \<longleftrightarrow> w_panel w' = w_panel w"

named_theorems quiet_rules \<open>what asks nothing of a panel\<close>

lemma quiet_order [simp]: "reflp quiet" "transp quiet"
  by (simp_all add: reflp_def transp_def quiet_def)

lemma quiet_read: "keeps (=) m \<Longrightarrow> keeps quiet m"
  by (simp add: keeps_def quiet_def)

lemma quiet_basic [quiet_rules]: "keeps quiet (ret x)" "keeps quiet (fail e)" "keeps quiet (x_db f)" "keeps quiet (nextval t)"
  "keeps quiet (Enqueue env j)" "keeps quiet (from_result r)" "keeps quiet (q_db g)"
proof -
  show "keeps quiet (x_db f)" by (simp add: x_db_def keeps_writes quiet_def)
  show "keeps quiet (nextval t)" by (simp add: keeps_def nextval_def quiet_def)
  show "keeps quiet (Enqueue env j)" by (cases "e_enqueue_err env j") (simp_all add: Enqueue_def keeps_fail keeps_writes quiet_def)
qed (intro quiet_read read_rules)+

lemma quiet_compose [quiet_rules]:
  "keeps quiet m \<Longrightarrow> (\<And>x. keeps quiet (g x)) \<Longrightarrow> keeps quiet (bnd m g)"
  "keeps quiet m \<Longrightarrow> keeps quiet (attempt m)" "keeps quiet m \<Longrightarrow> keeps quiet (on_err h m)"
  "keeps quiet m \<Longrightarrow> keeps quiet n \<Longrightarrow> keeps quiet (if b then m else n)"
  "keeps quiet m \<Longrightarrow> (\<And>x. keeps quiet (p x)) \<Longrightarrow> keeps quiet (case y of None \<Rightarrow> m | Some x \<Rightarrow> p x)"
  "(\<And>x. keeps quiet (k x)) \<Longrightarrow> (\<And>x. keeps quiet (l x)) \<Longrightarrow> keeps quiet (case z of Inl x \<Rightarrow> k x | Inr x \<Rightarrow> l x)"
  by (auto intro: keeps_bnd keeps_attempt keeps_on_err split: option.split sum.split)

lemma quiet_reads [quiet_rules]: "keeps quiet (users_GetByID uid)" "keeps quiet (clients_GetByID cid)" "keeps quiet (panelContext env mods svc)"
  "keeps quiet (product_GetByID pid)" "keeps quiet (GetPendingByService sid)" "keeps quiet (GetServerByID sv)" "keeps quiet (buildPackageSpec svc p pfx)"
  by (intro quiet_read read_rules)+

lemma quiet_ignore [quiet_rules]: "keeps quiet m \<Longrightarrow> keeps quiet (ignore_err m)"
  unfolding ignore_err_def by (intro quiet_rules)

lemma quiet_effects [quiet_rules]:
  "keeps quiet (audit_Log a b c e)" "keeps quiet (service_Update env s)" "keeps quiet (cancellation_Update cr)"
  "keeps quiet (queue_mail env u t k sb)" "keeps quiet (postAlertWebhook env sb ms)"
  unfolding audit_Log_def service_Update_def cancellation_Update_def queue_mail_def email_MarkFailed_def postAlertWebhook_def
    integration_Log_def Let_def
  by (intro quiet_rules)+

lemma quiet_mail [quiet_rules]: "keeps quiet (AlertAdmin env sb ms)" "keeps quiet (notifyService env s k x)"
  unfolding AlertAdmin_def notifyService_def SendTemplate_def by (intro quiet_rules)+

lemma quiet_parts [quiet_rules]: "keeps quiet (cleanup_alert env sid pkg x)" "keeps quiet (resolvePendingCancellation env sid)"
  unfolding cleanup_alert_def resolvePendingCancellation_def by (intro quiet_rules)+

lemma quietD: "keeps quiet m \<Longrightarrow> m w = (r, w') \<Longrightarrow> w_panel w' = w_panel w"
  by (auto simp: quiet_def dest: keepsD)

text \<open>No live service on server \<open>v\<close> is on package \<open>pkg\<close>.\<close>

definition unused_on :: "int \<Rightarrow> string \<Rightarrow> db \<Rightarrow> bool" where
  "unused_on v pkg d \<longleftrightarrow> (\<forall>s \<in> set (db_services d). s_ServerID s = Some v \<and> pm_PackageName (s_PanelMeta s) = pkg
     \<longrightarrow> s_Status s \<in> {ServiceTerminated, ServiceCancelled})"

text \<open>What a computation asks of the panels, and that what it deletes is not in use when it is over.\<close>

definition careful :: "world \<Rightarrow> world \<Rightarrow> bool" where
  "careful w w' \<longleftrightarrow> (\<exists>calls. w_panel w' = w_panel w @ calls \<and> (\<forall>v pkg. CallDeletePackage v pkg \<in> set calls \<longrightarrow> unused_on v pkg (w_db w')))"

lemma careful_quiet: "quiet w w' \<Longrightarrow> careful w w'"
  by (simp add: quiet_def careful_def)

lemma careful_after: "careful w w1 \<Longrightarrow> quiet w1 w' \<Longrightarrow> db_services (w_db w') = db_services (w_db w1) \<Longrightarrow> careful w w'"
  by (auto simp: careful_def quiet_def unused_on_def)

lemma careful_first: "w_panel w1 = w_panel w @ cs \<Longrightarrow> (\<And>v pkg. CallDeletePackage v pkg \<notin> set cs) \<Longrightarrow> careful w1 w' \<Longrightarrow> careful w w'"
  by (force simp: careful_def)

text \<open>The cleanup, when the row of the service itself is not on the package any more.\<close>

lemma cleanup_careful:
  assumes "cleanupDynamicPackage env svc m cfg pkg w = (r, w')" and "s_ServerID svc = Some (sc_ID cfg)"
    and own: "\<And>s. s \<in> set (db_services (w_db w)) \<Longrightarrow> s_ID s = s_ID svc \<Longrightarrow>
      pm_PackageName (s_PanelMeta s) \<noteq> pkg \<or> s_Status s \<in> {ServiceTerminated, ServiceCancelled}"
  shows "careful w w'"
proof -
  have al: "quiet v v'" if "cleanup_alert env x pkg y v = (z, v')" for x y v z v'
    using keepsD [OF quiet_parts(1) that] .
  let ?others = "filter (\<lambda>s. s_ServerID s = Some (sc_ID cfg) \<and> pm_PackageName (s_PanelMeta s) \<noteq> [] \<and> pm_PackageName (s_PanelMeta s) = pkg
     \<and> s_ID s \<noteq> s_ID svc \<and> s_Status s \<notin> {ServiceTerminated, ServiceCancelled}) (db_services (w_db w))"
  show ?thesis
  proof (cases "pkg \<noteq> [] \<and> ?others = [] \<and> sm_PackageInUse m cfg pkg = Inr False")
    case False
    then have "quiet w w'"
      using assms(1,2) by (auto simp: cleanupDynamicPackage_def CountByServerAndPackage_def eff_simps attempt_def bnd_def q_db_def
        reads_def ret_def quiet_def filter_empty_conv split: if_splits sum.splits dest: al)
    then show ?thesis by (rule careful_quiet)
  next
    case True
    let ?w1 = "w\<lparr>w_panel := w_panel w @ [CallDeletePackage (sc_ID cfg) pkg]\<rparr>"
    have tail: "(case sm_DeletePackage m cfg pkg of None \<Rightarrow> ret () | Some e \<Rightarrow> cleanup_alert env (s_ID svc) pkg (''deleting package '' @ GoQuote pkg
        @ '' failed: '' @ err_text e @ '' - delete it manually'')) ?w1 = (r, w')"
      using assms(1,2) True by (auto simp: cleanupDynamicPackage_def CountByServerAndPackage_def eff_simps attempt_def bnd_def q_db_def
        reads_def called_def writes_def)
    have fr: "keeps (frame db_services) (case sm_DeletePackage m cfg pkg of None \<Rightarrow> ret () | Some e \<Rightarrow> cleanup_alert env (s_ID svc) pkg (''deleting package '' @ GoQuote pkg
        @ '' failed: '' @ err_text e @ '' - delete it manually''))" by (intro frame_rules; simp)
    have qt: "keeps quiet (case sm_DeletePackage m cfg pkg of None \<Rightarrow> ret () | Some e \<Rightarrow> cleanup_alert env (s_ID svc) pkg (''deleting package '' @ GoQuote pkg
        @ '' failed: '' @ err_text e @ '' - delete it manually''))" by (intro quiet_rules)
    have "unused_on (sc_ID cfg) pkg (w_db w)"
      using True own by (auto simp: unused_on_def filter_empty_conv)
    then have "careful w ?w1" by (simp add: careful_def)
    then show ?thesis
      by (rule careful_after) (use keepsD [OF qt tail] keepsD [OF fr tail] in \<open>simp_all add: frame_def\<close>)
  qed
qed

text \<open>Calls that delete no package.\<close>

definition harmless :: "world \<Rightarrow> world \<Rightarrow> bool" where
  "harmless w w' \<longleftrightarrow> (\<exists>calls. w_panel w' = w_panel w @ calls \<and> (\<forall>v pkg. CallDeletePackage v pkg \<notin> set calls))"

lemma harmless_order [simp]: "reflp harmless" "transp harmless"
  by (force simp: reflp_def transp_def harmless_def)+

lemma harmless_quiet: "keeps quiet m \<Longrightarrow> keeps harmless m"
  by (simp add: keeps_def quiet_def harmless_def)

lemma harmless_careful: "harmless w w' \<Longrightarrow> careful w w'"
  by (auto simp: harmless_def careful_def)

lemma harmless_panel_do:
  assumes "\<And>v pkg. c \<noteq> CallDeletePackage v pkg"
  shows "keeps harmless (panel_do c r)"
proof -
  have "keeps harmless (called c)" using assms unfolding called_def by (intro keeps_writes) (simp add: harmless_def, metis)
  moreover have "keeps harmless (answer r)" by (cases r) (simp_all add: answer_def keeps_ret keeps_fail)
  ultimately show ?thesis unfolding panel_do_def by (intro keeps_on_err keeps_bnd) simp_all
qed

lemma harmless_on_panel: "(\<And>m cfg. keeps harmless (g m cfg)) \<Longrightarrow> keeps harmless (on_panel pc g)"
  by (auto simp: on_panel_def keeps_ret split: option.split)

lemma harmless_ensure_package: "keeps harmless (ensure_package m cfg svc p pfx)"
proof -
  have "keeps harmless (panel_do (CallEnsurePackage x y) z)" for x y z by (rule harmless_panel_do) simp
  then show ?thesis unfolding ensure_package_def
    by (simp add: keeps_bnd keeps_ret harmless_quiet [OF quiet_reads(7)])
qed

lemma careful_bnd: "keeps harmless m \<Longrightarrow> (\<And>x. keeps careful (g x)) \<Longrightarrow> keeps careful (bnd m g)"
proof (rule keepsI)
  fix w assume m: "keeps harmless m" and g: "\<And>x. keeps careful (g x)"
  obtain r w1 where run: "m w = (r, w1)" by (cases "m w")
  have h: "harmless w w1" using keepsD [OF m run] .
  show "careful w (snd (bnd m g w))"
  proof (cases r)
    case (Inl e)
    then show ?thesis using run h by (simp add: bnd_def harmless_careful)
  next
    case (Inr x)
    have "careful w1 (snd (g x w1))" using g by (simp add: keeps_def)
    then show ?thesis using run h Inr by (auto simp: bnd_def harmless_def intro: careful_first)
  qed
qed

lemma careful_bnd_read:
  assumes "keeps (=) m" and "\<And>w x. m w = (Inr x, w) \<Longrightarrow> keeps careful (g x)"
  shows "keeps careful (bnd m g)"
proof (rule keepsI)
  fix w
  obtain r w1 where run: "m w = (r, w1)" by (cases "m w")
  then have "w1 = w" using read_state [OF assms(1)] by simp
  then show "careful w (snd (bnd m g w))" using run assms(2) [of w]
    by (cases r) (auto simp: bnd_def keeps_def careful_quiet quiet_def)
qed

lemma careful_then:
  assumes "keeps careful m" and "\<And>x. keeps quiet (g x)" and "\<And>x. keeps (frame db_services) (g x)"
  shows "keeps careful (bnd m g)"
proof (rule keepsI)
  fix w
  obtain r w1 where run: "m w = (r, w1)" by (cases "m w")
  have c: "careful w w1" using keepsD [OF assms(1) run] .
  show "careful w (snd (bnd m g w))"
  proof (cases r)
    case (Inl e)
    then show ?thesis using run c by (simp add: bnd_def)
  next
    case (Inr x)
    obtain q w2 where g: "g x w1 = (q, w2)" by (cases "g x w1")
    show ?thesis using run Inr g careful_after [OF c] keepsD [OF assms(2) g] keepsD [OF assms(3) g]
      by (simp add: bnd_def frame_def)
  qed
qed

lemma panelContext_server: "panelContext env mods svc w = (Inr (Some (m, cfg)), w') \<Longrightarrow> s_ServerID svc = Some (sc_ID cfg)"
  unfolding panelContext_def serverConfig_def
  by (auto elim!: bnd_InrE simp: ret_def fail_def GetServerByID_def need_def on_err_def q_db_def reads_def bnd_def
      split: option.splits sum.splits prod.splits if_splits dest: row_Some_key)

lemma careful_update_cleanup:
  assumes "s_ServerID s = Some (sc_ID cfg)"
    and "pm_PackageName (s_PanelMeta s) \<noteq> pkg \<or> s_Status s \<in> {ServiceTerminated, ServiceCancelled}"
  shows "keeps careful (bnd (on_err h (service_Update env s)) (\<lambda>_. cleanupDynamicPackage env s m cfg pkg))"
proof (rule keepsI)
  fix w
  obtain r w1 where u: "service_Update env s w = (r, w1)" by (cases "service_Update env s w")
  have q: "quiet w w1" using keepsD [OF quiet_effects(2) u] .
  show "careful w (snd (bnd (on_err h (service_Update env s)) (\<lambda>_. cleanupDynamicPackage env s m cfg pkg) w))"
  proof (cases r)
    case (Inl e)
    then show ?thesis using u q by (simp add: bnd_def on_err_def careful_quiet)
  next
    case (Inr x)
    obtain q2 w2 where c: "cleanupDynamicPackage env s m cfg pkg w1 = (q2, w2)" by (cases "cleanupDynamicPackage env s m cfg pkg w1")
    have "careful w1 w2"
    proof (rule cleanup_careful [OF c assms(1)])
      fix x assume "x \<in> set (db_services (w_db w1))" "s_ID x = s_ID s"
      then show "pm_PackageName (s_PanelMeta x) \<noteq> pkg \<or> s_Status x \<in> {ServiceTerminated, ServiceCancelled}"
        using u Inr assms(2) by (auto simp: service_Update_def eff_simps split: option.splits dest!: upd_in)
    qed
    then show ?thesis using u q Inr c by (auto simp: bnd_def on_err_def quiet_def careful_def)
  qed
qed

lemma ProvisionTerminate_careful: "keeps careful (ProvisionTerminate env mods sid)"
proof -
  have quiet: "keeps quiet m \<Longrightarrow> keeps careful m" for m :: "'a act" by (auto simp: keeps_def careful_quiet)
  have tail: "keeps quiet (bnd (notifyService env s k d) (\<lambda>_. bnd (audit_Log a b c e) (\<lambda>_. resolvePendingCancellation env i)))"
    "keeps (frame db_services) (bnd (notifyService env s k d) (\<lambda>_. bnd (audit_Log a b c e) (\<lambda>_. resolvePendingCancellation env i)))"
    for s k d a b c e i by (intro quiet_rules) (intro frame_rules; simp)
  have live: "keeps careful (terminate_live env mods svc)" for svc
    unfolding terminate_live_def Let_def
  proof (intro careful_bnd [OF harmless_quiet [OF quiet_basic(6)]] careful_bnd_read [OF read_upgrades(1)])
    fix w pc assume pc: "panelContext env mods svc w = (Inr pc, w)"
    let ?s = "svc\<lparr>s_Status := ServiceTerminated, s_TerminatedAt := Some (e_now env)\<rparr>"
    have up: "keeps careful (bnd (on_err wrap (service_Update env ?s)) (\<lambda>_. on_panel pc (\<lambda>m cfg. cleanupDynamicPackage env ?s m cfg (pm_PackageName (s_PanelMeta ?s)))))"
    proof (cases pc)
      case None
      then show ?thesis by (simp add: on_panel_def) (intro quiet quiet_rules)
    next
      case (Some mc)
      then show ?thesis using pc panelContext_server [of env mods svc w "fst mc" "snd mc" w]
        by (cases mc) (auto simp: on_panel_def intro!: careful_update_cleanup)
    qed
    have h: "keeps harmless (on_panel pc (\<lambda>m cfg. panel_do (CallTerminate (sc_ID cfg) (s_Username svc)) (sm_Terminate m cfg (s_Username svc))))"
      by (intro harmless_on_panel harmless_panel_do) simp
    show "keeps careful (bnd (on_panel pc (\<lambda>m cfg. panel_do (CallTerminate (sc_ID cfg) (s_Username svc)) (sm_Terminate m cfg (s_Username svc)))) (\<lambda>_.
       bnd (on_err wrap (service_Update env ?s)) (\<lambda>_.
       bnd (on_panel pc (\<lambda>m cfg. cleanupDynamicPackage env ?s m cfg (pm_PackageName (s_PanelMeta ?s)))) (\<lambda>_.
       bnd (notifyService env ?s ''service_terminated'' [(''ServiceName'', s_Domain ?s)]) (\<lambda>_.
       bnd (audit_Log 0 ''service.terminate'' ''service'' (s_ID ?s)) (\<lambda>_.
       resolvePendingCancellation env (s_ID ?s)))))))"
      by (rule careful_bnd [OF h], rule careful_then [OF up tail, unfolded bnd_assoc])
  qed
  have "keeps careful (cancel_pending env svc)" for svc
    unfolding cancel_pending_def by (intro quiet quiet_rules)
  with live show ?thesis unfolding ProvisionTerminate_def
    by (intro careful_bnd_read read_rules) (auto simp: quiet_rules intro: quiet split: ServiceStatus.split)
qed

lemma ProvisionChangePackage_careful: "keeps careful (ProvisionChangePackage env mods sid)"
proof -
  have change: "keeps careful (change_package env m cfg svc p)" if "s_ServerID svc = Some (sc_ID cfg)" for m cfg svc p
  proof -
    have pk: "keeps harmless (if p_Configurable p then
             bnd (on_err wrap (GetServerByID (the (s_ServerID svc)))) (\<lambda>server. ensure_package m cfg svc p (sv_PackagePrefix server))
           else ret None)"
      by (simp add: keeps_bnd keeps_ret harmless_ensure_package harmless_quiet quiet_rules)
    have fin: "keeps careful (bnd (on_err wrap (service_Update env s)) (\<lambda>_. if old \<noteq> [] \<and> old \<noteq> new then cleanupDynamicPackage env s m cfg old else ret ()))"
      if "s_ServerID s = Some (sc_ID cfg)" "pm_PackageName (s_PanelMeta s) \<in> {[], new}" for s old new
    proof (cases "old \<noteq> [] \<and> old \<noteq> new")
      case True
      then show ?thesis using that by (auto intro!: careful_update_cleanup)
    next
      case False
      have "keeps quiet (bnd (on_err wrap (service_Update env s)) (\<lambda>_. ret ()))" by (intro quiet_rules)
      then show ?thesis using False by (auto simp: keeps_def careful_quiet)
    qed
    show ?thesis unfolding change_package_def Let_def
      by (intro careful_bnd [OF pk] careful_bnd [OF harmless_panel_do] fin) (auto simp: that with_package_def split: option.split)
  qed
  show ?thesis unfolding ProvisionChangePackage_def
  proof (rule careful_bnd_read, intro read_rules, rule careful_bnd_read, intro read_rules, rule careful_bnd_read, intro read_rules)
    fix svc p w pc assume pc: "panelContext env mods svc w = (Inr pc, w)"
    have "keeps careful (on_panel pc (\<lambda>m cfg. change_package env m cfg svc p))"
    proof (cases pc)
      case None
      then show ?thesis by (simp add: on_panel_def keeps_def careful_quiet quiet_def ret_def)
    next
      case (Some mc)
      then show ?thesis using pc panelContext_server [of env mods svc w "fst mc" "snd mc" w]
        by (cases mc) (simp add: on_panel_def change)
    qed
    then show "keeps careful (bnd (on_panel pc (\<lambda>m cfg. change_package env m cfg svc p)) (\<lambda>_. audit_Log 0 ''service.change_package'' ''service'' (s_ID svc)))"
      by (rule careful_then) (intro quiet_rules, intro frame_rules, simp)
  qed
qed

end
