(* ===== verification/UpgradeRuns.thy ===== *)
theory UpgradeRuns
  imports Upkeep
begin

text \<open>
  What a run of \<open>UpgradeService\<close> that returns has done, and the automation runs.
\<close>

section \<open>Upgrades\<close>

definition stored :: "env \<Rightarrow> Service \<Rightarrow> Service \<Rightarrow> Service" where
  "stored env old s = s\<lparr>s_CreatedAt := s_CreatedAt old, s_UpdatedAt := e_now env\<rparr>"

lemma service_Update_returns:
  assumes "service_Update env s w = (Inr x, w')"
  obtains old where "row s_ID (s_ID s) (db_services (w_db w)) = Some old"
    and "w' = w\<lparr>w_db := (w_db w)\<lparr>db_services := upd s_ID (s_ID s) (\<lambda>old. stored env old s) (db_services (w_db w))\<rparr>\<rparr>"
  using assms by (auto simp: service_Update_def stored_def eff_simps split: option.splits)

lemma on_err_bndE:
  assumes "bnd (on_err h m) g w = (Inr y, w')"
  obtains x w1 where "m w = (Inr x, w1)" and "g x w1 = (Inr y, w')"
  using assms by (auto simp: bnd_def on_err_def split: prod.splits sum.splits)

lemma getOwned_run: "getOwned c sid w = (case row s_ID sid (db_services (w_db w)) of
    None \<Rightarrow> (Inl (NotFound ''service''), w)
  | Some svc \<Rightarrow> if c \<noteq> 0 \<and> s_ClientID svc \<noteq> c then (Inl (NotFound ''service''), w) else (Inr svc, w))"
  by (simp add: getOwned_def bnd_def on_err_def service_run ret_def fail_def wrap_def NotFound_def split: option.split)

lemma product_run: "product_GetByID pid w = (Inr p, w') \<Longrightarrow> p_ID p = pid"
  by (auto simp: product_GetByID_def need_def eff_simps find_Some_iff ret_def fail_def split: option.splits)

lemma product_bndE:
  assumes "bnd (on_err h (product_GetByID pid)) g w = (Inr y, w')"
  obtains p where "p_ID p = pid" and "g p w = (Inr y, w')"
  using assms by (rule on_err_bndE) (metis product_run read_state [OF read_shared(10)] that)

lemma UpgradeService_returns:
  assumes "UpgradeService env actor c sid inp w = (Inr res, w')"
  obtains svc where "row s_ID sid (db_services (w_db w)) = Some svc" "c = 0 \<or> s_ClientID svc = c" "s_ID svc = sid"
    and "upgrade_owned env actor inp (cycle_of (us_Cycle inp)) svc w = (Inr res, w')"
proof -
  have "bnd (getOwned c sid) (upgrade_owned env actor inp (cycle_of (us_Cycle inp))) w = (Inr res, w')"
    using assms unfolding UpgradeService_def Let_def
    by (auto elim!: read_bndE [OF _ read_shared(7)] simp: fail_def split: if_splits)
  then show ?thesis
    by (rule read_bndE [OF _ read_panels(4)]) (auto simp: getOwned_run split: option.splits if_splits intro!: that dest: row_Some_key)
qed

lemma upgrade_owned_returns:
  assumes "upgrade_owned env actor inp cycle svc w = (Inr res, w')"
  obtains cur target upSpecs price until where
    "s_Status svc = ServiceActive" "s_PendingUpgrade svc = None" "s_NextDueDate svc = Some until" "p_ID target = us_ProductID inp"
    "0 < upgrade_diff env svc cycle price until \<Longrightarrow>
       request_upgrade env actor svc cur target cycle upSpecs price (upgrade_diff env svc cycle price until) w = (Inr res, w')"
    "upgrade_diff env svc cycle price until \<le> 0 \<Longrightarrow>
       apply_downgrade env actor svc target cycle upSpecs price (upgrade_diff env svc cycle price until) w = (Inr res, w')"
proof -
  note tg = read_bndE [OF _ read_upgrade_target]
  have st: "s_Status svc = ServiceActive" "s_PendingUpgrade svc = None"
    using assms by (auto simp: upgrade_owned_def fail_def split: if_splits)
  from assms st obtain cur target where t: "p_ID target = us_ProductID inp" and run: "(if p_Module target \<noteq> p_Module cur then fail incompatible_module
        else
          bnd (upgrade_target inp cycle svc target) (\<lambda>(upSpecs, targetPrice).
          case s_NextDueDate svc of
            None \<Rightarrow> fail (Conflict ''service has no next_due_date; cannot compute a prorated upgrade'')
          | Some until \<Rightarrow>
              let diff = upgrade_diff env svc cycle targetPrice until in
              if diff > 0 then request_upgrade env actor svc cur target cycle upSpecs targetPrice diff
              else apply_downgrade env actor svc target cycle upSpecs targetPrice diff)) w = (Inr res, w')"
    unfolding upgrade_owned_def by (auto elim!: product_bndE)
  from run obtain sp pr where p: "(case s_NextDueDate svc of
            None \<Rightarrow> fail (Conflict ''service has no next_due_date; cannot compute a prorated upgrade'')
          | Some until \<Rightarrow>
              let diff = upgrade_diff env svc cycle pr until in
              if diff > 0 then request_upgrade env actor svc cur target cycle sp pr diff
              else apply_downgrade env actor svc target cycle sp pr diff) w = (Inr res, w')"
    by (auto elim!: tg simp: fail_def split: if_splits)
  then obtain until where "s_NextDueDate svc = Some until" by (cases "s_NextDueDate svc") (auto simp: fail_def)
  then show ?thesis using that [OF st _ t, of until pr cur sp] p by (simp add: Let_def split: if_splits)
qed

text \<open>An invoice, the pending upgrade on the row, and nothing else but the audit rows.\<close>

lemma request_upgrade_returns:
  assumes "request_upgrade env actor svc cur target cycle upSpecs price diff w = (Inr res, w')" and "0 < diff" and "in_i64 diff"
    and "row s_ID (s_ID svc) (db_services (w_db w)) = Some svc"
  obtains iv where "ur_Applied res = False" "ur_ProratedDiff res = diff" "ur_CreditIssued res = 0" "ur_Invoice res = Some iv"
    "i_Status iv = InvoiceUnpaid" "i_Subtotal iv = diff" "i_ClientID iv = s_ClientID svc"
    "ur_Service res = svc\<lparr>s_PendingUpgrade := Some \<lparr>su_ProductID = p_ID target, su_Cycle = cycle, su_RecurringAmount = price,
       su_InvoiceID = i_ID iv, su_Specs = upSpecs\<rparr>\<rparr>"
    "db_invoices (w_db w') = db_invoices (w_db w) @ [iv]" "accounts (w_db w') = accounts (w_db w)" "w_queue w' = w_queue w"
    "row s_ID (s_ID svc) (db_services (w_db w')) = Some (stored env svc (ur_Service res))"
proof -
  let ?cin = "upgrade_input svc (upgrade_description svc cur target cycle upSpecs) diff (AddDays (e_now env) (setting_int (w_db w) ''billing.invoice_due_days'' 3))"
  obtain iv w1 where iv: "CreateInvoice env ?cin w = (Inr iv, w1)" and
    rest: "(let svc = svc\<lparr>s_PendingUpgrade := Some \<lparr>su_ProductID = p_ID target, su_Cycle = cycle, su_RecurringAmount = price,
           su_InvoiceID = i_ID iv, su_Specs = upSpecs\<rparr>\<rparr> in
     bnd (on_err wrap (service_Update env svc)) (\<lambda>_.
     bnd (audit_Log actor ''service.upgrade_requested'' ''service'' (s_ID svc)) (\<lambda>_.
     ret \<lparr>ur_Applied = False, ur_ProratedDiff = diff, ur_CreditIssued = 0, ur_Invoice = Some iv, ur_Service = svc\<rparr>))) w1 = (Inr res, w')"
    using assms(1) unfolding request_upgrade_def
    unfolding bnd_on_err_GetInt by (rule on_err_bndE)
  define s where "s = svc\<lparr>s_PendingUpgrade := Some \<lparr>su_ProductID = p_ID target, su_Cycle = cycle, su_RecurringAmount = price,
           su_InvoiceID = i_ID iv, su_Specs = upSpecs\<rparr>\<rparr>"
  obtain w2 where u: "service_Update env s w1 = (Inr (), w2)" and
    fin: "bnd (audit_Log actor ''service.upgrade_requested'' ''service'' (s_ID s)) (\<lambda>_.
     ret \<lparr>ur_Applied = False, ur_ProratedDiff = diff, ur_CreditIssued = 0, ur_Invoice = Some iv, ur_Service = s\<rparr>) w2 = (Inr res, w')"
    using rest unfolding Let_def s_def [symmetric] by (auto elim!: on_err_bndE)
  have res: "res = \<lparr>ur_Applied = False, ur_ProratedDiff = diff, ur_CreditIssued = 0, ur_Invoice = Some iv, ur_Service = s\<rparr>"
    "w' = w2\<lparr>w_db := (w_db w2)\<lparr>db_audit := db_audit (w_db w2) @ [(actor, ''service.upgrade_requested'', ''service'', s_ID s)]\<rparr>\<rparr>"
    using fin by (auto simp: audit_Log_def eff_simps)
  from iv show ?thesis
  proof (rule CreateInvoice_returns)
    fix sm t
    assume sm: "sum_items (cin_Items ?cin) (0, 0) = Inr (sm, t)" and new: "iv = new_invoice env ?cin sm t (w_db w) (w_seq w TInvoices + 1)"
      and w1: "w1 = w\<lparr>w_seq := (w_seq w)(TInvoices := w_seq w TInvoices + 1, TInvoiceItems := w_seq w TInvoiceItems + int (length (cin_Items ?cin))),
       w_db := (w_db w)\<lparr>db_invoices := db_invoices (w_db w) @ [iv],
         db_invoice_items := db_invoice_items (w_db w) @ numbered (i_ID iv) (w_seq w TInvoiceItems) (invoice_items_of (cin_Items ?cin)),
         db_counters := (db_counters (w_db w))(InvoiceCounterScope (e_now env) := Some (next_number (InvoiceCounterScope (e_now env)) (w_db w))),
         db_audit := db_audit (w_db w) @ [(0, ''invoice.create'', ''invoice'', i_ID iv)]\<rparr>\<rparr>"
    have "sm = diff" using sm assms(2,3) by (auto simp: upgrade_input_def wrap_simps split: if_splits)
    then have f: "i_Status iv = InvoiceUnpaid" "i_Subtotal iv = diff" "i_ClientID iv = s_ClientID svc"
      by (simp_all add: new new_invoice_fields upgrade_input_def)
    have sid: "s_ID s = s_ID svc" by (simp add: s_def)
    from u show ?thesis
    proof (rule service_Update_returns)
      fix old assume w2: "w2 = w1\<lparr>w_db := (w_db w1)\<lparr>db_services := upd s_ID (s_ID s) (\<lambda>old. stored env old s) (db_services (w_db w1))\<rparr>\<rparr>"
      show ?thesis
        by (rule that [of iv]) (use f assms(4) sid in \<open>simp_all add: res w2 w1 s_def [symmetric] accounts_def row_upd_to stored_def\<close>)
    qed
  qed
qed

text \<open>The row is rebound, the difference is credited, and the package is to follow.\<close>

lemma apply_downgrade_returns:
  assumes "apply_downgrade env actor svc target cycle upSpecs price diff w = (Inr res, w')"
    and "row s_ID (s_ID svc) (db_services (w_db w)) = Some svc" and "\<not> w_intx w"
  shows "ur_Applied res \<and> ur_ProratedDiff res = diff \<and> ur_CreditIssued res = i64 (- diff) \<and> ur_Invoice res = None
    \<and> ur_Service res = svc\<lparr>s_ProductID := p_ID target, s_BillingCycle := cycle, s_RecurringAmount := price,
            s_PanelMeta := panelMetaWithChosenSpecs (s_PanelMeta svc) upSpecs\<rparr>
    \<and> row s_ID (s_ID svc) (db_services (w_db w')) = Some (stored env svc (ur_Service res))
    \<and> db_invoices (w_db w') = db_invoices (w_db w) \<and> w_queue w' = w_queue w @ [JobProvisionChangePackage (s_ID svc)]
    \<and> (if 0 < i64 (- diff) then \<exists>b. balance w (s_ClientID svc) = Some b \<and> balance w' (s_ClientID svc) = Some (b + i64 (- diff))
        else balance w' (s_ClientID svc) = balance w (s_ClientID svc))
    \<and> (\<forall>c. c \<noteq> s_ClientID svc \<longrightarrow> balance w' c = balance w c)"
proof -
  define s where "s = svc\<lparr>s_ProductID := p_ID target, s_BillingCycle := cycle, s_RecurringAmount := price,
            s_PanelMeta := panelMetaWithChosenSpecs (s_PanelMeta svc) upSpecs\<rparr>"
  have id: "s_ID s = s_ID svc" "s_ClientID s = s_ClientID svc" by (simp_all add: s_def)
  obtain w3 where tx: "WithinTx (downgradeTx env s (i64 (- diff))) w = (Inr (), w3)" and
    rest: "bnd (on_err wrap (Enqueue env (JobProvisionChangePackage (s_ID s)))) (\<lambda>_.
      bnd (audit_Log actor ''service.downgrade_applied'' ''service'' (s_ID s)) (\<lambda>_.
      ret \<lparr>ur_Applied = True, ur_ProratedDiff = diff, ur_CreditIssued = i64 (- diff), ur_Invoice = None, ur_Service = s\<rparr>)) w3 = (Inr res, w')"
    using assms(1) unfolding apply_downgrade_def Let_def s_def [symmetric] by (rule on_err_bndE) simp
  have res: "res = \<lparr>ur_Applied = True, ur_ProratedDiff = diff, ur_CreditIssued = i64 (- diff), ur_Invoice = None, ur_Service = s\<rparr>"
    and w': "w' = w3\<lparr>w_queue := w_queue w3 @ [JobProvisionChangePackage (s_ID s)],
      w_db := (w_db w3)\<lparr>db_audit := db_audit (w_db w3) @ [(actor, ''service.downgrade_applied'', ''service'', s_ID s)]\<rparr>\<rparr>"
    using rest by (auto elim!: on_err_bndE simp: Enqueue_def audit_Log_def eff_simps split: option.splits)
  obtain w2 where w2: "downgradeTx env s (i64 (- diff)) (w\<lparr>w_intx := True\<rparr>) = (Inr (), w2)" "w3 = w2\<lparr>w_intx := False\<rparr>"
    using tx assms(3) by (auto elim!: WithinTx_cases)
  obtain w1 where u: "service_Update env s (w\<lparr>w_intx := True\<rparr>) = (Inr (), w1)" and
    cr: "(if i64 (- diff) > 0 then AddCredit (s_ClientID s) (i64 (- diff))
       (''Downgrade credit for service #'' @ FormatInt (s_ID s) @ '' ('' @ s_Domain s @ '')'') 0 else ret ()) w1 = (Inr (), w2)"
    using w2(1) unfolding downgradeTx_def by (auto elim!: bnd_InrE)
  have w1: "w1 = w\<lparr>w_intx := True, w_db := (w_db w)\<lparr>db_services := upd s_ID (s_ID s) (\<lambda>old. stored env old s) (db_services (w_db w))\<rparr>\<rparr>"
    using u by (auto elim: service_Update_returns)
  have bal: "balance w1 = balance w" by (rule ext, rule balance_accounts) (simp add: w1 accounts_def)
  have fr: "db_services (w_db w2) = db_services (w_db w1) \<and> db_invoices (w_db w2) = db_invoices (w_db w1) \<and> w_queue w2 = w_queue w1"
    using cr by (auto simp: AddCredit_run ret_def book_credit_def split: if_splits prod.splits sum.splits dest!: applyCredit_ok)
  have b': "balance w' = balance w2" by (rule ext, rule balance_accounts) (simp add: w' w2(2) accounts_def)
  have credit: "(if 0 < i64 (- diff) then \<exists>b. balance w1 (s_ClientID svc) = Some b \<and> balance w2 (s_ClientID svc) = Some (b + i64 (- diff))
        else balance w2 (s_ClientID svc) = balance w1 (s_ClientID svc)) \<and> (\<forall>c. c \<noteq> s_ClientID svc \<longrightarrow> balance w2 c = balance w1 c)"
    using cr id ledger.add_ok [of "s_ClientID svc" "i64 (- diff)"] by (auto simp: ret_def split: if_splits)
  have row: "row s_ID (s_ID svc) (db_services (w_db w')) = Some (stored env svc s)"
    using assms(2) id fr by (simp add: w' w2(2) w1 row_upd_to stored_def)
  have "w_queue w' = w_queue w @ [JobProvisionChangePackage (s_ID svc)]" "db_invoices (w_db w') = db_invoices (w_db w)"
    using fr id by (simp_all add: w' w2(2) w1)
  then show ?thesis using row credit unfolding b' bal res by (simp add: s_def)
qed

text \<open>A plan change that has to be paid is on the row.\<close>

lemma upgrade_pending:
  assumes "UpgradeService env actor c sid inp w = (Inr res, w')" and "0 < ur_ProratedDiff res" and "\<not> w_intx w"
  obtains svc up where "row s_ID sid (db_services (w_db w')) = Some svc" "s_PendingUpgrade svc = Some up" "s_PendingUpgrade (ur_Service res) = Some up"
proof -
  obtain svc where svc: "row s_ID sid (db_services (w_db w)) = Some svc" "s_ID svc = sid"
    "upgrade_owned env actor inp (cycle_of (us_Cycle inp)) svc w = (Inr res, w')" using assms(1) by (rule UpgradeService_returns)
  have row: "row s_ID (s_ID svc) (db_services (w_db w)) = Some svc" using svc by simp
  from svc(3) show ?thesis
  proof (rule upgrade_owned_returns)
    fix cur target sp price until
    let ?d = "upgrade_diff env svc (cycle_of (us_Cycle inp)) price until"
    assume up: "0 < ?d \<Longrightarrow> request_upgrade env actor svc cur target (cycle_of (us_Cycle inp)) sp price ?d w = (Inr res, w')"
      and down: "?d \<le> 0 \<Longrightarrow> apply_downgrade env actor svc target (cycle_of (us_Cycle inp)) sp price ?d w = (Inr res, w')"
    have pos: "0 < ?d" using assms(2) apply_downgrade_returns [OF down row assms(3)] by force
    have i: "in_i64 ?d" by (simp add: upgrade_diff_def Let_def)
    have "\<exists>up. row s_ID sid (db_services (w_db w')) = Some (stored env svc (ur_Service res)) \<and> s_PendingUpgrade (ur_Service res) = Some up"
      by (rule request_upgrade_returns [OF up [OF pos] pos i row]) (simp add: svc(2))
    then show ?thesis using that [of "stored env svc (ur_Service res)"] by (auto simp: stored_def)
  qed
qed

section \<open>The automation runs\<close>

lemma enqueue_all_fold:
  "foldE (\<lambda>svc n. bnd (on_err wrap (Enqueue env (mk svc))) (\<lambda>_. ret (n + 1))) xs a w = (Inr n, w') \<Longrightarrow>
    n = a + int (length xs) \<and> w' = w\<lparr>w_queue := w_queue w @ map mk xs\<rparr>"
proof (induction xs arbitrary: a w)
  case Nil
  then show ?case by (simp add: ret_def)
next
  case (Cons x xs)
  obtain u w1 where "Enqueue env (mk x) w = (Inr u, w1)"
    and rest: "foldE (\<lambda>svc n. bnd (on_err wrap (Enqueue env (mk svc))) (\<lambda>_. ret (n + 1))) xs (a + 1) w1 = (Inr n, w')"
    using Cons.prems by (auto simp: bnd_assoc bnd_ret elim!: on_err_bndE)
  then have "w1 = w\<lparr>w_queue := w_queue w @ [mk x]\<rparr>" by (auto simp: Enqueue_def eff_simps split: option.splits)
  then show ?case using Cons.IH [OF rest] by simp
qed

lemma AutoTerminate_returns:
  assumes "AutoTerminate env w = (Inr n, w')"
  shows "n = int (length (filter (terminatable (AddDays (e_now env) (- setting_int (w_db w) ''automation.terminate_after_days'' 21))
      (dateOnly (e_now env))) (db_services (w_db w))))"
    and "w' = w\<lparr>w_queue := w_queue w @ map (\<lambda>s. JobProvisionTerminate (s_ID s))
      (filter (terminatable (AddDays (e_now env) (- setting_int (w_db w) ''automation.terminate_after_days'' 21)) (dateOnly (e_now env)))
        (db_services (w_db w)))\<rparr>"
  using assms unfolding AutoTerminate_def bnd_on_err_GetInt enqueue_all_def
  by (auto elim!: on_err_bndE simp: ListTerminatable_def q_db_def reads_def dest!: enqueue_all_fold)

end
