(* ===== verification/Samples.thy ===== *)
theory Samples
  imports UpgradeRuns
begin

text \<open>
  Concrete states on which the theorems are exercised: an installation with one client, and the
  same installation with one unpaid invoice of Rp111.000, with services, orders, a domain hunt and a
  product on sale.
\<close>

definition sample_env :: env where
  "sample_env = \<lparr>e_now = 19737 * day_ns + 36000000000000, e_FrontendURL = ''https://panel.id'', e_AppBaseURL = ''https://api.id'',
     e_AdminAlertEmail = ''ops@panel.id'', e_AdminAlertWebhookURL = [], e_post_webhook = (\<lambda>_ _. None),
     e_render = (\<lambda>k _ _. Inr k), e_enqueue_err = (\<lambda>_. None), e_store_err = (\<lambda>_. None), e_encrypt = Inr, e_decrypt = Inr\<rparr>"

definition sample_client :: Client where
  "sample_client = \<lparr>c_ID = 7, c_UserID = 3, c_FirstName = ''Sri'', c_LastName = ''Wati'', c_Company = [], c_Address1 = [],
     c_Address2 = [], c_City = [], c_State = [], c_Postcode = [], c_Country = ''ID'', c_Phone = [],
     c_CreditBalance = 0, c_DeletedAt = None\<rparr>"

definition sample_user :: User where
  "sample_user = \<lparr>u_ID = 3, u_Email = ''sri@mail.id'', u_Locale = ''id'', u_EmailVerifiedAt = None\<rparr>"

definition sample_db :: db where
  "sample_db = \<lparr>db_users = [sample_user], db_clients = [sample_client], db_products = [], db_product_pricing = [],
     db_option_values = [], db_product_specs = [], db_spec_pricing = [], db_tld_pricing = [], db_premium_pricing = [],
     db_premium_lengths = [], db_domain_addons = [], db_coupons = [], db_orders = [],
     db_order_items = [], db_invoices = [], db_invoice_items = [], db_transactions = [], db_ledger = [], db_services = [], db_cancellations = [], db_servers = [], db_server_groups = [],
     db_domains = [], db_registrars = [], db_snipes = [], db_snipe_events = [], db_counters = Map.empty,
     db_settings = Map.empty, db_emails = [], db_audit = [], db_integration = []\<rparr>"

definition sample_world :: world where
  "sample_world = \<lparr>w_db = sample_db, w_seq = (\<lambda>_. 0), w_queue = [], w_panel = [], w_entropy = [], w_intx = False\<rparr>"

definition sample_invoice :: Invoice where
  "sample_invoice = \<lparr>i_ID = 1, i_InvoiceNumber = ''INV-202401-000001'', i_ClientID = 7, i_Status = InvoiceUnpaid,
     i_Subtotal = 100000, i_Discount = 0, i_TaxRate = 11, i_TaxTotal = 11000, i_CreditApplied = 0, i_Total = 111000,
     i_Currency = ''IDR'', i_DueDate = 19740 * day_ns, i_PaidAt = None, i_Notes = [], i_PDFObjectKey = [],
     i_CreatedAt = 19737 * day_ns\<rparr>"

definition sample_line :: InvoiceItem where
  "sample_line = \<lparr>ii_ID = 1, ii_InvoiceID = 1, ii_Description = ''Consulting'', ii_Amount = 100000, ii_Taxed = True,
     ii_RelatedType = RelatedManual, ii_RelatedID = None\<rparr>"

definition open_world :: world where
  "open_world = sample_world\<lparr>w_db := sample_db\<lparr>db_invoices := [sample_invoice], db_invoice_items := [sample_line]\<rparr>,
     w_seq := (\<lambda>_. 0)(TInvoices := 1, TInvoiceItems := 1)\<rparr>"

text \<open>A bank transfer an administrator records.\<close>

definition transfer :: "int \<Rightarrow> ApplyTx" where
  "transfer amount = manual_ApplyTx sample_env amount ''bank_transfer''"

lemmas sample_defs = sample_env_def sample_client_def sample_user_def sample_db_def sample_world_def
  sample_invoice_def sample_line_def open_world_def

lemma sample_fresh: "fresh_world sample_world"
  by (simp add: fresh_world_def sample_defs shelf_inv_def shelf_ok_def hosting_inv_def pending_requests_def)

lemma open_row [simp]: "row i_ID 1 (db_invoices (w_db open_world)) = Some sample_invoice"
  by (simp add: sample_defs row_Cons)

lemma open_intx [simp]: "\<not> w_intx open_world"
  by (simp add: sample_defs)

lemma open_books: "books open_world"
  by (simp add: sample_defs books_def books_of_def tx_rows_ok_def invoice_books_def success_for_def)

lemma open_ledger: "ledger_inv open_world"
  by (simp add: sample_defs ledger_inv_def ledger_ok_def credits_of_def in_i64_def)

lemma i64_small [simp]: "i64 111000 = 111000" "i64 0 = 0"
  by (simp_all add: i64_def)

lemma sample_due [simp]: "i_Total sample_invoice = 111000" "i_CreditApplied sample_invoice = 0"
  "i_Status sample_invoice = InvoiceUnpaid" "i_ClientID sample_invoice = 7" "at_Amount (transfer a) = a"
  "at_MerchantOrderID (transfer a) = []"
  by (simp_all add: sample_defs transfer_def manual_ApplyTx_def)

lemma reachable_sample: "reachable (snd (ApplyPayment sample_env (ProcessPaid sample_env) 1 (transfer 50000)
    (snd (Deposit sample_env 7 50000 sample_world))))"
  by (rule reachable.move [OF reachable.move [OF reachable.start [OF sample_fresh] step.deposit] step.apply_payment])

lemma open_paid:
  obtains w' where "ApplyPayment sample_env (ProcessPaid sample_env) 1 (transfer 111000) open_world = (Inr (), w')"
  using ApplyPayment_deposits [OF open_books open_ledger open_intx open_row, of "transfer 111000" 0 sample_env]
  by (force simp: invoicePayable_def invoice_lines_def credit_line_def deposit_sum_def balance_def balance_of_def
      live_client_def sample_defs)

definition deposit_world :: world where
  "deposit_world = open_world\<lparr>w_db := (w_db open_world)\<lparr>db_invoice_items :=
     [sample_line\<lparr>ii_Amount := 111000, ii_RelatedType := RelatedDeposit\<rparr>]\<rparr>\<rparr>"

lemma deposit_world_facts:
  "books deposit_world" "ledger_inv deposit_world" "\<not> w_intx deposit_world"
  "row i_ID 1 (db_invoices (w_db deposit_world)) = Some sample_invoice"
  "\<forall>it \<in> set (invoice_lines 1 deposit_world). credit_line it" "balance deposit_world 7 = Some 0"
  "deposit_sum (invoice_lines 1 deposit_world) = 111000"
  using open_books open_ledger
  by (simp_all add: deposit_world_def books_def ledger_inv_def ledger_ok_def) (simp_all add: sample_defs
      invoice_lines_def credit_line_def deposit_sum_def balance_def balance_of_def live_client_def)

definition credit_world :: world where
  "credit_world = open_world\<lparr>w_db := (w_db open_world)\<lparr>db_clients := [sample_client\<lparr>c_CreditBalance := 200000\<rparr>],
     db_ledger := [\<lparr>cl_ID = 1, cl_ClientID = 7, cl_Delta = 200000, cl_BalanceAfter = 200000, cl_Reason = ''Deposit'',
       cl_RelatedInvoiceID = None\<rparr>]\<rparr>\<rparr>"

lemma credit_world_facts:
  "books credit_world" "ledger_inv credit_world" "\<not> w_intx credit_world"
  "row i_ID 1 (db_invoices (w_db credit_world)) = Some sample_invoice" "balance credit_world 7 = Some 200000"
  "\<forall>it \<in> set (invoice_lines 1 credit_world). ii_RelatedType it = RelatedManual"
proof -
  show "books credit_world" using open_books by (simp add: credit_world_def books_def)
  show "ledger_inv credit_world" by (simp add: credit_world_def sample_defs ledger_inv_def ledger_ok_def credits_of_def in_i64_def)
  show "balance credit_world 7 = Some 200000"
    by (simp add: credit_world_def sample_defs balance_def balance_of_def live_client_def)
  show "\<forall>it \<in> set (invoice_lines 1 credit_world). ii_RelatedType it = RelatedManual"
    by (simp add: credit_world_def sample_defs invoice_lines_def)
qed (simp_all add: credit_world_def)

lemma credit_paid:
  obtains w' where "payWithCredit sample_env (ProcessPaid sample_env) 3 1 credit_world = (Inr (paid_instruction 111000), w')"
  using payWithCredit_accepts_lemma [OF credit_world_facts(1-4), of 200000 sample_env 3] credit_world_facts(5,6)
  by (auto simp: invoicePayable_def)

lemma open_balance: "balance open_world 7 = Some 0"
  by (simp add: sample_defs balance_def balance_of_def live_client_def)

definition forged :: CallbackPayload where
  "forged = \<lparr>cb_MerchantCode = ''D1'', cb_Amount = ''111000'', cb_MerchantOrderID = ''INV-202401-000001-01'', cb_ProductDetail = [],
     cb_AdditionalParam = [], cb_PaymentCode = ''VA'', cb_ResultCode = ''00'', cb_Reference = ''R1'', cb_Signature = ''bad''\<rparr>"

definition honest_gateway :: PaymentGateway where
  "honest_gateway = \<lparr>gw_GetPaymentMethods = (\<lambda>_. Inr []), gw_CreateTransaction = (\<lambda>_. Inl (RawErr ''down'')),
     gw_CheckTransaction = (\<lambda>_. Inr \<lparr>st_Reference = ''R1'', st_Amount = 111000, st_Fee = 0, st_StatusCode = ''00'', st_StatusMessage = []\<rparr>),
     gw_VerifyCallbackSignature = (\<lambda>p. cb_Signature p = ''good'')\<rparr>"

definition paid_world :: world where
  "paid_world = open_world\<lparr>w_db := (w_db open_world)\<lparr>db_invoices := [pay (19737 * day_ns) sample_invoice],
     db_transactions := [(success_tx 1 (transfer 111000) (19737 * day_ns) ''{}'')\<lparr>t_ID := 1\<rparr>]\<rparr>,
     w_seq := (\<lambda>_. 1)\<rparr>"

lemma paid_world_facts: "books paid_world" "\<not> w_intx paid_world"
  "row i_ID 1 (db_invoices (w_db paid_world)) = Some (pay (19737 * day_ns) sample_invoice)"
  by (simp_all add: paid_world_def books_def books_of_def tx_rows_ok_def invoice_books_def success_for_def success_tx_def row_Cons pay_def)
    (simp_all add: sample_defs)

lemma paid_refund: "\<exists>out w'. RefundInvoice 1 1 True paid_world = (Inr out, w')"
proof -
  let ?w = "paid_world\<lparr>w_intx := True\<rparr>"
  have inv: "db_invoices (w_db paid_world) = [pay (19737 * day_ns) sample_invoice]"
    and txs: "db_transactions (w_db paid_world) = [(success_tx 1 (transfer 111000) (19737 * day_ns) ''{}'')\<lparr>t_ID := 1\<rparr>]"
    and its: "db_invoice_items (w_db paid_world) = [sample_line]" and cl: "db_clients (w_db paid_world) = [sample_client]"
    by (simp_all add: paid_world_def) (simp_all add: sample_defs)
  have keys: "i_ID sample_invoice = 1" "ii_InvoiceID sample_line = 1" "ii_RelatedType sample_line = RelatedManual"
    "c_ID sample_client = 7" "c_DeletedAt sample_client = None" "c_CreditBalance sample_client = 0" by (simp_all add: sample_defs)
  have "\<exists>out w2. refundTx 1 True ?w = (Inr out, w2)"
    by (simp add: refundTx_def eff_simps TransitionInvoice_def inv txs its row_Cons invoice_UpdateStatus_def bnd_invoice_exec
        tx_ListByInvoice_def tx_Update_def bnd_assoc tx_violates_def success_tx_def refund_credit_def bnd_run [of "AddCredit _ _ _ _"]
        AddCredit_run applyCredit_run on_err_def AdjustCredit_run live_client_def cl keys in_i64_def)
  then show ?thesis using paid_world_facts(2) by (auto simp: RefundInvoice_run WithinTx_def)
qed

definition sample_input :: CreateInvoiceInput where
  "sample_input = \<lparr>cin_ClientID = 7, cin_Items = [\<lparr>cii_Description = ''Setup'', cii_Amount = 100000, cii_Taxed = True,
     cii_RelatedType = RelatedManual, cii_RelatedID = 0\<rparr>], cin_Discount = 5000, cin_DueDate = 19740 * day_ns, cin_Notes = []\<rparr>"

definition sample_service :: Service where
  "sample_service = \<lparr>s_ID = 4, s_ClientID = 7, s_OrderItemID = None, s_ProductID = 2, s_ServerID = None, s_Domain = ''toko.id'', s_Username = ''toko'',
     s_PasswordEnc = [], s_Status = ServiceActive, s_BillingCycle = CycleMonthly, s_RecurringAmount = 50000, s_SetupFee = 0,
     s_NextDueDate = Some (19753 * day_ns), s_RegistrationDate = None, s_TerminatedAt = None, s_SuspendReason = [],
     s_PanelMeta = no_meta, s_CouponID = None, s_PendingUpgrade = None, s_Notes = [], s_CreatedAt = 0, s_UpdatedAt = 0\<rparr>"

definition service_world :: world where
  "service_world = sample_world\<lparr>w_db := sample_db\<lparr>db_services := [sample_service]\<rparr>\<rparr>"

lemma service_world_facts: "row s_ID 4 (db_services (w_db service_world)) = Some sample_service" "\<not> w_intx service_world"
  by (simp_all add: service_world_def sample_defs sample_service_def row_Cons)

lemma service_invoiced:
  obtains iv w' where "generateServiceRenewalInvoice sample_env 4 service_world = (Inr (Some iv, []), w')"
proof -
  let ?w = "service_world\<lparr>w_intx := True\<rparr>"
  let ?inp = "renewal_input sample_service (19753 * day_ns) (renewal_discount sample_env sample_service (w_db ?w))"
  have "renewal_discount sample_env sample_service (w_db ?w) = 0" by (simp add: renewal_discount_def sample_service_def)
  then have "\<exists>iv w1. CreateInvoice sample_env ?inp ?w = (Inr iv, w1)"
    by (intro CreateInvoice_accepts)
      (simp_all add: renewal_input_def sample_service_def service_world_def sample_defs live_client_def)
  then obtain iv w1 where c: "CreateInvoice sample_env ?inp ?w = (Inr iv, w1)" by blast
  have "serviceRenewalTx sample_env 4 ?w = (Inr (Some iv, []), w1)"
    by (rule serviceRenewalTx_creates [OF _ _ _ _ _ _ c])
      (simp_all add: service_world_facts(1), simp_all add: sample_service_def panelMetaCancelAtPeriodEnd_def service_world_def sample_defs)
  then have "WithinTx (serviceRenewalTx sample_env 4) service_world = (Inr (Some iv, []), w1\<lparr>w_intx := False\<rparr>)"
    using service_world_facts(2) by (simp add: WithinTx_def)
  then show ?thesis using that
    by (simp add: generateServiceRenewalInvoice_def bnd_run [of "WithinTx _"] notify_created_def notifyInvoiceCreated_def notifyClient_def eff_simps)
qed

definition fee_world :: world where
  "fee_world = open_world\<lparr>w_db := (w_db open_world)\<lparr>db_invoices := [sample_invoice\<lparr>i_Status := InvoiceOverdue, i_DueDate := 19730 * day_ns\<rparr>],
     db_settings := [''billing.late_fee_enabled'' \<mapsto> JBool True, ''billing.late_fee_amount'' \<mapsto> JInt 10000]\<rparr>\<rparr>"

lemma fee_world_facts: "distinct (map i_ID (db_invoices (w_db fee_world)))" "\<not> w_intx fee_world"
  "setting_bool (w_db fee_world) ''billing.late_fee_enabled'' False" "setting_int (w_db fee_world) ''billing.late_fee_amount'' 0 = 10000"
  by (simp_all add: fee_world_def setting_bool_def setting_int_def json_bool_def json_int_def in_i64_def)

definition sample_coupon :: Coupon where
  "sample_coupon = \<lparr>cp_ID = 5, cp_Code = ''HALF'', cp_Type = CouponPercentage, cp_Value = 50, cp_AppliesTo = JNull, cp_MaxUses = 0,
     cp_UsedCount = 0, cp_Recurring = True, cp_ExpiresAt = None, cp_Active = True\<rparr>"

definition sample_product :: Product where
  "sample_product = \<lparr>p_ID = 2, p_Name = ''Support'', p_Type = ProductOther, p_Module = ModuleNone, p_ServerGroupID = None, p_PackageName = [],
     p_AutoSetup = SetupOnPayment, p_Configurable = False, p_ShellAccess = False, p_CGIAccess = False, p_FeatureList = [], p_TemplatePackage = [],
     p_StockEnabled = False, p_StockQty = 0, p_Hidden = False, p_WelcomeEmailTemplate = [], p_DeletedAt = None\<rparr>"

definition sample_order :: Order where
  "sample_order = \<lparr>o_ID = 8, o_OrderNumber = ''ORD-202401-000001'', o_ClientID = 7, o_Status = OrderPending, o_Subtotal = 0,
     o_Discount = 0, o_TaxTotal = 0, o_Total = 0, o_CouponID = None, o_IP = [], o_Notes = [], o_CreatedAt = 19737 * day_ns\<rparr>"

definition sample_item :: OrderItem where
  "sample_item = \<lparr>oi_ID = 9, oi_OrderID = 8, oi_ItemType = ItemProduct, oi_ProductID = Some 2, oi_Description = ''Support'',
     oi_Domain = ''toko.id'', oi_Cycle = CycleMonthly, oi_UnitPrice = 100000, oi_SetupFee = 0,
     oi_Options = \<lparr>io_Selections = [], io_Specs = [], io_DomainYears = 0, io_DomainAddons = [], io_DomainRenewPerYear = 0, io_EPPCodeEnc = []\<rparr>,
     oi_ServiceID = None, oi_DomainID = None\<rparr>"

definition order_world :: world where
  "order_world = sample_world\<lparr>w_db := sample_db\<lparr>db_products := [sample_product], db_coupons := [sample_coupon],
     db_orders := [sample_order], db_order_items := [sample_item]\<rparr>, w_entropy := replicate 31 0\<rparr>"

lemma sample_password: obtains p g where "GeneratePassword 16 (replicate 31 0) = (Inr p, g)"
  using GeneratePassword_total [of 16 "replicate 31 0"] by auto

lemma sample_activated:
  obtains w' where "activateProductItem sample_env sample_order sample_item (Some sample_coupon) (19737 * day_ns) order_world = (Inr [], w')"
proof (rule sample_password)
  fix p g assume g: "GeneratePassword 16 (replicate 31 0) = (Inr p, g)"
  have t: "db_products (w_db order_world) = [sample_product]" "w_entropy order_world = replicate 31 0"
    "db_order_items (w_db order_world) = [sample_item]" "oi_ProductID sample_item = Some 2" "oi_ID sample_item = 9"
    "p_ID sample_product = 2" "p_DeletedAt sample_product = None" "p_Module sample_product = ModuleNone" "e_encrypt sample_env = Inr"
    by (simp_all add: order_world_def sample_product_def sample_item_def sample_env_def)
  show ?thesis using that
    by (simp add: activateProductItem_def product_GetByID_def bnd_assoc eff_simps Let_def bnd_rand_password on_err_simps
        bnd_service_Create UpdateItemBackRefs_def t g row_Cons)
qed

lemma order_activated: obtains w' where "ActivateOrder sample_env 8 (order_world\<lparr>w_db := (w_db order_world)\<lparr>db_order_items := []\<rparr>\<rparr>) = (Inr (), w')"
proof -
  let ?w = "order_world\<lparr>w_db := (w_db order_world)\<lparr>db_order_items := []\<rparr>\<rparr>"
  have t: "db_orders (w_db order_world) = [sample_order]" "o_ID sample_order = 8" "o_Status sample_order = OrderPending" "o_ClientID sample_order = 7"
    "o_CouponID sample_order = None" "db_clients (w_db order_world) = [sample_client]" "c_ID sample_client = 7" "c_DeletedAt sample_client = None" "\<not> w_intx order_world"
    by (simp_all add: order_world_def sample_order_def sample_client_def sample_world_def sample_db_def)
  show ?thesis using that
    by (simp add: ActivateOrder_def bnd_order_GetByID eff_simps t row_Cons live_client_def order_GetItems_def bnd_WithinTx bnd_assoc
        TransitionOrder_def order_UpdateStatus_def)
qed

definition sample_snipe :: DomainSnipe where
  "sample_snipe = \<lparr>sn_ID = 6, sn_ClientID = 7, sn_DomainName = ''langka.id'', sn_Status = SnipeActive, sn_InvoiceID = Some 1, sn_FeeAmount = 50000,
     sn_DomainAmount = 250000, sn_RefundableDomain = 250000, sn_RefundableFee = 50000, sn_RefundAmount = 0, sn_RefundedAt = None,
     sn_Attempts = 0, sn_LastError = [], sn_LeaseOwner = [], sn_LeaseUntil = None, sn_PaidAt = None, sn_DeadlineAt = None,
     sn_WonAt = None, sn_CreatedAt = 19700 * day_ns\<rparr>"

definition sample_finish :: finishOpts where
  "sample_finish = \<lparr>fo_Owner = [], fo_RequireIdle = False, fo_RefundFee = False, fo_Reason = ''deadline'', fo_ActorUserID = 0, fo_Attempts = 3\<rparr>"

definition snipe_world :: world where
  "snipe_world = sample_world\<lparr>w_db := sample_db\<lparr>db_snipes := [sample_snipe]\<rparr>\<rparr>"

lemma snipe_expired: obtains w' where "snipe_finish sample_env sample_snipe SnipeExpired sample_finish snipe_world = (Inr True, w')"
proof -
  let ?F = "finishTx sample_snipe SnipeExpired sample_finish 250000 (e_now sample_env)"
  have s: "sn_ID sample_snipe = 6" "sn_Status sample_snipe = SnipeActive" "sn_ClientID sample_snipe = 7" "fo_Owner sample_finish = []"
    "fo_RequireIdle sample_finish = False" "refundFor sample_snipe SnipeExpired b = 250000" for b
    by (simp_all add: sample_snipe_def sample_finish_def refundFor_def)
  have t: "db_snipes (w_db snipe_world) = [sample_snipe]" "db_clients (w_db snipe_world) = [sample_client]" "c_ID sample_client = 7"
    "c_DeletedAt sample_client = None" "c_CreditBalance sample_client = 0" "\<not> w_intx snipe_world"
    by (simp_all add: snipe_world_def sample_client_def sample_world_def sample_db_def)
  have "\<exists>w1. ?F (snipe_world\<lparr>w_intx := True\<rparr>) = (Inr (True, False), w1)"
    by (simp add: finishTx_def snipe_Finish_def bnd_run [of "snipe_cas _ _ _"] snipe_cas_run t s row_Cons snipe_refund_def bnd_assoc eff_simps
        AdjustCredit_run live_client_def in_i64_def snipe_MarkRefunded_def snipe_AddEvent_def)
  then obtain w1 where "WithinTx ?F snipe_world = (Inr (True, False), w1)" using t(6) by (auto simp: WithinTx_def)
  then show ?thesis using that
    by (simp add: snipe_finish_def TransitionSnipe_def SnipeCanTransition_def canTransition_def s eff_simps Let_def bnd_run [of "WithinTx _"]
        finish_effects_def bnd_assoc notifyEnded_def sendToClient_def)
qed

lemma listed_overdue: "listOverdue (sample_env\<lparr>e_now := 19750 * day_ns\<rparr>) open_world = (Inr [sample_invoice], open_world)"
proof -
  have "dateOnly (19750 * day_ns) = 19750 * day_ns" by code_simp
  then show ?thesis
    by (simp add: listOverdue_def on_err_def invoice_ListDueForStatus_def q_db_run AddDays_def)
      (simp add: sample_defs day_ns_def)
qed

section \<open>A cart\<close>

definition sale_product :: Product where
  "sale_product = \<lparr>p_ID = 2, p_Name = ''Hosting'', p_Type = ProductSharedHosting, p_Module = ModuleNone, p_ServerGroupID = None, p_PackageName = [],
     p_AutoSetup = SetupOnPayment, p_Configurable = False, p_ShellAccess = False, p_CGIAccess = False, p_FeatureList = [], p_TemplatePackage = [],
     p_StockEnabled = True, p_StockQty = 5, p_Hidden = False, p_WelcomeEmailTemplate = [], p_DeletedAt = None\<rparr>"

definition sale_world :: world where
  "sale_world = sample_world\<lparr>w_db := sample_db\<lparr>db_users := [sample_user\<lparr>u_EmailVerifiedAt := Some 0\<rparr>], db_products := [sale_product],
     db_product_pricing := [\<lparr>pp_ProductID = 2, pp_Cycle = CycleMonthly, pp_Price = 100000, pp_SetupFee = 25000, pp_Currency = ''IDR''\<rparr>]\<rparr>\<rparr>"

definition sale_request :: CreateOrderRequest where
  "sale_request = \<lparr>cor_Items = [\<lparr>oir_ItemType = ''product'', oir_ProductID = 2, oir_Domain = ''toko.id'', oir_Cycle = ''monthly'',
     oir_Options = [], oir_Specs = [], oir_DomainYears = 0, oir_DomainAddons = [], oir_EPPCode = []\<rparr>],
     cor_CouponCode = [], cor_Notes = [], cor_CaptchaToken = []\<rparr>"

definition sale_ports :: checkout_ports where
  "sale_ports = \<lparr>ck_CheckAvailability = (\<lambda>_. Inr []), ck_Captcha = (\<lambda>_ _. None)\<rparr>"

definition sale_env :: env where
  "sale_env = sample_env\<lparr>e_now := 0\<rparr>"

abbreviation sale :: "world \<Rightarrow> (err + CheckoutResponse) \<times> world" where
  "sale \<equiv> CreateOrder sale_ports sale_env (ProcessPaid sale_env) 7 ''1.2.3.4'' sale_request"

text \<open>An installation that taxes and that allows one order a day, with today's order in it.\<close>

definition fraud_world :: world where
  "fraud_world = sale_world\<lparr>w_db := (w_db sale_world)\<lparr>db_settings := [''fraud.max_orders_per_day'' \<mapsto> JInt 1, ''billing.tax_enabled'' \<mapsto> JBool True],
     db_orders := [sample_order\<lparr>o_OrderNumber := []\<rparr>]\<rparr>\<rparr>"

text \<open>Checkout up to what follows its transaction, which is where a run by computation stops.\<close>

definition checkout_front ::
  "checkout_ports \<Rightarrow> env \<Rightarrow> int \<Rightarrow> string \<Rightarrow> CreateOrderRequest \<Rightarrow> (int \<times> itemPlan list \<times> bool \<times> Order \<times> OrderItem list \<times> Invoice) act" where
  "checkout_front ck env cid ip req =
     bnd (checkout_client ck cid ip req) (\<lambda>(client, user).
     bnd (checkout_plans env ck client (cor_Items req)) (\<lambda>plans.
     let subtotal = plans_subtotal plans in
     bnd (checkout_coupon env (cor_CouponCode req) plans) (\<lambda>(coupon, discount).
     bnd (fraudReason cid (u_Email user) (e_now env)) (\<lambda>reason.
     bnd (order_tax subtotal discount) (\<lambda>(taxTotal, tot).
     bnd (on_err Internal (GetInt ''billing.invoice_due_days'' 3)) (\<lambda>dueDays.
     bnd (WithinTx (orderTx env (new_order cid subtotal discount taxTotal tot coupon ip (cor_Notes req)) plans coupon
            discount (AddDays (e_now env) dueDays) (reason \<noteq> []))) (\<lambda>(ord, items, iv).
     bnd (audit_Log (c_UserID client) ''order.create'' ''order'' (o_ID ord)) (\<lambda>_.
     ret (c_UserID client, plans, reason \<noteq> [], ord, items, iv)))))))))"

lemma CreateOrder_front: "CreateOrder ck env process cid ip req =
    bnd (checkout_front ck env cid ip req) (\<lambda>(uid, plans, fraud, ord, items, iv).
      bnd (after_checkout env process uid plans fraud ord iv) (\<lambda>(ord, iv).
      ret \<lparr>cr_Order = ord, cr_Items = items, cr_Invoice = iv\<rparr>))"
  unfolding CreateOrder_def checkout_front_def Let_def case_prod_unfold by (simp only: bnd_assoc bnd_ret fst_conv snd_conv)

lemma checkout_to_pay:
  assumes "checkout_front ck env cid ip req w = (Inr (uid, plans, False, ord, items, iv), w')" and "0 < i_Total iv" and "\<not> allAutoSetupOnOrder plans"
  shows "CreateOrder ck env process cid ip req w = (Inr \<lparr>cr_Order = ord, cr_Items = items, cr_Invoice = iv\<rparr>, w')"
  using assms by (simp add: CreateOrder_front bnd_run [of "checkout_front _ _ _ _ _"] after_checkout_def eff_simps)

lemma front_cases:
  assumes "case p of (Inl e, _) \<Rightarrow> False | (Inr (uid, plans, fraud, ord, items, iv), w') \<Rightarrow> Q uid plans fraud ord items iv w'"
  obtains uid plans fraud ord items iv w' where "p = (Inr (uid, plans, fraud, ord, items, iv), w')" and "Q uid plans fraud ord items iv w'"
  using assms by (auto split: prod.splits sum.splits)

lemma sale_run: "case checkout_front sale_ports sale_env 7 ''1.2.3.4'' sale_request sale_world of
    (Inl e, _) \<Rightarrow> False | (Inr (uid, plans, fraud, ord, items, iv), w') \<Rightarrow> \<not> fraud \<and> \<not> allAutoSetupOnOrder plans
     \<and> o_Status ord = OrderPending \<and> i_Total iv = 125000 \<and> map oi_ItemType items = [ItemProduct] \<and> o_ID ord = 1
     \<and> (case orders_Cancel 1 1 w' of (Inl e, _) \<Rightarrow> False | (Inr _, _) \<Rightarrow> True)"
  by code_simp

lemma sale_returns:
  obtains r w1 out w2 where "sale sale_world = (Inr r, w1)" "orders_Cancel 1 (o_ID (cr_Order r)) w1 = (Inr out, w2)"
    "o_Status (cr_Order r) = OrderPending" "i_Total (cr_Invoice r) = 125000" "map oi_ItemType (cr_Items r) = [ItemProduct]"
proof -
  obtain uid plans ord items iv w1 out w2 where f: "checkout_front sale_ports sale_env 7 ''1.2.3.4'' sale_request sale_world = (Inr (uid, plans, False, ord, items, iv), w1)"
    "\<not> allAutoSetupOnOrder plans" "o_Status ord = OrderPending" "i_Total iv = 125000" "map oi_ItemType items = [ItemProduct]" "o_ID ord = 1"
    "orders_Cancel 1 1 w1 = (Inr out, w2)"
    by (rule front_cases [OF sale_run]) (auto split: prod.splits sum.splits)
  have "sale sale_world = (Inr \<lparr>cr_Order = ord, cr_Items = items, cr_Invoice = iv\<rparr>, w1)"
    by (rule checkout_to_pay [OF f(1) _ f(2)]) (simp add: f(4))
  then show ?thesis by (rule that) (simp_all add: f(3-7))
qed

lemma fraud_run: "case checkout_front sale_ports sale_env 7 ''1.2.3.4'' sale_request fraud_world of
    (Inl e, _) \<Rightarrow> False | (Inr (uid, plans, fraud, ord, items, iv), w') \<Rightarrow> fraud \<and> o_Status ord = OrderFraud \<and> o_Subtotal ord = 125000
      \<and> o_Total ord = 138750 \<and> o_Discount ord = 0"
  by code_simp

lemma fraud_returns:
  obtains r w1 where "sale fraud_world = (Inr r, w1)" "o_Status (cr_Order r) = OrderFraud" "o_Subtotal (cr_Order r) = 125000"
    "o_Total (cr_Order r) = 138750" "o_Discount (cr_Order r) = 0"
proof -
  obtain uid plans ord items iv w1 where f: "checkout_front sale_ports sale_env 7 ''1.2.3.4'' sale_request fraud_world = (Inr (uid, plans, True, ord, items, iv), w1)"
    "o_Status ord = OrderFraud" "o_Subtotal ord = 125000" "o_Total ord = 138750" "o_Discount ord = 0"
    by (rule front_cases [OF fraud_run]) auto
  have "\<exists>w2. sale fraud_world = (Inr \<lparr>cr_Order = ord, cr_Items = items, cr_Invoice = iv\<rparr>, w2)"
    by (simp add: CreateOrder_front bnd_run [of "checkout_front _ _ _ _ _"] f(1) after_checkout_def bnd_assoc eff_simps)
  with f(2-5) show ?thesis using that by fastforce
qed

lemma sale_world_facts: "\<not> w_intx sale_world" "db_products (w_db sale_world) = [sale_product]" "db_order_items (w_db sale_world) = []"
  "integer_rate (w_db fraud_world)" "db_products (w_db fraud_world) = [sale_product]"
  by (simp_all add: sale_world_def fraud_world_def integer_rate_def) (simp_all add: sample_defs)

lemma sale_fresh: "fresh_world sale_world"
  by (simp add: fresh_world_def sale_world_def sale_product_def sample_defs shelf_inv_def shelf_ok_def hosting_inv_def pending_requests_def)

end
