(* ===== verification/HostSamples.thy ===== *)
theory HostSamples
  imports Samples
begin

text \<open>An installation that hosts one account on a cPanel server, with a larger and a smaller plan beside its own.\<close>

definition host_plan :: "int \<Rightarrow> string \<Rightarrow> Product" where
  "host_plan pid name = \<lparr>p_ID = pid, p_Name = name, p_Type = ProductSharedHosting, p_Module = ModuleCpanel, p_ServerGroupID = Some 1, p_PackageName = name,
     p_AutoSetup = SetupOnPayment, p_Configurable = False, p_ShellAccess = False, p_CGIAccess = False, p_FeatureList = [], p_TemplatePackage = [],
     p_StockEnabled = False, p_StockQty = 0, p_Hidden = False, p_WelcomeEmailTemplate = [], p_DeletedAt = None\<rparr>"

definition host_price :: "int \<Rightarrow> int \<Rightarrow> ProductPricing" where
  "host_price pid amount = \<lparr>pp_ProductID = pid, pp_Cycle = CycleMonthly, pp_Price = amount, pp_SetupFee = 0, pp_Currency = ''IDR''\<rparr>"

definition host_service :: Service where
  "host_service = \<lparr>s_ID = 1, s_ClientID = 7, s_OrderItemID = None, s_ProductID = 2, s_ServerID = Some 4, s_Domain = ''toko.id'',
     s_Username = ''toko'', s_PasswordEnc = [], s_Status = ServiceActive, s_BillingCycle = CycleMonthly, s_RecurringAmount = 100000,
     s_SetupFee = 0, s_NextDueDate = Some (15 * day_ns), s_RegistrationDate = None, s_TerminatedAt = None, s_SuspendReason = [],
     s_PanelMeta = no_meta\<lparr>pm_PackageName := ''pk1''\<rparr>, s_CouponID = None, s_PendingUpgrade = None, s_Notes = [], s_CreatedAt = 0, s_UpdatedAt = 0\<rparr>"

definition host_server :: Server where
  "host_server = \<lparr>sv_ID = 4, sv_GroupID = Some 1, sv_Name = ''srv'', sv_Module = ModuleCpanel, sv_Hostname = ''srv.id'', sv_Port = 2087,
     sv_Username = ''root'', sv_PasswordEnc = [], sv_APITokenEnc = [], sv_UseSSL = True, sv_Nameserver1 = [], sv_Nameserver2 = [],
     sv_Nameserver3 = [], sv_Nameserver4 = [], sv_MaxAccounts = 0, sv_PackagePrefix = [], sv_IPAddress = [], sv_Active = True\<rparr>"

definition host_world :: world where
  "host_world = sample_world\<lparr>w_db := sample_db\<lparr>db_products := [host_plan 2 ''M'', host_plan 3 ''L'', host_plan 5 ''S''],
     db_product_pricing := [host_price 2 100000, host_price 3 200000, host_price 5 50000],
     db_services := [host_service], db_servers := [host_server]\<rparr>, w_seq := (\<lambda>_. 0)(TServices := 1)\<rparr>"

definition host_panel :: ServerModule where
  "host_panel = \<lparr>sm_Create = (\<lambda>_ _. Inr None), sm_Suspend = (\<lambda>_ _ _. None), sm_Unsuspend = (\<lambda>_ _. None), sm_Terminate = (\<lambda>_ _. None),
     sm_ChangePackage = (\<lambda>_ _ _. None), sm_ChangePassword = (\<lambda>_ _ _. None), sm_EnsurePackage = (\<lambda>_ _. None), sm_DeletePackage = (\<lambda>_ _. None),
     sm_PackageInUse = (\<lambda>_ _. Inr False), sm_AccountInfo = (\<lambda>_ _. Inl (RawErr ''none'')), sm_SSOURL = (\<lambda>_ _. Inl (RawErr ''none''))\<rparr>"

definition host_mods :: modules where
  "host_mods = [ModuleCpanel \<mapsto> host_panel]"

definition plan_change :: "int \<Rightarrow> UpgradeServiceInput" where
  "plan_change pid = \<lparr>us_ProductID = pid, us_Cycle = ''monthly'', us_Specs = []\<rparr>"

lemma host_fresh: "fresh_world host_world"
  by (simp add: fresh_world_def host_world_def host_plan_def host_service_def sample_defs shelf_inv_def shelf_ok_def hosting_inv_def
      pending_requests_def service_ok_def)

lemma terminate_run: "case ProvisionTerminate sale_env host_mods 1 host_world of
    (Inl e, _) \<Rightarrow> False | (Inr _, w') \<Rightarrow> w_panel w' = [CallTerminate 4 ''toko'', CallDeletePackage 4 ''pk1'']"
  by code_simp

lemma upgrade_run: "case UpgradeService sale_env 3 7 1 (plan_change 3) host_world of
    (Inl e, _) \<Rightarrow> False | (Inr res, w') \<Rightarrow> ur_ProratedDiff res = 48387 \<and>
      (case CancelInvoice 1 (su_InvoiceID (the (s_PendingUpgrade (ur_Service res)))) w' of (Inl e, _) \<Rightarrow> False | (Inr _, _) \<Rightarrow> True)"
  by code_simp

lemma terminate_returns: obtains w' where "ProvisionTerminate sale_env host_mods 1 host_world = (Inr (), w')"
    and "w_panel w' = [CallTerminate 4 ''toko'', CallDeletePackage 4 ''pk1'']"
  using terminate_run by (auto split: prod.splits sum.splits)

lemma upgrade_returns: obtains res w' iv w1 where "UpgradeService sale_env 3 7 1 (plan_change 3) host_world = (Inr res, w')"
    and "ur_ProratedDiff res = 48387" and "CancelInvoice 1 (su_InvoiceID (the (s_PendingUpgrade (ur_Service res)))) w' = (Inr iv, w1)"
proof -
  obtain r w' where r: "UpgradeService sale_env 3 7 1 (plan_change 3) host_world = (r, w')" by fastforce
  then obtain res where res: "r = Inr res" using upgrade_run by (cases r) auto
  obtain q w1 where q: "CancelInvoice 1 (su_InvoiceID (the (s_PendingUpgrade (ur_Service res)))) w' = (q, w1)" by fastforce
  then obtain iv where "q = Inr iv" using upgrade_run r res by (cases q) auto
  then show ?thesis using that upgrade_run r res q by simp
qed

text \<open>The account suspended for 30 days.\<close>

definition suspended_world :: world where
  "suspended_world = host_world\<lparr>w_db := (w_db host_world)\<lparr>db_services := [host_service\<lparr>s_Status := ServiceSuspended,
     s_PanelMeta := (s_PanelMeta host_service)\<lparr>pm_SuspendedAt := Some (- 30 * day_ns)\<rparr>\<rparr>]\<rparr>\<rparr>"

lemma suspended_facts: "hosting_inv suspended_world" "\<not> w_intx suspended_world" "db_settings (w_db suspended_world) = Map.empty"
  by (simp_all add: suspended_world_def host_world_def host_service_def sample_defs hosting_inv_def pending_requests_def service_ok_def)

lemma autoterminate_run: "case AutoTerminate sale_env suspended_world of (Inl e, _) \<Rightarrow> False | (Inr n, w') \<Rightarrow> n = 1"
  by code_simp

end
