(* ===== verification/HostingProperties.thy ===== *)
theory HostingProperties
  imports HostSamples
begin

text \<open>
  The properties of hosting: what every reachable state keeps of services, and what the provisioning
  jobs, plan changes and the termination run do.
\<close>

section \<open>Every reachable state\<close>

text \<open>C4: In every reachable state services have different ids, the time of a suspension is recorded exactly while a
  live service is suspended, and a service has at most one pending cancellation request.\<close>
theorem reachable_services:
  assumes "reachable w"
  shows "distinct (map s_ID (db_services (w_db w)))
    \<and> (\<forall>s \<in> set (db_services (w_db w)). (s_Status s = ServiceSuspended \<longrightarrow> pm_SuspendedAt (s_PanelMeta s) \<noteq> None)
        \<and> (s_Status s \<in> {ServicePending, ServiceActive} \<longrightarrow> pm_SuspendedAt (s_PanelMeta s) = None))
    \<and> distinct (map cx_ServiceID (filter (\<lambda>x. cx_Status x = CancellationPending) (db_cancellations (w_db w))))"
  using reachable_hosting_inv [OF assms] by (simp add: hosting_inv_def service_ok_def pending_requests_def)

theorem reachable_services_witness:
  "let w = snd (ProvisionSuspend sale_env host_mods 1 ''Abuse'' host_world) in
     filter (\<lambda>s. s_Status s = ServiceSuspended \<and> pm_SuspendedAt (s_PanelMeta s) = None) (db_services (w_db w)) = []"
  using reachable_services [OF reachable.move [OF reachable.start [OF host_fresh] step.provision_suspend]]
  unfolding Let_def filter_empty_conv by blast

text \<open>C5: Whatever happens, a service keeps its id and its owner and its status moves along the state machine; a service
  that was terminated or cancelled stays so.\<close>
theorem service_lifecycle:
  assumes "reachable w" and "step\<^sup>*\<^sup>* w w'" and "row s_ID sid (db_services (w_db w)) = Some s"
  shows "\<exists>s'. row s_ID sid (db_services (w_db w')) = Some s' \<and> s_ClientID s' = s_ClientID s
    \<and> ServiceCanTransition\<^sup>*\<^sup>* (s_Status s) (s_Status s')
    \<and> (s_Status s \<in> {ServiceTerminated, ServiceCancelled} \<longrightarrow> s_Status s' = s_Status s)"
proof -
  obtain s' where s': "s' \<in> set (db_services (w_db w'))" "service_move s s'"
    using reachable_moves [OF assms(1,2)] row_Some_in [OF assms(3)] by (auto simp: services_move_def)
  have "distinct (map s_ID (db_services (w_db w')))"
    using reachable_hosting_inv [OF reachable_steps [OF assms(1,2)]] by (simp add: hosting_inv_def)
  then have "row s_ID sid (db_services (w_db w')) = Some s'"
    using s' row_distinct [of s_ID "db_services (w_db w')" s'] row_Some_key [OF assms(3)] by (simp add: service_move_def)
  then show ?thesis using s'(2) terminal_service by (auto simp: service_move_def)
qed

theorem service_lifecycle_witness:
  "\<exists>s'. row s_ID 1 (db_services (w_db (snd (AutoSuspend sale_env (snd (ProvisionTerminate sale_env host_mods 1 host_world)))))) = Some s'
     \<and> s_ClientID s' = 7 \<and> ServiceCanTransition\<^sup>*\<^sup>* ServiceActive (s_Status s')"
proof -
  have "step\<^sup>*\<^sup>* host_world (snd (AutoSuspend sale_env (snd (ProvisionTerminate sale_env host_mods 1 host_world))))"
    by (meson rtranclp.simps step.provision_terminate step.auto_suspend)
  from service_lifecycle [OF reachable.start [OF host_fresh] this, of 1 host_service] show ?thesis
    by (simp add: host_world_def row_Cons) (auto simp: host_service_def)
qed

section \<open>The provisioning jobs\<close>



text \<open>C28: A hosting package is shared by the accounts with the same limits. When ending a service or moving it to another
  package makes the program delete a package on a panel, no live service on that server is on the package.\<close>
theorem package_deletion_safe:
  assumes "m = ProvisionTerminate env mods sid \<or> m = ProvisionChangePackage env mods sid" and "m w = (r, w')"
    and "CallDeletePackage v pkg \<in> set (drop (length (w_panel w)) (w_panel w'))"
  shows "\<forall>s \<in> set (db_services (w_db w')). s_ServerID s = Some v \<and> pm_PackageName (s_PanelMeta s) = pkg
     \<longrightarrow> s_Status s \<in> {ServiceTerminated, ServiceCancelled}"
proof -
  have "keeps careful m" using assms(1) ProvisionTerminate_careful ProvisionChangePackage_careful by blast
  from keepsD [OF this assms(2)] obtain calls where "w_panel w' = w_panel w @ calls" "CallDeletePackage v pkg \<in> set calls \<Longrightarrow> unused_on v pkg (w_db w')"
    by (auto simp: careful_def)
  then show ?thesis using assms(3) by (simp add: unused_on_def)
qed

theorem package_deletion_safe_witness:
  "\<exists>w'. ProvisionTerminate sale_env host_mods 1 host_world = (Inr (), w')
     \<and> filter (\<lambda>s. s_ServerID s = Some 4 \<and> pm_PackageName (s_PanelMeta s) = ''pk1'' \<and> s_Status s \<notin> {ServiceTerminated, ServiceCancelled})
         (db_services (w_db w')) = []"
proof -
  obtain w' where w': "ProvisionTerminate sale_env host_mods 1 host_world = (Inr (), w')"
    "w_panel w' = [CallTerminate 4 ''toko'', CallDeletePackage 4 ''pk1'']" by (rule terminate_returns)
  have "w_panel host_world = []" by (simp add: host_world_def sample_defs)
  then show ?thesis using package_deletion_safe [OF disjI1 [OF refl] w'(1), of 4 "''pk1''"] w' by (force simp: filter_empty_conv)
qed

section \<open>Plan changes\<close>

text \<open>C29: A plan change that returns was asked for an active service without a pending change, and its price is the
  difference of the prorated amounts. A positive difference is invoiced, stored with the row and changes nothing else; any
  other is applied at once, its negative credited, and the new package is queued.\<close>
theorem UpgradeService_exact:
  assumes "UpgradeService env actor c sid inp w = (Inr res, w')" and "\<not> w_intx w"
  shows "\<exists>svc until price. row s_ID sid (db_services (w_db w)) = Some svc \<and> s_Status svc = ServiceActive
    \<and> s_PendingUpgrade svc = None \<and> (c = 0 \<or> s_ClientID svc = c) \<and> s_NextDueDate svc = Some until
    \<and> ur_ProratedDiff res = i64 (Prorate price (cycle_of (us_Cycle inp)) (e_now env) until
        - Prorate (s_RecurringAmount svc) (s_BillingCycle svc) (e_now env) until)
    \<and> row s_ID sid (db_services (w_db w')) = Some ((ur_Service res)\<lparr>s_CreatedAt := s_CreatedAt svc, s_UpdatedAt := e_now env\<rparr>)
    \<and> (if 0 < ur_ProratedDiff res
       then \<not> ur_Applied res \<and> w_queue w' = w_queue w \<and> balance w' = balance w
         \<and> (\<exists>iv up. ur_Invoice res = Some iv \<and> db_invoices (w_db w') = db_invoices (w_db w) @ [iv] \<and> i_Status iv = InvoiceUnpaid
           \<and> i_Subtotal iv = ur_ProratedDiff res \<and> i_ClientID iv = s_ClientID svc
           \<and> ur_Service res = svc\<lparr>s_PendingUpgrade := Some up\<rparr> \<and> su_InvoiceID up = i_ID iv \<and> su_ProductID up = us_ProductID inp
           \<and> su_RecurringAmount up = price)
       else ur_Applied res \<and> s_ProductID (ur_Service res) = us_ProductID inp \<and> s_RecurringAmount (ur_Service res) = price
         \<and> s_BillingCycle (ur_Service res) = cycle_of (us_Cycle inp) \<and> s_NextDueDate (ur_Service res) = Some until
         \<and> db_invoices (w_db w') = db_invoices (w_db w) \<and> w_queue w' = w_queue w @ [JobProvisionChangePackage sid]
         \<and> ur_CreditIssued res = i64 (- ur_ProratedDiff res)
         \<and> (0 < ur_CreditIssued res \<longrightarrow> balance w' (s_ClientID svc) = map_option (\<lambda>b. b + ur_CreditIssued res) (balance w (s_ClientID svc)))
         \<and> (\<forall>k. k \<noteq> s_ClientID svc \<longrightarrow> balance w' k = balance w k))"
proof -
  let ?cy = "cycle_of (us_Cycle inp)"
  obtain svc where svc: "row s_ID sid (db_services (w_db w)) = Some svc" "c = 0 \<or> s_ClientID svc = c" "s_ID svc = sid"
    "upgrade_owned env actor inp ?cy svc w = (Inr res, w')" using assms(1) by (rule UpgradeService_returns)
  from svc(4) show ?thesis
  proof (rule upgrade_owned_returns)
    fix cur target sp price until
    let ?d = "upgrade_diff env svc ?cy price until"
    assume h: "s_Status svc = ServiceActive" "s_PendingUpgrade svc = None" "s_NextDueDate svc = Some until" "p_ID target = us_ProductID inp"
      and up: "0 < ?d \<Longrightarrow> request_upgrade env actor svc cur target ?cy sp price ?d w = (Inr res, w')"
      and down: "?d \<le> 0 \<Longrightarrow> apply_downgrade env actor svc target ?cy sp price ?d w = (Inr res, w')"
    have d: "?d = i64 (Prorate price ?cy (e_now env) until - Prorate (s_RecurringAmount svc) (s_BillingCycle svc) (e_now env) until)"
      by (simp add: upgrade_diff_def Let_def)
    have i: "in_i64 ?d" by (simp add: d)
    have row: "row s_ID (s_ID svc) (db_services (w_db w)) = Some svc" using svc by simp
    show ?thesis
    proof (cases "0 < ?d")
      case True
      from request_upgrade_returns [OF up [OF True] True i row] obtain iv where
        r: "\<not> ur_Applied res" "ur_ProratedDiff res = ?d" "ur_Invoice res = Some iv" "i_Status iv = InvoiceUnpaid" "i_Subtotal iv = ?d"
          "i_ClientID iv = s_ClientID svc" "ur_Service res = svc\<lparr>s_PendingUpgrade := Some \<lparr>su_ProductID = p_ID target, su_Cycle = ?cy,
            su_RecurringAmount = price, su_InvoiceID = i_ID iv, su_Specs = sp\<rparr>\<rparr>"
          "db_invoices (w_db w') = db_invoices (w_db w) @ [iv]" "accounts (w_db w') = accounts (w_db w)" "w_queue w' = w_queue w"
          "row s_ID (s_ID svc) (db_services (w_db w')) = Some (stored env svc (ur_Service res))" by metis
      have "balance w' = balance w" by (rule ext, rule balance_accounts) (rule r(9))
      moreover have "\<exists>up. ur_Service res = svc\<lparr>s_PendingUpgrade := Some up\<rparr> \<and> su_InvoiceID up = i_ID iv
          \<and> su_ProductID up = us_ProductID inp \<and> su_RecurringAmount up = price"
        using r(7) h(4) by auto
      ultimately show ?thesis using r(1-6,8-11) True h svc(1-3) unfolding d
        by - (rule exI [of _ svc], rule exI [of _ until], rule exI [of _ price], simp add: stored_def)
    next
      case False
      then have "apply_downgrade env actor svc target ?cy sp price ?d w = (Inr res, w')" using down by simp
      from apply_downgrade_returns [OF this row assms(2)] show ?thesis using False h svc(1-3) unfolding d
        by - (rule exI [of _ svc], rule exI [of _ until], rule exI [of _ price], auto simp: stored_def)
    qed
  qed
qed

theorem UpgradeService_exact_witness:
  "\<exists>res w' iv. UpgradeService sale_env 3 7 1 (plan_change 3) host_world = (Inr res, w') \<and> \<not> ur_Applied res
     \<and> db_invoices (w_db w') = [iv] \<and> i_Subtotal iv = 48387 \<and> i_Status iv = InvoiceUnpaid"
proof -
  obtain res w' where r: "UpgradeService sale_env 3 7 1 (plan_change 3) host_world = (Inr res, w')" "ur_ProratedDiff res = 48387"
    by (rule upgrade_returns)
  have "\<not> w_intx host_world" "db_invoices (w_db host_world) = []" by (simp_all add: host_world_def sample_defs)
  then show ?thesis using UpgradeService_exact [OF r(1)] r by auto
qed



section \<open>The termination run\<close>

text \<open>C30: A termination run queues the end of exactly the services that have been suspended for the grace period, or
  whose owner asked for the end and whose paid time is over, once each, and changes nothing else.\<close>
theorem AutoTerminate_exact:
  assumes "hosting_inv w" and "AutoTerminate env w = (Inr n, w')"
  shows "w' = w\<lparr>w_queue := w_queue w @ map (\<lambda>s. JobProvisionTerminate (s_ID s)) (filter (\<lambda>s.
      (s_Status s = ServiceSuspended \<and> (\<exists>t. pm_SuspendedAt (s_PanelMeta s) = Some t
         \<and> AddDays t (setting_int (w_db w) ''automation.terminate_after_days'' 21) \<le> e_now env))
      \<or> (s_Status s \<in> {ServiceActive, ServiceSuspended} \<and> pm_CancelAtPeriodEnd (s_PanelMeta s)
         \<and> (\<exists>t. s_NextDueDate s = Some t \<and> t \<le> dateOnly (e_now env)))) (db_services (w_db w)))\<rparr>"
proof -
  have "terminatable (AddDays (e_now env) (- setting_int (w_db w) ''automation.terminate_after_days'' 21)) (dateOnly (e_now env)) s =
      ((s_Status s = ServiceSuspended \<and> (\<exists>t. pm_SuspendedAt (s_PanelMeta s) = Some t
         \<and> AddDays t (setting_int (w_db w) ''automation.terminate_after_days'' 21) \<le> e_now env))
      \<or> (s_Status s \<in> {ServiceActive, ServiceSuspended} \<and> pm_CancelAtPeriodEnd (s_PanelMeta s)
         \<and> (\<exists>t. s_NextDueDate s = Some t \<and> t \<le> dateOnly (e_now env))))" if "s \<in> set (db_services (w_db w))" for s
    using that assms(1) by (auto simp: terminatable_def hosting_inv_def service_ok_def due_by_def AddDays_def split: option.splits)
  then show ?thesis using AutoTerminate_returns(2) [OF assms(2)] by (simp cong: filter_cong)
qed

theorem AutoTerminate_exact_witness:
  "\<exists>n w'. AutoTerminate sale_env suspended_world = (Inr n, w') \<and> w_queue w' = [JobProvisionTerminate 1]"
proof -
  obtain n w' where r: "AutoTerminate sale_env suspended_world = (Inr n, w')" using autoterminate_run by (auto split: prod.splits sum.splits)
  from AutoTerminate_exact [OF suspended_facts(1) r] show ?thesis using r
    by (simp add: setting_int_def suspended_facts(3)) (simp add: suspended_world_def host_world_def host_service_def sample_defs sale_env_def AddDays_def day_ns_def)
qed

end
