(* ===== verification/Documents.thy ===== *)
theory Documents
  imports Entities
begin

text \<open>
  \<open>backend/internal/domain/documents.go\<close>: which extensions need documents or a confirmed
  email, the timeline of an unverified domain, and the refund policy of a rejected one.
\<close>

definition documentTLDs :: "string list" where
  "documentTLDs = [''co.id'', ''or.id'', ''ac.id'', ''sch.id'', ''ponpes.id'']"

definition emailVerificationTLDs :: "string list" where
  "emailVerificationTLDs = [''id'', ''my.id'', ''biz.id'', ''web.id'']"

definition DocumentUploadLastDay :: int where "DocumentUploadLastDay = 3"
definition DocumentSuspendDay :: int where "DocumentSuspendDay = 5"
definition DocumentDeleteDay :: int where "DocumentDeleteDay = 30"
definition EmailVerificationSuspendDays :: int where "EmailVerificationSuspendDays = 30"

definition tldOf :: "string \<Rightarrow> string" where
  "tldOf name =
     (let name' = ToLower (TrimSpace (TrimSuffix name ''.''))
      in case Cut CHR ''.'' name' of (_, rest, ok) \<Rightarrow> if \<not> ok then [] else rest)"

definition TLDRequiresDocuments :: "string \<Rightarrow> bool" where
  "TLDRequiresDocuments tld \<longleftrightarrow> TrimPrefix (ToLower (TrimSpace tld)) ''.'' \<in> set documentTLDs"

definition NameRequiresDocuments :: "string \<Rightarrow> bool" where
  "NameRequiresDocuments name \<longleftrightarrow> TLDRequiresDocuments (tldOf name)"

definition NameRequiresEmailVerification :: "string \<Rightarrow> bool" where
  "NameRequiresEmailVerification name \<longleftrightarrow> tldOf name \<in> set emailVerificationTLDs"

record VerificationDeadlines =
  vd_Kind :: string
  vd_UploadBy :: "time option"
  vd_SuspendOn :: time
  vd_DeleteOn :: "time option"

definition dayN :: "time \<Rightarrow> int \<Rightarrow> time" where
  "dayN reg n = (case DateOf reg of (y, m, d) \<Rightarrow> AddDays (mkDate y m d 0) (n - 1))"

definition VerificationOpen :: "Domain \<Rightarrow> bool" where
  "VerificationOpen d \<longleftrightarrow>
     (if d_Status d \<notin> {DomainActive, DomainSuspended, DomainPendingTransfer, DomainPending} then False
      else if d_Verification d = VerificationActive then False
      else d_DocumentRequired d
        \<or> (NameRequiresEmailVerification (d_Name d) \<and> d_Verification d \<noteq> VerificationNone))"

definition DocumentFailure :: "Domain \<Rightarrow> bool" where
  "DocumentFailure d \<longleftrightarrow> d_DocumentRequired d \<and> d_Verification d \<noteq> VerificationActive"

definition Deadlines :: "Domain \<Rightarrow> VerificationDeadlines option" where
  "Deadlines d =
     (case d_RegistrationDate d of
        None \<Rightarrow> None
      | Some reg \<Rightarrow>
          if \<not> VerificationOpen d then None
          else if d_DocumentRequired d then
            Some \<lparr>vd_Kind = ''documents'', vd_UploadBy = Some (dayN reg DocumentUploadLastDay),
                  vd_SuspendOn = dayN reg DocumentSuspendDay, vd_DeleteOn = Some (dayN reg DocumentDeleteDay)\<rparr>
          else
            Some \<lparr>vd_Kind = ''email'', vd_UploadBy = None,
                  vd_SuspendOn = dayN reg (EmailVerificationSuspendDays + 1), vd_DeleteOn = None\<rparr>)"

datatype RefundReason = RefundRegistrarRefundable | RefundDocumentsNotVerified
  | RefundRegistrarNonRefundable | RefundAlreadyRefunded

record RefundDecision =
  rd_Eligible :: bool
  rd_Reason :: RefundReason

definition DomainRefundDecision :: "Domain \<Rightarrow> RefundDecision" where
  "DomainRefundDecision d =
     (if d_RefundedAt d \<noteq> None then \<lparr>rd_Eligible = False, rd_Reason = RefundAlreadyRefunded\<rparr>
      else if DocumentFailure d then \<lparr>rd_Eligible = False, rd_Reason = RefundDocumentsNotVerified\<rparr>
      else if \<not> d_RegistrarRefundable d then \<lparr>rd_Eligible = False, rd_Reason = RefundRegistrarNonRefundable\<rparr>
      else \<lparr>rd_Eligible = True, rd_Reason = RefundRegistrarRefundable\<rparr>)"

section \<open>The timeline\<close>

lemma dayN_midnight: "dayN reg n = (day_of reg + (n - 1)) * day_ns"
proof -
  obtain y m d where c: "civil (day_of reg) = (y, m, d)" by (metis prod_cases3)
  then have "date_day y m d = day_of reg" by (rule civil_sound(2))
  then show ?thesis by (simp add: dayN_def DateOf_def c mkDate_def AddDays_def algebra_simps)
qed

lemma dayN_less: "n < m \<Longrightarrow> dayN reg n < dayN reg m"
  by (simp add: dayN_midnight)

lemma Deadlines_order:
  assumes "Deadlines d = Some v" and "d_RegistrationDate d = Some reg"
  shows "\<And>u. vd_UploadBy v = Some u \<Longrightarrow> dayN reg 1 \<le> u \<and> u < vd_SuspendOn v"
    and "\<And>x. vd_DeleteOn v = Some x \<Longrightarrow> vd_SuspendOn v < x"
    and "dayN reg 1 < vd_SuspendOn v" and "VerificationOpen d"
  using assms
  by (auto simp: Deadlines_def dayN_midnight DocumentUploadLastDay_def DocumentSuspendDay_def
      DocumentDeleteDay_def EmailVerificationSuspendDays_def split: if_splits)

end
