(* ===== verification/DomainProperties.thy ===== *)
theory DomainProperties
  imports Documents Money Generate Cycle StateMachine
begin

text \<open>
  The properties of the pure rules of \<open>backend/internal/domain\<close>: tax, cycles and proration,
  formats, generated names and passwords, panel parameters, lifecycles and the verification
  timeline.
\<close>

section \<open>Tax\<close>

text \<open>C33: For a whole rate of 1 to 100 percent and an amount of at most \<open>2 ^ 40\<close> rupiah the tax computed in \<open>float64\<close>
  is the exact half-up rounding on integers, on top of the amount or contained in it, unless the exact tax is a tie;
  and base and tax add up to the gross amount.\<close>

theorem CalcTax_half_up:
  assumes "0 < a" and "a \<le> tax_limit" and "1 \<le> r" and "r \<le> 100"
  shows "tr_Base (CalcTax a (of_int r) False) = a \<and> tr_Gross (CalcTax a (of_int r) True) = a
    \<and> tr_Base (CalcTax a (of_int r) incl) + tr_Tax (CalcTax a (of_int r) incl) = tr_Gross (CalcTax a (of_int r) incl)
    \<and> (\<not> 200 dvd 2 * (a * r) + 100 \<longrightarrow> tr_Tax (CalcTax a (of_int r) False) = half_up_div (a * r) 100)
    \<and> (\<not> 2 * (100 + r) dvd 2 * (a * r) + (100 + r) \<longrightarrow> tr_Tax (CalcTax a (of_int r) True) = half_up_div (a * r) (100 + r))"
proof -
  have ar: "a * r \<le> 100 * a" "a * r \<le> (100 + r) * a" "0 \<le> a * r" using assms by (simp_all add: algebra_simps)
  have "0 \<le> half_up_div (a * r) 100 \<and> half_up_div (a * r) 100 \<le> a"
    using half_up_div_bounds [of "a * r" 100 a] ar by simp
  then have e: "- 1 \<le> tr_Tax (CalcTax a (of_int r) False) \<and> tr_Tax (CalcTax a (of_int r) False) \<le> a"
    using CalcTax_exclusive_eq(1) [OF assms] by linarith
  have "0 \<le> half_up_div (a * r) (100 + r) \<and> half_up_div (a * r) (100 + r) \<le> a"
    using half_up_div_bounds [of "a * r" "100 + r" a] ar assms by simp
  then have i: "- 1 \<le> tr_Tax (CalcTax a (of_int r) True) \<and> tr_Tax (CalcTax a (of_int r) True) \<le> a"
    using CalcTax_inclusive_eq(1) [OF assms] by linarith
  have "in_i64 (a + tr_Tax (CalcTax a (of_int r) False))" "in_i64 (a - tr_Tax (CalcTax a (of_int r) True))"
    using e i assms(1,2) by (auto simp: in_i64_def tax_limit_def)
  then have "i64 (a + tr_Tax (CalcTax a (of_int r) False)) = a + tr_Tax (CalcTax a (of_int r) False)"
    "i64 (a - tr_Tax (CalcTax a (of_int r) True)) = a - tr_Tax (CalcTax a (of_int r) True)" by (simp_all add: i64_id)
  then show ?thesis
    using assms CalcTax_exclusive_eq(2) [OF assms] CalcTax_inclusive_eq(2) [OF assms] by (cases incl) (auto simp: CalcTax_def Let_def)
qed

theorem CalcTax_half_up_witness: "tr_Tax (CalcTax 100000 (of_int 11) False) = 11000 \<and> tr_Tax (CalcTax 111000 (of_int 11) True) = 11000"
proof -
  have "\<not> 200 dvd 2 * (100000 * 11) + (100 :: int)" "\<not> 222 dvd 2 * (111000 * 11) + (111 :: int)" by (simp_all add: dvd_eq_mod_eq_0)
  then show ?thesis
    using CalcTax_half_up [of 100000 11 False] CalcTax_half_up [of 111000 11 True] by (simp add: tax_limit_def half_up_div_def)
qed


section \<open>Cycles and proration\<close>

text \<open>C36: \<open>AddCycle\<close> keeps the time of day and moves the date on by the months of the cycle, to the same day of the
  month or to the last day of a shorter month; the new date is later by at least one day and by at most 31 days a
  month.\<close>

theorem AddCycle_date:
  assumes "DateOf t = (y, m, d)" and "CycleMonths c \<noteq> 0"
  shows "\<exists>y' m'. 12 * y' + (m' - 1) = 12 * y + (m - 1) + CycleMonths c \<and> 1 \<le> m' \<and> m' \<le> 12
     \<and> DateOf (AddCycle t c) = (y', m', min d (month_len y' m')) \<and> tod_of (AddCycle t c) = tod_of t
     \<and> 1 \<le> day_of (AddCycle t c) - day_of t \<and> day_of (AddCycle t c) - day_of t \<le> 31 * CycleMonths c"
proof -
  define k where "k = month_index y m + CycleMonths c"
  have n: "1 \<le> CycleMonths c" using assms(2) CycleMonths_range(1) [of c] by linarith
  have k: "12 * (k div 12) + (k mod 12 + 1 - 1) = 12 * y + (m - 1) + CycleMonths c" by (simp add: k_def month_index_def)
  have a: "AddCycle t c = addMonthsClamped t (CycleMonths c)" using assms(2) by (simp add: AddCycle_def Let_def)
  show ?thesis
    unfolding a using addMonthsClamped_date [OF assms(1), of "CycleMonths c"] addMonthsClamped_days [OF n, of t] k
    by (intro exI [of _ "k div 12"] exI [of _ "k mod 12 + 1"]) (simp add: k_def [symmetric] month_size_def)
qed

lemma jan31: "DateOf (19753 * day_ns) = (2024, 1, 31)"
  by code_simp

theorem AddCycle_date_witness: "DateOf (AddCycle (19753 * day_ns) CycleMonthly) = (2024, 2, 29)"
proof -
  obtain y' m' where h: "12 * y' + (m' - 1) = 12 * 2024 + (1 - 1) + (1 :: int)" "1 \<le> m'" "m' \<le> 12"
    "DateOf (AddCycle (19753 * day_ns) CycleMonthly) = (y', m', min 31 (month_len y' m'))"
    using AddCycle_date [OF jan31, of CycleMonthly] by auto
  then have "y' = 2024" "m' = 2" by presburger+
  moreover have "month_len 2024 2 = 29" by code_simp
  ultimately show ?thesis using h(4) by simp
qed

text \<open>C35: \<open>Prorate\<close>, computed in \<open>float64\<close>, is the exact half-up share of the days used, is nothing before the period
  and the whole amount from its end on, for amounts up to \<open>2 ^ 40\<close> rupiah and any cycle; so it lies between zero and
  the amount.\<close>

theorem Prorate_exact:
  assumes "0 \<le> a" and "a \<le> tax_limit" and "CycleMonths c \<noteq> 0"
  shows "Prorate a c from to =
      (if to \<le> from then 0
       else if day_of (AddCycle from c) \<le> day_of to then a
       else half_up_div (a * (day_of to - day_of from)) (day_of (AddCycle from c) - day_of from))
    \<and> 0 \<le> Prorate a c from to \<and> Prorate a c from to \<le> a"
proof -
  let ?u = "day_of to - day_of from" and ?n = "day_of (AddCycle from c) - day_of from"
  have eq: "Prorate a c from to = (if to \<le> from then 0 else if ?n \<le> ?u then a else half_up_div (a * ?u) ?n)"
    using Prorate_cases [OF assms, of "from" "to"] by (simp add: cycle_days_def)
  have "0 \<le> Prorate a c from to \<and> Prorate a c from to \<le> a"
  proof (cases "\<not> to \<le> from \<and> \<not> ?n \<le> ?u")
    case True
    then have "0 \<le> ?u" using day_of_mono [of "from" "to"] by linarith
    then have "0 \<le> a * ?u" "a * ?u \<le> ?n * a" "0 < ?n" using True assms(1) by (auto simp: mult.commute intro: mult_left_mono)
    then show ?thesis using eq True half_up_div_bounds [of "a * ?u" ?n a] by simp
  qed (use eq assms in auto)
  with eq show ?thesis by simp
qed

theorem Prorate_exact_witness: "0 \<le> Prorate 90000 CycleMonthly (19737 * day_ns) (19747 * day_ns)
    \<and> Prorate 90000 CycleMonthly (19737 * day_ns) (19747 * day_ns) \<le> 90000"
  using Prorate_exact [of 90000 CycleMonthly "19737 * day_ns" "19747 * day_ns"] by (simp add: tax_limit_def)

section \<open>Formats\<close>



text \<open>Invoice and order numbers are distinct for distinct counter values of one month and for distinct months,
  so a number identifies its month's counter scope and its value.\<close>

theorem document_numbers_inj:
  assumes "year_ok t" and "year_ok t'" and "0 \<le> n" and "0 \<le> n'"
  shows "(FormatInvoiceNumber t n = FormatInvoiceNumber t' n' \<longleftrightarrow> fmt_yyyymm t = fmt_yyyymm t' \<and> n = n')
    \<and> (FormatOrderNumber t n = FormatOrderNumber t' n' \<longleftrightarrow> fmt_yyyymm t = fmt_yyyymm t' \<and> n = n')"
  using number_split [of t n t' n'] assms by (auto simp: FormatInvoiceNumber_def FormatOrderNumber_def)

section \<open>Generated names and passwords\<close>

text \<open>C38: A generated password has the asked length, at least 12, contains a lower-case letter, an upper-case letter, a
  digit and a symbol, and nothing else; with enough random bytes it is produced.\<close>

theorem GeneratePassword_strong:
  assumes "2 * nat (max 12 len) - 1 \<le> length g"
  shows "\<exists>p g'. GeneratePassword len g = (Inr p, g') \<and> int (length p) = max 12 len
    \<and> (\<exists>c \<in> set p. c \<in> set pwLower) \<and> (\<exists>c \<in> set p. c \<in> set pwUpper) \<and> (\<exists>c \<in> set p. c \<in> set pwDigits)
    \<and> (\<exists>c \<in> set p. c \<in> set pwSymbols) \<and> set p \<subseteq> set (pwLower @ pwUpper @ pwDigits @ pwSymbols)"
  using GeneratePassword_total [OF assms] GeneratePassword_ok by metis

theorem GeneratePassword_strong_witness:
  "\<exists>p g'. GeneratePassword 16 (replicate 31 0) = (Inr p, g') \<and> int (length p) = 16"
  using GeneratePassword_strong [of 16 "replicate 31 0"] by auto

text \<open>C39: The user name made from any domain name is accepted by a panel: one to eight lower-case letters and digits,
  a letter first; and so is the name that replaces it after a collision.\<close>

theorem usernames_safe:
  "panel_safe (UsernameFromDomain domain) \<and> panel_safe (DisambiguateUsername (UsernameFromDomain domain) serviceID)"
  using UsernameFromDomain_safe [of domain] DisambiguateUsername_safe by blast

text \<open>The name of a generated hosting package depends on the limits as a map, not on the order in which they are
  listed.\<close>

theorem DynamicPackageName_order:
  assumes "distinct (map fst limits)" and "mset limits = mset limits'"
  shows "DynamicPackageName pfx limits toggles = DynamicPackageName pfx limits' toggles"
  by (rule DynamicPackageName_perm [OF assms])

text \<open>Every resource a product can limit has a parameter on both panels, and no two resources share one.\<close>

theorem PanelParam_bijective:
  assumes "md \<noteq> ModuleNone" and "ProvisionKey_Valid k" and "ProvisionKey_Valid k'"
  shows "snd (snd (PanelParam md k)) \<and> (fst (PanelParam md k) = fst (PanelParam md k') \<longleftrightarrow> k = k')"
proof -
  obtain n sz ok n' sz' ok' where p: "PanelParam md k = (n, sz, ok)" "PanelParam md k' = (n', sz', ok')"
    by (metis prod_cases3)
  then have "ok" "ok'" using PanelParam_total [OF assms(1), of k] PanelParam_total [OF assms(1), of k'] assms by simp_all
  then show ?thesis using p PanelParam_inj [of md k n sz k' sz'] by auto
qed

section \<open>Lifecycles\<close>

text \<open>C40: Every run of an invoice's status ends after at most four moves, and a paid invoice can only become
  refunded, once.\<close>

theorem invoice_run_bounded:
  assumes "runs invoiceTransitions s ts u"
  shows "length ts \<le> 4 \<and> (s = InvoicePaid \<longrightarrow> ts = [] \<or> ts = [InvoiceRefunded])"
proof -
  have "invoice_rank u \<le> 4" by (cases u) simp_all
  then show ?thesis using invoice_sm.rank_bounds_run [of s ts u invoice_rank] invoice_rank_step assms paid_run by fastforce
qed

theorem invoice_run_bounded_witness:
  "runs invoiceTransitions InvoiceDraft [InvoiceUnpaid, InvoiceOverdue, InvoicePaid, InvoiceRefunded] InvoiceRefunded
     \<and> length [InvoiceUnpaid, InvoiceOverdue, InvoicePaid, InvoiceRefunded] \<le> 4"
proof -
  have "runs invoiceTransitions InvoiceDraft [InvoiceUnpaid, InvoiceOverdue, InvoicePaid, InvoiceRefunded] InvoiceRefunded"
    by (auto intro!: runs.intros simp: canTransition_def)
  with invoice_run_bounded [OF this] show ?thesis by simp
qed

text \<open>The verification timeline of a domain is in order: upload, suspension, deletion.\<close>

theorem Deadlines_in_order:
  assumes "Deadlines d = Some v" and "d_RegistrationDate d = Some reg"
  shows "VerificationOpen d \<and> dayN reg 1 < vd_SuspendOn v
    \<and> (\<forall>u. vd_UploadBy v = Some u \<longrightarrow> dayN reg 1 \<le> u \<and> u < vd_SuspendOn v) \<and> (\<forall>x. vd_DeleteOn v = Some x \<longrightarrow> vd_SuspendOn v < x)"
  using Deadlines_order [OF assms] by blast

end
