(* ===== verification/Spec2Isabelle.thy ===== *)
theory Spec2Isabelle
  imports HostingProperties DomainProperties
begin

text \<open>
  \<^bold>\<open>WHCMS: a verification of the billing core.\<close>

  WHCMS is a hosting billing and automation system; its backend (\<open>src/backend\<close>, Go) sells hosting
  and domains, issues invoices, takes payments through gateways, and provisions what was paid for.
  This development models the part of the backend that moves money and decides what a payment
  entitles to, and the pure rules it computes with.

  \<^bold>\<open>Parts and theories.\<close>

  \<^item> \<open>Prelude\<close>: errors (\<open>platform/apperr\<close>), the state-and-error monad \<open>eff\<close> (\<open>ret\<close>, \<open>bnd\<close>, \<open>attempt\<close>,
    \<open>each\<close>, \<open>foldE\<close>) in which every handler is written, Go's \<open>int64\<close> with its wrap-around (\<open>i64\<close>),
    \<open>strconv\<close>, \<open>fmt\<close> and \<open>strings\<close>, and tables as lists of rows. \<open>GoTime\<close>: dates of package \<open>time\<close> on
    nanoseconds in UTC. \<open>GoFloat\<close>: \<open>float64\<close> arithmetic as correctly rounded rationals.
  \<^item> \<open>Enums\<close>, \<open>StateMachine\<close>, \<open>Tax\<close>, \<open>Cycle\<close>, \<open>Money\<close>, \<open>Generate\<close>, \<open>Specs\<close>, \<open>Documents\<close>, \<open>Entities\<close>:
    \<open>internal/domain\<close>. The locale \<open>lifecycle\<close> states what a status column relies on and is
    interpreted for the six transition tables.
  \<^item> \<open>Store\<close>: the state the services share (\<open>world\<close>: the database with a table per entity, id
    sequences, the job queue, entropy, the transaction flag), \<open>WithinTx\<close> of \<open>platform/db\<close>, and the
    statements of the repositories with the constraints of \<open>backend/migrations\<close>. \<open>Frames\<close> and
    \<open>Invariants\<close> are the calculus by which an operation is shown to leave a part of the database
    alone or to keep an invariant.
  \<^item> \<open>Credit\<close>: the client's credit ledger (\<open>modules/clients\<close>), with the interface \<open>credit_service\<close>.
    \<open>Activation\<close>: orders that become services and domains (\<open>modules/orders/activate.go\<close>).
    \<open>Pricing\<close>: the prices of a cart (\<open>modules/orders/pricing.go\<close>) from the catalogue and the domain
    price lists. \<open>Checkout\<close>: \<open>modules/orders/service.go\<close>, the order, its stock and coupon use, its
    invoice and what ends it.
    \<open>Renewals\<close>: renewals and upgrades after payment (\<open>modules/provisioning\<close>, \<open>modules/domains\<close>).
    \<open>Snipe\<close>: the billing side of a domain hunt (\<open>modules/snipe\<close>).
  \<^item> \<open>Billing\<close>: \<open>modules/billing/service.go\<close>. \<open>Payments\<close>: \<open>modules/payments/service.go\<close>. Billing
    asks payments to settle, payments calls billing's \<open>ProcessPaid\<close> inside its transaction, and
    \<open>ProcessPaid\<close> dispatches to the other modules.
  \<^item> Hosting, \<open>modules/provisioning\<close>. \<open>Panels\<close>: servers and their groups, the statements of
    \<open>repo.go\<close> and \<open>cancellation_repo.go\<close>, the panel adapters and the package of a configurable
    product. \<open>Provisioning\<close>: the jobs that create, suspend, unsuspend, terminate and repackage an
    account, passwords, single sign-on, the suspension and termination runs. \<open>Upgrades\<close>:
    cancellation requests, plan changes and what staff does to a service.
  \<^item> \<open>Books\<close>, \<open>Integrity\<close>: the invariant of invoices and transactions (\<open>books\<close>) and that of
    the ledger (\<open>ledger_inv\<close>) for every operation, through the locale \<open>paid_processor\<close>, which
    says what \<open>ApplyPayment\<close> relies on of the processor it calls and which \<open>ProcessPaid\<close> satisfies.
    \<open>Orders\<close> adds the checkout to the books and the invariant of stock and coupon counters
    (\<open>shelf_inv\<close>). \<open>Hosting\<close> and \<open>Tenancy\<close> frame the hosting operations and give the invariant of
    services and cancellation requests (\<open>hosting_inv\<close>), with the relation \<open>hosts\<close> between the states
    before and after an operation: services stay, and their status follows the state machine.
  \<^item> \<open>Reach\<close>: the program as a transition system (\<open>step\<close>, \<open>reachable\<close>). The locales \<open>paid_relation\<close>
    and \<open>sale_relation\<close> carry a relation between states from the parts an operation is composed of
    to the operation; they are interpreted for the ledger and for hosting.
  \<^item> \<open>Settlement\<close>: the outcomes of the payment operations one by one, the abstract settlement they
    refine, credit payments, the webhook and refunds. \<open>Invoicing\<close>: created invoices. \<open>Runs\<close>: the
    renewal, overdue and late fee runs. \<open>Sales\<close>: checkout as a whole, with the fraud rules and the
    end of an order. \<open>Repeats\<close>: activation, renewal and the end of a hunt when they are called
    again. \<open>Upkeep\<close>: the provisioning jobs delivered again, and which packages are deleted on a
    panel. \<open>UpgradeRuns\<close>: plan changes and the termination run.
  \<^item> \<open>Samples\<close>, \<open>HostSamples\<close>: the concrete states of the witnesses. \<open>DomainProperties\<close>,
    \<open>HostingProperties\<close> and this theory hold the properties.

  \<^bold>\<open>How the model corresponds to the code.\<close> A Go function is a definition of the same name;
  a method of a repository carries the entity as a prefix (\<open>invoice_GetByID\<close>). A pointer or
  interface the code is given from outside is an argument: payment gateways are the record
  \<open>PaymentGateway\<close> of their functions, panels are the record \<open>ServerModule\<close> of their answers with the
  calls kept in \<open>w_panel\<close>, and the clock, configuration, template renderer, queue and
  object store answers and the encryptor are the record \<open>env\<close>. An error is a value of \<open>err\<close>; a
  failing transaction restores the database but not the sequences and the queue. An \<open>int64\<close>
  is an \<open>int\<close> that every arithmetic operation reduces with \<open>i64\<close>. Entity records carry the columns
  the modelled operations read or write.

  \<^bold>\<open>Bounds.\<close> All loops of the modelled code run over finite lists, so every definition is total
  and no fuel is used. The statements about \<open>float64\<close> hold for amounts up to \<open>2 ^ 40\<close> rupiah
  (\<open>tax_limit\<close>): the error analysis needs the products to stay well under \<open>2 ^ 53\<close>.

  \<^bold>\<open>Not modelled.\<close> HTTP handlers, authentication, tickets, the plain CRUD of the catalogue, of
  clients, servers and server groups, the adapters of gateways, panels and registrars (external
  services), the registrar's side of domains, the snipe supervisor's polling, notifications'
  templates and PDF rendering. The keys a panel adds to \<open>panel_meta\<close> are kept apart from the keys
  the program reads. Handlers run one at a time; where two statements of one handler are not in one
  transaction, the interleaving is stated with the statements as separate steps.
\<close>

section \<open>Money: what holds in every reachable state\<close>

text \<open>C1: In every state the program can reach from a fresh installation, by any sequence of its operations with any
  clock, gateway answers and arguments, an invoice is paid exactly when it has a success transaction, it has at most
  one, and that transaction covers what was due; invoice ids and invoice numbers are not reused.\<close>

theorem reachable_books:
  assumes "reachable w"
  shows "distinct (map i_ID (db_invoices (w_db w))) \<and> distinct (map i_InvoiceNumber (db_invoices (w_db w)))
    \<and> (\<forall>i \<in> set (db_invoices (w_db w)).
         (i_Status i = InvoicePaid \<longleftrightarrow> success_for (i_ID i) (db_transactions (w_db w)) \<noteq> [])
         \<and> length (success_for (i_ID i) (db_transactions (w_db w))) \<le> 1
         \<and> (\<forall>t \<in> set (success_for (i_ID i) (db_transactions (w_db w))). i64 (i_Total i - i_CreditApplied i) \<le> t_Amount t))"
  using reachable_sound [OF assms] by (force simp: sound_def books_def books_of_def invoice_books_def split: if_splits)

theorem reachable_books_witness:
  "let w = snd (ApplyPayment sample_env (ProcessPaid sample_env) 1 (transfer 50000) (snd (Deposit sample_env 7 50000 sample_world)))
   in \<forall>i \<in> set (db_invoices (w_db w)). i_Status i = InvoicePaid \<longleftrightarrow> success_for (i_ID i) (db_transactions (w_db w)) \<noteq> []"
  using reachable_books [OF reachable_sample] by (simp add: Let_def)

text \<open>C2: In every reachable state the credit balance of every client is the sum of the client's ledger rows, is not
  negative and fits the \<open>bigint\<close> column.\<close>

theorem reachable_ledger:
  assumes "reachable w"
  shows "distinct (map c_ID (db_clients (w_db w))) \<and> (\<forall>c \<in> set (db_clients (w_db w)).
     c_CreditBalance c = sum_list (map cl_Delta (filter (\<lambda>e. cl_ClientID e = c_ID c) (db_ledger (w_db w))))
     \<and> 0 \<le> c_CreditBalance c \<and> c_CreditBalance c < 2 ^ 63)"
  using reachable_sound [OF assms] by (auto simp: sound_def ledger_inv_def ledger_ok_def credits_of_def in_i64_def)

theorem reachable_ledger_witness:
  "let w = snd (AdminAdjustCredit 1 7 25000 ''Goodwill'' sample_world)
   in \<forall>c \<in> set (db_clients (w_db w)).
     c_CreditBalance c = sum_list (map cl_Delta (filter (\<lambda>e. cl_ClientID e = c_ID c) (db_ledger (w_db w))))"
  using reachable_ledger [OF reachable.move [OF reachable.start [OF sample_fresh] step.adjust_credit [of _ 1 7 25000 "''Goodwill''"]]]
  by (simp add: Let_def)



section \<open>Settling an invoice\<close>

text \<open>C7: A successful \<open>ApplyPayment\<close> on an unpaid or overdue invoice was given at least the amount due; the invoice
  is then paid at the payment's time with nothing else of the row changed, its one success transaction has the amount
  given, and the rows and success transactions of every other invoice are as before.\<close>

theorem ApplyPayment_settles:
  assumes "books w" and "\<not> w_intx w" and "row i_ID iid (db_invoices (w_db w)) = Some iv" and "invoicePayable (i_Status iv)"
    and "ApplyPayment env (ProcessPaid env) iid tx w = (Inr (), w')"
  shows "i64 (i_Total iv - i_CreditApplied iv) \<le> at_Amount tx
    \<and> row i_ID iid (db_invoices (w_db w')) = Some (iv\<lparr>i_Status := InvoicePaid, i_PaidAt := Some (paid_time env tx)\<rparr>)
    \<and> (\<exists>t. success_for iid (db_transactions (w_db w')) = [t] \<and> t_Amount t = at_Amount tx)
    \<and> (\<forall>j. j \<noteq> iid \<longrightarrow> row i_ID j (db_invoices (w_db w')) = row i_ID j (db_invoices (w_db w))
         \<and> success_for j (db_transactions (w_db w')) = success_for j (db_transactions (w_db w)))"
  using processor.ApplyPayment_paid [OF assms] by (simp add: pay_def)

theorem ApplyPayment_settles_witness:
  "\<exists>w'. ApplyPayment sample_env (ProcessPaid sample_env) 1 (transfer 111000) open_world = (Inr (), w')
     \<and> (\<exists>iv. row i_ID 1 (db_invoices (w_db w')) = Some iv \<and> i_Status iv = InvoicePaid)"
proof -
  obtain w' where w': "ApplyPayment sample_env (ProcessPaid sample_env) 1 (transfer 111000) open_world = (Inr (), w')"
    by (rule open_paid)
  with ApplyPayment_settles [OF open_books open_intx open_row _ w'] show ?thesis by (simp add: invoicePayable_def)
qed

text \<open>C6: Settlement happens once. After a successful \<open>ApplyPayment\<close> every further call for the same invoice, by
  any channel and with any amount, returns without an error and changes nothing at all: no second transaction, no
  second activation or renewal, no second credit.\<close>

theorem ApplyPayment_exactly_once:
  assumes "books w" and "\<not> w_intx w" and "row i_ID iid (db_invoices (w_db w)) = Some iv" and "invoicePayable (i_Status iv)"
    and "ApplyPayment env (ProcessPaid env) iid tx w = (Inr (), w')"
  shows "ApplyPayment env2 (ProcessPaid env2) iid tx2 w' = (Inr (), w')"
proof -
  have "\<not> w_intx w'" using assms(2,5) by (auto simp: ApplyPayment_run split: prod.splits sum.splits)
  then show ?thesis using processor.ApplyPayment_paid(2) [OF assms] ApplyPayment_settled_noop by simp
qed

theorem ApplyPayment_exactly_once_witness:
  "\<exists>w'. ApplyPayment sample_env (ProcessPaid sample_env) 1 (transfer 111000) open_world = (Inr (), w')
     \<and> ApplyPayment sample_env (ProcessPaid sample_env) 1 (transfer 999000) w' = (Inr (), w')"
proof -
  obtain w' where w': "ApplyPayment sample_env (ProcessPaid sample_env) 1 (transfer 111000) open_world = (Inr (), w')"
    by (rule open_paid)
  with ApplyPayment_exactly_once [OF open_books open_intx open_row _ w'] show ?thesis by (simp add: invoicePayable_def)
qed

text \<open>C9: A payment that is too small, and any payment for a draft or cancelled invoice, is refused with CONFLICT and
  the state stays exactly as it was.\<close>

theorem ApplyPayment_refuses:
  assumes "\<not> w_intx w" and "row i_ID iid (db_invoices (w_db w)) = Some iv"
    and "i_Status iv \<in> {InvoiceDraft, InvoiceCancelled}
      \<or> (invoicePayable (i_Status iv) \<and> at_Amount tx < i64 (i_Total iv - i_CreditApplied iv))"
  shows "\<exists>m. ApplyPayment env process iid tx w = (Inl (AppErr CodeConflict m []), w)"
  using ApplyPayment_closed_noop [OF assms(1,2)] ApplyPayment_short_noop [OF assms(1,2)] assms(3)
  by (auto simp: short_payment_def Conflict_def)

theorem ApplyPayment_refuses_witness:
  "\<exists>m. ApplyPayment sample_env (ProcessPaid sample_env) 1 (transfer 110999) open_world = (Inl (AppErr CodeConflict m []), open_world)"
  by (rule ApplyPayment_refuses [OF open_intx open_row]) (simp add: invoicePayable_def)



text \<open>C8: Refinement. Seen as each invoice's status with the amounts of its success transactions, \<open>ApplyPayment\<close> is
  the abstract settlement \<open>spec_pay\<close> when it returns and the identity when it fails, in every state whose books
  are in order.\<close>

theorem ApplyPayment_refines_settlement:
  assumes "books w" and "\<not> w_intx w" and "ApplyPayment env (ProcessPaid env) iid tx w = (r, w')"
  shows "settlement_of w' = (if r = Inr () then spec_pay iid (at_Amount tx) (settlement_of w) else settlement_of w)"
  by (rule processor.ApplyPayment_refines [OF assms])

theorem ApplyPayment_refines_settlement_witness:
  "\<exists>w'. ApplyPayment sample_env (ProcessPaid sample_env) 1 (transfer 111000) open_world = (Inr (), w')
     \<and> settlement_of w' 1 = Some (InvoicePaid, [111000])"
proof -
  obtain w' where w': "ApplyPayment sample_env (ProcessPaid sample_env) 1 (transfer 111000) open_world = (Inr (), w')"
    by (rule open_paid)
  have "settlement_of open_world 1 = Some (InvoiceUnpaid, [])"
    by (simp add: settlement_of_def) (simp add: sample_defs success_for_def)
  with ApplyPayment_refines_settlement [OF open_books open_intx w'] w' show ?thesis by (simp add: spec_pay_def invoicePayable_def)
qed



section \<open>Credit\<close>

text \<open>C15: Paying with credit, for an invoice that does not pay for a domain hunt: a successful payment deducts exactly
  the amount due from the invoice's client, when there is anything due, moves no other balance, and leaves the
  invoice paid with one success transaction of that amount.\<close>

theorem payWithCredit_exact:
  assumes "books w" and "ledger_inv w" and "\<not> w_intx w"
    and "\<forall>it \<in> set (invoice_lines iid w). ii_RelatedType it \<noteq> RelatedDomainSnipe"
    and "payWithCredit env (ProcessPaid env) actor iid w = (Inr out, w')"
  shows "\<exists>iv b. row i_ID iid (db_invoices (w_db w)) = Some iv \<and> pi_Amount out = i64 (i_Total iv - i_CreditApplied iv)
    \<and> row i_ID iid (db_invoices (w_db w')) = Some (pay (e_now env) iv)
    \<and> (\<exists>t. success_for iid (db_transactions (w_db w')) = [t] \<and> t_Amount t = pi_Amount out)
    \<and> (0 < pi_Amount out \<longrightarrow> balance w (i_ClientID iv) = Some b \<and> pi_Amount out \<le> b
        \<and> balance w' (i_ClientID iv) = Some (b - pi_Amount out))
    \<and> (pi_Amount out \<le> 0 \<longrightarrow> balance w' (i_ClientID iv) = balance w (i_ClientID iv))
    \<and> (\<forall>c. c \<noteq> i_ClientID iv \<longrightarrow> balance w' c = balance w c)"
  by (rule payWithCredit_exact_lemma [OF assms])

theorem payWithCredit_exact_witness:
  "\<exists>w'. payWithCredit sample_env (ProcessPaid sample_env) 3 1 credit_world = (Inr (paid_instruction 111000), w')
     \<and> balance w' 7 = Some 89000"
proof -
  obtain w' where w': "payWithCredit sample_env (ProcessPaid sample_env) 3 1 credit_world = (Inr (paid_instruction 111000), w')"
    by (rule credit_paid)
  show ?thesis using payWithCredit_exact [OF credit_world_facts(1-3) _ w'] credit_world_facts(4-6) w'
    by (auto simp: paid_instruction_def)
qed

text \<open>With less credit than the amount due the payment fails and the database stays as it was.\<close>

theorem payWithCredit_refused:
  assumes "books w" and "ledger_inv w" and "\<not> w_intx w" and "row i_ID iid (db_invoices (w_db w)) = Some iv"
    and "balance w (i_ClientID iv) = Some b" and "b < i64 (i_Total iv - i_CreditApplied iv)"
  shows "\<exists>e w'. payWithCredit env (ProcessPaid env) actor iid w = (Inl e, w') \<and> w_db w' = w_db w"
  by (rule payWithCredit_refused_lemma [OF assms])



text \<open>Round trip of the ledger: crediting back what was deducted restores every balance.\<close>

theorem deduct_refund_roundtrip:
  assumes "ledger_inv w" and "in_i64 a" and "DeductCredit c a r i w = (Inr (), w1)" and "AddCredit c a r' i' w1 = (Inr (), w2)"
  shows "balance w2 = balance w"
  using ledger.refund_restores [OF assms] by blast

section \<open>Gateways and refunds\<close>

text \<open>C17: A webhook call cannot settle anything by itself. Unless the payload's signature verifies, its result code
  is success and the gateway, asked again, confirms success for that order, no invoice changes its status, no success
  transaction appears or goes, and no balance or ledger row changes, whatever the payload says.\<close>

theorem webhook_needs_confirmation:
  assumes "books w" and "\<not> gateway_confirms gws p" and "HandleCallback gws env process p w = (r, w')"
  shows "settlement_of w' = settlement_of w \<and> db_clients (w_db w') = db_clients (w_db w) \<and> db_ledger (w_db w') = db_ledger (w_db w)"
  using HandleCallback_unmoved [OF assms] by (simp add: unmoved_def accounts_def)

theorem webhook_needs_confirmation_witness:
  "settlement_of (snd (HandleCallback [GatewayDuitku \<mapsto> honest_gateway] sample_env (ProcessPaid sample_env) forged open_world))
     = settlement_of open_world"
proof -
  have "\<not> gateway_confirms [GatewayDuitku \<mapsto> honest_gateway] forged"
    by (simp add: gateway_confirms_def honest_gateway_def forged_def)
  from webhook_needs_confirmation [OF open_books this prod.collapse [symmetric]] show ?thesis by simp
qed



text \<open>Only a paid invoice can be refunded, and so only once: any other refund is a CONFLICT and changes nothing.\<close>

theorem RefundInvoice_once:
  assumes "\<not> w_intx w" and "row i_ID iid (db_invoices (w_db w)) = Some iv" and "i_Status iv \<noteq> InvoicePaid"
  shows "\<exists>m. RefundInvoice actor iid toCredit w = (Inl (Conflict m), w)"
  by (rule RefundInvoice_refused [OF assms])

section \<open>Creating and ageing invoices\<close>

text \<open>C19: An invoice that \<open>CreateInvoice\<close> returns is unpaid, belongs to the client, its subtotal is the sum of the
  items (below the \<open>int64\<close> limit), its discount is at most the subtotal, its total is subtotal less discount plus
  a tax on top, its number is new, and it is stored with one line for each item in order.\<close>

theorem CreateInvoice_exact:
  assumes "CreateInvoice env inp w = (Inr iv, w')" and "sum_list (map cii_Amount (cin_Items inp)) < 2 ^ 63"
  shows "i_Status iv = InvoiceUnpaid \<and> i_ClientID iv = cin_ClientID inp \<and> i_CreditApplied iv = 0
    \<and> i_Subtotal iv = sum_list (map cii_Amount (cin_Items inp)) \<and> i_Discount iv = min (cin_Discount inp) (i_Subtotal iv)
    \<and> 0 \<le> i_Discount iv
    \<and> i_Total iv = (if setting_bool (w_db w) ''billing.tax_inclusive'' False then i_Subtotal iv - i_Discount iv
        else i64 (i_Subtotal iv - i_Discount iv + i_TaxTotal iv))
    \<and> db_invoices (w_db w') = db_invoices (w_db w) @ [iv]
    \<and> i_InvoiceNumber iv \<notin> i_InvoiceNumber ` set (db_invoices (w_db w))
    \<and> (\<exists>lines. db_invoice_items (w_db w') = db_invoice_items (w_db w) @ lines
        \<and> map ii_Amount lines = map cii_Amount (cin_Items inp) \<and> (\<forall>x \<in> set lines. ii_InvoiceID x = i_ID iv))"
  by (rule CreateInvoice_exact_lemma [OF assms])

theorem CreateInvoice_exact_witness:
  "\<exists>iv w'. CreateInvoice sample_env sample_input sample_world = (Inr iv, w') \<and> i_Subtotal iv = 100000 \<and> i_Discount iv = 5000"
proof -
  have "\<exists>iv w'. CreateInvoice sample_env sample_input sample_world = (Inr iv, w')"
    by (rule CreateInvoice_accepts) (simp_all add: sample_input_def sample_defs live_client_def)
  then obtain iv w' where c: "CreateInvoice sample_env sample_input sample_world = (Inr iv, w')" by blast
  with CreateInvoice_exact [OF c] show ?thesis by (auto simp: sample_input_def)
qed

text \<open>C20: A renewal is invoiced once. After the invoice for a service has been created, every further attempt while
  that invoice is the latest answers that the service is already invoiced and changes nothing.\<close>

theorem renewal_invoiced_once:
  assumes "generateServiceRenewalInvoice env sid w = (Inr (Some iv, m), w')" and "\<not> w_intx w" and "sid \<noteq> 0"
  shows "generateServiceRenewalInvoice env2 sid w' = (Inr (None, skipAlreadyInvoiced), w')"
  by (rule renewal_once [OF assms])

theorem renewal_invoiced_once_witness:
  "\<exists>iv w'. generateServiceRenewalInvoice sample_env 4 service_world = (Inr (Some iv, []), w')
     \<and> generateServiceRenewalInvoice sample_env 4 w' = (Inr (None, skipAlreadyInvoiced), w')"
proof -
  obtain iv w' where g: "generateServiceRenewalInvoice sample_env 4 service_world = (Inr (Some iv, []), w')" by (rule service_invoiced)
  with renewal_invoiced_once [OF g service_world_facts(2)] show ?thesis by auto
qed

text \<open>C21: A late fee run adds the fee to subtotal and total of exactly the overdue invoices due by today that have no
  late fee line yet, and changes no other invoice; it reports no error, and a second run right after it changes
  nothing.\<close>

theorem ApplyLateFees_exact:
  assumes "distinct (map i_ID (db_invoices (w_db w)))" and "\<not> w_intx w" and "setting_bool (w_db w) ''billing.late_fee_enabled'' False"
    and "setting_int (w_db w) ''billing.late_fee_amount'' 0 = fee" and "0 < fee"
  shows "\<exists>n w'. ApplyLateFees env w = (Inr (n, []), w')
    \<and> db_invoices (w_db w') = map (\<lambda>i. if i_Status i = InvoiceOverdue \<and> i_DueDate i \<le> dateOnly (e_now env)
          \<and> \<not> (\<exists>it \<in> set (db_invoice_items (w_db w)). ii_InvoiceID it = i_ID i \<and> ii_RelatedType it = RelatedLateFee)
        then i\<lparr>i_Subtotal := i64 (i_Subtotal i + fee), i_Total := i64 (i_Total i + fee)\<rparr> else i) (db_invoices (w_db w))
    \<and> ApplyLateFees env w' = (Inr (0, []), w')"
proof -
  obtain n w' where w': "ApplyLateFees env w = (Inr (n, []), w')"
    "db_invoices (w_db w') = map (\<lambda>i. if late env i \<and> \<not> has_late_fee (i_ID i) (w_db w) then charge fee i else i) (db_invoices (w_db w))"
    "\<forall>i \<in> set (db_invoices (w_db w')). late env i \<longrightarrow> has_late_fee (i_ID i) (w_db w')"
    using ApplyLateFees_exact_lemma [OF assms] by blast
  from ApplyLateFees_again [OF w'(3)] w'(1,2) show ?thesis
    by (auto simp: late_def has_late_fee_def charge_def conj_assoc)
qed

theorem ApplyLateFees_exact_witness:
  "\<exists>n w'. ApplyLateFees sample_env fee_world = (Inr (n, []), w') \<and> ApplyLateFees sample_env w' = (Inr (0, []), w')"
  using ApplyLateFees_exact [OF fee_world_facts, of sample_env] by auto

text \<open>C22: \<open>MarkOverdue\<close> acts on the rows its list query read. An unpaid invoice that is on that list and is paid before
  its turn comes is set to overdue afterwards, although its success transaction stands: it can be paid again and the
  books are broken.\<close>

theorem MarkOverdue_race:
  assumes "books w" and "\<not> w_intx w" and "row i_ID iid (db_invoices (w_db w)) = Some iv"
    and "listOverdue env2 w = (Inr xs, w)" and "iv \<in> set xs"
    and "ApplyPayment env (ProcessPaid env) iid tx w = (Inr (), w1)" and "markOverdueOne env2 iv acc w1 = (r, w2)"
  shows "(\<exists>iv2. row i_ID iid (db_invoices (w_db w2)) = Some iv2 \<and> i_Status iv2 = InvoiceOverdue \<and> i_PaidAt iv2 \<noteq> None
    \<and> (\<exists>t. success_for iid (db_transactions (w_db w2)) = [t] \<and> t_Amount t = at_Amount tx)) \<and> \<not> books w2"
proof -
  have "i_Status iv = InvoiceUnpaid" using assms(4,5) by (auto simp: listOverdue_def on_err_def invoice_ListDueForStatus_def q_db_run)
  then show ?thesis using overdue_race_lemma [OF assms(1-3) _ assms(6,7)] by blast
qed

theorem MarkOverdue_race_witness:
  "\<exists>w1. ApplyPayment sample_env (ProcessPaid sample_env) 1 (transfer 111000) open_world = (Inr (), w1)
     \<and> \<not> books (snd (markOverdueOne (sample_env\<lparr>e_now := 19750 * day_ns\<rparr>) sample_invoice (0, []) w1))"
proof -
  obtain w1 where w1: "ApplyPayment sample_env (ProcessPaid sample_env) 1 (transfer 111000) open_world = (Inr (), w1)" by (rule open_paid)
  have "\<not> books (snd (markOverdueOne (sample_env\<lparr>e_now := 19750 * day_ns\<rparr>) sample_invoice (0, []) w1))"
    using MarkOverdue_race [OF open_books open_intx open_row listed_overdue _ w1 prod.collapse [symmetric]] by simp
  with w1 show ?thesis by blast
qed

section \<open>Checkout\<close>

text \<open>C12: The order and its invoice are charged alike. When the tax rate setting is an integer (or absent) and the coupon
  takes no more than the subtotal, the invoice of a checkout has the subtotal, discount, tax, total and client of the
  order, although billing computes them again from the lines and with its own tax arithmetic.\<close>

theorem CreateOrder_totals:
  assumes "CreateOrder ck env process cid ip req w = (Inr resp, w')" and "integer_rate (w_db w)"
    and "o_Discount (cr_Order resp) \<le> o_Subtotal (cr_Order resp)"
  shows "i_Subtotal (cr_Invoice resp) = o_Subtotal (cr_Order resp) \<and> i_Discount (cr_Invoice resp) = o_Discount (cr_Order resp)
    \<and> i_TaxTotal (cr_Invoice resp) = o_TaxTotal (cr_Order resp) \<and> i_Total (cr_Invoice resp) = o_Total (cr_Order resp)
    \<and> i_ClientID (cr_Invoice resp) = o_ClientID (cr_Order resp)"
  by (rule CreateOrder_totals_lemma [OF assms])

theorem CreateOrder_totals_witness:
  "\<exists>r w'. sale fraud_world = (Inr r, w') \<and> i_Subtotal (cr_Invoice r) = 125000 \<and> i_Total (cr_Invoice r) = 138750"
proof -
  obtain r w' where r: "sale fraud_world = (Inr r, w')" "o_Subtotal (cr_Order r) = 125000" "o_Total (cr_Order r) = 138750"
    "o_Discount (cr_Order r) = 0" by (rule fraud_returns)
  with CreateOrder_totals [OF r(1) sale_world_facts(4)] show ?thesis by auto
qed

text \<open>C13: An order that a fraud rule stops is kept on record and sets nothing else in motion: its invoice is cancelled, and
  stock, coupons, services, domains, balances, ledger, transactions and the job queue are as before the checkout.\<close>

theorem CreateOrder_fraud_inert:
  assumes "CreateOrder ck env process cid ip req w = (Inr resp, w')" and "o_Status (cr_Order resp) = OrderFraud"
  shows "i_Status (cr_Invoice resp) = InvoiceCancelled \<and> cr_Order resp \<in> set (db_orders (w_db w'))
    \<and> cr_Invoice resp \<in> set (db_invoices (w_db w')) \<and> assets (w_db w') = assets (w_db w) \<and> w_queue w' = w_queue w"
  by (rule CreateOrder_fraud_lemma [OF assms])

theorem CreateOrder_fraud_inert_witness:
  "\<exists>r w'. sale fraud_world = (Inr r, w') \<and> i_Status (cr_Invoice r) = InvoiceCancelled \<and> db_products (w_db w') = [sale_product]"
proof -
  obtain r w' where r: "sale fraud_world = (Inr r, w')" "o_Status (cr_Order r) = OrderFraud" by (rule fraud_returns)
  with CreateOrder_fraud_inert [OF r] show ?thesis by (auto simp: assets_def shelf_def sale_world_facts)
qed

text \<open>C14: Cancelling a fresh order gives back the stock the checkout took, unit for unit, except for the lines that are
  not product lines: a domain line labelled with a product that counts its stock takes a unit that never comes back.\<close>

theorem checkout_cancel_stock:
  assumes "CreateOrder ck env process cid ip req w = (Inr resp, w1)" and "\<not> w_intx w"
    and "distinct (map p_ID (db_products (w_db w)))" and "\<forall>it \<in> set (db_order_items (w_db w)). oi_OrderID it \<le> w_seq w TOrders"
    and "o_Status (cr_Order resp) = OrderPending" and "0 < i_Total (cr_Invoice resp)"
    and "orders_Cancel a (o_ID (cr_Order resp)) w1 = (Inr out, w2)"
  shows "db_products (w_db w2) = map (\<lambda>p. p\<lparr>p_StockQty := p_StockQty p
     - (if p_StockEnabled p then int (length (filter (\<lambda>it. oi_ItemType it \<noteq> ItemProduct \<and> oi_ProductID it = Some (p_ID p)) (cr_Items resp)))
        else 0)\<rparr>) (db_products (w_db w))"
  using checkout_cancel_lemma [OF assms] unfolding lost_unit_def .

theorem checkout_cancel_stock_witness:
  "\<exists>r w1 out w2. sale sale_world = (Inr r, w1) \<and> orders_Cancel 1 (o_ID (cr_Order r)) w1 = (Inr out, w2)
     \<and> db_products (w_db w2) = [sale_product]"
proof -
  obtain r w1 out w2 where r: "sale sale_world = (Inr r, w1)" "orders_Cancel 1 (o_ID (cr_Order r)) w1 = (Inr out, w2)"
    "o_Status (cr_Order r) = OrderPending" "i_Total (cr_Invoice r) = 125000" "map oi_ItemType (cr_Items r) = [ItemProduct]"
    by (rule sale_returns)
  have lost: "filter (\<lambda>it. oi_ItemType it \<noteq> ItemProduct \<and> oi_ProductID it = Some k) (cr_Items r) = []" for k using r(5) by auto
  have "db_products (w_db w2) = [sale_product]"
    using checkout_cancel_stock [OF r(1) sale_world_facts(1) _ _ r(3) _ r(2)] by (simp add: sale_world_facts r(4) lost)
  with r(1,2) show ?thesis by blast
qed

section \<open>Fulfilment\<close>

text \<open>C23: Activating an order is idempotent: after a successful call every further call returns at once and changes
  nothing, so no second service or domain is created.\<close>

theorem ActivateOrder_idempotent:
  assumes "ActivateOrder env oid w = (Inr (), w')"
  shows "ActivateOrder env2 oid w' = (Inr (), w')"
  by (rule ActivateOrder_twice [OF assms])

theorem ActivateOrder_idempotent_witness:
  "\<exists>w'. ActivateOrder sample_env 8 (order_world\<lparr>w_db := (w_db order_world)\<lparr>db_order_items := []\<rparr>\<rparr>) = (Inr (), w')
     \<and> ActivateOrder sample_env 8 w' = (Inr (), w')"
proof -
  obtain w' where "ActivateOrder sample_env 8 (order_world\<lparr>w_db := (w_db order_world)\<lparr>db_order_items := []\<rparr>\<rparr>) = (Inr (), w')"
    by (rule order_activated)
  with ActivateOrder_idempotent [OF this] show ?thesis by blast
qed

text \<open>C24: Renewing a service is not idempotent: two calls move the due date on by two cycles. Only the paid guard of
  \<open>ApplyPayment\<close> keeps one payment from renewing twice.\<close>

theorem RenewService_twice:
  assumes "service_row sid (w_db w) = Some s" and "s_NextDueDate s = Some due"
    and "RenewService env sid w = (Inr (), w1)" and "RenewService env2 sid w1 = (Inr (), w2)"
  shows "service_row sid (w_db w2) = Some (s\<lparr>s_NextDueDate := Some (AddCycle (AddCycle due (s_BillingCycle s)) (s_BillingCycle s)),
    s_UpdatedAt := e_now env2\<rparr>)"
proof -
  have "service_row sid (w_db w1) = Some (s\<lparr>s_NextDueDate := Some (AddCycle due (s_BillingCycle s)), s_UpdatedAt := e_now env\<rparr>)"
    using RenewService_next [OF assms(1,3)] assms(2) by simp
  from RenewService_next [OF this assms(4)] show ?thesis by simp
qed

theorem RenewService_twice_witness:
  "\<exists>w1 w2. RenewService sample_env 4 service_world = (Inr (), w1) \<and> RenewService sample_env 4 w1 = (Inr (), w2)
     \<and> service_row 4 (w_db w2) = Some (sample_service\<lparr>s_NextDueDate := Some (AddCycle (AddCycle (19753 * day_ns) CycleMonthly) CycleMonthly),
       s_UpdatedAt := e_now sample_env\<rparr>)"
proof -
  have r: "service_row 4 (w_db service_world) = Some sample_service" by (simp add: service_row_def service_world_facts)
  have e: "e_enqueue_err sample_env j = None" for j by (simp add: sample_env_def)
  have d: "s_NextDueDate sample_service = Some (19753 * day_ns)" "s_BillingCycle sample_service = CycleMonthly" by (simp_all add: sample_service_def)
  obtain w1 where w1: "RenewService sample_env 4 service_world = (Inr (), w1)" using RenewService_returns [OF r e] by blast
  obtain w2 where w2: "RenewService sample_env 4 w1 = (Inr (), w2)" using RenewService_returns [OF RenewService_next [OF r w1] e] by blast
  from RenewService_twice [OF r d(1) w1 w2] w1 w2 d(2) show ?thesis by auto
qed



text \<open>C26: A domain hunt is ended once, and refunded once: the call that ends it pays the client back exactly the
  refund of that ending and moves no other balance, and any later attempt with the same snapshot of the hunt, to
  whatever status, changes nothing.\<close>

theorem snipe_ended_once:
  assumes "snipe_finish env s to opts w = (Inr True, w')" and "\<not> w_intx w"
  shows "(\<forall>c. balance w' c = (if c = sn_ClientID s \<and> 0 < refundFor s to (fo_RefundFee opts)
        then map_option (\<lambda>b. b + refundFor s to (fo_RefundFee opts)) (balance w c) else balance w c))
    \<and> snd (snipe_finish env2 s to2 opts2 w') = w'"
  using snipe_finish_ends(4) [OF assms(1)] snipe_finish_once [OF assms] by (auto simp: paid_back_def)

theorem snipe_ended_once_witness:
  "\<exists>w'. snipe_finish sample_env sample_snipe SnipeExpired sample_finish snipe_world = (Inr True, w') \<and> balance w' 7 = Some 250000
     \<and> snd (snipe_finish sample_env sample_snipe SnipeCancelled sample_finish w') = w'"
proof -
  obtain w' where w': "snipe_finish sample_env sample_snipe SnipeExpired sample_finish snipe_world = (Inr True, w')" by (rule snipe_expired)
  have "\<not> w_intx snipe_world" "balance snipe_world 7 = Some 0" "sn_ClientID sample_snipe = 7" "refundFor sample_snipe SnipeExpired b = 250000" for b
    by (simp_all add: snipe_world_def sample_defs balance_def balance_of_def live_client_def sample_snipe_def refundFor_def)
  then show ?thesis using snipe_ended_once [OF w'] w' by auto
qed

text \<open>C32: The order ids under which payments are opened at a gateway identify invoice and attempt.\<close>

theorem merchant_order_ids_inj:
  assumes "0 \<le> k" and "0 \<le> k'"
  shows "merchant_order_id n k = merchant_order_id n' k' \<longleftrightarrow> n = n' \<and> k = k'"
proof
  assume h: "merchant_order_id n k = merchant_order_id n' k'"
  have nd: "\<not> is_digit CHR ''-''" by (simp add: is_digit_def in_range_def)
  have "rev (fmt0d 2 k) @ CHR ''-'' # rev n = rev (fmt0d 2 k') @ CHR ''-'' # rev n'"
    using arg_cong [OF h, of rev] by (simp add: merchant_order_id_def)
  then have "rev (fmt0d 2 k) = rev (fmt0d 2 k') \<and> rev n = rev n'"
    by (rule dash_split) (use nd fmt0d_digits assms in auto)
  then show "n = n' \<and> k = k'" using fmt0d_inj assms by auto
qed simp

theorem merchant_order_ids_inj_witness: "merchant_order_id ''INV-1'' 100 \<noteq> merchant_order_id ''INV-1'' 10"
  using merchant_order_ids_inj [of 100 10 "''INV-1''" "''INV-1''"] by simp

end
